(* ===== verification/Prelude.thy ===== *)
theory Prelude
  imports Main "HOL-Library.Sublist"
begin

text \<open>
  The prelude of the development.  It holds what every component shares:

  \<^item> the errors of the Go code as a datatype, with the wrapping that \<^verbatim>\<open>fmt.Errorf("%w")\<close>
    and \<^verbatim>\<open>errors.Join\<close> build and the search of \<^verbatim>\<open>errors.Is\<close>;
  \<^item> the combinators in which the operations with effects are written (a state is threaded,
    a failing call returns \<open>Inl\<close>), together with their weakest-precondition calculus
    (collection \<open>wp_simps\<close>);
  \<^item> the contract shared by all \<^verbatim>\<open>ensure...\<close> functions of the operator, as the locale
    \<open>converging\<close>, and generic lemmas on lists, prefixes and maps.
\<close>

named_theorems wp_simps
named_theorems emits_intros
named_theorems yields_intros

section \<open>Errors\<close>

text \<open>
  What the Kubernetes client reports is classified by reason, as the predicates
  \<^verbatim>\<open>apierrors.IsNotFound\<close>, \<^verbatim>\<open>IsConflict\<close>, \<^verbatim>\<open>IsAlreadyExists\<close> and \<^verbatim>\<open>meta.IsNoMatchError\<close>
  classify it; the text is what \<^verbatim>\<open>err.Error()\<close> returns.
\<close>

datatype api_reason = NotFound | Conflict | AlreadyExists | NoMatch | OtherReason

datatype api_error = ApiError (api_reason_of: api_reason) (api_text: string)

definition isNotFound :: "api_error \<Rightarrow> bool" where
  "isNotFound e = (api_reason_of e = NotFound)"

definition isConflict :: "api_error \<Rightarrow> bool" where
  "isConflict e = (api_reason_of e = Conflict)"

definition isAlreadyExists :: "api_error \<Rightarrow> bool" where
  "isAlreadyExists e = (api_reason_of e = AlreadyExists)"

definition isNoMatchError :: "api_error \<Rightarrow> bool" where
  "isNoMatchError e = (api_reason_of e = NoMatch)"

text \<open>
  Errors of the program: an error of the client, one of the five sentinel values that the
  packages export or compare with, a formatted error with the errors it wraps, or a join.
\<close>

datatype goerr =
    APIErr api_error
  | ErrSlugRejection
  | ErrBYOCTLSNotReady
  | ErrLegacyUnmapped
  | ErrIdentity
  | ErrServerClosed
  | Errorf string "goerr list"
  | Joined "goerr list"

abbreviation errNew :: "string \<Rightarrow> goerr" where
  "errNew msg \<equiv> Errorf msg []"

text \<open>\<^verbatim>\<open>errors.Is\<close>: the error itself or, depth first, anything it wraps.\<close>

fun errors_is :: "goerr \<Rightarrow> goerr \<Rightarrow> bool" where
  "errors_is (Errorf msg ws) t = (Errorf msg ws = t \<or> (\<exists>w \<in> set ws. errors_is w t))"
| "errors_is (Joined es) t = (Joined es = t \<or> (\<exists>w \<in> set es. errors_is w t))"
| "errors_is e t = (e = t)"

text \<open>\<^verbatim>\<open>errors.Join\<close> drops the nil errors and is nil when nothing is left.\<close>

definition errors_join :: "goerr option list \<Rightarrow> goerr option" where
  "errors_join es =
     (let xs = map the (filter (\<lambda>e. e \<noteq> None) es) in if xs = [] then None else Some (Joined xs))"

lemma errors_join_None_iff: "errors_join es = None \<longleftrightarrow> (\<forall>e \<in> set es. e = None)"
  by (auto simp: errors_join_def Let_def filter_empty_conv)

lemma errors_is_join:
  assumes "errors_join es = Some e" and "\<And>xs. t \<noteq> Joined xs"
  shows "errors_is e t \<longleftrightarrow> (\<exists>x. Some x \<in> set es \<and> errors_is x t)"
proof -
  from assms(1) have e: "e = Joined (map the (filter (\<lambda>e. e \<noteq> None) es))"
    by (auto simp: errors_join_def Let_def split: if_splits)
  have "errors_is e t \<longleftrightarrow> (\<exists>w \<in> set (map the (filter (\<lambda>e. e \<noteq> None) es)). errors_is w t)"
    using assms(2) by (auto simp: e)
  also have "\<dots> \<longleftrightarrow> (\<exists>x. Some x \<in> set es \<and> errors_is x t)"
    by force
  finally show ?thesis .
qed

section \<open>Effects\<close>

text \<open>
  An operation takes a state and returns an error or a value with the new state.  \<open>tryE\<close> is
  the Go idiom \<^verbatim>\<open>if err := f(); err != nil { h } else { k }\<close>, with both continuations in the
  state that \<^verbatim>\<open>f\<close> left behind; \<open>bindE\<close> is the common case in which the error is returned.
\<close>

type_synonym ('s, 'e, 'a) eff = "'s \<Rightarrow> ('e + 'a) \<times> 's"

definition retE :: "'a \<Rightarrow> ('s, 'e, 'a) eff" where
  "retE x = (\<lambda>s. (Inr x, s))"

definition failE :: "'e \<Rightarrow> ('s, 'e, 'a) eff" where
  "failE e = (\<lambda>s. (Inl e, s))"

definition tryE :: "('s, 'e, 'a) eff \<Rightarrow> ('e \<Rightarrow> ('s, 'f, 'b) eff) \<Rightarrow> ('a \<Rightarrow> ('s, 'f, 'b) eff)
    \<Rightarrow> ('s, 'f, 'b) eff" where
  "tryE m h k = (\<lambda>s. case m s of (Inl e, s') \<Rightarrow> h e s' | (Inr x, s') \<Rightarrow> k x s')"

definition bindE :: "('s, 'e, 'a) eff \<Rightarrow> ('a \<Rightarrow> ('s, 'e, 'b) eff) \<Rightarrow> ('s, 'e, 'b) eff" where
  "bindE m k = tryE m failE k"

definition liftE :: "('e + 'a) \<Rightarrow> ('s, 'e, 'a) eff" where
  "liftE r = (\<lambda>s. (r, s))"

text \<open>Running a list of operations in order, stopping at the first error.\<close>

fun forE :: "'x list \<Rightarrow> ('x \<Rightarrow> ('s, 'e, unit) eff) \<Rightarrow> ('s, 'e, unit) eff" where
  "forE [] f = retE ()"
| "forE (x # xs) f = bindE (f x) (\<lambda>_. forE xs f)"

section \<open>Weakest preconditions\<close>

text \<open>
  \<open>wp m Q E s\<close>: started in \<open>s\<close>, \<open>m\<close> returns a value and a state in \<open>Q\<close> or an error and a
  state in \<open>E\<close>.  Operations are total, so this is total correctness.
\<close>

definition wp :: "('s, 'e, 'a) eff \<Rightarrow> ('a \<Rightarrow> 's \<Rightarrow> bool) \<Rightarrow> ('e \<Rightarrow> 's \<Rightarrow> bool) \<Rightarrow> 's \<Rightarrow> bool" where
  "wp m Q E s = (case m s of (Inl e, s') \<Rightarrow> E e s' | (Inr x, s') \<Rightarrow> Q x s')"

lemma wp_retE [wp_simps]: "wp (retE x) Q E = Q x"
  by (simp add: wp_def retE_def fun_eq_iff)

lemma wp_failE [wp_simps]: "wp (failE e) Q E = E e"
  by (simp add: wp_def failE_def fun_eq_iff)

lemma wp_liftE [wp_simps]: "wp (liftE r) Q E = (case r of Inl e \<Rightarrow> E e | Inr x \<Rightarrow> Q x)"
  by (simp add: wp_def liftE_def fun_eq_iff split: sum.split)

lemma wp_tryE [wp_simps]:
  "wp (tryE m h k) Q E = wp m (\<lambda>x. wp (k x) Q E) (\<lambda>e. wp (h e) Q E)"
  by (simp add: wp_def tryE_def fun_eq_iff split: prod.split sum.split)

lemma wp_bindE [wp_simps]: "wp (bindE m k) Q E = wp m (\<lambda>x. wp (k x) Q E) E"
  by (simp add: bindE_def wp_tryE wp_failE)

lemma wp_if [wp_simps]: "wp (if b then m else n) Q E = (if b then wp m Q E else wp n Q E)"
  by simp

lemma wp_case_option [wp_simps]:
  "wp (case x of None \<Rightarrow> m | Some y \<Rightarrow> f y) Q E =
     (case x of None \<Rightarrow> wp m Q E | Some y \<Rightarrow> wp (f y) Q E)"
  by (simp split: option.split)

lemma wp_case_sum [wp_simps]:
  "wp (case x of Inl a \<Rightarrow> f a | Inr b \<Rightarrow> g b) Q E =
     (case x of Inl a \<Rightarrow> wp (f a) Q E | Inr b \<Rightarrow> wp (g b) Q E)"
  by (simp split: sum.split)

lemma wp_case_prod [wp_simps]:
  "wp (case x of (a, b) \<Rightarrow> f a b) Q E = (case x of (a, b) \<Rightarrow> wp (f a b) Q E)"
  by (simp split: prod.split)

lemma wp_cons:
  assumes "wp m Q E s" and "\<And>x s'. Q x s' \<Longrightarrow> Q' x s'" and "\<And>e s'. E e s' \<Longrightarrow> E' e s'"
  shows "wp m Q' E' s"
  using assms by (auto simp: wp_def split: prod.splits sum.splits)

lemma wp_fst_snd: "wp m Q E s = (case fst (m s) of Inl e \<Rightarrow> E e (snd (m s)) | Inr x \<Rightarrow> Q x (snd (m s)))"
  by (simp add: wp_def split: prod.split sum.split)

lemma wp_Inr: "m s = (Inr x, s') \<Longrightarrow> wp m Q E s = Q x s'"
  by (simp add: wp_def)

lemma wp_Inl: "m s = (Inl e, s') \<Longrightarrow> wp m Q E s = E e s'"
  by (simp add: wp_def)

text \<open>\<open>yields m P\<close>: every value that \<open>m\<close> returns satisfies \<open>P\<close>, whatever state it starts in.\<close>

definition yields :: "('s, 'e, 'a) eff \<Rightarrow> ('a \<Rightarrow> bool) \<Rightarrow> bool" where
  "yields m P = (\<forall>s. wp m (\<lambda>x _. P x) (\<lambda>_ _. True) s)"

lemma yieldsD: "yields m P \<Longrightarrow> m s = (Inr x, s') \<Longrightarrow> P x"
  unfolding yields_def by (metis wp_Inr)

lemma yieldsI: "(\<And>s x s'. m s = (Inr x, s') \<Longrightarrow> P x) \<Longrightarrow> yields m P"
  unfolding yields_def wp_def by (auto split: prod.split sum.split)

lemma yields_weaken: "yields m P \<Longrightarrow> (\<And>x. P x \<Longrightarrow> Q x) \<Longrightarrow> yields m Q"
  by (rule yieldsI) (blast dest: yieldsD)

lemma yields_True: "yields m (\<lambda>_. True)"
  by (rule yieldsI) simp

lemma yields_retE [yields_intros]: "P x \<Longrightarrow> yields (retE x) P"
  by (simp add: yields_def wp_simps)

lemma yields_failE [yields_intros]: "yields (failE e) P"
  by (simp add: yields_def wp_simps)

lemma yields_liftE: "yields (liftE x) (\<lambda>m. x = Inr m)"
  by (rule yieldsI) (simp add: liftE_def)

lemma yields_tryE:
  assumes "yields m R" and "\<And>e. yields (h e) P" and "\<And>x. R x \<Longrightarrow> yields (k x) P"
  shows "yields (tryE m h k) P"
proof (rule yieldsI)
  fix s y s'
  assume run: "tryE m h k s = (Inr y, s')"
  obtain r t where m: "m s = (r, t)" by (cases "m s")
  show "P y"
  proof (cases r)
    case (Inl e)
    with run m show ?thesis using yieldsD [OF assms(2) [of e]] by (simp add: tryE_def)
  next
    case (Inr x)
    with m have "R x" using yieldsD [OF assms(1)] by simp
    with Inr run m show ?thesis using yieldsD [OF assms(3)] by (simp add: tryE_def)
  qed
qed

lemma yields_bindE: "yields m R \<Longrightarrow> (\<And>x. R x \<Longrightarrow> yields (k x) P) \<Longrightarrow> yields (bindE m k) P"
  unfolding bindE_def by (erule yields_tryE) (auto intro: yields_failE)

lemma yields_if [yields_intros]:
  "(b \<Longrightarrow> yields m P) \<Longrightarrow> (\<not> b \<Longrightarrow> yields n P) \<Longrightarrow> yields (if b then m else n) P"
  by simp

lemma yields_case_option [yields_intros]:
  "(x = None \<Longrightarrow> yields m P) \<Longrightarrow> (\<And>y. x = Some y \<Longrightarrow> yields (f y) P) \<Longrightarrow>
     yields (case x of None \<Rightarrow> m | Some y \<Rightarrow> f y) P"
  by (simp split: option.split)

section \<open>The contract of the ensure functions\<close>

text \<open>
  Most write paths of the operator end in functions that bring an object to a desired shape
  in place and report whether they changed it; the caller writes the object only when one of
  them did.  The contract: the result has the desired shape, and an object that already has
  it is left alone and reported unchanged.
\<close>

locale converging =
  fixes ensure :: "'o \<Rightarrow> 'o \<times> bool"
    and desired :: "'o \<Rightarrow> bool"
  assumes ensure_desired: "desired (fst (ensure x))"
    and ensure_stable: "desired x \<Longrightarrow> ensure x = (x, False)"
begin

lemma ensure_idem: "ensure (fst (ensure x)) = (fst (ensure x), False)"
  by (rule ensure_stable) (rule ensure_desired)

lemma desired_iff_fixpoint: "desired x \<longleftrightarrow> ensure x = (x, False)"
  using ensure_desired [of x] ensure_stable by fastforce

end

text \<open>Two mutations in sequence, with the disjunction of their reports.\<close>

definition seqEnsure :: "('o \<Rightarrow> 'o \<times> bool) \<Rightarrow> ('o \<Rightarrow> 'o \<times> bool) \<Rightarrow> 'o \<Rightarrow> 'o \<times> bool" where
  "seqEnsure f g x = (case f x of (y, u) \<Rightarrow> case g y of (z, v) \<Rightarrow> (z, u \<or> v))"

text \<open>A mutation of every element of a slice, in place.\<close>

definition mapEnsure :: "('o \<Rightarrow> 'o \<times> bool) \<Rightarrow> 'o list \<Rightarrow> 'o list \<times> bool" where
  "mapEnsure f xs = (map (fst \<circ> f) xs, list_ex (snd \<circ> f) xs)"

context converging
begin

lemma map_desired: "list_all desired (fst (mapEnsure ensure xs))"
  by (simp add: mapEnsure_def list_all_iff ensure_desired)

lemma map_stable: "list_all desired xs \<Longrightarrow> mapEnsure ensure xs = (xs, False)"
  by (induction xs) (auto simp: mapEnsure_def ensure_stable)

end

text \<open>Mutations that do not undo one another converge together.\<close>

locale converging_pair = first: converging f P + second: converging g Q
  for f :: "'o \<Rightarrow> 'o \<times> bool" and P and g and Q +
  assumes second_keeps: "P x \<Longrightarrow> P (fst (g x))"
begin

lemma pair_desired: "P (fst (seqEnsure f g x)) \<and> Q (fst (seqEnsure f g x))"
  using first.ensure_desired [of x] second.ensure_desired second_keeps
  by (auto simp: seqEnsure_def split: prod.split) (metis fst_conv)+

lemma pair_stable: "P x \<and> Q x \<Longrightarrow> seqEnsure f g x = (x, False)"
  by (simp add: seqEnsure_def first.ensure_stable second.ensure_stable)

end

sublocale converging_pair \<subseteq> both: converging "seqEnsure f g" "\<lambda>x. P x \<and> Q x"
  using pair_desired pair_stable by unfold_locales blast+

section \<open>Lists, prefixes, maps\<close>

lemma prefix_same_length: "prefix a b \<Longrightarrow> length a = length b \<Longrightarrow> a = b"
  by (auto simp: prefix_def)

lemma prefix_append_cancel [simp]: "prefix (c @ a) (c @ b) = prefix a b"
  by (rule same_prefix_prefix)

text \<open>A Go map read: a missing key reads as the zero value.\<close>

definition lookupD :: "'v \<Rightarrow> ('k \<rightharpoonup> 'v) \<Rightarrow> 'k \<Rightarrow> 'v" where
  "lookupD d m k = (case m k of None \<Rightarrow> d | Some v \<Rightarrow> v)"

lemma lookupD_upd [simp]: "lookupD d (m(k \<mapsto> v)) k' = (if k' = k then v else lookupD d m k')"
  by (simp add: lookupD_def)

lemma lookupD_del [simp]: "lookupD d (m(k := None)) k' = (if k' = k then d else lookupD d m k')"
  by (simp add: lookupD_def)

lemma lookupD_empty [simp]: "lookupD d Map.empty k = d"
  by (simp add: lookupD_def)

abbreviation getS :: "(string \<rightharpoonup> string) \<Rightarrow> string \<Rightarrow> string" where
  "getS \<equiv> lookupD []"

end
