(* ===== verification/GoStrings.thy ===== *)
theory GoStrings
  imports Prelude
begin

text \<open>
  The parts of Go's \<^verbatim>\<open>strings\<close>, \<^verbatim>\<open>strconv\<close> and \<^verbatim>\<open>fmt\<close> packages that the operator uses.  A Go
  string is a sequence of bytes, here a \<^typ>\<open>string\<close>; \<^verbatim>\<open>[]byte\<close> is modelled by the same type.
  Case folding (\<open>toLower\<close>, \<open>equalFold\<close>) is modelled on ASCII letters, other bytes are left
  alone: the operator applies it to model names, host names and URL schemes.
\<close>

section \<open>Prefixes, suffixes, trimming\<close>

abbreviation hasPrefix :: "string \<Rightarrow> string \<Rightarrow> bool" where
  "hasPrefix s p \<equiv> prefix p s"

abbreviation hasSuffix :: "string \<Rightarrow> string \<Rightarrow> bool" where
  "hasSuffix s p \<equiv> suffix p s"

definition trimPrefix :: "string \<Rightarrow> string \<Rightarrow> string" where
  "trimPrefix s p = (if hasPrefix s p then drop (length p) s else s)"

definition trimRight :: "string \<Rightarrow> string \<Rightarrow> string" where
  "trimRight s cutset = rev (dropWhile (\<lambda>c. c \<in> set cutset) (rev s))"

text \<open>
  The UTF-8 encodings of the code points with \<^verbatim>\<open>unicode.IsSpace\<close>.  \<^verbatim>\<open>TrimSpace\<close> removes them
  from both ends; an ill-formed byte sequence decodes to a code point that is no space.
\<close>

definition spaceEncodings :: "string list" where
  "spaceEncodings =
     [[CHR 0x09], [CHR 0x0A], [CHR 0x0B], [CHR 0x0C], [CHR 0x0D], [CHR 0x20],
      [CHR 0xC2, CHR 0x85], [CHR 0xC2, CHR 0xA0], [CHR 0xE1, CHR 0x9A, CHR 0x80],
      [CHR 0xE2, CHR 0x80, CHR 0x80], [CHR 0xE2, CHR 0x80, CHR 0x81],
      [CHR 0xE2, CHR 0x80, CHR 0x82], [CHR 0xE2, CHR 0x80, CHR 0x83],
      [CHR 0xE2, CHR 0x80, CHR 0x84], [CHR 0xE2, CHR 0x80, CHR 0x85],
      [CHR 0xE2, CHR 0x80, CHR 0x86], [CHR 0xE2, CHR 0x80, CHR 0x87],
      [CHR 0xE2, CHR 0x80, CHR 0x88], [CHR 0xE2, CHR 0x80, CHR 0x89],
      [CHR 0xE2, CHR 0x80, CHR 0x8A], [CHR 0xE2, CHR 0x80, CHR 0xA8],
      [CHR 0xE2, CHR 0x80, CHR 0xA9], [CHR 0xE2, CHR 0x80, CHR 0xAF],
      [CHR 0xE2, CHR 0x81, CHR 0x9F], [CHR 0xE3, CHR 0x80, CHR 0x80]]"

text \<open>Dropping code units from the front while one of them is a prefix.\<close>

function stripFront :: "string list \<Rightarrow> string \<Rightarrow> string" where
  "stripFront encs s =
     (case find (\<lambda>e. e \<noteq> [] \<and> prefix e s) encs of
        None \<Rightarrow> s
      | Some e \<Rightarrow> stripFront encs (drop (length e) s))"
  by pat_completeness auto
termination
  by (relation "measure (\<lambda>(encs, s). length s)")
    (auto simp: find_Some_iff prefix_def)

declare stripFront.simps [simp del]

definition trimSpace :: "string \<Rightarrow> string" where
  "trimSpace s =
     rev (stripFront (map rev spaceEncodings) (rev (stripFront spaceEncodings s)))"

lemma stripFront_stable:
  "(\<forall>e \<in> set encs. e = [] \<or> \<not> prefix e s) \<Longrightarrow> stripFront encs s = s"
proof -
  assume "\<forall>e \<in> set encs. e = [] \<or> \<not> prefix e s"
  then have "find (\<lambda>e. e \<noteq> [] \<and> prefix e s) encs = None" by (auto simp: find_None_iff)
  then show ?thesis by (subst stripFront.simps) simp
qed

text \<open>A string none of whose ends is a space is unchanged by \<open>trimSpace\<close>.\<close>

definition spaceBytes :: "char set" where
  "spaceBytes = {CHR 0x09, CHR 0x0A, CHR 0x0B, CHR 0x0C, CHR 0x0D, CHR 0x20,
     CHR 0xC2, CHR 0xE1, CHR 0xE2, CHR 0xE3, CHR 0x85, CHR 0xA0, CHR 0x80, CHR 0x81, CHR 0x82,
     CHR 0x83, CHR 0x84, CHR 0x86, CHR 0x87, CHR 0x88, CHR 0x89, CHR 0x8A, CHR 0xA8,
     CHR 0xA9, CHR 0xAF, CHR 0x9F, CHR 0x9A}"

lemma spaceEncodings_nonempty: "[] \<notin> set spaceEncodings"
  by (simp add: spaceEncodings_def)

lemma spaceEncodings_bytes: "e \<in> set spaceEncodings \<Longrightarrow> set e \<subseteq> spaceBytes"
  by (simp add: spaceEncodings_def spaceBytes_def) (elim disjE; simp)

lemma trimSpace_id: "set s \<inter> spaceBytes = {} \<Longrightarrow> trimSpace s = s"
proof -
  assume d: "set s \<inter> spaceBytes = {}"
  have no: "\<not> prefix e s'" if "set e \<subseteq> spaceBytes" "e \<noteq> []" "set s' = set s" for e s'
  proof
    assume "prefix e s'"
    then have "set e \<subseteq> set s'" by (auto simp: prefix_def)
    with that d show False by (cases e) auto
  qed
  have a: "stripFront spaceEncodings s = s"
    by (rule stripFront_stable) (use no spaceEncodings_bytes in blast)
  have b: "stripFront (map rev spaceEncodings) (rev s) = rev s"
  proof (rule stripFront_stable, intro ballI)
    fix e assume "e \<in> set (map rev spaceEncodings)"
    then obtain d where "d \<in> set spaceEncodings" and e: "e = rev d" by auto
    then have "set e \<subseteq> spaceBytes" using spaceEncodings_bytes [of d] by simp
    then show "e = [] \<or> \<not> prefix e (rev s)" using no [of e "rev s"] by auto
  qed
  show ?thesis by (simp add: trimSpace_def a b)
qed

lemma trimSpace_Nil [simp]: "trimSpace [] = []"
  by (rule trimSpace_id) simp

section \<open>Case folding and joining\<close>

definition lowerChar :: "char \<Rightarrow> char" where
  "lowerChar c = (let n = of_char c :: nat in if 65 \<le> n \<and> n \<le> 90 then char_of (n + 32) else c)"

definition toLower :: "string \<Rightarrow> string" where
  "toLower s = map lowerChar s"

definition equalFold :: "string \<Rightarrow> string \<Rightarrow> bool" where
  "equalFold s t = (toLower s = toLower t)"

fun joinStr :: "string list \<Rightarrow> string \<Rightarrow> string" where
  "joinStr [] sep = []"
| "joinStr [x] sep = x"
| "joinStr (x # y # ys) sep = x @ sep @ joinStr (y # ys) sep"

section \<open>Integers in decimal\<close>

definition digitChar :: "nat \<Rightarrow> char" where
  "digitChar d = char_of (48 + d)"

fun showNat :: "nat \<Rightarrow> string" where
  "showNat n = (if n < 10 then [digitChar n] else showNat (n div 10) @ [digitChar (n mod 10)])"

declare showNat.simps [simp del]

text \<open>\<^verbatim>\<open>fmt.Sprint\<close> and the verb \<^verbatim>\<open>%d\<close> on a signed integer.\<close>

definition itoa :: "int \<Rightarrow> string" where
  "itoa i = (if i < 0 then CHR ''-'' # showNat (nat (- i)) else showNat (nat i))"

definition digitVal :: "char \<Rightarrow> nat option" where
  "digitVal c = (let n = of_char c :: nat in if 48 \<le> n \<and> n \<le> 57 then Some (n - 48) else None)"

fun parseNat :: "nat \<Rightarrow> string \<Rightarrow> nat option" where
  "parseNat acc [] = Some acc"
| "parseNat acc (c # cs) =
     (case digitVal c of None \<Rightarrow> None | Some d \<Rightarrow> parseNat (10 * acc + d) cs)"

text \<open>\<^verbatim>\<open>strconv.Atoi\<close>: an optional sign, at least one digit, and a value that fits an
  \<^verbatim>\<open>int\<close> of 64 bits.\<close>

definition atoi :: "string \<Rightarrow> int option" where
  "atoi s =
     (let (neg, ds) = (case s of c # cs \<Rightarrow> if c = CHR ''-'' then (True, cs)
                                 else if c = CHR ''+'' then (False, cs) else (False, s)
                               | [] \<Rightarrow> (False, []))
      in if ds = [] then None
         else case parseNat 0 ds of
                None \<Rightarrow> None
              | Some n \<Rightarrow> (let i = (if neg then - int n else int n)
                           in if - (2 ^ 63) \<le> i \<and> i < 2 ^ 63 then Some i else None))"

lemma digitVal_digitChar [simp]: "d < 10 \<Longrightarrow> digitVal (digitChar d) = Some d"
  by (simp add: digitVal_def digitChar_def Let_def)

lemma digitChar_no_sign: "d < 10 \<Longrightarrow> digitChar d \<noteq> CHR ''-'' \<and> digitChar d \<noteq> CHR ''+''"
  using digitVal_digitChar [of d] by (auto simp: digitVal_def)

lemma parseNat_append:
  "parseNat acc (xs @ ys) = (case parseNat acc xs of None \<Rightarrow> None | Some n \<Rightarrow> parseNat n ys)"
  by (induction acc xs rule: parseNat.induct) (auto split: option.split)

lemma parseNat_showNat: "parseNat 0 (showNat n) = Some n"
proof (induction n rule: showNat.induct)
  case (1 n)
  show ?case
  proof (cases "n < 10")
    case True
    then show ?thesis by (subst showNat.simps) simp
  next
    case False
    with "1" show ?thesis by (subst showNat.simps) (simp add: parseNat_append)
  qed
qed

lemma showNat_hd: "\<exists>d cs. showNat n = digitChar d # cs \<and> d < 10"
proof (induction n rule: showNat.induct)
  case (1 n)
  show ?case
  proof (cases "n < 10")
    case True
    then show ?thesis by (subst showNat.simps) auto
  next
    case False
    with "1" obtain d cs where "showNat (n div 10) = digitChar d # cs" "d < 10" by blast
    with False show ?thesis by (subst showNat.simps) auto
  qed
qed

lemma showNat_ne [simp]: "showNat n \<noteq> []"
  using showNat_hd [of n] by auto

lemma itoa_ne [simp]: "itoa i \<noteq> []"
  by (simp add: itoa_def)

lemma showNat_unsigned: "showNat n \<noteq> CHR ''-'' # x"
  using showNat_hd [of n] by (metis digitChar_no_sign list.inject)

lemma itoa_not_flag: "itoa n \<noteq> CHR ''-'' # CHR ''-'' # x"
  using showNat_unsigned by (simp add: itoa_def)

lemma atoi_itoa: "- (2 ^ 63) \<le> i \<Longrightarrow> i < 2 ^ 63 \<Longrightarrow> atoi (itoa i) = Some i"
proof (cases "i < 0")
  case True
  assume "- (2 ^ 63) \<le> i" "i < 2 ^ 63"
  with True show ?thesis
    by (simp add: atoi_def itoa_def Let_def parseNat_showNat)
next
  case False
  assume r: "- (2 ^ 63) \<le> i" "i < 2 ^ 63"
  from showNat_hd [of "nat i"] obtain d cs
    where s: "showNat (nat i) = digitChar d # cs" and d: "d < 10" by blast
  have p: "parseNat 0 (digitChar d # cs) = Some (nat i)"
    using parseNat_showNat [of "nat i"] by (simp only: s)
  show ?thesis
    using False r d p digitChar_no_sign [OF d]
    by (simp add: atoi_def itoa_def s Let_def del: parseNat.simps)
qed

end
