(* ===== verification/KubeTypes.thy ===== *)
theory KubeTypes
  imports GoStrings
begin

text \<open>
  The Kubernetes data the operator reads and writes.  The first part is the operator's own
  API (\<^verbatim>\<open>api/v1alpha1\<close>); the second part holds the fields of the built-in and third-party
  kinds that the operator touches.  A Go map is a HOL map: a nil map and an empty one are not
  told apart, reading a missing key gives the zero value.  Pointers to optional values are
  \<^typ>\<open>'a option\<close>; the 32 and 64 bit integers of the API are compared and printed but never
  added, so they are \<^typ>\<open>int\<close>.
\<close>

section \<open>Metadata\<close>

text \<open>Instants count nanoseconds from the Unix epoch; the zero \<^verbatim>\<open>metav1.Time\<close> is \<open>None\<close>.\<close>

type_synonym time = int

record owner_ref =
  orAPIVersion :: string
  orKind :: string
  orName :: string
  orUID :: string
  orController :: bool

record objmeta =
  omName :: string
  omNamespace :: string
  omUID :: string
  omResourceVersion :: string
  omGeneration :: int
  omCreation :: "time option"
  omDeletion :: "time option"
  omLabels :: "string \<rightharpoonup> string"
  omAnnotations :: "string \<rightharpoonup> string"
  omFinalizers :: "string list"
  omOwners :: "owner_ref list"

type_synonym key = "string \<times> string"

definition keyOf :: "objmeta \<Rightarrow> key" where
  "keyOf m = (omNamespace m, omName m)"

text \<open>A freshly constructed \<^verbatim>\<open>metav1.ObjectMeta\<close> with a name and a namespace.\<close>

definition newMeta :: "string \<Rightarrow> string \<Rightarrow> objmeta" where
  "newMeta ns n = \<lparr>omName = n, omNamespace = ns, omUID = [], omResourceVersion = [], omGeneration = 0,
     omCreation = None, omDeletion = None, omLabels = Map.empty, omAnnotations = Map.empty,
     omFinalizers = [], omOwners = []\<rparr>"

record condition =
  cdType :: string
  cdStatus :: string
  cdReason :: string
  cdMessage :: string
  cdObservedGeneration :: int
  cdLastTransition :: "time option"

definition conditionTrue :: string where "conditionTrue = ''True''"
definition conditionFalse :: string where "conditionFalse = ''False''"

section \<open>The operator's API\<close>

definition groupVersion :: string where
  "groupVersion = ''llm.privatellms.msp/v1alpha1''"

record cluster_ref =
  crKubeconfigSecretName :: string

record cpu_resources =
  cpuRequestMilli :: int
  cpuLimitMilli :: int

record memory_resources =
  memRequestMiB :: int
  memLimitMiB :: int

record model_resources =
  mrCPU :: "cpu_resources option"
  mrMemory :: "memory_resources option"

record llm_spec =
  spModel :: string
  spReplicas :: int
  spResources :: "model_resources option"
  spContextSize :: "int option"
  spParallelSlots :: "int option"
  spDNSPolicy :: string
  spClusterRef :: "cluster_ref option"

record llm_status =
  stSlug :: string
  stSlugSource :: string
  stPhase :: string
  stEndpoint :: string
  stActiveBYOCKubeconfigSecretName :: string
  stActiveBYOCTargetID :: string
  stActiveBYOCTLSDomain :: string
  stActiveBYOCTLSNamespace :: string
  stActiveBYOCSlug :: string
  stObservedGeneration :: int
  stConditions :: "condition list"

record llm_instance =
  liMeta :: objmeta
  liSpec :: llm_spec
  liStatus :: llm_status

definition isBYOC :: "llm_instance \<Rightarrow> bool" where
  "isBYOC i = (case spClusterRef (liSpec i) of
                 None \<Rightarrow> False | Some r \<Rightarrow> crKubeconfigSecretName r \<noteq> [])"

record token_spec =
  tsInstanceName :: string
  tsDescription :: string

record token_status =
  ttPhase :: string
  ttSecretName :: string
  ttObservedGeneration :: int
  ttConditions :: "condition list"

record token_request =
  trMeta :: objmeta
  trSpec :: token_spec
  trStatus :: token_status

section \<open>Kinds of the cluster\<close>

record secret =
  seMeta :: objmeta
  seType :: string
  seData :: "string \<rightharpoonup> string"
  seStringData :: "string \<rightharpoonup> string"

definition secretTypeOpaque :: string where "secretTypeOpaque = ''Opaque''"
definition secretTypeTLS :: string where "secretTypeTLS = ''kubernetes.io/tls''"

text \<open>
  A \<^verbatim>\<open>resource.Quantity\<close>, up to the comparison that \<^verbatim>\<open>Semantic.DeepEqual\<close> makes, is its exact
  value counted in billionths.
\<close>

type_synonym quantity = int

record resources =
  rsRequests :: "string \<rightharpoonup> quantity"
  rsLimits :: "string \<rightharpoonup> quantity"

datatype probe_handler = HTTPGet string int | ExecCmd "string list" | TCPSocket int

record probe =
  pbHandler :: probe_handler
  pbInitialDelay :: int
  pbPeriod :: int
  pbTimeout :: int
  pbSuccess :: int
  pbFailure :: int

record container_port =
  cpName :: string
  cpPort :: int
  cpProtocol :: string

record volume_mount =
  vmName :: string
  vmPath :: string
  vmReadOnly :: bool

record security_context =
  scRunAsNonRoot :: "bool option"
  scRunAsUser :: "int option"
  scAllowPrivilegeEscalation :: "bool option"
  scReadOnlyRootFilesystem :: "bool option"
  scDropCapabilities :: "string list"

record container =
  cnName :: string
  cnImage :: string
  cnCommand :: "string list"
  cnArgs :: "string list"
  cnEnv :: "(string \<times> string) list"
  cnPorts :: "container_port list"
  cnReadiness :: "probe option"
  cnLiveness :: "probe option"
  cnMounts :: "volume_mount list"
  cnResources :: resources
  cnSecurity :: "security_context option"
  cnPullPolicy :: string
  cnTerminationPath :: string
  cnTerminationPolicy :: string

datatype volume_source =
    EmptyDir
  | SecretVolume string "int option"
  | ConfigMapVolume string "int option"

record volume =
  voName :: string
  voSource :: volume_source

record pod_template =
  ptLabels :: "string \<rightharpoonup> string"
  ptAnnotations :: "string \<rightharpoonup> string"
  ptDNSPolicy :: string
  ptInitContainers :: "container list"
  ptContainers :: "container list"
  ptVolumes :: "volume list"
  ptAutomount :: "bool option"
  ptRestartPolicy :: string
  ptGracePeriod :: "int option"
  ptSchedulerName :: string
  ptServiceAccount :: string
  ptDeprecatedServiceAccount :: string
  ptFSGroup :: "int option"

record deployment =
  dpMeta :: objmeta
  dpReplicas :: "int option"
  dpSelector :: "string \<rightharpoonup> string"
  dpStrategy :: string
  dpTemplate :: pod_template
  dpObservedGeneration :: int
  dpUpdatedReplicas :: int
  dpReadyReplicas :: int
  dpAvailableReplicas :: int

record service_port =
  svpName :: string
  svpPort :: int
  svpTargetPort :: int
  svpProtocol :: string
  svpNodePort :: int

record service =
  svMeta :: objmeta
  svType :: string
  svSelector :: "string \<rightharpoonup> string"
  svPorts :: "service_port list"
  svLoadBalancer :: "(string \<times> string) list"   \<comment> \<open>status: IP and hostname of each ingress point\<close>

record endpoint_subset =
  esAddresses :: "string list"
  esPorts :: "int list"

record endpoints =
  enMeta :: objmeta
  enSubsets :: "endpoint_subset list"

record ingress_backend =
  ibService :: string
  ibPort :: int

record http_path =
  hpPath :: string
  hpPathType :: string
  hpBackend :: ingress_backend

record ingress_rule =
  rlHost :: string
  rlHTTP :: "http_path list option"

record ingress_tls =
  itHosts :: "string list"
  itSecretName :: string

record ingress =
  igMeta :: objmeta
  igClass :: "string option"
  igDefaultBackend :: "ingress_backend option"
  igRules :: "ingress_rule list"
  igTLS :: "ingress_tls list"

text \<open>Unstructured content of the kinds the operator has no Go types for.\<close>

datatype jvalue =
    JNull
  | JBool bool
  | JInt int
  | JStr string
  | JList "jvalue list"
  | JObj "string \<Rightarrow> jvalue option"

record unstructured =
  unMeta :: objmeta
  unSpec :: "jvalue option"
  unStatus :: "jvalue option"

record config_map =
  cmMeta :: objmeta
  cmData :: "string \<rightharpoonup> string"

record namespace =
  nsMeta :: objmeta

section \<open>Library functions outside the repository\<close>

text \<open>
  The functions of \<^verbatim>\<open>k8s.io/apimachinery\<close> and \<^verbatim>\<open>controller-runtime\<close> that work on these data are
  not part of the repository; they are parameters of the model, collected in one record.  The
  validation functions return whether their list of complaints is empty.
\<close>

record kube_lib =
  isDNS1123Label :: "string \<Rightarrow> bool"
  isDNS1123Subdomain :: "string \<Rightarrow> bool"
  isValidLabelValue :: "string \<Rightarrow> bool"
  getControllerOf :: "objmeta \<Rightarrow> owner_ref option"
  isControlledBy :: "objmeta \<Rightarrow> objmeta \<Rightarrow> bool"
  setControllerReference :: "string \<Rightarrow> objmeta \<Rightarrow> objmeta \<Rightarrow> goerr + objmeta"
    \<comment> \<open>kind of the owner, the owner, the controlled object\<close>
  containsFinalizer :: "objmeta \<Rightarrow> string \<Rightarrow> bool"
  addFinalizer :: "objmeta \<Rightarrow> string \<Rightarrow> objmeta"
  removeFinalizer :: "objmeta \<Rightarrow> string \<Rightarrow> objmeta"
  setStatusCondition :: "time \<Rightarrow> condition list \<Rightarrow> condition \<Rightarrow> condition list"
    \<comment> \<open>the current time, the conditions, the new one\<close>
  findStatusCondition :: "condition list \<Rightarrow> string \<Rightarrow> condition option"
  mustParse :: "string \<Rightarrow> quantity"
  quantityMilliValue :: "quantity \<Rightarrow> int"
  quantityValue :: "quantity \<Rightarrow> int"
  nestedStringSlice :: "unstructured \<Rightarrow> string list \<Rightarrow> goerr + string list"
  setNestedStringSlice :: "unstructured \<Rightarrow> string list \<Rightarrow> string list \<Rightarrow> goerr + unstructured"
  nestedMap :: "unstructured \<Rightarrow> string list \<Rightarrow> goerr + (string \<rightharpoonup> jvalue)"
  setNestedMap :: "unstructured \<Rightarrow> (string \<rightharpoonup> jvalue) \<Rightarrow> string list \<Rightarrow> goerr + unstructured"

end
