(* ===== verification/KubeApi.thy ===== *)
theory KubeApi
  imports KubeTypes
begin

text \<open>
  The Kubernetes API as the operator sees it.  The client of \<^verbatim>\<open>controller-runtime\<close> and the API
  server behind it are not part of the repository, and between two calls other clients may
  have changed anything.  So a client is a parameter: for every kind, functions from a request
  and a state of the world (of any type) to a response and a new state, with no assumption
  about them.  What the operator itself does is recorded in a journal of write requests; the
  safety theorems of the development speak about that journal, for every client.

  The last section models the client decorator of \<^verbatim>\<open>cmd/main.go\<close> (\<^verbatim>\<open>labelingClient\<close>).
\<close>

section \<open>Clients\<close>

record preconditions =
  pcUID :: "string option"
  pcResourceVersion :: "string option"

record list_options =
  loNamespace :: "string option"
  loLabels :: "(string \<times> string) list"

record ('w, 'o) kind_api =
  kGet :: "key \<Rightarrow> 'w \<Rightarrow> (api_error + 'o) \<times> 'w"
  kList :: "list_options \<Rightarrow> 'w \<Rightarrow> (api_error + 'o list) \<times> 'w"
  kCreate :: "'o \<Rightarrow> 'w \<Rightarrow> (api_error + 'o) \<times> 'w"
  kUpdate :: "'o \<Rightarrow> 'w \<Rightarrow> (api_error + 'o) \<times> 'w"
  kStatusUpdate :: "'o \<Rightarrow> 'w \<Rightarrow> (api_error + 'o) \<times> 'w"
  kStatusPatch :: "'o \<Rightarrow> 'o \<Rightarrow> 'w \<Rightarrow> (api_error + 'o) \<times> 'w"   \<comment> \<open>base of the patch, new object\<close>
  kDelete :: "'o \<Rightarrow> preconditions \<Rightarrow> 'w \<Rightarrow> (api_error + unit) \<times> 'w"

record 'w client =
  instances :: "('w, llm_instance) kind_api"
  tokenRequests :: "('w, token_request) kind_api"
  secrets :: "('w, secret) kind_api"
  deployments :: "('w, deployment) kind_api"
  services :: "('w, service) kind_api"
  ingresses :: "('w, ingress) kind_api"
  middlewares :: "('w, unstructured) kind_api"
  endpointsApi :: "('w, endpoints) kind_api"
  configMaps :: "('w, config_map) kind_api"
  namespaces :: "('w, namespace) kind_api"
  certificates :: "('w, unstructured) kind_api"
  dnsEntries :: "('w, unstructured) kind_api"

text \<open>What the process takes from its host: the clock and the random source.\<close>

record 'w host =
  nowText :: "'w \<Rightarrow> string"      \<comment> \<open>\<^verbatim>\<open>time.Now().UTC().Format(time.RFC3339Nano)\<close>\<close>
  nowTime :: "'w \<Rightarrow> time"
  randRead :: "nat \<Rightarrow> 'w \<Rightarrow> (goerr + string) \<times> 'w"

section \<open>The journal\<close>

datatype kobj =
    OInst llm_instance
  | OTok token_request
  | OSec secret
  | ODep deployment
  | OSvc service
  | OIng ingress
  | OMw unstructured
  | OCfg config_map
  | ONs namespace
  | OCert unstructured
  | ODns unstructured

text \<open>A write goes to the cluster the operator runs on or to a tenant's (BYOC) cluster.\<close>

datatype site = LocalCluster | RemoteCluster

datatype wop = WCreate | WUpdate | WStatusUpdate | WStatusPatch | WDelete preconditions

datatype wreq = Write (wrSite: site) (wrOp: wop) (wrObj: kobj)

text \<open>
  The instance controller works on one object through a pointer: its functions change the status in
  place, and a write puts the server's response there.  \<open>held\<close> is that object.
\<close>

record 'w sys =
  world :: 'w
  journal :: "wreq list"
  held :: llm_instance

type_synonym ('w, 'a) api = "('w sys, api_error, 'a) eff"
type_synonym ('w, 'a) io = "('w sys, goerr, 'a) eff"

section \<open>Requests\<close>

definition readWith :: "('w \<Rightarrow> (api_error + 'a) \<times> 'w) \<Rightarrow> ('w, 'a) api" where
  "readWith f = (\<lambda>s. case f (world s) of (r, w) \<Rightarrow> (r, s\<lparr>world := w\<rparr>))"

definition writeWith :: "wreq \<Rightarrow> ('w \<Rightarrow> (api_error + 'a) \<times> 'w) \<Rightarrow> ('w, 'a) api" where
  "writeWith x f = (\<lambda>s. case f (world s) of
     (r, w) \<Rightarrow> (r, s\<lparr>world := w, journal := journal s @ [x]\<rparr>))"

definition getObj :: "('w, 'o) kind_api \<Rightarrow> key \<Rightarrow> ('w, 'o) api" where
  "getObj a k = readWith (kGet a k)"

definition listObj :: "('w, 'o) kind_api \<Rightarrow> list_options \<Rightarrow> ('w, 'o list) api" where
  "listObj a l = readWith (kList a l)"

definition createObj :: "site \<Rightarrow> ('o \<Rightarrow> kobj) \<Rightarrow> ('w, 'o) kind_api \<Rightarrow> 'o \<Rightarrow> ('w, 'o) api" where
  "createObj c tag a x = writeWith (Write c WCreate (tag x)) (kCreate a x)"

definition updateObj :: "site \<Rightarrow> ('o \<Rightarrow> kobj) \<Rightarrow> ('w, 'o) kind_api \<Rightarrow> 'o \<Rightarrow> ('w, 'o) api" where
  "updateObj c tag a x = writeWith (Write c WUpdate (tag x)) (kUpdate a x)"

definition statusUpdateObj :: "site \<Rightarrow> ('o \<Rightarrow> kobj) \<Rightarrow> ('w, 'o) kind_api \<Rightarrow> 'o \<Rightarrow> ('w, 'o) api" where
  "statusUpdateObj c tag a x = writeWith (Write c WStatusUpdate (tag x)) (kStatusUpdate a x)"

definition statusPatchObj :: "site \<Rightarrow> ('o \<Rightarrow> kobj) \<Rightarrow> ('w, 'o) kind_api \<Rightarrow> 'o \<Rightarrow> 'o \<Rightarrow> ('w, 'o) api" where
  "statusPatchObj c tag a base x = writeWith (Write c WStatusPatch (tag x)) (kStatusPatch a base x)"

definition deleteObj :: "site \<Rightarrow> ('o \<Rightarrow> kobj) \<Rightarrow> ('w, 'o) kind_api \<Rightarrow> 'o \<Rightarrow> preconditions
    \<Rightarrow> ('w, unit) api" where
  "deleteObj c tag a x p = writeWith (Write c (WDelete p) (tag x)) (kDelete a x p)"

text \<open>Passing an error of the client on, as \<^verbatim>\<open>return err\<close> does, and \<^verbatim>\<open>client.IgnoreNotFound\<close>.\<close>

definition apiE :: "('w, 'a) api \<Rightarrow> ('w, 'a) io" where
  "apiE m = tryE m (\<lambda>e. failE (APIErr e)) retE"

definition ignoreNotFound :: "api_error \<Rightarrow> ('w, unit) io" where
  "ignoreNotFound e = (if isNotFound e then retE () else failE (APIErr e))"

definition inNamespace :: "string \<Rightarrow> (string \<times> string) list \<Rightarrow> list_options" where
  "inNamespace ns ls = \<lparr>loNamespace = Some ns, loLabels = ls\<rparr>"

definition anywhere :: list_options where
  "anywhere = \<lparr>loNamespace = None, loLabels = []\<rparr>"

definition preUIDVersion :: "objmeta \<Rightarrow> preconditions" where
  "preUIDVersion m = \<lparr>pcUID = Some (omUID m), pcResourceVersion = Some (omResourceVersion m)\<rparr>"

definition preUID :: "objmeta \<Rightarrow> preconditions" where
  "preUID m = \<lparr>pcUID = Some (omUID m), pcResourceVersion = None\<rparr>"

section \<open>Reasoning about requests\<close>

lemma wp_readWith:
  "wp (readWith f) Q E s =
     (case fst (f (world s)) of
        Inl e \<Rightarrow> E e (s\<lparr>world := snd (f (world s))\<rparr>)
      | Inr x \<Rightarrow> Q x (s\<lparr>world := snd (f (world s))\<rparr>))"
  by (simp add: wp_def readWith_def split: prod.split sum.split)

lemma wp_writeWith:
  "wp (writeWith x f) Q E s =
     (case fst (f (world s)) of
        Inl e \<Rightarrow> E e (s\<lparr>world := snd (f (world s)), journal := journal s @ [x]\<rparr>)
      | Inr y \<Rightarrow> Q y (s\<lparr>world := snd (f (world s)), journal := journal s @ [x]\<rparr>))"
  by (simp add: wp_def writeWith_def split: prod.split sum.split)

lemma wp_apiE [wp_simps]: "wp (apiE m) Q E = wp m Q (\<lambda>e. E (APIErr e))"
  by (simp add: apiE_def wp_simps)

text \<open>
  The client may answer differently at any time.  \<open>serves\<close> and \<open>listed\<close> say that it has given an
  answer at some time, which is all that an operation knows about an object it has read.
\<close>

definition serves :: "('w, 'o) kind_api \<Rightarrow> key \<Rightarrow> 'o \<Rightarrow> bool" where
  "serves a k x = (\<exists>w. fst (kGet a k w) = Inr x)"

definition listed :: "('w, 'o) kind_api \<Rightarrow> list_options \<Rightarrow> 'o list \<Rightarrow> bool" where
  "listed a l xs = (\<exists>w. fst (kList a l w) = Inr xs)"

text \<open>\<open>vanished\<close>: it has answered that the object does not exist.\<close>

definition vanished :: "('w, 'o) kind_api \<Rightarrow> key \<Rightarrow> bool" where
  "vanished a k = (\<exists>w e. fst (kGet a k w) = Inl e \<and> isNotFound e)"

lemma wp_getObjI:
  "(\<And>x s'. serves a k x \<Longrightarrow> Q x s') \<Longrightarrow> (\<And>e s'. E e s') \<Longrightarrow> wp (getObj a k) Q E s"
  unfolding getObj_def wp_readWith serves_def by (auto split: sum.split)

lemma wp_listObjI:
  "(\<And>xs s'. listed a l xs \<Longrightarrow> Q xs s') \<Longrightarrow> (\<And>e s'. E e s') \<Longrightarrow> wp (listObj a l) Q E s"
  unfolding listObj_def wp_readWith listed_def by (auto split: sum.split)

text \<open>
  \<open>emits G m\<close>: whatever state \<open>m\<close> starts in and however the world answers, it only appends to
  the journal, and every write it appends satisfies \<open>G\<close>.
\<close>

definition emits :: "(wreq \<Rightarrow> bool) \<Rightarrow> ('w sys, 'e, 'a) eff \<Rightarrow> bool" where
  "emits G m = (\<forall>s. \<exists>ws. journal (snd (m s)) = journal s @ ws \<and> (\<forall>w \<in> set ws. G w))"

lemma emitsI: "(\<And>s. \<exists>ws. journal (snd (m s)) = journal s @ ws \<and> (\<forall>w \<in> set ws. G w)) \<Longrightarrow> emits G m"
  by (simp add: emits_def)

lemma emits_mono: "emits G m \<Longrightarrow> (\<And>w. G w \<Longrightarrow> H w) \<Longrightarrow> emits H m"
  by (fastforce simp: emits_def)

lemma emits_run:
  assumes "emits G m" and "m s = (r, s')"
  shows "\<exists>ws. journal s' = journal s @ ws \<and> (\<forall>w \<in> set ws. G w)"
  using assms by (metis emits_def snd_conv)

lemma emits_from_empty: "emits G m \<Longrightarrow> journal s = [] \<Longrightarrow> w \<in> set (journal (snd (m s))) \<Longrightarrow> G w"
  using emits_run [of G m s "fst (m s)" "snd (m s)"] by auto

lemma emits_retE [emits_intros]: "emits G (retE x)"
  by (simp add: emits_def retE_def)

lemma emits_failE [emits_intros]: "emits G (failE e)"
  by (simp add: emits_def failE_def)

lemma emits_liftE [emits_intros]: "emits G (liftE r)"
  by (simp add: emits_def liftE_def)

text \<open>A value that is passed on satisfies what its producer yields.\<close>

lemma emits_try:
  assumes "emits G m" and "yields m P" and "\<And>e. emits G (h e)" and "\<And>x. P x \<Longrightarrow> emits G (k x)"
  shows "emits G (tryE m h k)"
proof (rule emitsI)
  fix s
  obtain r s' where ms: "m s = (r, s')" by (cases "m s")
  from emits_run [OF assms(1) ms] obtain ws
    where ws: "journal s' = journal s @ ws" "\<forall>w \<in> set ws. G w" by blast
  have "\<exists>vs. journal (snd (tryE m h k s)) = journal s' @ vs \<and> (\<forall>w \<in> set vs. G w)"
  proof (cases r)
    case (Inl e)
    with ms have "tryE m h k s = h e s'" by (simp add: tryE_def)
    then show ?thesis using assms(3) [of e] by (simp add: emits_def)
  next
    case (Inr x)
    with ms have "tryE m h k s = k x s'" and "P x" using yieldsD [OF assms(2)] by (auto simp: tryE_def)
    then show ?thesis using assms(4) [of x] by (simp add: emits_def)
  qed
  then obtain vs where "journal (snd (tryE m h k s)) = journal s' @ vs" "\<forall>w \<in> set vs. G w" by blast
  with ws show "\<exists>us. journal (snd (tryE m h k s)) = journal s @ us \<and> (\<forall>w \<in> set us. G w)"
    by (intro exI [of _ "ws @ vs"]) auto
qed

lemma emits_bind:
  "emits G m \<Longrightarrow> yields m P \<Longrightarrow> (\<And>x. P x \<Longrightarrow> emits G (k x)) \<Longrightarrow> emits G (bindE m k)"
  unfolding bindE_def by (erule (1) emits_try) (auto intro: emits_failE)

lemma emits_tryE [emits_intros]:
  "emits G m \<Longrightarrow> (\<And>e. emits G (h e)) \<Longrightarrow> (\<And>x. emits G (k x)) \<Longrightarrow> emits G (tryE m h k)"
  by (rule emits_try [OF _ yields_True])

lemma emits_bindE [emits_intros]:
  "emits G m \<Longrightarrow> (\<And>x. emits G (k x)) \<Longrightarrow> emits G (bindE m k)"
  unfolding bindE_def by (intro emits_tryE emits_failE)

lemma emits_if [emits_intros]:
  "(b \<Longrightarrow> emits G m) \<Longrightarrow> (\<not> b \<Longrightarrow> emits G n) \<Longrightarrow> emits G (if b then m else n)"
  by simp

lemma emits_case_option [emits_intros]:
  "(x = None \<Longrightarrow> emits G m) \<Longrightarrow> (\<And>y. x = Some y \<Longrightarrow> emits G (f y)) \<Longrightarrow>
     emits G (case x of None \<Rightarrow> m | Some y \<Rightarrow> f y)"
  by (simp split: option.split)

lemma emits_case_sum [emits_intros]:
  "(\<And>a. x = Inl a \<Longrightarrow> emits G (f a)) \<Longrightarrow> (\<And>b. x = Inr b \<Longrightarrow> emits G (g b)) \<Longrightarrow>
     emits G (case x of Inl a \<Rightarrow> f a | Inr b \<Rightarrow> g b)"
  by (simp split: sum.split)

lemma emits_case_prod [emits_intros]:
  "(\<And>a b. x = (a, b) \<Longrightarrow> emits G (f a b)) \<Longrightarrow> emits G (case x of (a, b) \<Rightarrow> f a b)"
  by (simp split: prod.split)

lemma emits_let [emits_intros]: "emits G (f v) \<Longrightarrow> emits G (let x = v in f x)"
  by simp

lemma emits_readWith [emits_intros]: "emits G (readWith f)"
  by (simp add: emits_def readWith_def split: prod.split)

lemma emits_writeWith: "G x \<Longrightarrow> emits G (writeWith x f)"
  by (simp add: emits_def writeWith_def split: prod.split)

lemma emits_getObj [emits_intros]: "emits G (getObj a k)"
  unfolding getObj_def by (rule emits_readWith)

lemma emits_listObj [emits_intros]: "emits G (listObj a l)"
  unfolding listObj_def by (rule emits_readWith)

lemma emits_createObj [emits_intros]: "G (Write c WCreate (tag x)) \<Longrightarrow> emits G (createObj c tag a x)"
  unfolding createObj_def by (rule emits_writeWith)

lemma emits_updateObj [emits_intros]: "G (Write c WUpdate (tag x)) \<Longrightarrow> emits G (updateObj c tag a x)"
  unfolding updateObj_def by (rule emits_writeWith)

lemma emits_statusUpdateObj [emits_intros]:
  "G (Write c WStatusUpdate (tag x)) \<Longrightarrow> emits G (statusUpdateObj c tag a x)"
  unfolding statusUpdateObj_def by (rule emits_writeWith)

lemma emits_statusPatchObj [emits_intros]:
  "G (Write c WStatusPatch (tag x)) \<Longrightarrow> emits G (statusPatchObj c tag a base x)"
  unfolding statusPatchObj_def by (rule emits_writeWith)

lemma emits_deleteObj [emits_intros]:
  "G (Write c (WDelete p) (tag x)) \<Longrightarrow> emits G (deleteObj c tag a x p)"
  unfolding deleteObj_def by (rule emits_writeWith)

lemma emits_apiE [emits_intros]: "emits G m \<Longrightarrow> emits G (apiE m)"
  unfolding apiE_def by (intro emits_tryE emits_failE emits_retE)

lemma emits_ignoreNotFound [emits_intros]: "emits G (ignoreNotFound e)"
  unfolding ignoreNotFound_def by (intro emits_if emits_retE emits_failE)

lemma emits_forE [emits_intros]: "(\<And>x. x \<in> set xs \<Longrightarrow> emits G (f x)) \<Longrightarrow> emits G (forE xs f)"
  by (induction xs) (auto intro!: emits_intros)

text \<open>An object that is passed on has been served by the client.\<close>

lemma yields_getObj: "yields (getObj a k) (serves a k)"
  unfolding yields_def by (intro allI wp_getObjI) simp_all

lemma yields_try_getObj:
  assumes "\<And>e. isNotFound e \<Longrightarrow> vanished a k \<Longrightarrow> yields (h e) P" and "\<And>e. \<not> isNotFound e \<Longrightarrow> yields (h e) P"
    and "\<And>x. serves a k x \<Longrightarrow> yields (f x) P"
  shows "yields (tryE (getObj a k) h f) P"
proof (rule yieldsI)
  fix s y s'
  assume run: "tryE (getObj a k) h f s = (Inr y, s')"
  show "P y"
  proof (cases "fst (kGet a k (world s))")
    case (Inl e)
    then have "vanished a k" if "isNotFound e" using that unfolding vanished_def by blast
    with Inl run show ?thesis
      using yieldsD [OF assms(1)] yieldsD [OF assms(2)]
      by (auto simp: tryE_def getObj_def readWith_def split: prod.splits) metis
  next
    case (Inr x)
    then have "serves a k x" unfolding serves_def by blast
    with Inr run show ?thesis using yieldsD [OF assms(3)] by (auto simp: tryE_def getObj_def readWith_def split: prod.splits)
  qed
qed

lemma yields_listObj: "yields (listObj a l) (listed a l)"
  unfolding yields_def by (intro allI wp_listObjI) simp_all

lemma yields_apiE: "yields m P \<Longrightarrow> yields (apiE m) P"
  by (simp add: yields_def wp_simps)

lemmas emits_try_getObj = emits_try [OF emits_getObj yields_getObj]
lemmas emits_try_listObj = emits_try [OF emits_listObj yields_listObj]

lemma emits_bind_liftE: "(\<And>x. v = Inr x \<Longrightarrow> emits G (k x)) \<Longrightarrow> emits G (bindE (liftE v) k)"
  by (rule emits_bind [OF emits_liftE yields_liftE])

text \<open>
  Operations that stop after a write: \<open>quiet m\<close> says that a run which returns a value has written
  nothing, so that whatever follows \<open>m\<close> starts with the journal \<open>m\<close> started with.  \<open>phased Ps m\<close> says
  that \<open>m\<close> goes through phases in order.  A phase is given by the writes it may send and by what is known
  once it is over; all writes of one run belong to one phase, and then all phases before it are over.
\<close>

definition quiet :: "('w sys, 'e, 'a) eff \<Rightarrow> bool" where
  "quiet m = (\<forall>s x s'. m s = (Inr x, s') \<longrightarrow> journal s' = journal s)"

lemma quiet_silent: "emits (\<lambda>_. False) m \<Longrightarrow> quiet m"
  unfolding quiet_def by (metis emits_run append_Nil2 ex_in_conv set_empty)

lemma quiet_failE: "quiet (failE e)"
  by (simp add: quiet_def failE_def)

lemma quiet_bind_fail: "quiet (bindE m (\<lambda>x. failE (e x)))"
  by (auto simp: quiet_def bindE_def tryE_def failE_def split: prod.splits sum.splits)

lemma quiet_bindE: "quiet m \<Longrightarrow> (\<And>x. quiet (k x)) \<Longrightarrow> quiet (bindE m k)"
  by (fastforce simp: quiet_def bindE_def tryE_def failE_def split: prod.splits sum.splits)

lemma silent_run: "emits (\<lambda>_. False) m \<Longrightarrow> m s = (r, s') \<Longrightarrow> journal s' = journal s"
  by (metis emits_run append_Nil2 ex_in_conv set_empty)

lemma quiet_tryE:
  assumes "emits (\<lambda>_. False) m" and "\<And>e. quiet (h e)" and "\<And>x. quiet (k x)"
  shows "quiet (tryE m h k)"
  unfolding quiet_def
proof (intro allI impI)
  fix s y s'
  assume run: "tryE m h k s = (Inr y, s')"
  obtain r t where m: "m s = (r, t)" by (cases "m s")
  have "journal t = journal s" by (rule silent_run [OF assms(1) m])
  with run m assms(2,3) show "journal s' = journal s" by (cases r) (auto simp: tryE_def quiet_def)
qed

lemma quiet_if: "(b \<Longrightarrow> quiet m) \<Longrightarrow> (\<not> b \<Longrightarrow> quiet n) \<Longrightarrow> quiet (if b then m else n)"
  by simp

type_synonym phase = "(wreq \<Rightarrow> bool) \<times> bool"

fun inPhases :: "phase list \<Rightarrow> wreq list \<Rightarrow> bool" where
  "inPhases [] ws = (ws = [])"
| "inPhases ((G, over) # Ps) ws = (list_all G ws \<or> over \<and> inPhases Ps ws)"

lemma inPhases_Nil [simp]: "inPhases Ps []"
  by (cases Ps) auto

lemma inPhases_one: "inPhases Ps ws \<Longrightarrow> ws = [] \<or> (\<exists>P \<in> set Ps. list_all (fst P) ws)"
  by (induction Ps ws rule: inPhases.induct) auto

lemma inPhases_weaken:
  assumes "list_all2 (\<lambda>P Q. (\<forall>w. fst P w \<longrightarrow> fst Q w) \<and> (snd P \<longrightarrow> snd Q)) Ps Qs" and "inPhases Ps ws"
  shows "inPhases Qs ws"
  using assms by (induction Ps Qs rule: list_all2_induct) (auto simp: list_all_iff)

definition phased :: "phase list \<Rightarrow> ('w sys, 'e, 'a) eff \<Rightarrow> bool" where
  "phased Ps m = (\<forall>s. \<exists>ws. journal (snd (m s)) = journal s @ ws \<and> inPhases Ps ws)"

lemma phasedI: "(\<And>s r s'. m s = (r, s') \<Longrightarrow> \<exists>ws. journal s' = journal s @ ws \<and> inPhases Ps ws) \<Longrightarrow> phased Ps m"
  unfolding phased_def by (metis prod.collapse)

lemma phasedD: "phased Ps m \<Longrightarrow> m s = (r, s') \<Longrightarrow> \<exists>ws. journal s' = journal s @ ws \<and> inPhases Ps ws"
  unfolding phased_def by (metis snd_conv)

lemma phased_silent: "emits (\<lambda>_. False) m \<Longrightarrow> phased Ps m"
  by (rule phasedI) (metis append_Nil2 silent_run inPhases_Nil)

lemma phased_last: "emits G m \<Longrightarrow> phased [(G, over)] m"
  by (rule phasedI) (auto simp: list_all_iff dest: emits_run)

lemma phased_skip: "over \<Longrightarrow> phased Ps m \<Longrightarrow> phased ((G, over) # Ps) m"
  unfolding phased_def by auto

lemma phased_weaken:
  assumes "phased Ps m" and "list_all2 (\<lambda>P Q. (\<forall>w. fst P w \<longrightarrow> fst Q w) \<and> (snd P \<longrightarrow> snd Q)) Ps Qs"
  shows "phased Qs m"
  by (rule phasedI) (meson phasedD [OF assms(1)] inPhases_weaken [OF assms(2)])

lemma phased_if: "(b \<Longrightarrow> phased Ps m) \<Longrightarrow> (\<not> b \<Longrightarrow> phased Ps n) \<Longrightarrow> phased Ps (if b then m else n)"
  by simp

lemma phased_bind_silent:
  assumes "emits (\<lambda>_. False) m" and "yields m R" and "\<And>x. R x \<Longrightarrow> phased Ps (k x)"
  shows "phased Ps (bindE m k)"
proof (rule phasedI)
  fix s r s'
  assume run: "bindE m k s = (r, s')"
  obtain v t where m: "m s = (v, t)" by (cases "m s")
  have t: "journal t = journal s" by (rule silent_run [OF assms(1) m])
  show "\<exists>ws. journal s' = journal s @ ws \<and> inPhases Ps ws"
  proof (cases v)
    case (Inl e)
    with run m t show ?thesis by (simp add: bindE_def tryE_def failE_def)
  next
    case (Inr x)
    with run m have "k x t = (r, s')" by (simp add: bindE_def tryE_def)
    with phasedD [OF assms(3) [OF yieldsD [OF assms(2)]]] m Inr t show ?thesis by metis
  qed
qed

text \<open>A phase that is quiet, and knows that it is over when it returns, may be followed by others.\<close>

lemma phased_bind:
  assumes "emits G m" and "quiet m" and "yields m (\<lambda>_. over)" and "\<And>x. phased Ps (k x)"
  shows "phased ((G, over) # Ps) (bindE m k)"
proof (rule phasedI)
  fix s r s'
  assume run: "bindE m k s = (r, s')"
  obtain v t where m: "m s = (v, t)" by (cases "m s")
  show "\<exists>ws. journal s' = journal s @ ws \<and> inPhases ((G, over) # Ps) ws"
  proof (cases v)
    case (Inl e)
    then have "s' = t" using run m by (simp add: bindE_def tryE_def failE_def)
    with emits_run [OF assms(1) m] show ?thesis by (auto simp: list_all_iff)
  next
    case (Inr x)
    then have "k x t = (r, s')" "journal t = journal s" over
      using run m assms(2) yieldsD [OF assms(3)] by (auto simp: bindE_def tryE_def quiet_def)
    with phasedD [OF assms(4)] show ?thesis by (metis inPhases.simps(2))
  qed
qed

text \<open>Reading the clock and the random source.\<close>

definition nowE :: "'w host \<Rightarrow> ('w sys, 'e, time) eff" where
  "nowE h = (\<lambda>s. (Inr (nowTime h (world s)), s))"

definition nowTextE :: "'w host \<Rightarrow> ('w sys, 'e, string) eff" where
  "nowTextE h = (\<lambda>s. (Inr (nowText h (world s)), s))"

definition randE :: "'w host \<Rightarrow> nat \<Rightarrow> ('w, string) io" where
  "randE h n = (\<lambda>s. case randRead h n (world s) of (r, w) \<Rightarrow> (r, s\<lparr>world := w\<rparr>))"

text \<open>Reading and replacing the held instance.\<close>

definition heldE :: "('w sys, 'e, llm_instance) eff" where
  "heldE = (\<lambda>s. (Inr (held s), s))"

definition holdE :: "llm_instance \<Rightarrow> ('w sys, 'e, unit) eff" where
  "holdE i = (\<lambda>s. (Inr (), s\<lparr>held := i\<rparr>))"

lemma emits_heldE [emits_intros]: "emits G heldE"
  by (simp add: emits_def heldE_def)

lemma emits_holdE [emits_intros]: "emits G (holdE i)"
  by (simp add: emits_def holdE_def)

lemma wp_heldE [wp_simps]: "wp heldE Q E = (\<lambda>s. Q (held s) s)"
  by (simp add: wp_def heldE_def fun_eq_iff)

lemma wp_holdE [wp_simps]: "wp (holdE i) Q E = (\<lambda>s. Q () (s\<lparr>held := i\<rparr>))"
  by (simp add: wp_def holdE_def fun_eq_iff)

lemma emits_nowE [emits_intros]: "emits G (nowE h)"
  by (simp add: emits_def nowE_def)

lemma emits_nowTextE [emits_intros]: "emits G (nowTextE h)"
  by (simp add: emits_def nowTextE_def)

lemma emits_randE [emits_intros]: "emits G (randE h n)"
  by (simp add: emits_def randE_def split: prod.split)

lemma wp_nowE [wp_simps]: "wp (nowE h) Q E = (\<lambda>s. Q (nowTime h (world s)) s)"
  by (simp add: wp_def nowE_def fun_eq_iff)

lemma wp_nowTextE [wp_simps]: "wp (nowTextE h) Q E = (\<lambda>s. Q (nowText h (world s)) s)"
  by (simp add: wp_def nowTextE_def fun_eq_iff)

definition drawn :: "'w host \<Rightarrow> nat \<Rightarrow> string \<Rightarrow> bool" where
  "drawn h n b = (\<exists>w. fst (randRead h n w) = Inr b)"

lemma yields_randE: "yields (randE h n) (drawn h n)"
  by (rule yieldsI) (auto simp: randE_def drawn_def split: prod.splits, metis fst_conv)

lemmas request_defs =
  getObj_def listObj_def createObj_def updateObj_def statusUpdateObj_def statusPatchObj_def
  deleteObj_def

section \<open>The labelling client of the manager\<close>

text \<open>\<^verbatim>\<open>ensureLabels\<close>: base labels with a value are added where the object has no such key; a
  label the object carries is never changed.\<close>

definition ensureLabels :: "(string \<rightharpoonup> string) \<Rightarrow> objmeta \<Rightarrow> objmeta" where
  "ensureLabels base m =
     (if base = Map.empty then m
      else m\<lparr>omLabels := (\<lambda>k. case omLabels m k of
                               Some v \<Rightarrow> Some v
                             | None \<Rightarrow> (case base k of
                                          Some v \<Rightarrow> if v = [] then None else Some v
                                        | None \<Rightarrow> None))\<rparr>)"

definition labelKind :: "(string \<rightharpoonup> string) \<Rightarrow> ((objmeta \<Rightarrow> objmeta) \<Rightarrow> 'o \<Rightarrow> 'o) \<Rightarrow>
    ('w, 'o) kind_api \<Rightarrow> ('w, 'o) kind_api" where
  "labelKind base upd a = a\<lparr>kCreate := (\<lambda>x. kCreate a (upd (ensureLabels base) x)),
                          kUpdate := (\<lambda>x. kUpdate a (upd (ensureLabels base) x))\<rparr>"

text \<open>Status writes go through the embedded client and are not touched.\<close>

definition newLabelingClient :: "'w client \<Rightarrow> (string \<rightharpoonup> string) \<Rightarrow> 'w client" where
  "newLabelingClient c base =
     \<lparr>instances = labelKind base liMeta_update (instances c),
      tokenRequests = labelKind base trMeta_update (tokenRequests c),
      secrets = labelKind base seMeta_update (secrets c),
      deployments = labelKind base dpMeta_update (deployments c),
      services = labelKind base svMeta_update (services c),
      ingresses = labelKind base igMeta_update (ingresses c),
      middlewares = labelKind base unMeta_update (middlewares c),
      endpointsApi = labelKind base enMeta_update (endpointsApi c),
      configMaps = labelKind base cmMeta_update (configMaps c),
      namespaces = labelKind base nsMeta_update (namespaces c),
      certificates = labelKind base unMeta_update (certificates c),
      dnsEntries = labelKind base unMeta_update (dnsEntries c)\<rparr>"

text \<open>Label merging is a converging mutation, so a second write through the client carries the
  same labels as the first.\<close>

definition labelled :: "(string \<rightharpoonup> string) \<Rightarrow> objmeta \<Rightarrow> bool" where
  "labelled base m = (\<forall>k v. base k = Some v \<longrightarrow> v \<noteq> [] \<longrightarrow> omLabels m k \<noteq> None)"

lemma ensureLabels_labelled: "labelled base (ensureLabels base m)"
  by (auto simp: labelled_def ensureLabels_def split: option.split)

lemma ensureLabels_keeps: "omLabels m k = Some v \<Longrightarrow> omLabels (ensureLabels base m) k = Some v"
  by (simp add: ensureLabels_def)

lemma ensureLabels_stable: "labelled base m \<Longrightarrow> ensureLabels base m = m"
proof -
  assume l: "labelled base m"
  have "(\<lambda>k. case omLabels m k of Some v \<Rightarrow> Some v
             | None \<Rightarrow> (case base k of Some v \<Rightarrow> if v = [] then None else Some v | None \<Rightarrow> None))
        = omLabels m"
    using l by (fastforce simp: labelled_def fun_eq_iff split: option.split)
  then show ?thesis by (simp add: ensureLabels_def)
qed

end
