(* ===== verification/GoEncoding.thy ===== *)
theory GoEncoding
  imports GoStrings "HOL-Library.List_Lexorder" "HOL-Library.Char_ord"
begin

text \<open>
  The encodings of the Go standard library that carry identities between the parts of the
  operator: \<^verbatim>\<open>encoding/hex\<close> (derived slugs and object names), \<^verbatim>\<open>encoding/base64\<close> (bearer tokens)
  and the query component of \<^verbatim>\<open>net/url\<close> (the binding that the forwardAuth address hands to
  the authentication server).
\<close>

section \<open>Hexadecimal\<close>

definition hexLower :: "nat \<Rightarrow> char" where
  "hexLower n = ''0123456789abcdef'' ! n"

definition hexUpper :: "nat \<Rightarrow> char" where
  "hexUpper n = ''0123456789ABCDEF'' ! n"

text \<open>The value of a hexadecimal digit of either case, as \<^verbatim>\<open>unhex\<close> of \<^verbatim>\<open>net/url\<close>.\<close>

definition unhex :: "char \<Rightarrow> nat option" where
  "unhex c = (let n = of_char c :: nat in
     if 48 \<le> n \<and> n \<le> 57 then Some (n - 48)
     else if 97 \<le> n \<and> n \<le> 102 then Some (n - 87)
     else if 65 \<le> n \<and> n \<le> 70 then Some (n - 55) else None)"

definition hexEncode :: "string \<Rightarrow> string" where
  "hexEncode s = concat (map (\<lambda>c. let n = of_char c :: nat
                                 in [hexLower (n div 16), hexLower (n mod 16)]) s)"

lemma nat_less_16_cases:
  assumes "\<And>k. k \<in> {0,1,2,3,4,5,6,7,8,9,10,11,12,13,14,15} \<Longrightarrow> P k" and "n < (16::nat)"
  shows "P n"
proof -
  have "n \<in> {0,1,2,3,4,5,6,7,8,9,10,11,12,13,14,15}" using assms(2) by (simp, arith)
  then show ?thesis by (rule assms(1))
qed

lemma unhex_hexLower [simp]: "n < 16 \<Longrightarrow> unhex (hexLower n) = Some n"
  by (rule nat_less_16_cases) (auto simp: unhex_def hexLower_def Let_def)

lemma unhex_hexUpper [simp]: "n < 16 \<Longrightarrow> unhex (hexUpper n) = Some n"
  by (rule nat_less_16_cases) (auto simp: unhex_def hexUpper_def Let_def)

lemma of_char_div_16 [simp]: "(of_char (c :: char) :: nat) div 16 < 16"
  by (rule less_mult_imp_div_less) simp

lemma of_char_div_4 [simp]: "(of_char (c :: char) :: nat) div 4 < 64"
  by (rule less_mult_imp_div_less) simp

lemma of_char_div_64 [simp]: "(of_char (c :: char) :: nat) div 64 < 4"
  by (rule less_mult_imp_div_less) simp

lemma hexEncode_Nil [simp]: "hexEncode [] = []"
  by (simp add: hexEncode_def)

lemma hexEncode_Cons [simp]:
  "hexEncode (c # cs) =
     hexLower (of_char c div 16) # hexLower (of_char c mod 16) # hexEncode cs"
  by (simp add: hexEncode_def Let_def)

lemma length_hexEncode [simp]: "length (hexEncode s) = 2 * length s"
  by (induction s) simp_all

lemma hexEncode_digits: "set (hexEncode s) \<subseteq> set ''0123456789abcdef''"
proof (induction s)
  case (Cons c cs)
  have "hexLower k \<in> set ''0123456789abcdef''" if "k < 16" for k
    using that unfolding hexLower_def by (intro nth_mem) simp
  then show ?case using Cons by simp
qed simp

lemma hexLower_inj: "m < 16 \<Longrightarrow> n < 16 \<Longrightarrow> hexLower m = hexLower n \<Longrightarrow> m = n"
  by (metis option.inject unhex_hexLower)

lemma hexEncode_inj: "hexEncode s = hexEncode t \<Longrightarrow> s = t"
proof (induction s arbitrary: t)
  case Nil
  then show ?case by (cases t) simp_all
next
  case (Cons c cs)
  then obtain d ds where t: "t = d # ds" by (cases t) auto
  let ?c = "of_char c :: nat" and ?d = "of_char d :: nat"
  from Cons.prems t have e: "hexLower (?c div 16) = hexLower (?d div 16)"
      "hexLower (?c mod 16) = hexLower (?d mod 16)" "hexEncode cs = hexEncode ds"
    by auto
  have "?c div 16 = ?d div 16"
    by (rule hexLower_inj [OF _ _ e(1)]) simp_all
  moreover have "?c mod 16 = ?d mod 16" by (rule hexLower_inj [OF _ _ e(2)]) simp_all
  ultimately have "?c = ?d" by (metis div_mult_mod_eq)
  then have "c = d" by simp
  with Cons.IH [OF e(3)] t show ?case by simp
qed

section \<open>URL-safe base64\<close>

definition base64Alphabet :: string where
  "base64Alphabet = ''ABCDEFGHIJKLMNOPQRSTUVWXYZabcdefghijklmnopqrstuvwxyz0123456789-_''"

definition base64url :: "nat \<Rightarrow> char" where
  "base64url n = base64Alphabet ! n"

text \<open>\<^verbatim>\<open>base64.URLEncoding.EncodeToString\<close>: three bytes become four letters, the last group is
  padded with \<^verbatim>\<open>=\<close>.\<close>

fun base64Encode :: "string \<Rightarrow> string" where
  "base64Encode [] = []"
| "base64Encode [a] =
     (let x = of_char a :: nat
      in [base64url (x div 4), base64url (x mod 4 * 16), CHR ''='', CHR ''=''])"
| "base64Encode [a, b] =
     (let x = of_char a :: nat; y = of_char b :: nat
      in [base64url (x div 4), base64url (x mod 4 * 16 + y div 16), base64url (y mod 16 * 4), CHR ''=''])"
| "base64Encode (a # b # c # rest) =
     (let x = of_char a :: nat; y = of_char b :: nat; z = of_char c :: nat
      in [base64url (x div 4), base64url (x mod 4 * 16 + y div 16),
          base64url (y mod 16 * 4 + z div 64), base64url (z mod 64)] @ base64Encode rest)"

lemma length_base64Alphabet [simp]: "length base64Alphabet = 64"
  by (simp add: base64Alphabet_def)

lemma base64url_mem: "n < 64 \<Longrightarrow> base64url n \<in> set base64Alphabet"
  unfolding base64url_def by (intro nth_mem) simp

lemma base64url_inj: "m < 64 \<Longrightarrow> n < 64 \<Longrightarrow> base64url m = base64url n \<Longrightarrow> m = n"
proof -
  have d: "distinct base64Alphabet" by (simp add: base64Alphabet_def)
  show "m < 64 \<Longrightarrow> n < 64 \<Longrightarrow> base64url m = base64url n \<Longrightarrow> m = n"
    unfolding base64url_def using nth_eq_iff_index_eq [OF d, of m n] by simp
qed

lemma base64url_no_pad: "n < 64 \<Longrightarrow> base64url n \<noteq> CHR ''=''"
  using base64url_mem [of n] by (auto simp: base64Alphabet_def)

text \<open>What \<^verbatim>\<open>strings.TrimRight(s, "=")\<close> leaves of an encoding: the padding goes, nothing else.\<close>

fun base64Raw :: "string \<Rightarrow> string" where
  "base64Raw [] = []"
| "base64Raw [a] =
     (let x = of_char a :: nat in [base64url (x div 4), base64url (x mod 4 * 16)])"
| "base64Raw [a, b] =
     (let x = of_char a :: nat; y = of_char b :: nat
      in [base64url (x div 4), base64url (x mod 4 * 16 + y div 16), base64url (y mod 16 * 4)])"
| "base64Raw (a # b # c # rest) =
     (let x = of_char a :: nat; y = of_char b :: nat; z = of_char c :: nat
      in [base64url (x div 4), base64url (x mod 4 * 16 + y div 16),
          base64url (y mod 16 * 4 + z div 64), base64url (z mod 64)] @ base64Raw rest)"

lemma byte_parts:
  fixes a b c :: char
  shows "(of_char a :: nat) div 4 < 64" "(of_char a :: nat) mod 4 * 16 < 64"
    "(of_char a :: nat) mod 4 * 16 + (of_char b :: nat) div 16 < 64"
    "(of_char b :: nat) mod 16 * 4 < 64"
    "(of_char b :: nat) mod 16 * 4 + (of_char c :: nat) div 64 < 64"
    "(of_char c :: nat) mod 64 < 64"
proof -
  have m4: "(of_char a :: nat) mod 4 \<le> 3" by (simp add: less_Suc_eq_le [symmetric])
  have m16: "(of_char b :: nat) mod 16 \<le> 15" by (simp add: less_Suc_eq_le [symmetric])
  show "(of_char a :: nat) div 4 < 64" by simp
  show "(of_char a :: nat) mod 4 * 16 < 64" using m4 by simp
  show "(of_char a :: nat) mod 4 * 16 + (of_char b :: nat) div 16 < 64"
    using m4 of_char_div_16 [of b] by linarith
  show "(of_char b :: nat) mod 16 * 4 < 64" using m16 by simp
  show "(of_char b :: nat) mod 16 * 4 + (of_char c :: nat) div 64 < 64"
    using m16 of_char_div_64 [of c] by linarith
  show "(of_char c :: nat) mod 64 < 64" by simp
qed

lemma base64Raw_alphabet: "set (base64Raw s) \<subseteq> set base64Alphabet"
  by (induction s rule: base64Raw.induct) (simp_all add: Let_def base64url_mem byte_parts)

lemma length_base64Raw: "length (base64Raw s) = (4 * length s + 2) div 3"
  by (induction s rule: base64Raw.induct) (simp_all add: Let_def)


lemma base64Encode_split: "\<exists>k. base64Encode s = base64Raw s @ replicate k (CHR ''='')"
proof (induction s rule: base64Raw.induct)
  case 1
  show ?case by simp
next
  case (2 a)
  show ?case by (rule exI [of _ 2]) (simp add: Let_def numeral_2_eq_2)
next
  case (3 a b)
  show ?case by (rule exI [of _ 1]) (simp add: Let_def)
next
  case (4 a b c rest)
  then show ?case by (simp add: Let_def)
qed

lemma base64Raw_no_pad: "CHR ''='' \<notin> set (base64Raw s)"
  using base64Raw_alphabet [of s] by (auto simp: base64Alphabet_def)

lemma dropWhile_notin: "(\<And>c. c \<in> set xs \<Longrightarrow> \<not> P c) \<Longrightarrow> dropWhile P xs = xs"
  by (cases xs) auto

lemma dropWhile_replicate_append:
  "P c \<Longrightarrow> dropWhile P (replicate k c @ xs) = dropWhile P xs"
  by (induction k) simp_all

lemma trimRight_base64Encode: "trimRight (base64Encode s) ''='' = base64Raw s"
proof -
  obtain k where "base64Encode s = base64Raw s @ replicate k (CHR ''='')"
    using base64Encode_split by blast
  then have "dropWhile (\<lambda>c. c \<in> set ''='') (rev (base64Encode s)) =
      dropWhile (\<lambda>c. c \<in> set ''='') (rev (base64Raw s))"
    by (simp add: dropWhile_replicate_append)
  also have "\<dots> = rev (base64Raw s)"
    by (rule dropWhile_notin) (use base64Raw_no_pad [of s] in auto)
  finally show ?thesis by (simp add: trimRight_def)
qed

lemma split_digits:
  fixes x x' y y' :: nat
  assumes "x * n + y = x' * n + y'" "y < n" "y' < n"
  shows "x = x' \<and> y = y'"
proof -
  have "(x * n + y) div n = x" "(x' * n + y') div n = x'" using assms(2,3) by simp_all
  then have "x = x'" using assms(1) by simp
  then show ?thesis using assms(1) by simp
qed

lemma div_mod_eqI: "(x::nat) div n = y div n \<Longrightarrow> x mod n = y mod n \<Longrightarrow> x = y"
  by (metis div_mult_mod_eq)

lemma base64_first_two:
  fixes a b a' b' :: char
  assumes "base64url (of_char a div 4) = base64url (of_char a' div 4)"
    and "base64url (of_char a mod 4 * 16 + of_char b div 16) =
         base64url (of_char a' mod 4 * 16 + of_char b' div 16)"
  shows "a = a' \<and> (of_char b :: nat) div 16 = of_char b' div 16"
proof -
  have 1: "(of_char a :: nat) div 4 = of_char a' div 4"
    by (rule base64url_inj [OF _ _ assms(1)]) simp_all
  have "(of_char a :: nat) mod 4 * 16 + of_char b div 16 = of_char a' mod 4 * 16 + of_char b' div 16"
    by (rule base64url_inj [OF _ _ assms(2)]) (rule byte_parts)+
  then have 2: "(of_char a :: nat) mod 4 = of_char a' mod 4 \<and> (of_char b :: nat) div 16 = of_char b' div 16"
    by (rule split_digits) simp_all
  from 1 2 have "(of_char a :: nat) = of_char a'" by (blast intro: div_mod_eqI)
  with 2 show ?thesis by simp
qed

lemma base64Raw_inj: "length s = length t \<Longrightarrow> base64Raw s = base64Raw t \<Longrightarrow> s = t"
proof (induction s arbitrary: t rule: base64Raw.induct)
  case 1
  then show ?case by simp
next
  case (2 a)
  then obtain a' where t: "t = [a']" by (cases t) auto
  have 1: "(of_char a :: nat) div 4 = of_char a' div 4"
    by (rule base64url_inj) (use 2 t in \<open>simp_all add: Let_def\<close>)
  have "(of_char a :: nat) mod 4 * 16 = of_char a' mod 4 * 16"
    by (rule base64url_inj) (use 2 t byte_parts in \<open>simp_all add: Let_def\<close>)
  then have "(of_char a :: nat) mod 4 = of_char a' mod 4" by simp
  with 1 have "(of_char a :: nat) = of_char a'" by (rule div_mod_eqI)
  then show ?case by (simp add: t)
next
  case (3 a b)
  from 3(1) have "length t = Suc (Suc 0)" by simp
  then obtain a' b' where t: "t = [a', b']" by (auto simp: length_Suc_conv)
  have ab: "a = a' \<and> (of_char b :: nat) div 16 = of_char b' div 16"
    by (rule base64_first_two) (use 3 t in \<open>simp_all add: Let_def\<close>)
  have "(of_char b :: nat) mod 16 * 4 = of_char b' mod 16 * 4"
    by (rule base64url_inj) (use 3 t byte_parts in \<open>simp_all add: Let_def\<close>)
  then have "(of_char b :: nat) mod 16 = of_char b' mod 16" by simp
  with ab have "(of_char b :: nat) = of_char b'" by (blast intro: div_mod_eqI)
  then show ?case using ab by (simp add: t)
next
  case (4 a b c rest)
  from 4(2) have "length t = Suc (Suc (Suc (length rest)))" by simp
  then obtain a' b' c' rest' where t: "t = a' # b' # c' # rest'"
    by (auto simp: length_Suc_conv)
  have ab: "a = a' \<and> (of_char b :: nat) div 16 = of_char b' div 16"
    by (rule base64_first_two) (use 4(3) t in \<open>simp_all add: Let_def\<close>)
  have "(of_char b :: nat) mod 16 * 4 + of_char c div 64 = of_char b' mod 16 * 4 + of_char c' div 64"
    by (rule base64url_inj) (use 4(3) t byte_parts in \<open>simp_all add: Let_def\<close>)
  then have bc: "(of_char b :: nat) mod 16 = of_char b' mod 16 \<and> (of_char c :: nat) div 64 = of_char c' div 64"
    by (rule split_digits) simp_all
  have "(of_char c :: nat) mod 64 = of_char c' mod 64"
    by (rule base64url_inj) (use 4(3) t byte_parts in \<open>simp_all add: Let_def\<close>)
  with bc have "(of_char c :: nat) = of_char c'" by (blast intro: div_mod_eqI)
  moreover have "(of_char b :: nat) = of_char b'" using ab bc by (blast intro: div_mod_eqI)
  moreover have "rest = rest'" using 4 t by (simp add: Let_def)
  ultimately show ?case using ab by (simp add: t)
qed

section \<open>Query strings\<close>

text \<open>\<^verbatim>\<open>url.QueryEscape\<close>: letters, digits and \<^verbatim>\<open>-_.~\<close> stay, a space becomes \<^verbatim>\<open>+\<close>, every other
  byte is percent-encoded with upper-case digits.\<close>

definition queryUnreserved :: "char \<Rightarrow> bool" where
  "queryUnreserved c = (let n = of_char c :: nat in
     48 \<le> n \<and> n \<le> 57 \<or> 65 \<le> n \<and> n \<le> 90 \<or> 97 \<le> n \<and> n \<le> 122 \<or> c \<in> set ''-_.~'')"

definition queryEscapeChar :: "char \<Rightarrow> string" where
  "queryEscapeChar c =
     (if queryUnreserved c then [c]
      else if c = CHR '' '' then [CHR ''+'']
      else let n = of_char c :: nat in [CHR ''%'', hexUpper (n div 16), hexUpper (n mod 16)])"

definition queryEscape :: "string \<Rightarrow> string" where
  "queryEscape s = concat (map queryEscapeChar s)"

fun queryUnescape :: "string \<Rightarrow> string option" where
  "queryUnescape [] = Some []"
| "queryUnescape (c # cs) =
     (if c = CHR ''%'' then
        (case cs of
           a # b # rest \<Rightarrow>
             (case (unhex a, unhex b) of
                (Some x, Some y) \<Rightarrow> map_option ((#) (char_of (16 * x + y))) (queryUnescape rest)
              | _ \<Rightarrow> None)
         | _ \<Rightarrow> None)
      else map_option ((#) (if c = CHR ''+'' then CHR '' '' else c)) (queryUnescape cs))"

text \<open>\<^verbatim>\<open>url.Values.Encode\<close> of a map given as an association list: sorted by key, one
  \<^verbatim>\<open>key=value\<close> per value, joined by \<^verbatim>\<open>&\<close>.\<close>

definition encodeValues :: "(string \<times> string list) list \<Rightarrow> string" where
  "encodeValues kvs =
     joinStr (concat (map (\<lambda>(k, vs). map (\<lambda>v. queryEscape k @ ''='' @ queryEscape v) vs)
                      (sort_key fst kvs))) ''&''"

fun splitOn :: "char \<Rightarrow> string \<Rightarrow> string list" where
  "splitOn d [] = [[]]"
| "splitOn d (c # cs) =
     (if c = d then [] # splitOn d cs
      else case splitOn d cs of [] \<Rightarrow> [[c]] | x # xs \<Rightarrow> (c # x) # xs)"

text \<open>\<^verbatim>\<open>url.ParseQuery\<close> with its errors dropped, as \<^verbatim>\<open>URL.Query\<close> does: a pair with a semicolon
  or an ill-formed escape is skipped, the others are collected per key in order.\<close>

definition parsePair :: "string \<Rightarrow> (string \<times> string) option" where
  "parsePair p =
     (if CHR '';'' \<in> set p \<or> p = [] then None
      else let k = takeWhile (\<lambda>c. c \<noteq> CHR ''='') p;
               v = drop 1 (dropWhile (\<lambda>c. c \<noteq> CHR ''='') p)
           in case (queryUnescape k, queryUnescape v) of
                (Some k', Some v') \<Rightarrow> Some (k', v') | _ \<Rightarrow> None)"

definition parseQuery :: "string \<Rightarrow> string \<Rightarrow> string list" where
  "parseQuery q key =
     map snd (filter (\<lambda>(k, v). k = key) (List.map_filter parsePair (splitOn (CHR ''&'') q)))"


lemma queryUnescape_escape_append:
  "queryUnescape (queryEscapeChar c @ r) = map_option ((#) c) (queryUnescape r)"
proof (cases "queryUnreserved c")
  case True
  then have "c \<noteq> CHR ''%'' \<and> c \<noteq> CHR ''+''" by (auto simp: queryUnreserved_def)
  with True show ?thesis by (simp add: queryEscapeChar_def)
next
  case False
  then show ?thesis by (simp add: queryEscapeChar_def Let_def)
qed

lemma queryUnescape_queryEscape: "queryUnescape (queryEscape s) = Some s"
proof (induction s)
  case Nil
  show ?case by (simp add: queryEscape_def)
next
  case (Cons c cs)
  then have "queryUnescape (queryEscapeChar c @ queryEscape cs) = Some (c # cs)"
    by (simp add: queryUnescape_escape_append)
  then show ?case by (simp add: queryEscape_def)
qed

text \<open>No delimiter of a query string occurs in an escaped component.\<close>

lemma hexUpper_no_delim: "n < 16 \<Longrightarrow> hexUpper n \<notin> set ''&=;''"
  by (rule nat_less_16_cases) (auto simp: hexUpper_def)

lemma queryEscapeChar_no_delim: "set (queryEscapeChar c) \<inter> set ''&=;'' = {}"
proof (cases "queryUnreserved c")
  case True
  then show ?thesis by (auto simp: queryEscapeChar_def queryUnreserved_def)
next
  case False
  then show ?thesis
    using hexUpper_no_delim [of "of_char c div 16"] hexUpper_no_delim [of "of_char c mod 16"]
    by (auto simp: queryEscapeChar_def Let_def)
qed

lemma queryEscape_no_delim: "set (queryEscape s) \<inter> set ''&=;'' = {}"
  using queryEscapeChar_no_delim by (auto simp: queryEscape_def)

lemma splitOn_no_delim: "d \<notin> set s \<Longrightarrow> splitOn d s = [s]"
  by (induction s) auto

lemma splitOn_append: "d \<notin> set s \<Longrightarrow> splitOn d (s @ d # r) = s # splitOn d r"
  by (induction s) auto

lemma splitOn_joinStr:
  "ps \<noteq> [] \<Longrightarrow> (\<forall>p \<in> set ps. d \<notin> set p) \<Longrightarrow> splitOn d (joinStr ps [d]) = ps"
  by (induction ps "[d]" rule: joinStr.induct) (auto simp: splitOn_no_delim splitOn_append)

lemma parsePair_escaped:
  "parsePair (queryEscape k @ ''='' @ queryEscape v) = Some (k, v)"
proof -
  have k: "\<forall>c \<in> set (queryEscape k). c \<noteq> CHR ''=''" using queryEscape_no_delim [of k] by auto
  have "CHR '';'' \<notin> set (queryEscape k @ ''='' @ queryEscape v)"
    using queryEscape_no_delim [of k] queryEscape_no_delim [of v] by auto
  moreover have "takeWhile (\<lambda>c. c \<noteq> CHR ''='') (queryEscape k @ ''='' @ queryEscape v) = queryEscape k"
    using k by (simp add: takeWhile_append)
  moreover have "dropWhile (\<lambda>c. c \<noteq> CHR ''='') (queryEscape k @ ''='' @ queryEscape v) =
      ''='' @ queryEscape v"
    using k by (simp add: dropWhile_append)
  ultimately show ?thesis by (simp add: parsePair_def Let_def queryUnescape_queryEscape)
qed

text \<open>Round trip: the values of a key come back in order, whatever bytes they hold.\<close>

lemma map_filter_parsePair_escaped:
  "List.map_filter parsePair (concat (map (\<lambda>(k, vs). map (\<lambda>v. queryEscape k @ ''='' @ queryEscape v) vs) kvs))
     = concat (map (\<lambda>(k, vs). map (\<lambda>v. (k, v)) vs) kvs)"
proof (induction kvs)
  case Nil
  show ?case by (simp add: List.map_filter_def)
next
  case (Cons kv kvs)
  obtain k vs where kv: "kv = (k, vs)" by (cases kv)
  have "List.map_filter parsePair (map (\<lambda>v. queryEscape k @ ''='' @ queryEscape v) vs) = map (\<lambda>v. (k, v)) vs"
    by (induction vs) (simp_all add: List.map_filter_simps parsePair_escaped del: append.simps append_Cons)
  with Cons show ?case by (simp add: kv List.map_filter_def)
qed

lemma filter_pairs_absent:
  "key \<notin> fst ` set kvs \<Longrightarrow>
     filter (\<lambda>(k, v). k = key) (concat (map (\<lambda>(k, vs). map (\<lambda>v. (k, v)) vs) kvs)) = []"
  by (auto simp: filter_empty_conv rev_image_eqI)

lemma filter_pairs_of_key:
  "distinct (map fst kvs) \<Longrightarrow> (key, vs) \<in> set kvs \<Longrightarrow>
     map snd (filter (\<lambda>(k, v). k = key) (concat (map (\<lambda>(k, vs). map (\<lambda>v. (k, v)) vs) kvs))) = vs"
proof (induction kvs)
  case (Cons kv kvs)
  obtain k ws where kv: "kv = (k, ws)" by (cases kv)
  show ?case
  proof (cases "k = key")
    case True
    with Cons.prems kv have "ws = vs" and "key \<notin> fst ` set kvs" by (auto simp: rev_image_eqI)
    with True show ?thesis by (simp add: kv filter_pairs_absent comp_def filter_map)
  next
    case False
    with Cons kv show ?thesis by (simp add: comp_def filter_map)
  qed
qed simp

lemma parseQuery_encodeValues:
  assumes "distinct (map fst kvs)" and "(key, vs) \<in> set kvs" and "vs \<noteq> []"
  shows "parseQuery (encodeValues kvs) key = vs"
proof -
  let ?sorted = "sort_key fst kvs"
  let ?ps = "concat (map (\<lambda>(k, vs). map (\<lambda>v. queryEscape k @ ''='' @ queryEscape v) vs) ?sorted)"
  have d: "distinct (map fst ?sorted)"
    using assms(1) by (simp add: distinct_map)
  have mem: "(key, vs) \<in> set ?sorted" using assms(2) by simp
  have ne: "?ps \<noteq> []" using mem assms(3) by fastforce
  have clean: "\<forall>p \<in> set ?ps. CHR ''&'' \<notin> set p"
    using queryEscape_no_delim by fastforce
  have "splitOn (CHR ''&'') (encodeValues kvs) = ?ps"
    unfolding encodeValues_def by (rule splitOn_joinStr [OF ne clean])
  then have "parseQuery (encodeValues kvs) key =
      map snd (filter (\<lambda>(k, v). k = key) (concat (map (\<lambda>(k, vs). map (\<lambda>v. (k, v)) vs) ?sorted)))"
    by (simp only: parseQuery_def map_filter_parsePair_escaped)
  also have "\<dots> = vs" by (rule filter_pairs_of_key [OF d mem])
  finally show ?thesis .
qed

end
