(* ===== verification/Sha256.thy ===== *)
theory Sha256
  imports GoEncoding "HOL-Library.Word"
begin

unbundle bit_operations_syntax

text \<open>
  SHA-256 as \<^verbatim>\<open>crypto/sha256.Sum256\<close> computes it (FIPS 180-4), on byte strings.  Derived slugs,
  remote object names and BYOC target identities are built from it, so it is given in full
  rather than left abstract; what the development uses of it is that it is a function into
  byte strings of length 32.
\<close>

type_synonym word32 = "32 word"

definition rotr32 :: "nat \<Rightarrow> word32 \<Rightarrow> word32" where
  "rotr32 n x = drop_bit n x OR push_bit (32 - n) x"

text \<open>The constants of the standard are the first 32 bits of the fractional parts of roots of the
  first primes: cube roots for the rounds, square roots for the initial state.  \<open>rootBits\<close> finds
  the largest number below \<open>2 ^ 37\<close> whose \<open>k\<close>-th power does not exceed \<open>p\<close> scaled by \<open>2 ^ (32 * k)\<close>.\<close>

definition rootBits :: "nat \<Rightarrow> nat \<Rightarrow> word32" where
  "rootBits k p = word_of_nat (fold (\<lambda>i x. if (x + 2 ^ i) ^ k \<le> p * 2 ^ (32 * k) then x + 2 ^ i else x) (rev [0..<37]) 0)"

definition firstPrimes :: "nat list" where
  "firstPrimes = filter (\<lambda>n. \<forall>d \<in> set [2..<n]. n mod d \<noteq> 0) [2..<312]"

definition shaK :: "word32 list" where
  "shaK = map (rootBits 3) firstPrimes"

datatype sha_state =
  Sha word32 word32 word32 word32 word32 word32 word32 word32

definition shaInit :: sha_state where
  "shaInit = Sha (rootBits 2 2) (rootBits 2 3) (rootBits 2 5) (rootBits 2 7)
     (rootBits 2 11) (rootBits 2 13) (rootBits 2 17) (rootBits 2 19)"

fun shaAdd :: "sha_state \<Rightarrow> sha_state \<Rightarrow> sha_state" where
  "shaAdd (Sha a b c d e f g h) (Sha a' b' c' d' e' f' g' h') =
     Sha (a + a') (b + b') (c + c') (d + d') (e + e') (f + f') (g + g') (h + h')"

text \<open>The message length in bits as eight bytes, most significant first, and the padding to a
  multiple of 64 bytes.\<close>

definition be64 :: "nat \<Rightarrow> string" where
  "be64 n = map (\<lambda>i. char_of (int n div 256 ^ (7 - i))) [0..<8]"

definition shaPad :: "string \<Rightarrow> string" where
  "shaPad m = m @ CHR 0x80 # replicate ((119 - length m mod 64) mod 64) (CHR 0x00) @ be64 (8 * length m)"

fun beWords :: "string \<Rightarrow> word32 list" where
  "beWords (a # b # c # d # rest) =
     word_of_int (((of_char a * 256 + of_char b) * 256 + of_char c) * 256 + of_char d) # beWords rest"
| "beWords _ = []"

text \<open>The message schedule: the window holds the last sixteen words.\<close>

fun shaSchedule :: "nat \<Rightarrow> word32 list \<Rightarrow> word32 list" where
  "shaSchedule 0 w = []"
| "shaSchedule (Suc n) w =
     (case w of
        [] \<Rightarrow> []
      | w0 # rest \<Rightarrow>
          let w1 = rest ! 0; w9 = rest ! 8; w14 = rest ! 13;
              s0 = rotr32 7 w1 XOR rotr32 18 w1 XOR drop_bit 3 w1;
              s1 = rotr32 17 w14 XOR rotr32 19 w14 XOR drop_bit 10 w14
          in w0 # shaSchedule n (rest @ [w0 + s0 + w9 + s1]))"

fun shaRound :: "sha_state \<Rightarrow> word32 \<times> word32 \<Rightarrow> sha_state" where
  "shaRound (Sha a b c d e f g h) (k, w) =
     (let s1 = rotr32 6 e XOR rotr32 11 e XOR rotr32 25 e;
          ch = (e AND f) XOR (NOT e AND g);
          t1 = h + s1 + ch + k + w;
          s0 = rotr32 2 a XOR rotr32 13 a XOR rotr32 22 a;
          maj = (a AND b) XOR (a AND c) XOR (b AND c);
          t2 = s0 + maj
      in Sha (t1 + t2) a b c (d + t1) e f g)"

definition shaBlock :: "sha_state \<Rightarrow> string \<Rightarrow> sha_state" where
  "shaBlock h block = shaAdd h (foldl shaRound h (zip shaK (shaSchedule 64 (beWords block))))"

fun shaBlocks :: "nat \<Rightarrow> sha_state \<Rightarrow> string \<Rightarrow> sha_state" where
  "shaBlocks 0 h m = h"
| "shaBlocks (Suc n) h m = shaBlocks n (shaBlock h (take 64 m)) (drop 64 m)"

definition be32 :: "word32 \<Rightarrow> string" where
  "be32 x = map (\<lambda>i. char_of (uint x div 256 ^ (3 - i))) [0..<4]"

fun shaDigest :: "sha_state \<Rightarrow> string" where
  "shaDigest (Sha a b c d e f g h) =
     be32 a @ be32 b @ be32 c @ be32 d @ be32 e @ be32 f @ be32 g @ be32 h"

definition sha256 :: "string \<Rightarrow> string" where
  "sha256 m = shaDigest (shaBlocks (length (shaPad m) div 64) shaInit (shaPad m))"

lemma length_sha256 [simp]: "length (sha256 m) = 32"
  by (cases "shaBlocks (length (shaPad m) div 64) shaInit (shaPad m)") (simp add: sha256_def be32_def)

text \<open>Padding gives whole blocks, so every byte of the message is processed.\<close>

lemma length_shaPad: "64 dvd length (shaPad m)"
proof -
  define r where "r = length m mod 64"
  have m: "length m = 64 * (length m div 64) + r" and r: "r < 64" by (simp_all add: r_def)
  have len: "length (shaPad m) = length m + (119 - r) mod 64 + 9"
    by (simp add: shaPad_def be64_def r_def)
  show ?thesis
  proof (cases "r \<le> 55")
    case True
    then have "(119 - r) mod 64 = 55 - r" by (simp add: mod_if)
    with True have "length (shaPad m) = (length m - r) + 64" unfolding len using m by linarith
    then have "length (shaPad m) = 64 * (length m div 64) + 64" using m by linarith
    then show ?thesis by simp
  next
    case False
    with r have "(119 - r) mod 64 = 119 - r" by simp
    with False r have "length (shaPad m) = (length m - r) + 128" unfolding len using m by linarith
    then have "length (shaPad m) = 64 * (length m div 64) + 128" using m by linarith
    then show ?thesis by simp
  qed
qed

end
