(* ===== verification/ByocLib.thy ===== *)
theory ByocLib
  imports KubeApi
begin

text \<open>
  What the BYOC mode takes from packages outside the repository, as data and as one record of
  functions: kubeconfig files (\<^verbatim>\<open>client-go/tools/clientcmd\<close>), REST configurations and HTTP clients
  (\<^verbatim>\<open>client-go/rest\<close>, \<^verbatim>\<open>net/http\<close>), X.509 (\<^verbatim>\<open>crypto/x509\<close>, \<^verbatim>\<open>crypto/tls\<close>) and the nested fields of
  unstructured objects (\<^verbatim>\<open>apimachinery\<close>).  Nothing is assumed about these functions.
\<close>

section \<open>Kubeconfig\<close>

text \<open>A nil entry of one of the three maps is an absent one.\<close>

record kube_context =
  kxCluster :: string
  kxAuthInfo :: string

record kube_cluster =
  kcServer :: string
  kcInsecureSkipTLSVerify :: bool
  kcCertificateAuthority :: string
  kcProxyURL :: string

record kube_auth =
  kaExec :: bool            \<comment> \<open>an exec plugin is configured\<close>
  kaAuthProvider :: bool    \<comment> \<open>an auth provider is configured\<close>
  kaTokenFile :: string
  kaClientCertificate :: string
  kaClientKey :: string

record kubeconfig =
  kgCurrentContext :: string
  kgContexts :: "string \<rightharpoonup> kube_context"
  kgClusters :: "string \<rightharpoonup> kube_cluster"
  kgAuthInfos :: "string \<rightharpoonup> kube_auth"

text \<open>How a REST configuration chooses a proxy: from the environment or never.\<close>

datatype proxy_choice = ProxyFromEnvironment | NoProxy

record rest_config =
  rcHost :: string
  rcServerName :: string
  rcCAData :: string
  rcTimeout :: nat          \<comment> \<open>seconds\<close>
  rcProxy :: proxy_choice

record http_client =
  hcConfig :: rest_config
  hcFollowsRedirects :: bool

section \<open>Certificates\<close>

datatype key_usage = ServerAuth | OtherUsage nat

datatype public_key = RSAKey nat | ECDSAKey nat | OtherKey   \<comment> \<open>size in bits\<close>

record x509_cert =
  xcIsCA :: bool
  xcDNSNames :: "string list"
  xcIPAddresses :: "string list"
  xcEmailAddresses :: "string list"
  xcURIs :: "string list"
  xcNotBefore :: time
  xcNotAfter :: time
  xcExtKeyUsage :: "key_usage list"
  xcPublicKey :: public_key
  xcRaw :: string

text \<open>The state of a TLS connection: number of verified chains, raw peer certificates.\<close>

record tls_state =
  tsVerifiedChains :: nat
  tsPeerCertificates :: "string list"

record https_response =
  hrTLS :: "tls_state option"
  hrStatusCode :: int

section \<open>The functions\<close>

record 'w byoc_lib =
  blLoad :: "string \<Rightarrow> kubeconfig option"                        \<comment> \<open>\<^verbatim>\<open>clientcmd.Load\<close>\<close>
  blRESTConfig :: "string \<Rightarrow> rest_config option"                 \<comment> \<open>\<^verbatim>\<open>clientcmd.RESTConfigFromKubeConfig\<close>\<close>
  blHTTPClientFor :: "rest_config \<Rightarrow> goerr + http_client"        \<comment> \<open>\<^verbatim>\<open>rest.HTTPClientFor\<close>\<close>
  blNewClient :: "rest_config \<Rightarrow> http_client \<Rightarrow> goerr + 'w client" \<comment> \<open>\<^verbatim>\<open>client.New\<close>\<close>
  blKeyPair :: "string \<Rightarrow> string \<Rightarrow> (string \<times> string list) option" \<comment> \<open>\<^verbatim>\<open>tls.X509KeyPair\<close>: leaf and rest of the chain\<close>
  blParseCertificate :: "string \<Rightarrow> x509_cert option"
  blVerify :: "x509_cert \<Rightarrow> string \<Rightarrow> x509_cert list \<Rightarrow> time \<Rightarrow> bool"
    \<comment> \<open>\<^verbatim>\<open>Certificate.Verify\<close> for server authentication: leaf, DNS name, intermediates, current time\<close>
  blHTTPSGet :: "string \<Rightarrow> 'w \<Rightarrow> (goerr + https_response) \<times> 'w"    \<comment> \<open>a GET with TLS 1.2 or later, without redirects\<close>
  blRFC3339 :: "string \<Rightarrow> bool"                                  \<comment> \<open>\<^verbatim>\<open>time.Parse(time.RFC3339, s)\<close> succeeds\<close>
  blNestedString :: "unstructured \<Rightarrow> string list \<Rightarrow> string"       \<comment> \<open>\<^verbatim>\<open>NestedString\<close>, empty if absent or of another type\<close>
  blNestedInt64 :: "unstructured \<Rightarrow> string list \<Rightarrow> int"
  blNestedField :: "unstructured \<Rightarrow> string list \<Rightarrow> goerr + jvalue option"

text \<open>Calling a function of the host that may fail.\<close>

definition hostE :: "('w \<Rightarrow> (goerr + 'a) \<times> 'w) \<Rightarrow> ('w, 'a) io" where
  "hostE f = (\<lambda>s. case f (world s) of (r, w) \<Rightarrow> (r, s\<lparr>world := w\<rparr>))"

definition hostErrE :: "('w \<Rightarrow> goerr option \<times> 'w) \<Rightarrow> ('w, unit) io" where
  "hostErrE f = (\<lambda>s. case f (world s) of (r, w) \<Rightarrow> (case r of None \<Rightarrow> Inr () | Some e \<Rightarrow> Inl e, s\<lparr>world := w\<rparr>))"

lemma emits_hostE [emits_intros]: "emits G (hostE f)"
  by (simp add: emits_def hostE_def split: prod.split)

lemma emits_hostErrE [emits_intros]: "emits G (hostErrE f)"
  by (simp add: emits_def hostErrE_def split: prod.split)

lemma yields_hostE: "yields (hostE f) (\<lambda>x. \<exists>w. fst (f w) = Inr x)"
  by (rule yieldsI) (auto simp: hostE_def split: prod.splits, metis fst_conv)

lemma yields_hostErrE: "yields (hostErrE f) (\<lambda>_. \<exists>w. fst (f w) = None)"
  by (rule yieldsI) (auto simp: hostErrE_def split: prod.splits option.splits, metis fst_conv)

end
