(* ===== verification/Samples.thy ===== *)
theory Samples
  imports ByocLib
begin

text \<open>
  A concrete instance of the library record, used by the witnesses of the development: it
  behaves as the documentation of the Kubernetes functions says (validation by character
  class and length, controller references, finalizers and conditions kept as lists).  Together
  with \<open>cannedKind\<close>, a client that answers every request with fixed responses, it shows that the
  hypotheses of the theorems can be met.  No theorem about the code rests on these choices.
\<close>

definition lowerAlnum :: "char \<Rightarrow> bool" where
  "lowerAlnum c = (c \<in> set ''abcdefghijklmnopqrstuvwxyz0123456789'')"

definition anyAlnum :: "char \<Rightarrow> bool" where
  "anyAlnum c = (lowerAlnum c \<or> c \<in> set ''ABCDEFGHIJKLMNOPQRSTUVWXYZ'')"

definition dnsLabel :: "string \<Rightarrow> bool" where
  "dnsLabel s = (s \<noteq> [] \<and> length s \<le> 63 \<and> lowerAlnum (hd s) \<and> lowerAlnum (last s) \<and>
     list_all (\<lambda>c. lowerAlnum c \<or> c = CHR 0x2D) s)"

definition dnsSubdomain :: "string \<Rightarrow> bool" where
  "dnsSubdomain s = (s \<noteq> [] \<and> length s \<le> 253 \<and> lowerAlnum (hd s) \<and> lowerAlnum (last s) \<and>
     list_all (\<lambda>c. lowerAlnum c \<or> c = CHR 0x2D \<or> c = CHR 0x2E) s)"

definition labelValue :: "string \<Rightarrow> bool" where
  "labelValue s = (s = [] \<or> (length s \<le> 63 \<and> anyAlnum (hd s) \<and> anyAlnum (last s) \<and>
     list_all (\<lambda>c. anyAlnum c \<or> c \<in> set ''-_.'') s))"

definition controllerOf :: "objmeta \<Rightarrow> owner_ref option" where
  "controllerOf m = find orController (omOwners m)"

definition controllerRef :: "string \<Rightarrow> objmeta \<Rightarrow> owner_ref" where
  "controllerRef kind owner = \<lparr>orAPIVersion = groupVersion, orKind = kind, orName = omName owner,
     orUID = omUID owner, orController = True\<rparr>"

definition takeControl :: "string \<Rightarrow> objmeta \<Rightarrow> objmeta \<Rightarrow> goerr + objmeta" where
  "takeControl kind owner m =
     (case controllerOf m of
        Some r \<Rightarrow> if orUID r = omUID owner then Inr m else Inl (errNew ''already owned by another controller'')
      | None \<Rightarrow> Inr (m\<lparr>omOwners := omOwners m @ [controllerRef kind owner]\<rparr>))"

fun putCondition :: "condition list \<Rightarrow> condition \<Rightarrow> condition list" where
  "putCondition [] c = [c]"
| "putCondition (d # ds) c = (if cdType d = cdType c then c # ds else d # putCondition ds c)"

text \<open>A decimal number with one of the suffixes that the operator's own quantities use.\<close>

definition decimalQuantity :: "string \<Rightarrow> quantity" where
  "decimalQuantity s =
     (let digits = takeWhile (\<lambda>c. digitVal c \<noteq> None) s; suffix = dropWhile (\<lambda>c. digitVal c \<noteq> None) s;
          n = int (case parseNat 0 digits of None \<Rightarrow> 0 | Some n \<Rightarrow> n)
      in if suffix = ''m'' then n * 10 ^ 6
         else if suffix = ''Mi'' then n * 2 ^ 20 * 10 ^ 9
         else if suffix = ''Gi'' then n * 2 ^ 30 * 10 ^ 9
         else n * 10 ^ 9)"

text \<open>Fields of an unstructured object below its spec: reading at a path, and writing there with the maps on the
  way made as needed.\<close>

fun fieldAt :: "jvalue option \<Rightarrow> string list \<Rightarrow> jvalue option" where
  "fieldAt v [] = v"
| "fieldAt (Some (JObj m)) (p # path) = fieldAt (m p) path"
| "fieldAt _ (p # path) = None"

fun putField :: "jvalue \<Rightarrow> jvalue option \<Rightarrow> string list \<Rightarrow> jvalue" where
  "putField x v [] = x"
| "putField x (Some (JObj m)) (p # path) = JObj (m(p \<mapsto> putField x (m p) path))"
| "putField x _ (p # path) = JObj [p \<mapsto> putField x None path]"

lemma fieldAt_putField [simp]: "fieldAt (Some (putField x v path)) path = Some x"
  by (induction x v path rule: putField.induct) simp_all

definition mapAt :: "unstructured \<Rightarrow> string list \<Rightarrow> goerr + (string \<rightharpoonup> jvalue)" where
  "mapAt u path = (case fieldAt (unSpec u) (tl path) of
     None \<Rightarrow> Inr Map.empty | Some (JObj m) \<Rightarrow> Inr m | Some _ \<Rightarrow> Inl (errNew ''not a map''))"

definition stringsAt :: "unstructured \<Rightarrow> string list \<Rightarrow> goerr + string list" where
  "stringsAt u path = (case fieldAt (unSpec u) (tl path) of
     None \<Rightarrow> Inr []
   | Some (JList vs) \<Rightarrow> if list_all (\<lambda>v. case v of JStr _ \<Rightarrow> True | _ \<Rightarrow> False) vs then Inr (map (\<lambda>v. case v of JStr t \<Rightarrow> t | _ \<Rightarrow> []) vs)
       else Inl (errNew ''not a string'')
   | Some _ \<Rightarrow> Inl (errNew ''not a list''))"

definition putSpec :: "jvalue \<Rightarrow> unstructured \<Rightarrow> string list \<Rightarrow> unstructured" where
  "putSpec x u path = u\<lparr>unSpec := Some (putField x (unSpec u) (tl path))\<rparr>"

definition sampleLib :: kube_lib where
  "sampleLib = \<lparr>isDNS1123Label = dnsLabel, isDNS1123Subdomain = dnsSubdomain,
     isValidLabelValue = labelValue, getControllerOf = controllerOf,
     isControlledBy = (\<lambda>m owner. case controllerOf m of None \<Rightarrow> False | Some r \<Rightarrow> orUID r = omUID owner),
     setControllerReference = takeControl,
     containsFinalizer = (\<lambda>m f. f \<in> set (omFinalizers m)),
     addFinalizer = (\<lambda>m f. if f \<in> set (omFinalizers m) then m else m\<lparr>omFinalizers := omFinalizers m @ [f]\<rparr>),
     removeFinalizer = (\<lambda>m f. m\<lparr>omFinalizers := filter (\<lambda>x. x \<noteq> f) (omFinalizers m)\<rparr>),
     setStatusCondition = (\<lambda>now. putCondition),
     findStatusCondition = (\<lambda>cs t. find (\<lambda>c. cdType c = t) cs),
     mustParse = decimalQuantity,
     quantityMilliValue = (\<lambda>q. q div 10 ^ 6), quantityValue = (\<lambda>q. q div 10 ^ 9),
     nestedStringSlice = stringsAt,
     setNestedStringSlice = (\<lambda>u xs path. Inr (putSpec (JList (map JStr xs)) u path)),
     nestedMap = mapAt,
     setNestedMap = (\<lambda>u m path. Inr (putSpec (JObj m) u path))\<rparr>"

lemma mapAt_putSpec [simp]: "mapAt (putSpec (JObj m) u path) path = Inr m"
  by (simp add: mapAt_def putSpec_def)

lemmas sampleLib_simps =
  sampleLib_def dnsLabel_def dnsSubdomain_def labelValue_def lowerAlnum_def anyAlnum_def

text \<open>A kind whose requests are answered with given objects.\<close>

definition cannedKind :: "(key \<Rightarrow> api_error + 'o) \<Rightarrow> 'o list \<Rightarrow> ('w, 'o) kind_api" where
  "cannedKind get items = \<lparr>kGet = (\<lambda>k w. (get k, w)), kList = (\<lambda>_ w. (Inr items, w)),
     kCreate = (\<lambda>x w. (Inr x, w)), kUpdate = (\<lambda>x w. (Inr x, w)), kStatusUpdate = (\<lambda>x w. (Inr x, w)),
     kStatusPatch = (\<lambda>_ x w. (Inr x, w)), kDelete = (\<lambda>_ _ w. (Inr (), w))\<rparr>"

definition absent :: "key \<Rightarrow> api_error + 'o" where
  "absent k = Inl (ApiError NotFound ''not found'')"

definition emptyClient :: "unit client" where
  "emptyClient = \<lparr>instances = cannedKind absent [], tokenRequests = cannedKind absent [],
     secrets = cannedKind absent [], deployments = cannedKind absent [], services = cannedKind absent [],
     ingresses = cannedKind absent [], middlewares = cannedKind absent [], endpointsApi = cannedKind absent [],
     configMaps = cannedKind absent [], namespaces = cannedKind absent [],
     certificates = cannedKind absent [], dnsEntries = cannedKind absent []\<rparr>"

definition sampleHost :: "unit host" where
  "sampleHost = \<lparr>nowText = (\<lambda>_. ''2025-01-01T00:00:00Z''), nowTime = (\<lambda>_. 0),
     randRead = (\<lambda>n w. (Inr (replicate n (CHR 0x2A)), w))\<rparr>"

text \<open>An instance, a request for a key of it, and the secret that holds the key.\<close>

definition sampleObj :: "string \<Rightarrow> string \<Rightarrow> objmeta" where
  "sampleObj u n = (newMeta ''default'' n)\<lparr>omUID := u, omCreation := Some 5\<rparr>"

definition demoInstance :: llm_instance where
  "demoInstance = \<lparr>liMeta = sampleObj ''u1'' ''a'',
     liSpec = \<lparr>spModel = [], spReplicas = 1, spResources = None, spContextSize = None, spParallelSlots = None,
       spDNSPolicy = [], spClusterRef = None\<rparr>,
     liStatus = \<lparr>stSlug = ''alpha'', stSlugSource = ''Legacy'', stPhase = [], stEndpoint = ''e'',
       stActiveBYOCKubeconfigSecretName = [], stActiveBYOCTargetID = [], stActiveBYOCTLSDomain = [],
       stActiveBYOCTLSNamespace = [], stActiveBYOCSlug = [], stObservedGeneration = 0, stConditions = []\<rparr>\<rparr>"

definition startSys :: "unit sys" where
  "startSys = \<lparr>world = (), journal = [], held = demoInstance\<rparr>"

text \<open>Certificates that are read as their own DNS name, one kubeconfig, and a given client behind it.\<close>

definition sampleKubeconfig :: kubeconfig where
  "sampleKubeconfig = \<lparr>kgCurrentContext = ''ctx'', kgContexts = [''ctx'' \<mapsto> \<lparr>kxCluster = ''cl'', kxAuthInfo = ''usr''\<rparr>],
     kgClusters = [''cl'' \<mapsto> \<lparr>kcServer = ''https://api.example'', kcInsecureSkipTLSVerify = False,
       kcCertificateAuthority = [], kcProxyURL = []\<rparr>], kgAuthInfos = Map.empty\<rparr>"

definition sampleCertificate :: "string \<Rightarrow> x509_cert" where
  "sampleCertificate raw = \<lparr>xcIsCA = False, xcDNSNames = [raw], xcIPAddresses = [], xcEmailAddresses = [], xcURIs = [],
     xcNotBefore = -1, xcNotAfter = 10 ^ 18, xcExtKeyUsage = [ServerAuth], xcPublicKey = RSAKey 2048, xcRaw = raw\<rparr>"

definition sampleByoc :: "'w client \<Rightarrow> 'w byoc_lib" where
  "sampleByoc remote = \<lparr>blLoad = (\<lambda>d. if d = [] then None else Some sampleKubeconfig),
     blRESTConfig = (\<lambda>d. Some \<lparr>rcHost = ''https://api.example'', rcServerName = [], rcCAData = d, rcTimeout = 0,
       rcProxy = ProxyFromEnvironment\<rparr>),
     blHTTPClientFor = (\<lambda>c. Inr \<lparr>hcConfig = c, hcFollowsRedirects = True\<rparr>),
     blNewClient = (\<lambda>_ _. Inr remote),
     blKeyPair = (\<lambda>c k. if c = [] \<or> k = [] then None else Some (c, [])),
     blParseCertificate = (\<lambda>raw. Some (sampleCertificate raw)),
     blVerify = (\<lambda>c h _ _. h \<in> set (xcDNSNames c)),
     blHTTPSGet = (\<lambda>u w. (Inr \<lparr>hrTLS = Some \<lparr>tsVerifiedChains = 1, tsPeerCertificates = [u]\<rparr>, hrStatusCode = 200\<rparr>, w)),
     blRFC3339 = (\<lambda>_. True), blNestedString = (\<lambda>_ _. []), blNestedInt64 = (\<lambda>_ _. 0),
     blNestedField = (\<lambda>_ _. Inr None)\<rparr>"

definition demoToken :: token_request where
  "demoToken = \<lparr>trMeta = (newMeta ''default'' ''t'')\<lparr>omUID := ''u9''\<rparr>,
     trSpec = \<lparr>tsInstanceName = ''a'', tsDescription = []\<rparr>,
     trStatus = \<lparr>ttPhase = [], ttSecretName = ''t-token'', ttObservedGeneration = 0, ttConditions = []\<rparr>\<rparr>"

definition demoSecret :: secret where
  "demoSecret = \<lparr>seMeta = (newMeta ''default'' ''t-token'')\<lparr>
       omLabels := [''llm.privatellms.msp/instance'' \<mapsto> ''a'', ''llm.privatellms.msp/apitokenrequest'' \<mapsto> ''t'',
         ''llm.privatellms.msp/slug'' \<mapsto> ''alpha''],
       omAnnotations := [''llm.privatellms.msp/credential-instance-uid'' \<mapsto> ''u1''],
       omOwners := [controllerRef ''APITokenRequest'' (trMeta demoToken)]\<rparr>,
     seType = ''Opaque'', seData = [''OPENAI_API_KEY'' \<mapsto> ''k''], seStringData = Map.empty\<rparr>"


end
