(* ===== verification/SlugPolicy.thy ===== *)
theory SlugPolicy
  imports KubeApi Sha256 Samples
begin

text \<open>
  \<^verbatim>\<open>internal/slugpolicy/policy.go\<close>: the operator-owned policy that maps an LLMInstance to the
  slug under which it is routed.  \<open>Parse\<close> admits a policy file, \<open>Select\<close> chooses the slug of an
  object.

  Two standard-library decoders are arguments of \<open>Parse\<close>: the JSON syntax (bytes to the first
  document of the input, with the input behind it) and \<^verbatim>\<open>time.Parse(time.RFC3339, _)\<close>; every
  statement below holds for all of them.  The Kubernetes validation functions come from the
  library record.

  The interface that routing and authentication rely on is the locale \<open>slug_selection\<close>,
  interpreted at the end on \<open>Select\<close>.
\<close>

section \<open>Data\<close>

definition Legacy :: string where "Legacy = ''Legacy''"
definition Derived :: string where "Derived = ''Derived''"
definition legacyMode :: string where "legacyMode = ''legacy''"
definition deriveMode :: string where "deriveMode = ''derive''"

record entry =
  peUID :: string
  peNamespace :: string
  peName :: string
  peMode :: string
  peSlug :: string

record configuration =
  cfCutover :: string
  cfEntries :: "entry list"

record policy =
  polCutover :: time
  polEntries :: "string \<rightharpoonup> entry"

record selection =
  slSlug :: string
  slSource :: string

section \<open>Decoding the configuration\<close>

text \<open>A JSON document; an object keeps its fields in order, repeated keys included.\<close>

datatype json =
    JsNull
  | JsBool bool
  | JsNum string
  | JsStr string
  | JsArr "json list"
  | JsObj "(string \<times> json) list"

definition policyFields :: "string list" where
  "policyFields = [''cutover'', ''entries'', ''uid'', ''namespace'', ''name'', ''mode'', ''slug'']"

text \<open>\<^verbatim>\<open>rejectDuplicateKeys\<close>: \<open>keys\<close> are the field names already seen in the object at hand.\<close>

function rejectDuplicateKeys :: "json \<Rightarrow> goerr option"
  and rejectFields :: "string list \<Rightarrow> (string \<times> json) list \<Rightarrow> goerr option"
  and rejectItems :: "json list \<Rightarrow> goerr option" where
  "rejectDuplicateKeys v =
     (case v of JsObj kvs \<Rightarrow> rejectFields [] kvs | JsArr vs \<Rightarrow> rejectItems vs | _ \<Rightarrow> None)"
| "rejectFields keys kvs =
     (case kvs of
        [] \<Rightarrow> None
      | (name, v) # rest \<Rightarrow>
          if name \<in> set keys then Some (errNew ''duplicate or invalid object field'')
          else if name \<notin> set policyFields then Some (errNew ''unknown or noncanonical object field'')
          else case rejectDuplicateKeys v of
                 Some e \<Rightarrow> Some e
               | None \<Rightarrow> rejectFields (name # keys) rest)"
| "rejectItems vs =
     (case vs of
        [] \<Rightarrow> None
      | v # rest \<Rightarrow> (case rejectDuplicateKeys v of Some e \<Rightarrow> Some e | None \<Rightarrow> rejectItems rest))"
  by pat_completeness auto
termination
  by (relation "measure (\<lambda>x. case x of
        Inl v \<Rightarrow> 2 * size v
      | Inr (Inl (keys, kvs)) \<Rightarrow> 2 * size_list (size_prod (\<lambda>_. 0) size) kvs + 1
      | Inr (Inr vs) \<Rightarrow> 2 * size_list size vs + 1)") auto

declare rejectDuplicateKeys.simps [simp del] rejectFields.simps [simp del] rejectItems.simps [simp del]

text \<open>Decoding a string field: \<^verbatim>\<open>null\<close> leaves it alone, any other type is an error.\<close>

definition decodeString :: "json \<Rightarrow> string \<Rightarrow> goerr + string" where
  "decodeString v old =
     (case v of JsStr s \<Rightarrow> Inr s | JsNull \<Rightarrow> Inr old
      | _ \<Rightarrow> Inl (errNew ''json: cannot unmarshal value into Go struct field''))"

definition unknownField :: goerr where
  "unknownField = errNew ''json: unknown field''"

fun decodeEntryFields :: "(string \<times> json) list \<Rightarrow> entry \<Rightarrow> goerr + entry" where
  "decodeEntryFields [] e = Inr e"
| "decodeEntryFields ((k, v) # kvs) e =
     (let upd = (\<lambda>old set. case decodeString v old of Inl err \<Rightarrow> Inl err
                                             | Inr s \<Rightarrow> decodeEntryFields kvs (set s))
      in if k = ''uid'' then upd (peUID e) (\<lambda>s. e\<lparr>peUID := s\<rparr>)
         else if k = ''namespace'' then upd (peNamespace e) (\<lambda>s. e\<lparr>peNamespace := s\<rparr>)
         else if k = ''name'' then upd (peName e) (\<lambda>s. e\<lparr>peName := s\<rparr>)
         else if k = ''mode'' then upd (peMode e) (\<lambda>s. e\<lparr>peMode := s\<rparr>)
         else if k = ''slug'' then upd (peSlug e) (\<lambda>s. e\<lparr>peSlug := s\<rparr>)
         else Inl unknownField)"

definition emptyEntry :: entry where
  "emptyEntry = \<lparr>peUID = [], peNamespace = [], peName = [], peMode = [], peSlug = []\<rparr>"

definition decodeEntry :: "json \<Rightarrow> goerr + entry" where
  "decodeEntry v =
     (case v of JsObj kvs \<Rightarrow> decodeEntryFields kvs emptyEntry | JsNull \<Rightarrow> Inr emptyEntry
      | _ \<Rightarrow> Inl (errNew ''json: cannot unmarshal value into entry''))"

fun decodeEntries :: "json list \<Rightarrow> goerr + entry list" where
  "decodeEntries [] = Inr []"
| "decodeEntries (v # vs) =
     (case decodeEntry v of
        Inl e \<Rightarrow> Inl e
      | Inr x \<Rightarrow> (case decodeEntries vs of Inl e \<Rightarrow> Inl e | Inr xs \<Rightarrow> Inr (x # xs)))"

fun decodeConfigFields :: "(string \<times> json) list \<Rightarrow> configuration \<Rightarrow> goerr + configuration" where
  "decodeConfigFields [] c = Inr c"
| "decodeConfigFields ((k, v) # kvs) c =
     (if k = ''cutover'' then
        (case decodeString v (cfCutover c) of
           Inl e \<Rightarrow> Inl e | Inr s \<Rightarrow> decodeConfigFields kvs (c\<lparr>cfCutover := s\<rparr>))
      else if k = ''entries'' then
        (case v of
           JsArr vs \<Rightarrow> (case decodeEntries vs of
                          Inl e \<Rightarrow> Inl e | Inr xs \<Rightarrow> decodeConfigFields kvs (c\<lparr>cfEntries := xs\<rparr>))
         | JsNull \<Rightarrow> decodeConfigFields kvs (c\<lparr>cfEntries := []\<rparr>)
         | _ \<Rightarrow> Inl (errNew ''json: cannot unmarshal value into entries''))
      else Inl unknownField)"

definition decodeConfig :: "json \<Rightarrow> goerr + configuration" where
  "decodeConfig v =
     (let c = \<lparr>cfCutover = [], cfEntries = []\<rparr>
      in case v of JsObj kvs \<Rightarrow> decodeConfigFields kvs c | JsNull \<Rightarrow> Inr c
         | _ \<Rightarrow> Inl (errNew ''json: cannot unmarshal value into configuration''))"

section \<open>Validation of the entries\<close>

definition validateEntry :: "kube_lib \<Rightarrow> entry \<Rightarrow> goerr option" where
  "validateEntry L item =
     (if peUID item = [] \<or> trimSpace (peUID item) \<noteq> peUID item \<or>
         \<not> isDNS1123Label L (peNamespace item) \<or> \<not> isDNS1123Subdomain L (peName item)
      then Some (errNew ''slug policy entry requires UID, namespace and name'')
      else if peMode item = legacyMode then
        (if peSlug item = [] \<or> \<not> isValidLabelValue L (peSlug item) \<or>
            hasPrefix (peSlug item) ''llm-'' \<or> hasPrefix ''llm-'' (peSlug item)
         then Some (errNew ''legacy slug must be a nonempty label value outside the reserved llm- prefix'')
         else None)
      else if peMode item = deriveMode then
        (if peSlug item \<noteq> [] then Some (errNew ''derive entries must not supply a slug'') else None)
      else Some (errNew ''slug policy entry mode must be legacy or derive''))"

definition entryIdentity :: "entry \<Rightarrow> string" where
  "entryIdentity item = peNamespace item @ ''/'' @ peName item"

text \<open>The loop of \<^verbatim>\<open>Parse\<close>, with its two sets of the slugs and identities admitted so far.\<close>

fun parseEntries :: "kube_lib \<Rightarrow> entry list \<Rightarrow> (string \<rightharpoonup> entry) \<Rightarrow> string set \<Rightarrow> string set
    \<Rightarrow> goerr + (string \<rightharpoonup> entry)" where
  "parseEntries L [] m slugs identities = Inr m"
| "parseEntries L (item # items) m slugs identities =
     (case validateEntry L item of
        Some e \<Rightarrow> Inl e
      | None \<Rightarrow>
          if m (peUID item) \<noteq> None \<or> entryIdentity item \<in> identities
          then Inl (errNew ''slug policy contains duplicate instance identity'')
          else if peMode item = legacyMode \<and>
            (\<exists>slug \<in> slugs. hasPrefix slug (peSlug item) \<or> hasPrefix (peSlug item) slug)
          then Inl (errNew ''slug policy contains duplicate or prefix-overlapping legacy slugs'')
          else parseEntries L items (m(peUID item \<mapsto> item))
            (if peMode item = legacyMode then insert (peSlug item) slugs else slugs)
            (insert (entryIdentity item) identities))"

section \<open>Parse\<close>

text \<open>A reader: the bytes it delivers and the error, if any, that ends it early.\<close>

record reader =
  rdBytes :: string
  rdError :: "goerr option"

definition policyLimit :: nat where
  "policyLimit = 2 ^ 20"

definition readPolicy :: "reader \<Rightarrow> goerr + string" where
  "readPolicy rd =
     (if length (rdBytes rd) \<ge> policyLimit + 1 then Inr (take (policyLimit + 1) (rdBytes rd))
      else case rdError rd of
             Some e \<Rightarrow> Inl (Errorf ''read slug policy'' [e])
           | None \<Rightarrow> Inr (rdBytes rd))"

text \<open>The zero \<^verbatim>\<open>time.Time\<close>: 1 January of the year 1.\<close>

definition zeroTime :: time where
  "zeroTime = - 62135596800 * 10 ^ 9"

definition Parse :: "kube_lib \<Rightarrow> (string \<Rightarrow> (json \<times> string) option) \<Rightarrow> (string \<Rightarrow> time option)
    \<Rightarrow> reader \<Rightarrow> goerr + policy" where
  "Parse L decodeJSON parseRFC3339 rd =
     (case readPolicy rd of
        Inl e \<Rightarrow> Inl e
      | Inr data \<Rightarrow>
          if length data > policyLimit then Inl (errNew ''slug policy exceeds 1 MiB'')
          else case decodeJSON data of
            None \<Rightarrow> Inl (errNew ''invalid slug policy JSON'')
          | Some (doc, rest) \<Rightarrow>
              (case rejectDuplicateKeys doc of
                 Some e \<Rightarrow> Inl (Errorf ''invalid slug policy JSON'' [e])
               | None \<Rightarrow>
                 (case decodeConfig doc of
                    Inl e \<Rightarrow> Inl (Errorf ''decode slug policy'' [e])
                  | Inr config \<Rightarrow>
                    if \<not> set rest \<subseteq> set [CHR 0x20, CHR 0x09, CHR 0x0D, CHR 0x0A]
                    then Inl (errNew ''slug policy must contain exactly one JSON document'')
                    else case parseRFC3339 (cfCutover config) of
                      None \<Rightarrow> Inl (errNew ''slug policy requires a fixed RFC3339 cutover timestamp'')
                    | Some cutover \<Rightarrow>
                      if cutover = zeroTime
                      then Inl (errNew ''slug policy requires a fixed RFC3339 cutover timestamp'')
                      else (case parseEntries L (cfEntries config) Map.empty {} {} of
                         Inl e \<Rightarrow> Inl e
                       | Inr m \<Rightarrow> Inr \<lparr>polCutover = cutover, polEntries = m\<rparr>))))"

section \<open>Select\<close>

definition slugDigest :: "string \<Rightarrow> string" where
  "slugDigest uid = take 16 (sha256 (''llm.privatellms.msp/slug/v1:'' @ uid))"

definition derivedSlug :: "string \<Rightarrow> string" where
  "derivedSlug uid = ''llm-'' @ hexEncode (slugDigest uid)"

text \<open>\<open>None\<close> is the nil policy.  An entry whose mode is not \<^verbatim>\<open>legacy\<close> falls through to the derived
  slug, as the missing \<^verbatim>\<open>else\<close> in the code does.\<close>

definition Select :: "policy option \<Rightarrow> objmeta \<Rightarrow> goerr + selection" where
  "Select p obj =
     (case p of
        None \<Rightarrow> Inl ErrIdentity
      | Some pol \<Rightarrow>
          (case omCreation obj of
             None \<Rightarrow> Inl ErrIdentity
           | Some created \<Rightarrow>
               if omUID obj = [] then Inl ErrIdentity
               else
                 let derived = Inr \<lparr>slSlug = derivedSlug (omUID obj), slSource = Derived\<rparr>
                 in case polEntries pol (omUID obj) of
                      Some item \<Rightarrow>
                        if peNamespace item \<noteq> omNamespace obj \<or> peName item \<noteq> omName obj
                        then Inl ErrIdentity
                        else if peMode item = legacyMode
                        then Inr \<lparr>slSlug = peSlug item, slSource = Legacy\<rparr>
                        else derived
                    | None \<Rightarrow> if \<not> created > polCutover pol then Inl ErrLegacyUnmapped else derived))"


section \<open>What an admitted policy guarantees\<close>

text \<open>The documents without repeated or unexpected field names.\<close>

inductive clearKeys :: "json \<Rightarrow> bool" where
  clear_null: "clearKeys JsNull"
| clear_bool: "clearKeys (JsBool b)"
| clear_num: "clearKeys (JsNum n)"
| clear_str: "clearKeys (JsStr s)"
| clear_arr: "\<forall>v \<in> set vs. clearKeys v \<Longrightarrow> clearKeys (JsArr vs)"
| clear_obj: "distinct (map fst kvs) \<Longrightarrow> set (map fst kvs) \<subseteq> set policyFields \<Longrightarrow>
    \<forall>v \<in> set (map snd kvs). clearKeys v \<Longrightarrow> clearKeys (JsObj kvs)"

lemma reject_sound:
  "rejectDuplicateKeys v = None \<Longrightarrow> clearKeys v"
  "rejectFields keys kvs = None \<Longrightarrow> distinct (map fst kvs) \<and> set (map fst kvs) \<inter> set keys = {} \<and>
     set (map fst kvs) \<subseteq> set policyFields \<and> (\<forall>v \<in> set (map snd kvs). clearKeys v)"
  "rejectItems vs = None \<Longrightarrow> (\<forall>v \<in> set vs. clearKeys v)"
proof (induction v and keys kvs and vs rule: rejectDuplicateKeys_rejectFields_rejectItems.induct)
  case (1 v)
  then show ?case
    by (cases v) (auto simp: rejectDuplicateKeys.simps intro!: clearKeys.intros)
next
  case (2 keys kvs)
  show ?case
  proof (cases kvs)
    case (Cons kv rest)
    obtain name v where kv: "kv = (name, v)" by (cases kv)
    have ok: "name \<notin> set keys" "name \<in> set policyFields" "rejectDuplicateKeys v = None"
      "rejectFields (name # keys) rest = None"
      using "2.prems" by (auto simp: rejectFields.simps [of keys "(name, v) # rest"] Cons kv split: if_splits option.splits)
    have "clearKeys v" using "2.IH"(1) Cons kv ok by auto
    moreover have "distinct (map fst rest) \<and> set (map fst rest) \<inter> set (name # keys) = {} \<and>
        set (map fst rest) \<subseteq> set policyFields \<and> (\<forall>v \<in> set (map snd rest). clearKeys v)"
      using "2.IH"(2) Cons kv ok by auto
    ultimately show ?thesis using ok Cons kv by auto
  qed simp
next
  case (3 vs)
  show ?case
  proof (cases vs)
    case (Cons v rest)
    then have "rejectDuplicateKeys v = None" "rejectItems rest = None"
      using "3.prems" by (auto simp: rejectItems.simps [of "v # rest"] split: option.splits)
    with "3.IH" Cons show ?thesis by auto
  qed simp
qed

text \<open>
  A well-formed policy: entries stand under their own UID and passed validation; two entries
  never share an instance, and two legacy slugs are never prefixes of one another.
\<close>

definition policyWf :: "kube_lib \<Rightarrow> policy \<Rightarrow> bool" where
  "policyWf L p \<longleftrightarrow>
     (\<forall>u e. polEntries p u = Some e \<longrightarrow> peUID e = u \<and> validateEntry L e = None) \<and>
     (\<forall>u v e f. polEntries p u = Some e \<longrightarrow> polEntries p v = Some f \<longrightarrow> u \<noteq> v \<longrightarrow>
        (peNamespace e, peName e) \<noteq> (peNamespace f, peName f)) \<and>
     (\<forall>u v e f. polEntries p u = Some e \<longrightarrow> polEntries p v = Some f \<longrightarrow> u \<noteq> v \<longrightarrow>
        peMode e = legacyMode \<longrightarrow> peMode f = legacyMode \<longrightarrow> \<not> prefix (peSlug e) (peSlug f))"

text \<open>The loop invariant: the two sets describe exactly the entries admitted so far.\<close>

definition entriesInv :: "kube_lib \<Rightarrow> (string \<rightharpoonup> entry) \<Rightarrow> string set \<Rightarrow> string set \<Rightarrow> bool" where
  "entriesInv L m slugs identities \<longleftrightarrow>
     policyWf L \<lparr>polCutover = 0, polEntries = m\<rparr> \<and>
     slugs = {peSlug e | u e. m u = Some e \<and> peMode e = legacyMode} \<and>
     identities = {entryIdentity e | u e. m u = Some e}"

lemma entriesInv_empty: "entriesInv L Map.empty {} {}"
  by (simp add: entriesInv_def policyWf_def)

lemma entriesInv_insert:
  assumes inv: "entriesInv L m slugs identities"
    and valid: "validateEntry L item = None"
    and fresh: "m (peUID item) = None" "entryIdentity item \<notin> identities"
    and apart: "\<not> (peMode item = legacyMode \<and>
        (\<exists>slug \<in> slugs. hasPrefix slug (peSlug item) \<or> hasPrefix (peSlug item) slug))"
  shows "entriesInv L (m(peUID item \<mapsto> item))
     (if peMode item = legacyMode then insert (peSlug item) slugs else slugs)
     (insert (entryIdentity item) identities)"
proof -
  have other: "m u = Some e \<Longrightarrow> u \<noteq> peUID item" for u e using fresh(1) by auto
  have ident: "m u = Some e \<Longrightarrow> (peNamespace e, peName e) \<noteq> (peNamespace item, peName item)" for u e
    using inv fresh(2) by (auto simp: entriesInv_def entryIdentity_def)
  have slug: "m u = Some e \<Longrightarrow> peMode e = legacyMode \<Longrightarrow> peMode item = legacyMode \<Longrightarrow>
      \<not> prefix (peSlug e) (peSlug item) \<and> \<not> prefix (peSlug item) (peSlug e)" for u e
    using inv apart by (auto simp: entriesInv_def)
  have w1: "m u = Some e \<Longrightarrow> peUID e = u \<and> validateEntry L e = None" for u e
    using inv by (simp add: entriesInv_def policyWf_def)
  have w2: "m u = Some e \<Longrightarrow> m v = Some f \<Longrightarrow> u \<noteq> v \<Longrightarrow>
      (peNamespace e, peName e) \<noteq> (peNamespace f, peName f)" for u v e f
    using inv unfolding entriesInv_def policyWf_def policy.simps by blast
  have w3: "m u = Some e \<Longrightarrow> m v = Some f \<Longrightarrow> u \<noteq> v \<Longrightarrow> peMode e = legacyMode \<Longrightarrow>
      peMode f = legacyMode \<Longrightarrow> \<not> prefix (peSlug e) (peSlug f)" for u v e f
    using inv unfolding entriesInv_def policyWf_def policy.simps by blast
  have wf: "policyWf L \<lparr>polCutover = 0, polEntries = m(peUID item \<mapsto> item)\<rparr>"
    unfolding policyWf_def policy.simps
  proof (intro conjI allI impI)
    fix u e assume "(m(peUID item \<mapsto> item)) u = Some e"
    then show "peUID e = u" "validateEntry L e = None" using w1 valid by (auto split: if_splits)
  next
    fix u v e f
    assume "(m(peUID item \<mapsto> item)) u = Some e" "(m(peUID item \<mapsto> item)) v = Some f" "u \<noteq> v"
    then show "(peNamespace e, peName e) \<noteq> (peNamespace f, peName f)"
      using w2 [of u e v f] ident [of u e] ident [of v f] by (auto split: if_splits)
  next
    fix u v e f
    assume "(m(peUID item \<mapsto> item)) u = Some e" "(m(peUID item \<mapsto> item)) v = Some f" "u \<noteq> v"
      "peMode e = legacyMode" "peMode f = legacyMode"
    then show "\<not> prefix (peSlug e) (peSlug f)"
      using w3 [of u e v f] slug [of u e] slug [of v f] by (auto split: if_splits)
  qed
  have s: "{peSlug e | u e. (m(peUID item \<mapsto> item)) u = Some e \<and> peMode e = legacyMode} =
      (if peMode item = legacyMode then insert (peSlug item) slugs else slugs)"
    using inv other by (auto simp: entriesInv_def split: if_splits)
  have i: "{entryIdentity e | u e. (m(peUID item \<mapsto> item)) u = Some e} = insert (entryIdentity item) identities"
    using inv other by (auto simp: entriesInv_def split: if_splits)
  show ?thesis unfolding entriesInv_def using wf s i by simp
qed

lemma parseEntries_wf:
  "parseEntries L items m slugs identities = Inr m' \<Longrightarrow> entriesInv L m slugs identities \<Longrightarrow>
     \<exists>slugs' identities'. entriesInv L m' slugs' identities'"
proof (induction L items m slugs identities rule: parseEntries.induct)
  case (1 L m slugs identities)
  then show ?case by auto
next
  case (2 L item items m slugs identities)
  from "2.prems"(1) have ok: "validateEntry L item = None" "m (peUID item) = None"
      "entryIdentity item \<notin> identities"
      "\<not> (peMode item = legacyMode \<and>
        (\<exists>slug \<in> slugs. hasPrefix slug (peSlug item) \<or> hasPrefix (peSlug item) slug))"
    by (auto split: option.splits if_splits)
  have "entriesInv L (m(peUID item \<mapsto> item))
     (if peMode item = legacyMode then insert (peSlug item) slugs else slugs)
     (insert (entryIdentity item) identities)"
    by (rule entriesInv_insert [OF "2.prems"(2) ok])
  moreover have "parseEntries L items (m(peUID item \<mapsto> item))
     (if peMode item = legacyMode then insert (peSlug item) slugs else slugs)
     (insert (entryIdentity item) identities) = Inr m'"
    using "2.prems"(1) ok by simp
  ultimately show ?case using "2.IH" [OF ok(1) _ ok(4)] ok(2,3) by blast
qed


lemma Parse_Inr:
  assumes "Parse L decodeJSON parseRFC3339 rd = Inr p"
  shows "\<exists>doc rest config.
    decodeJSON (rdBytes rd) = Some (doc, rest) \<and> length (rdBytes rd) \<le> policyLimit \<and>
    rejectDuplicateKeys doc = None \<and> decodeConfig doc = Inr config \<and>
    parseRFC3339 (cfCutover config) = Some (polCutover p) \<and>
    parseEntries L (cfEntries config) Map.empty {} {} = Inr (polEntries p)"
proof -
  from assms obtain data where d: "readPolicy rd = Inr data" "\<not> length data > policyLimit"
    by (auto simp: Parse_def split: sum.splits if_splits)
  then have "data = rdBytes rd" "length (rdBytes rd) \<le> policyLimit"
    by (auto simp: readPolicy_def split: if_splits option.splits)
  with assms d show ?thesis
    by (auto simp: Parse_def split: sum.splits if_splits option.splits prod.splits)
qed

lemma Parse_policyWf: "Parse L decodeJSON parseRFC3339 rd = Inr p \<Longrightarrow> policyWf L p"
proof -
  assume "Parse L decodeJSON parseRFC3339 rd = Inr p"
  from Parse_Inr [OF this] obtain config :: configuration
    where "parseEntries L (cfEntries config) Map.empty {} {} = Inr (polEntries p)"
    by auto
  then obtain s i where "entriesInv L (polEntries p) s i"
    using parseEntries_wf entriesInv_empty by blast
  then have "policyWf L \<lparr>polCutover = 0, polEntries = polEntries p\<rparr>" by (simp add: entriesInv_def)
  then show "policyWf L p" by (simp add: policyWf_def)
qed

section \<open>What a selection guarantees\<close>

lemma length_slugDigest [simp]: "length (slugDigest uid) = 16"
  by (simp add: slugDigest_def)

lemma length_derivedSlug [simp]: "length (derivedSlug uid) = 36"
  by (simp add: derivedSlug_def)

lemma derivedSlug_inj: "derivedSlug u = derivedSlug v \<longleftrightarrow> slugDigest u = slugDigest v"
  by (auto simp: derivedSlug_def dest: hexEncode_inj)

lemma derivedSlug_prefix_iff: "prefix (derivedSlug u) (derivedSlug v) \<longleftrightarrow> slugDigest u = slugDigest v"
  using prefix_same_length [of "derivedSlug u" "derivedSlug v"] derivedSlug_inj [of u v] by auto

lemma derivedSlug_reserved: "prefix ''llm-'' (derivedSlug uid)"
  by (simp add: derivedSlug_def)

text \<open>The three ways in which a selection can succeed.\<close>

lemma Select_cases:
  assumes "Select (Some p) obj = Inr sel"
  obtains
    (legacy) item where "polEntries p (omUID obj) = Some item" "peMode item = legacyMode"
      "peNamespace item = omNamespace obj" "peName item = omName obj"
      "sel = \<lparr>slSlug = peSlug item, slSource = Legacy\<rparr>" "omUID obj \<noteq> []"
  | (mapped) item where "polEntries p (omUID obj) = Some item" "peMode item \<noteq> legacyMode"
      "peNamespace item = omNamespace obj" "peName item = omName obj"
      "sel = \<lparr>slSlug = derivedSlug (omUID obj), slSource = Derived\<rparr>" "omUID obj \<noteq> []"
  | (fresh) created where "polEntries p (omUID obj) = None" "omCreation obj = Some created"
      "created > polCutover p"
      "sel = \<lparr>slSlug = derivedSlug (omUID obj), slSource = Derived\<rparr>" "omUID obj \<noteq> []"
  using assms
  by (auto simp: Select_def Let_def split: option.splits if_splits)

lemma Select_source: "Select (Some p) obj = Inr sel \<Longrightarrow> slSource sel = Legacy \<or> slSource sel = Derived"
  by (erule Select_cases) simp_all

lemma Select_Some_policy: "Select p obj = Inr sel \<Longrightarrow> \<exists>q. p = Some q"
  by (cases p) (simp_all add: Select_def)

lemma legacy_entry_slug:
  assumes "policyWf L p" "polEntries p u = Some item" "peMode item = legacyMode"
  shows "peSlug item \<noteq> []" "\<not> prefix ''llm-'' (peSlug item)" "\<not> prefix (peSlug item) ''llm-''"
    "isValidLabelValue L (peSlug item)"
proof -
  have v: "validateEntry L item = None" using assms unfolding policyWf_def by blast
  show "peSlug item \<noteq> []" "\<not> prefix ''llm-'' (peSlug item)" "\<not> prefix (peSlug item) ''llm-''"
    "isValidLabelValue L (peSlug item)"
    using v assms(3) by (simp_all add: validateEntry_def split: if_splits)
qed

lemma legacy_not_derived:
  assumes "policyWf L p" "polEntries p u = Some item" "peMode item = legacyMode"
  shows "\<not> prefix (peSlug item) (derivedSlug v)" "\<not> prefix (derivedSlug v) (peSlug item)"
proof -
  note l = legacy_entry_slug [OF assms]
  show "\<not> prefix (peSlug item) (derivedSlug v)"
    using l(2,3) derivedSlug_reserved prefix_same_cases by blast
  show "\<not> prefix (derivedSlug v) (peSlug item)"
    using l(2) derivedSlug_reserved prefix_order.trans by blast
qed

lemma Select_disjoint:
  assumes wf: "policyWf L p"
    and a: "Select (Some p) a = Inr x" and b: "Select (Some p) b = Inr y"
    and uid: "omUID a \<noteq> omUID b"
    and coll: "slugDigest (omUID a) = slugDigest (omUID b) \<Longrightarrow> slSource x = Legacy \<or> slSource y = Legacy"
  shows "\<not> prefix (slSlug x) (slSlug y)"
  using a
proof (cases rule: Select_cases)
  case (legacy item)
  note la = legacy
  show ?thesis using b
  proof (cases rule: Select_cases)
    case (legacy item')
    with la wf uid show ?thesis by (simp add: policyWf_def)
  qed (use la wf legacy_not_derived in auto)
next
  case (mapped item)
  note d = this
  show ?thesis using b
  proof (cases rule: Select_cases)
    case (legacy item')
    with d wf show ?thesis by (simp add: legacy_not_derived)
  qed (use d coll in \<open>auto simp: derivedSlug_prefix_iff Legacy_def Derived_def\<close>)
next
  case (fresh created)
  note d = this
  show ?thesis using b
  proof (cases rule: Select_cases)
    case (legacy item')
    with d wf show ?thesis by (simp add: legacy_not_derived)
  qed (use d coll in \<open>auto simp: derivedSlug_prefix_iff Legacy_def Derived_def\<close>)
qed

section \<open>The interface to routing and authentication\<close>

text \<open>
  What a client of the policy relies on: a selection identifies its object (it is determined
  by the immutable identity, and an object without a UID is refused), and the slugs of two
  objects never overlap as path prefixes.  \<open>clash\<close> is the exception that no proof removes: two
  derived identities with the same truncated digest.
\<close>

locale slug_selection =
  fixes wf :: "'p \<Rightarrow> bool"
    and sel :: "'p \<Rightarrow> objmeta \<Rightarrow> goerr + selection"
    and clash :: "string \<Rightarrow> string \<Rightarrow> bool"
  assumes sel_identity: "omUID a = omUID b \<Longrightarrow> omNamespace a = omNamespace b \<Longrightarrow>
      omName a = omName b \<Longrightarrow> omCreation a = omCreation b \<Longrightarrow> sel p a = sel p b"
    and sel_uid: "sel p a = Inr x \<Longrightarrow> omUID a \<noteq> []"
    and sel_apart: "wf p \<Longrightarrow> sel p a = Inr x \<Longrightarrow> sel p b = Inr y \<Longrightarrow> omUID a \<noteq> omUID b \<Longrightarrow>
      \<not> clash (omUID a) (omUID b) \<Longrightarrow> \<not> prefix (slSlug x) (slSlug y)"
    and clash_sym: "clash u v \<Longrightarrow> clash v u"
begin

text \<open>The route of an object and the route of another never shadow one another.\<close>

lemma routes_apart:
  assumes "wf p" "sel p a = Inr x" "sel p b = Inr y" "omUID a \<noteq> omUID b" "\<not> clash (omUID a) (omUID b)"
  shows "\<not> prefix (''/llm/'' @ slSlug x) (''/llm/'' @ slSlug y) \<and>
    \<not> prefix (''/llm/'' @ slSlug y) (''/llm/'' @ slSlug x)"
  using assms sel_apart [of p a x b y] sel_apart [of p b y a x] clash_sym by auto

lemma slug_determines_uid:
  assumes "wf p" "sel p a = Inr x" "sel p b = Inr y" "slSlug x = slSlug y" "\<not> clash (omUID a) (omUID b)"
  shows "omUID a = omUID b"
  using assms sel_apart [of p a x b y] by auto

end

definition digestClash :: "string \<Rightarrow> string \<Rightarrow> bool" where
  "digestClash u v = (slugDigest u = slugDigest v)"

text \<open>\<open>Select\<close> provides the interface, for a well-formed (or nil) policy.\<close>

interpretation policy_select: slug_selection
  "\<lambda>(L, p). case p of None \<Rightarrow> True | Some q \<Rightarrow> policyWf L q" "\<lambda>(L, p). Select p" digestClash
proof
  fix a b :: objmeta and Lp :: "kube_lib \<times> policy option"
  assume "omUID a = omUID b" "omNamespace a = omNamespace b" "omName a = omName b" "omCreation a = omCreation b"
  then show "(case Lp of (L, p) \<Rightarrow> Select p) a = (case Lp of (L, p) \<Rightarrow> Select p) b"
    by (cases Lp) (simp add: Select_def Let_def split: option.split)
next
  fix a x and Lp :: "kube_lib \<times> policy option"
  assume "(case Lp of (L, p) \<Rightarrow> Select p) a = Inr x"
  then show "omUID a \<noteq> []"
    by (cases Lp) (auto simp: Select_def split: option.splits if_splits)
next
  fix a b x y and Lp :: "kube_lib \<times> policy option"
  assume wf: "case Lp of (L, p) \<Rightarrow> case p of None \<Rightarrow> True | Some q \<Rightarrow> policyWf L q"
    and sa: "(case Lp of (L, p) \<Rightarrow> Select p) a = Inr x" and sb: "(case Lp of (L, p) \<Rightarrow> Select p) b = Inr y"
    and ne: "omUID a \<noteq> omUID b" and cl: "\<not> digestClash (omUID a) (omUID b)"
  obtain L p where Lp: "Lp = (L, p)" by (cases Lp)
  with sa Select_Some_policy obtain q where p: "p = Some q" by fastforce
  show "\<not> prefix (slSlug x) (slSlug y)"
    by (rule Select_disjoint [of L q a x b y]) (use wf sa sb ne cl Lp p in \<open>simp_all add: digestClash_def\<close>)
qed (simp add: digestClash_def)

section \<open>Which entries are admitted\<close>

text \<open>The declarative form of the admission loop: entries are valid one by one, no two share a
  UID or an instance, and no legacy slug is a prefix of another one.\<close>

definition slugsApart :: "entry \<Rightarrow> entry \<Rightarrow> bool" where
  "slugsApart e f = (peMode e = legacyMode \<longrightarrow> peMode f = legacyMode \<longrightarrow>
     \<not> prefix (peSlug e) (peSlug f) \<and> \<not> prefix (peSlug f) (peSlug e))"

definition admissible :: "kube_lib \<Rightarrow> entry list \<Rightarrow> bool" where
  "admissible L items =
     (list_all (\<lambda>e. validateEntry L e = None) items \<and> distinct (map peUID items) \<and>
      distinct (map entryIdentity items) \<and> sorted_wrt slugsApart items)"

definition legacySlugs :: "entry list \<Rightarrow> string set" where
  "legacySlugs items = peSlug ` {e \<in> set items. peMode e = legacyMode}"

lemma legacySlugs_Cons:
  "legacySlugs (item # items) =
     (if peMode item = legacyMode then insert (peSlug item) (legacySlugs items) else legacySlugs items)"
  by (auto simp: legacySlugs_def)

lemma parseEntries_gen:
  assumes "dom m = peUID ` set done" "slugs = legacySlugs done" "identities = entryIdentity ` set done"
  shows "(\<exists>m'. parseEntries L items m slugs identities = Inr m') \<longleftrightarrow>
    admissible L items \<and>
    (\<forall>e \<in> set items. \<forall>d \<in> set done. peUID e \<noteq> peUID d \<and> entryIdentity e \<noteq> entryIdentity d \<and> slugsApart d e)"
  using assms
proof (induction items arbitrary: m slugs identities "done")
  case Nil
  then show ?case by (simp add: admissible_def)
next
  case (Cons item items)
  let ?fresh = "\<forall>d \<in> set done. peUID item \<noteq> peUID d \<and> entryIdentity item \<noteq> entryIdentity d \<and> slugsApart d item"
  have fresh: "?fresh \<longleftrightarrow> m (peUID item) = None \<and> entryIdentity item \<notin> identities \<and>
      \<not> (peMode item = legacyMode \<and>
        (\<exists>slug \<in> slugs. hasPrefix slug (peSlug item) \<or> hasPrefix (peSlug item) slug))"
    using Cons.prems by (auto simp: domIff [symmetric] slugsApart_def legacySlugs_def)
  have dm: "dom (m(peUID item \<mapsto> item)) = peUID ` set (item # done)"
    using Cons.prems(1) by (simp only: dom_fun_upd) simp
  have IH: "(\<exists>m'. parseEntries L items (m(peUID item \<mapsto> item))
       (if peMode item = legacyMode then insert (peSlug item) slugs else slugs)
       (insert (entryIdentity item) identities) = Inr m') \<longleftrightarrow>
    admissible L items \<and> (\<forall>e \<in> set items. \<forall>d \<in> set (item # done).
       peUID e \<noteq> peUID d \<and> entryIdentity e \<noteq> entryIdentity d \<and> slugsApart d e)"
    by (rule Cons.IH [OF dm]) (use Cons.prems in \<open>simp_all add: legacySlugs_Cons\<close>)
  have "(\<exists>m'. parseEntries L (item # items) m slugs identities = Inr m') \<longleftrightarrow>
      validateEntry L item = None \<and> ?fresh \<and> (\<exists>m'. parseEntries L items (m(peUID item \<mapsto> item))
       (if peMode item = legacyMode then insert (peSlug item) slugs else slugs)
       (insert (entryIdentity item) identities) = Inr m')"
    unfolding fresh by (auto split: option.splits)
  also have "\<dots> \<longleftrightarrow> admissible L (item # items) \<and> (\<forall>e \<in> set (item # items). \<forall>d \<in> set done.
      peUID e \<noteq> peUID d \<and> entryIdentity e \<noteq> entryIdentity d \<and> slugsApart d e)"
    unfolding IH admissible_def by (simp add: ball_conj_distrib) (blast dest: sym)
  finally show ?case .
qed

lemma parseEntries_Inr_iff:
  "(\<exists>m. parseEntries L items Map.empty {} {} = Inr m) \<longleftrightarrow> admissible L items"
  using parseEntries_gen [of Map.empty "[]" "{}" "{}" L items] by (simp add: legacySlugs_def)

lemma admissible_nth:
  "admissible L items \<longleftrightarrow>
    (\<forall>i < length items. validateEntry L (items ! i) = None) \<and>
    (\<forall>i < length items. \<forall>j < length items. i \<noteq> j \<longrightarrow>
       peUID (items ! i) \<noteq> peUID (items ! j) \<and> entryIdentity (items ! i) \<noteq> entryIdentity (items ! j) \<and>
       slugsApart (items ! i) (items ! j))"
proof -
  have sym: "slugsApart e f \<longleftrightarrow> slugsApart f e" for e f by (auto simp: slugsApart_def)
  have "sorted_wrt slugsApart items \<longleftrightarrow>
      (\<forall>i < length items. \<forall>j < length items. i \<noteq> j \<longrightarrow> slugsApart (items ! i) (items ! j))"
  proof
    assume r: "sorted_wrt slugsApart items"
    show "\<forall>i < length items. \<forall>j < length items. i \<noteq> j \<longrightarrow> slugsApart (items ! i) (items ! j)"
    proof (intro allI impI)
      fix i j assume "i < length items" "j < length items" "i \<noteq> j"
      with r show "slugsApart (items ! i) (items ! j)"
        using sym [of "items ! i" "items ! j"] by (cases "i < j") (auto simp: sorted_wrt_iff_nth_less)
    qed
  qed (simp add: sorted_wrt_iff_nth_less)
  then show ?thesis
    unfolding admissible_def list_all_length distinct_conv_nth by (simp add: nth_map) blast
qed

section \<open>Properties\<close>

text \<open>\<^bold>\<open>C8.\<close> A policy file that is admitted is unambiguous: every entry stands under its own UID,
  names a namespace and an instance, and either is a \<^verbatim>\<open>derive\<close> entry without a slug or a legacy entry
  whose nonempty slug lies outside the reserved prefix \<^verbatim>\<open>llm-\<close>; two entries never name the same
  instance and two legacy slugs never are prefixes of one another.\<close>

theorem Parse_admits_unambiguous:
  assumes "Parse L decodeJSON parseRFC3339 rd = Inr p"
    and "polEntries p u = Some e"
  shows "peUID e = u \<and> u \<noteq> [] \<and> isDNS1123Label L (peNamespace e) \<and> isDNS1123Subdomain L (peName e) \<and>
    (peMode e = deriveMode \<and> peSlug e = [] \<or>
     peMode e = legacyMode \<and> peSlug e \<noteq> [] \<and> isValidLabelValue L (peSlug e) \<and> \<not> prefix ''llm-'' (peSlug e)) \<and>
    (\<forall>v f. polEntries p v = Some f \<longrightarrow> u \<noteq> v \<longrightarrow>
       (peNamespace e, peName e) \<noteq> (peNamespace f, peName f) \<and>
       (peMode e = legacyMode \<longrightarrow> peMode f = legacyMode \<longrightarrow> \<not> prefix (peSlug e) (peSlug f)))"
proof -
  have wf: "policyWf L p" using assms(1) by (rule Parse_policyWf)
  then have "peUID e = u" "validateEntry L e = None" using assms(2) by (auto simp: policyWf_def)
  then have "peUID e = u \<and> u \<noteq> [] \<and> isDNS1123Label L (peNamespace e) \<and> isDNS1123Subdomain L (peName e) \<and>
    (peMode e = deriveMode \<and> peSlug e = [] \<or>
     peMode e = legacyMode \<and> peSlug e \<noteq> [] \<and> isValidLabelValue L (peSlug e) \<and> \<not> prefix ''llm-'' (peSlug e))"
    by (simp add: validateEntry_def split: if_splits)
  moreover have "\<forall>v f. polEntries p v = Some f \<longrightarrow> u \<noteq> v \<longrightarrow>
       (peNamespace e, peName e) \<noteq> (peNamespace f, peName f) \<and>
       (peMode e = legacyMode \<longrightarrow> peMode f = legacyMode \<longrightarrow> \<not> prefix (peSlug e) (peSlug f))"
    using wf assms(2) unfolding policyWf_def by blast
  ultimately show ?thesis by blast
qed

text \<open>\<^bold>\<open>C1.\<close> Routes are isolated: under an admitted policy the path prefixes of two instances
  with different UIDs never shadow each other, unless both are derived and the truncated SHA-256
  digests of their UIDs collide.\<close>

theorem Select_routes_isolated:
  assumes "Parse L decodeJSON parseRFC3339 rd = Inr p"
    and "Select (Some p) a = Inr x" and "Select (Some p) b = Inr y"
    and "omUID a \<noteq> omUID b"
    and "slSource x = Derived \<and> slSource y = Derived \<longrightarrow> slugDigest (omUID a) \<noteq> slugDigest (omUID b)"
  shows "\<not> prefix (''/llm/'' @ slSlug x) (''/llm/'' @ slSlug y) \<and>
    \<not> prefix (''/llm/'' @ slSlug y) (''/llm/'' @ slSlug x)"
proof -
  note wf = Parse_policyWf [OF assms(1)]
  have src: "slSource x = Legacy \<or> slSource x = Derived" "slSource y = Legacy \<or> slSource y = Derived"
    using Select_source assms(2,3) by blast+
  have "\<not> prefix (slSlug x) (slSlug y)"
    by (rule Select_disjoint [OF wf assms(2,3,4)]) (use src assms(5) in blast)
  moreover have "\<not> prefix (slSlug y) (slSlug x)"
    by (rule Select_disjoint [OF wf assms(3,2)]) (use src assms(4,5) in auto)
  ultimately show ?thesis by simp
qed

text \<open>The outcome of a selection, on every branch: an object without UID or creation time
  and one whose UID is mapped to another namespace or name are refused; a mapped object gets its
  reviewed slug or, in \<^verbatim>\<open>derive\<close> mode, the digest of its UID; an unmapped object created at or before
  the cutover is refused, never renamed, and a later one gets the digest.  In particular labels,
  annotations and every other field of the object have no influence.\<close>

theorem Select_outcome:
  assumes "omUID obj \<noteq> []" and "omCreation obj = Some created"
  shows "Select (Some p) obj =
    (case polEntries p (omUID obj) of
       None \<Rightarrow> if created \<le> polCutover p then Inl ErrLegacyUnmapped
              else Inr \<lparr>slSlug = ''llm-'' @ hexEncode (slugDigest (omUID obj)), slSource = Derived\<rparr>
     | Some e \<Rightarrow> if (peNamespace e, peName e) \<noteq> (omNamespace obj, omName obj) then Inl ErrIdentity
         else if peMode e = legacyMode then Inr \<lparr>slSlug = peSlug e, slSource = Legacy\<rparr>
         else Inr \<lparr>slSlug = ''llm-'' @ hexEncode (slugDigest (omUID obj)), slSource = Derived\<rparr>)"
  using assms by (auto simp: Select_def derivedSlug_def Let_def split: option.split)

text \<open>\<^bold>\<open>C40.\<close> The admission loop accepts exactly the admissible lists of entries, whatever their order:
  valid one by one, with pairwise different UIDs and instances, and with legacy slugs none of
  which is a prefix of another.\<close>

theorem parseEntries_complete:
  "(\<exists>m. parseEntries L items Map.empty {} {} = Inr m) \<longleftrightarrow>
    (\<forall>i < length items. validateEntry L (items ! i) = None) \<and>
    (\<forall>i < length items. \<forall>j < length items. i \<noteq> j \<longrightarrow>
       peUID (items ! i) \<noteq> peUID (items ! j) \<and> entryIdentity (items ! i) \<noteq> entryIdentity (items ! j) \<and>
       (peMode (items ! i) = legacyMode \<longrightarrow> peMode (items ! j) = legacyMode \<longrightarrow>
          \<not> prefix (peSlug (items ! i)) (peSlug (items ! j))))"
  unfolding parseEntries_Inr_iff admissible_nth by (auto simp: slugsApart_def)

text \<open>A policy document with a repeated field name, or a name that is not one of the
  seven of the format, at any depth is never admitted; neither is one of more than 1 MiB.\<close>

theorem Parse_document_clear:
  assumes "Parse L decodeJSON parseRFC3339 rd = Inr p"
  shows "length (rdBytes rd) \<le> 2 ^ 20 \<and> (\<exists>doc rest. decodeJSON (rdBytes rd) = Some (doc, rest) \<and> clearKeys doc)"
  using Parse_Inr [OF assms] reject_sound(1) by (auto simp: policyLimit_def)

section \<open>Witnesses\<close>

definition sampleEntry :: "string \<Rightarrow> string \<Rightarrow> string \<Rightarrow> json" where
  "sampleEntry u n s = JsObj [(''uid'', JsStr u), (''namespace'', JsStr ''default''), (''name'', JsStr n),
     (''mode'', JsStr ''legacy''), (''slug'', JsStr s)]"

definition sampleDoc :: json where
  "sampleDoc = JsObj [(''cutover'', JsStr ''2026-01-01T00:00:00Z''),
     (''entries'', JsArr [sampleEntry ''u1'' ''a'' ''alpha'', sampleEntry ''u2'' ''b'' ''beta''])]"

definition sampleItem :: "string \<Rightarrow> string \<Rightarrow> string \<Rightarrow> entry" where
  "sampleItem u n s = \<lparr>peUID = u, peNamespace = ''default'', peName = n, peMode = ''legacy'', peSlug = s\<rparr>"

definition samplePolicy :: policy where
  "samplePolicy = \<lparr>polCutover = 7, polEntries = [''u1'' \<mapsto> sampleItem ''u1'' ''a'' ''alpha'',
     ''u2'' \<mapsto> sampleItem ''u2'' ''b'' ''beta'']\<rparr>"

lemma sample_Parse:
  "Parse sampleLib (\<lambda>_. Some (sampleDoc, [])) (\<lambda>_. Some 7) \<lparr>rdBytes = ''{}'', rdError = None\<rparr> = Inr samplePolicy"
proof -
  have doc: "rejectDuplicateKeys sampleDoc = None" by code_simp
  have cfg: "decodeConfig sampleDoc = Inr \<lparr>cfCutover = ''2026-01-01T00:00:00Z'',
      cfEntries = [sampleItem ''u1'' ''a'' ''alpha'', sampleItem ''u2'' ''b'' ''beta'']\<rparr>" by code_simp
  have items: "validateEntry sampleLib (sampleItem ''u1'' ''a'' ''alpha'') = None"
    "validateEntry sampleLib (sampleItem ''u2'' ''b'' ''beta'') = None" by code_simp+
  have "parseEntries sampleLib [sampleItem ''u1'' ''a'' ''alpha'', sampleItem ''u2'' ''b'' ''beta''] Map.empty {} {} =
      Inr (polEntries samplePolicy)"
    using items by (simp add: sampleItem_def entryIdentity_def legacyMode_def samplePolicy_def)
  with doc cfg show ?thesis
    by (simp add: Parse_def readPolicy_def policyLimit_def zeroTime_def samplePolicy_def)
qed

lemma sample_Select:
  "Select (Some samplePolicy) (sampleObj ''u1'' ''a'') = Inr \<lparr>slSlug = ''alpha'', slSource = Legacy\<rparr>"
  "Select (Some samplePolicy) (sampleObj ''u2'' ''b'') = Inr \<lparr>slSlug = ''beta'', slSource = Legacy\<rparr>"
  by (simp_all add: Select_def samplePolicy_def sampleItem_def sampleObj_def newMeta_def legacyMode_def)

theorem Parse_admits_unambiguous_witness:
  "\<exists>e. polEntries samplePolicy ''u1'' = Some e \<and> peSlug e \<noteq> [] \<and> peUID e = ''u1'' \<and> \<not> prefix ''llm-'' (peSlug e)"
  using Parse_admits_unambiguous [OF sample_Parse, of "''u1''"]
  by (simp add: samplePolicy_def sampleItem_def legacyMode_def deriveMode_def)

theorem Select_routes_isolated_witness:
  "\<not> prefix (''/llm/'' @ ''alpha'') (''/llm/'' @ ''beta'')"
  using Select_routes_isolated [OF sample_Parse sample_Select]
  by (simp add: sampleObj_def Legacy_def Derived_def)

theorem Select_outcome_witness:
  "Select (Some samplePolicy) (sampleObj ''u3'' ''c'') = Inl ErrLegacyUnmapped"
  using Select_outcome [of "sampleObj ''u3'' ''c''" 5 samplePolicy]
  by (simp add: sampleObj_def samplePolicy_def)

theorem parseEntries_complete_witness:
  "\<exists>m. parseEntries sampleLib [] Map.empty {} {} = Inr m"
  using parseEntries_complete [of sampleLib "[]"] by simp

theorem Parse_document_clear_witness: "clearKeys sampleDoc"
  using Parse_document_clear [OF sample_Parse] by simp

end
