(* ===== verification/ControllerBase.thy ===== *)
theory ControllerBase
  imports KubeApi
begin

text \<open>
  What the two controllers share: the result of a reconciliation, and the constants of
  \<^verbatim>\<open>internal/controller\<close> that more than one file uses.
\<close>

text \<open>\<^verbatim>\<open>ctrl.Result\<close>; the delay is in seconds, zero for none.\<close>

record result =
  rsRequeue :: bool
  rsAfter :: nat

definition doneResult :: result where "doneResult = \<lparr>rsRequeue = False, rsAfter = 0\<rparr>"

definition requeueAfter :: "nat \<Rightarrow> result" where
  "requeueAfter n = \<lparr>rsRequeue = False, rsAfter = n\<rparr>"

definition slugAnnotationKey :: string where "slugAnnotationKey = ''llm.privatellms.msp/slug''"
definition instanceLabelKey :: string where "instanceLabelKey = ''llm.privatellms.msp/instance''"
definition httpsScheme :: string where "httpsScheme = ''https''"   \<comment> \<open>\<^verbatim>\<open>byocServicePortName\<close>\<close>
definition trueText :: string where "trueText = ''true''"          \<comment> \<open>\<^verbatim>\<open>byocBootstrapTrue\<close>\<close>

definition readyType :: string where "readyType = ''Ready''"

text \<open>\<^verbatim>\<open>%q\<close> of a string of printable ASCII characters without quotes and backslashes.\<close>

definition quoted :: "string \<Rightarrow> string" where
  "quoted s = [CHR 0x22] @ s @ [CHR 0x22]"

definition newCondition :: "string \<Rightarrow> string \<Rightarrow> string \<Rightarrow> string \<Rightarrow> time \<Rightarrow> condition" where
  "newCondition t st reason msg now = \<lparr>cdType = t, cdStatus = st, cdReason = reason, cdMessage = msg,
     cdObservedGeneration = 0, cdLastTransition = Some now\<rparr>"


end
