(* ===== verification/ModelServer.thy ===== *)
theory ModelServer
  imports ControllerBase Samples
begin

text \<open>
  Which model an instance runs, with which server arguments and budget (\<^verbatim>\<open>resolveModel\<close>,
  \<^verbatim>\<open>modelForInstance\<close> and \<^verbatim>\<open>setServerIntFlag\<close> of \<^verbatim>\<open>llminstance_controller.go\<close>), and the provider's ceilings
  on them (\<^verbatim>\<open>model_server_ceilings.go\<close>).
\<close>

section \<open>Models\<close>

record model_selection =
  msName :: string
  msFile :: string
  msURL :: string
  msSHA256 :: string
  msServerArgs :: "string list"
  msEphemeralRequest :: string
  msEphemeralLimit :: string
  msMemoryRequest :: string
  msMemoryLimit :: string
  msCPURequest :: string
  msCPULimit :: string

definition plainModel :: "string \<Rightarrow> string \<Rightarrow> string \<Rightarrow> model_selection" where
  "plainModel n f u = \<lparr>msName = n, msFile = f, msURL = u, msSHA256 = [], msServerArgs = [],
     msEphemeralRequest = [], msEphemeralLimit = [], msMemoryRequest = [], msMemoryLimit = [],
     msCPURequest = [], msCPULimit = []\<rparr>"

definition tinyLlamaModel :: string where "tinyLlamaModel = ''tinyllama''"
definition qwen3Model :: string where "qwen3Model = ''qwen3-4b''"

definition qwen3 :: model_selection where
  "qwen3 = \<lparr>msName = ''qwen3-4b'', msFile = ''Qwen3-4B-Q4_K_M.gguf'',
     msURL = ''https://huggingface.co/Qwen/Qwen3-4B-GGUF/resolve/34778e26c8fa5e8bc0daa2389a9f958cffb1aedd/Qwen3-4B-Q4_K_M.gguf'',
     msSHA256 = ''7485fe6f11af29433bc51cab58009521f205840f5b4ae3a32fa7f92e8534fdf5'',
     msServerArgs = [''--ctx-size'', ''8192'', ''--jinja'', ''--reasoning-format'', ''deepseek'', ''--reasoning'', ''off'', ''--no-webui''],
     msEphemeralRequest = ''4Gi'', msEphemeralLimit = ''5Gi'', msMemoryRequest = ''4Gi'', msMemoryLimit = ''7Gi'',
     msCPURequest = ''500m'', msCPULimit = ''1800m''\<rparr>"

text \<open>The switch compares the lower-cased trimmed name; the cases of the code in order, the last two
  of which agree.  An empty name never reaches the Gemma and Phi cases.\<close>

definition resolveModel :: "string \<Rightarrow> model_selection" where
  "resolveModel requested =
     (let trimmed = trimSpace requested; l = toLower trimmed
      in if l \<in> set [qwen3Model, ''qwen3-4b-q4_k_m'', ''qwen3-4b-q4_k_m.gguf''] then qwen3
         else if l \<in> set [''gemma-3-1b-it'', ''gemma-3-1b-it-q4_k_m'', ''gemma-3-1b-it-q4_k_m.gguf'']
         then plainModel (if trimmed = [] then ''gemma-3-1b-it'' else trimmed) ''gemma-3-1b-it-Q4_K_M.gguf''
           ''https://huggingface.co/ggml-org/gemma-3-1b-it-GGUF/resolve/main/gemma-3-1b-it-Q4_K_M.gguf?download=true''
         else if l \<in> set [''gemma-3-4b-it'', ''gemma-3-4b-it-q4_k_m'', ''gemma-3-4b-it-q4_k_m.gguf'']
         then plainModel (if trimmed = [] then ''gemma-3-4b-it'' else trimmed) ''gemma-3-4b-it-Q4_K_M.gguf''
           ''https://huggingface.co/ggml-org/gemma-3-4b-it-GGUF/resolve/main/gemma-3-4b-it-Q4_K_M.gguf?download=true''
         else if l \<in> set [''gemma-3-12b-it'', ''gemma-3-12b-it-q4_k_m'', ''gemma-3-12b-it-q4_k_m.gguf'']
         then plainModel (if trimmed = [] then ''gemma-3-12b-it'' else trimmed) ''gemma-3-12b-it-Q4_K_M.gguf''
           ''https://huggingface.co/ggml-org/gemma-3-12b-it-GGUF/resolve/main/gemma-3-12b-it-Q4_K_M.gguf?download=true''
         else if l = ''phi-2''
         then plainModel (if trimmed = [] then ''phi-2'' else trimmed) ''phi-2.Q4_0.gguf''
           ''https://huggingface.co/TheBloke/phi-2-GGUF/resolve/main/phi-2.Q4_0.gguf?download=true''
         else plainModel trimmed ''tinyllama.gguf''
           ''https://huggingface.co/TheBloke/TinyLlama-1.1B-Chat-v1.0-GGUF/resolve/main/tinyllama-1.1b-chat-v1.0.Q4_K_M.gguf?download=true'')"

definition modelPath :: "model_selection \<Rightarrow> string" where
  "modelPath m = ''/models/'' @ msFile m"

text \<open>\<^verbatim>\<open>setServerIntFlag\<close>: the value behind the first occurrence that has one is replaced; without
  one, flag and value are appended.\<close>

fun replaceFlag :: "string \<Rightarrow> string \<Rightarrow> string list \<Rightarrow> string list option" where
  "replaceFlag flag v (a # b # rest) =
     (if a = flag then Some (a # v # rest) else map_option ((#) a) (replaceFlag flag v (b # rest)))"
| "replaceFlag flag v _ = None"

definition setServerIntFlag :: "string list \<Rightarrow> string \<Rightarrow> int \<Rightarrow> string list" where
  "setServerIntFlag args flag value =
     (case replaceFlag flag (itoa value) args of
        Some result \<Rightarrow> result
      | None \<Rightarrow> args @ [flag, itoa value])"

definition modelForInstance :: "llm_instance \<Rightarrow> model_selection" where
  "modelForInstance inst =
     (let sp = liSpec inst;
          m = resolveModel (spModel sp);
          m = (case spResources sp of
                 None \<Rightarrow> m
               | Some res \<Rightarrow>
                   let m = (case mrCPU res of
                              None \<Rightarrow> m
                            | Some cpu \<Rightarrow> m\<lparr>msCPURequest := itoa (cpuRequestMilli cpu) @ ''m'',
                                           msCPULimit := itoa (cpuLimitMilli cpu) @ ''m''\<rparr>)
                   in case mrMemory res of
                        None \<Rightarrow> m
                      | Some mem \<Rightarrow> m\<lparr>msMemoryRequest := itoa (memRequestMiB mem) @ ''Mi'',
                                     msMemoryLimit := itoa (memLimitMiB mem) @ ''Mi''\<rparr>);
          m = (case spContextSize sp of
                 None \<Rightarrow> m
               | Some n \<Rightarrow> m\<lparr>msServerArgs := setServerIntFlag (msServerArgs m) ''--ctx-size'' n\<rparr>)
      in case spParallelSlots sp of
           None \<Rightarrow> m
         | Some n \<Rightarrow> m\<lparr>msServerArgs := setServerIntFlag (msServerArgs m) ''--parallel'' n\<rparr>)"

section \<open>Ceilings\<close>

record model_server_ceilings =
  ceCPUMilli :: int
  ceMemoryMiB :: int
  ceContextSize :: int
  ceParallelSlots :: int

fun firstBad :: "(string \<times> int \<times> int) list \<Rightarrow> goerr option" where
  "firstBad [] = None"
| "firstBad ((name, v, maximum) # rest) =
     (if v < 0 \<or> v > maximum then Some (errNew (name @ '' must be between 0 and '' @ itoa maximum))
      else firstBad rest)"

definition Validate :: "model_server_ceilings \<Rightarrow> goerr option" where
  "Validate c = firstBad [(''max-model-cpu-milli'', ceCPUMilli c, 16000),
     (''max-model-memory-mib'', ceMemoryMiB c, 65536),
     (''max-context-size'', ceContextSize c, 131072),
     (''max-parallel-slots'', ceParallelSlots c, 16)]"

definition cpuMilli :: "kube_lib \<Rightarrow> string \<Rightarrow> int" where
  "cpuMilli L v = (if v = [] then 0 else quantityMilliValue L (mustParse L v))"

text \<open>The division truncates towards zero; quantities of memory are not negative.\<close>

definition truncDiv :: "int \<Rightarrow> int \<Rightarrow> int" where
  "truncDiv a b = sgn a * (\<bar>a\<bar> div b)"

definition memoryMiB :: "kube_lib \<Rightarrow> string \<Rightarrow> int" where
  "memoryMiB L v = (if v = [] then 0 else truncDiv (quantityValue L (mustParse L v)) (1024 * 1024))"

fun serverIntFlag :: "string list \<Rightarrow> string \<Rightarrow> int \<Rightarrow> int" where
  "serverIntFlag (a # b # rest) name fallback =
     (if a = name then (case atoi b of Some v \<Rightarrow> v | None \<Rightarrow> serverIntFlag (b # rest) name fallback)
      else serverIntFlag (b # rest) name fallback)"
| "serverIntFlag _ name fallback = fallback"

fun firstExcess :: "(string \<times> int \<times> int) list \<Rightarrow> goerr option" where
  "firstExcess [] = None"
| "firstExcess ((name, requested, maximum) # rest) =
     (if requested > maximum
      then Some (errNew (name @ '' '' @ itoa requested @ '' exceeds provider ceiling '' @ itoa maximum @
             ''; ask the provider to raise the ceiling''))
      else firstExcess rest)"

text \<open>The six budgets of the selected model, each with its ceiling.\<close>

definition budgets :: "kube_lib \<Rightarrow> model_server_ceilings \<Rightarrow> llm_instance \<Rightarrow> (string \<times> int \<times> int) list" where
  "budgets L c inst =
     (let baseline = resolveModel (spModel (liSpec inst)); desired = modelForInstance inst;
          ceiling = (\<lambda>n dflt. if n = 0 then dflt else n)
      in [(''CPU request (millicores)'', cpuMilli L (msCPURequest desired),
             ceiling (ceCPUMilli c) (cpuMilli L (msCPURequest baseline))),
          (''CPU limit (millicores)'', cpuMilli L (msCPULimit desired),
             ceiling (ceCPUMilli c) (cpuMilli L (msCPULimit baseline))),
          (''memory request (MiB)'', memoryMiB L (msMemoryRequest desired),
             ceiling (ceMemoryMiB c) (memoryMiB L (msMemoryRequest baseline))),
          (''memory limit (MiB)'', memoryMiB L (msMemoryLimit desired),
             ceiling (ceMemoryMiB c) (memoryMiB L (msMemoryLimit baseline))),
          (''contextSize'', serverIntFlag (msServerArgs desired) ''--ctx-size'' 0,
             ceiling (ceContextSize c) (serverIntFlag (msServerArgs baseline) ''--ctx-size'' 0)),
          (''parallelSlots'', serverIntFlag (msServerArgs desired) ''--parallel'' 4,
             ceiling (ceParallelSlots c) (serverIntFlag (msServerArgs baseline) ''--parallel'' 4))])"

definition checkCeilings :: "kube_lib \<Rightarrow> model_server_ceilings \<Rightarrow> llm_instance \<Rightarrow> goerr option" where
  "checkCeilings L c inst =
     (case Validate c of Some e \<Rightarrow> Some e | None \<Rightarrow> firstExcess (budgets L c inst))"

section \<open>Flags\<close>

lemma replaceFlag_length: "replaceFlag flag v args = Some r \<Longrightarrow> length r = length args \<and> 2 \<le> length args"
  by (induction flag v args arbitrary: r rule: replaceFlag.induct) (auto split: if_splits)

lemma replaceFlag_read:
  "replaceFlag flag v args = Some r \<Longrightarrow> atoi v = Some n \<Longrightarrow> serverIntFlag r flag d = n"
proof (induction flag v args arbitrary: r rule: replaceFlag.induct)
  case (1 flag v a b rest)
  show ?case
  proof (cases "a = flag")
    case False
    with "1.prems" obtain r' where r': "replaceFlag flag v (b # rest) = Some r'" "r = a # r'" by auto
    have "serverIntFlag r' flag d = n" using "1.IH" False r'(1) "1.prems"(2) by blast
    moreover obtain x y zs where "r' = x # y # zs"
      using replaceFlag_length [OF r'(1)] by (cases r'; cases "tl r'") auto
    ultimately show ?thesis using False r'(2) by simp
  qed (use "1.prems" in auto)
qed simp_all

lemma replaceFlag_None_read:
  "replaceFlag flag v args = None \<Longrightarrow> atoi flag = None \<Longrightarrow> atoi v = Some n \<Longrightarrow>
     serverIntFlag (args @ [flag, v]) flag d = n"
  by (induction flag v args rule: replaceFlag.induct) (auto split: if_splits)

lemma replaceFlag_None_other:
  "replaceFlag flag v args = None \<Longrightarrow> atoi flag = None \<Longrightarrow> name \<noteq> flag \<Longrightarrow>
     serverIntFlag (args @ [flag, v]) name d = serverIntFlag args name d"
  by (induction flag v args rule: replaceFlag.induct) (auto split: if_splits option.splits)

lemma replaceFlag_absent: "flag \<notin> set args \<Longrightarrow> replaceFlag flag v args = None"
  by (induction flag v args rule: replaceFlag.induct) auto

lemma set_replaceFlag: "replaceFlag flag v args = Some r \<Longrightarrow> set r \<subseteq> insert v (set args)"
  by (induction flag v args arbitrary: r rule: replaceFlag.induct) (fastforce split: if_splits)+

text \<open>Values of the API's 32-bit integers survive the round trip through the argument list.\<close>

lemma serverIntFlag_set:
  assumes "atoi flag = None" and "- (2 ^ 31) \<le> n" and "n < 2 ^ 31"
  shows "serverIntFlag (setServerIntFlag args flag n) flag d = n"
proof -
  have "atoi (itoa n) = Some n" by (rule atoi_itoa) (use assms in simp_all)
  then show ?thesis
    using replaceFlag_read replaceFlag_None_read assms(1) by (auto simp: setServerIntFlag_def split: option.split)
qed

lemma set_setServerIntFlag: "set (setServerIntFlag args flag n) \<subseteq> insert flag (insert (itoa n) (set args))"
  by (auto simp: setServerIntFlag_def split: option.split dest: set_replaceFlag)

lemma serverIntFlag_set_other:
  assumes "flag \<notin> set args" "atoi flag = None" "name \<noteq> flag"
  shows "serverIntFlag (setServerIntFlag args flag n) name d = serverIntFlag args name d"
  using replaceFlag_absent [OF assms(1)] replaceFlag_None_other [OF _ assms(2,3)]
  by (simp add: setServerIntFlag_def)

lemma flag_atoi: "atoi ''--ctx-size'' = None" "atoi ''--parallel'' = None"
  by code_simp+

lemma resolveModel_no_parallel: "''--parallel'' \<notin> set (msServerArgs (resolveModel name))"
  by (simp add: resolveModel_def qwen3_def plainModel_def Let_def)

section \<open>Tenant settings against the ceilings\<close>

text \<open>What the documentation says of quantities: a decimal number of millicores or mebibytes is read
  back exactly.\<close>

definition parsesUnits :: "kube_lib \<Rightarrow> bool" where
  "parsesUnits L = (\<forall>n \<ge> 0. quantityMilliValue L (mustParse L (itoa n @ ''m'')) = n \<and>
     quantityValue L (mustParse L (itoa n @ ''Mi'')) = n * 2 ^ 20)"

lemma cpuMilli_units: "parsesUnits L \<Longrightarrow> 0 \<le> n \<Longrightarrow> cpuMilli L (itoa n @ ''m'') = n"
  by (simp add: parsesUnits_def cpuMilli_def)

lemma memoryMiB_units: "parsesUnits L \<Longrightarrow> 0 \<le> n \<Longrightarrow> memoryMiB L (itoa n @ ''Mi'') = n"
  by (simp add: parsesUnits_def memoryMiB_def truncDiv_def) (simp add: sgn_if)

lemma firstExcess_None: "firstExcess xs = None \<longleftrightarrow> (\<forall>(name, requested, maximum) \<in> set xs. requested \<le> maximum)"
  by (induction xs rule: firstExcess.induct) auto

lemma Validate_None:
  "Validate c = None \<longleftrightarrow> ceCPUMilli c \<in> {0..16000} \<and> ceMemoryMiB c \<in> {0..65536} \<and>
     ceContextSize c \<in> {0..131072} \<and> ceParallelSlots c \<in> {0..16}"
  by (auto simp: Validate_def)

text \<open>The effective ceiling: the provider's, or the budget that the model itself declares.\<close>

definition ceilingOr :: "int \<Rightarrow> int \<Rightarrow> int" where
  "ceilingOr n dflt = (if n = 0 then dflt else n)"

text \<open>How the settings of an instance show in its model.\<close>

lemma modelForInstance_settings:
  "mrCPU res = Some cpu \<Longrightarrow> spResources (liSpec inst) = Some res \<Longrightarrow>
     msCPURequest (modelForInstance inst) = itoa (cpuRequestMilli cpu) @ ''m'' \<and>
     msCPULimit (modelForInstance inst) = itoa (cpuLimitMilli cpu) @ ''m''"
  "mrMemory res = Some mem \<Longrightarrow> spResources (liSpec inst) = Some res \<Longrightarrow>
     msMemoryRequest (modelForInstance inst) = itoa (memRequestMiB mem) @ ''Mi'' \<and>
     msMemoryLimit (modelForInstance inst) = itoa (memLimitMiB mem) @ ''Mi''"
  by (simp_all add: modelForInstance_def Let_def split: option.split)

lemma modelForInstance_args:
  "msServerArgs (modelForInstance inst) =
     (let base = msServerArgs (resolveModel (spModel (liSpec inst)));
          args = (case spContextSize (liSpec inst) of None \<Rightarrow> base | Some n \<Rightarrow> setServerIntFlag base ''--ctx-size'' n)
      in case spParallelSlots (liSpec inst) of None \<Rightarrow> args | Some n \<Rightarrow> setServerIntFlag args ''--parallel'' n)"
  by (simp add: modelForInstance_def Let_def split: option.split)

lemma modelForInstance_parallel:
  "spParallelSlots (liSpec inst) = Some n \<Longrightarrow> - (2 ^ 31) \<le> n \<Longrightarrow> n < 2 ^ 31 \<Longrightarrow>
     serverIntFlag (msServerArgs (modelForInstance inst)) ''--parallel'' d = n"
  by (simp add: modelForInstance_args Let_def serverIntFlag_set flag_atoi)

lemma modelForInstance_context:
  assumes "spContextSize (liSpec inst) = Some n" "- (2 ^ 31) \<le> n" "n < 2 ^ 31"
  shows "serverIntFlag (msServerArgs (modelForInstance inst)) ''--ctx-size'' d = n"
proof -
  let ?args = "setServerIntFlag (msServerArgs (resolveModel (spModel (liSpec inst)))) ''--ctx-size'' n"
  have "''--parallel'' \<notin> set ?args"
    using set_setServerIntFlag [of "msServerArgs (resolveModel (spModel (liSpec inst)))" "''--ctx-size''" n]
      resolveModel_no_parallel itoa_not_flag [of n "''parallel''"] by fastforce
  then have "serverIntFlag (setServerIntFlag ?args ''--parallel'' m) ''--ctx-size'' d = n" for m
    using assms(2,3) by (simp add: serverIntFlag_set_other flag_atoi serverIntFlag_set)
  then show ?thesis
    using assms by (simp add: modelForInstance_args Let_def serverIntFlag_set flag_atoi split: option.split)
qed

section \<open>Properties\<close>

text \<open>Ceilings bind tenants: an instance that passes the check asks for no more CPU, memory,
  context and parallel slots than the provider's ceiling, or where that is zero the budget that
  the model itself declares; and the ceilings themselves lie within the fixed maxima.\<close>

theorem ceilings_bind_tenants:
  assumes "checkCeilings L c inst = None" and "parsesUnits L"
    and "spResources (liSpec inst) = Some \<lparr>mrCPU = Some cpu, mrMemory = Some mem\<rparr>"
    and "0 \<le> cpuRequestMilli cpu" "0 \<le> cpuLimitMilli cpu" "0 \<le> memRequestMiB mem" "0 \<le> memLimitMiB mem"
    and "spContextSize (liSpec inst) = Some ctx" "- (2 ^ 31) \<le> ctx" "ctx < 2 ^ 31"
    and "spParallelSlots (liSpec inst) = Some par" "- (2 ^ 31) \<le> par" "par < 2 ^ 31"
  shows "let base = resolveModel (spModel (liSpec inst)) in
    cpuRequestMilli cpu \<le> ceilingOr (ceCPUMilli c) (cpuMilli L (msCPURequest base)) \<and>
    cpuLimitMilli cpu \<le> ceilingOr (ceCPUMilli c) (cpuMilli L (msCPULimit base)) \<and>
    memRequestMiB mem \<le> ceilingOr (ceMemoryMiB c) (memoryMiB L (msMemoryRequest base)) \<and>
    memLimitMiB mem \<le> ceilingOr (ceMemoryMiB c) (memoryMiB L (msMemoryLimit base)) \<and>
    ctx \<le> ceilingOr (ceContextSize c) (serverIntFlag (msServerArgs base) ''--ctx-size'' 0) \<and>
    par \<le> ceilingOr (ceParallelSlots c) 4 \<and>
    ceCPUMilli c \<le> 16000 \<and> ceMemoryMiB c \<le> 65536 \<and> ceContextSize c \<le> 131072 \<and> ceParallelSlots c \<le> 16"
proof -
  have v: "Validate c = None" and x: "firstExcess (budgets L c inst) = None"
    using assms(1) by (auto simp: checkCeilings_def split: option.splits)
  have par: "serverIntFlag (msServerArgs (resolveModel name)) ''--parallel'' 4 = 4" for name
    by (simp add: resolveModel_def qwen3_def plainModel_def Let_def)
  have set: "msCPURequest (modelForInstance inst) = itoa (cpuRequestMilli cpu) @ ''m''"
      "msCPULimit (modelForInstance inst) = itoa (cpuLimitMilli cpu) @ ''m''"
      "msMemoryRequest (modelForInstance inst) = itoa (memRequestMiB mem) @ ''Mi''"
      "msMemoryLimit (modelForInstance inst) = itoa (memLimitMiB mem) @ ''Mi''"
    using modelForInstance_settings [OF _ assms(3)] by simp_all
  from x have "\<forall>(name, requested, maximum) \<in> set (budgets L c inst). requested \<le> maximum"
    by (simp only: firstExcess_None)
  then show ?thesis
    using v assms(2,4-7)
    by (simp add: budgets_def Let_def set cpuMilli_units memoryMiB_units ceilingOr_def Validate_None
        modelForInstance_context [OF assms(8-10)] modelForInstance_parallel [OF assms(11-13)] par split: if_splits)
qed

text \<open>Every model is admitted with its own defaults when the provider sets no ceilings, so an
  upgrade never rejects an instance that leaves the optional settings out.\<close>

theorem defaults_admitted:
  assumes "spResources (liSpec inst) = None" "spContextSize (liSpec inst) = None"
    and "spParallelSlots (liSpec inst) = None"
  shows "checkCeilings L \<lparr>ceCPUMilli = 0, ceMemoryMiB = 0, ceContextSize = 0, ceParallelSlots = 0\<rparr> inst = None"
proof -
  have "modelForInstance inst = resolveModel (spModel (liSpec inst))"
    using assms by (simp add: modelForInstance_def Let_def)
  then show ?thesis by (simp add: checkCeilings_def Validate_def budgets_def Let_def)
qed

text \<open>Round trip of a numeric server flag: whatever the argument list is, the value that is set for
  a flag (not itself a number) is the value that is read for it, for every 32-bit integer.\<close>

theorem serverFlag_roundtrip:
  assumes "atoi flag = None" and "- (2 ^ 31) \<le> n" and "n < 2 ^ 31"
  shows "serverIntFlag (setServerIntFlag args flag n) flag fallback = n"
  using assms by (rule serverIntFlag_set)

section \<open>Witnesses\<close>

lemma showNat_digits: "\<forall>c \<in> set (showNat n). digitVal c \<noteq> None"
proof (induction n rule: showNat.induct)
  case (1 n)
  then show ?case
    by (subst showNat.simps) auto
qed

lemma decimalQuantity_units:
  assumes "0 \<le> n" shows "decimalQuantity (itoa n @ ''m'') = n * 10 ^ 6" "decimalQuantity (itoa n @ ''Mi'') = n * 2 ^ 20 * 10 ^ 9"
proof -
  have "digitVal (CHR ''m'') = None" "digitVal (CHR ''M'') = None" by code_simp+
  then have "takeWhile (\<lambda>c. digitVal c \<noteq> None) (showNat k @ s) = showNat k \<and>
      dropWhile (\<lambda>c. digitVal c \<noteq> None) (showNat k @ s) = s" if "s = ''m'' \<or> s = ''Mi''" for k s
    using showNat_digits [of k] that by (auto simp: takeWhile_append dropWhile_append)
  then show "decimalQuantity (itoa n @ ''m'') = n * 10 ^ 6" "decimalQuantity (itoa n @ ''Mi'') = n * 2 ^ 20 * 10 ^ 9"
    using assms by (simp_all add: decimalQuantity_def itoa_def parseNat_showNat Let_def)
qed

lemma sampleLib_units: "parsesUnits sampleLib"
proof -
  have "n * 1048576 * 10 ^ 9 div 10 ^ 9 = n * 1048576" for n :: int by simp
  then show ?thesis by (simp add: parsesUnits_def sampleLib_def decimalQuantity_units)
qed

definition tunedInstance :: llm_instance where
  "tunedInstance = demoInstance\<lparr>liSpec := (liSpec demoInstance)\<lparr>spModel := ''qwen3-4b'',
     spResources := Some \<lparr>mrCPU = Some \<lparr>cpuRequestMilli = 500, cpuLimitMilli = 1000\<rparr>,
       mrMemory = Some \<lparr>memRequestMiB = 4096, memLimitMiB = 6144\<rparr>\<rparr>,
     spContextSize := Some 4096, spParallelSlots := Some 2\<rparr>\<rparr>"

definition tunedCeilings :: model_server_ceilings where
  "tunedCeilings = \<lparr>ceCPUMilli = 2000, ceMemoryMiB = 8192, ceContextSize = 8192, ceParallelSlots = 4\<rparr>"

lemma tuned_spec:
  "spResources (liSpec tunedInstance) = Some \<lparr>mrCPU = Some \<lparr>cpuRequestMilli = 500, cpuLimitMilli = 1000\<rparr>,
     mrMemory = Some \<lparr>memRequestMiB = 4096, memLimitMiB = 6144\<rparr>\<rparr>"
  "spContextSize (liSpec tunedInstance) = Some 4096" "spParallelSlots (liSpec tunedInstance) = Some 2"
  by (simp_all add: tunedInstance_def)

lemma tuned_checks: "checkCeilings sampleLib tunedCeilings tunedInstance = None"
proof -
  note set = modelForInstance_settings [OF _ tuned_spec(1)]
  have "Validate tunedCeilings = None" by (simp add: Validate_None tunedCeilings_def)
  moreover have "firstExcess (budgets sampleLib tunedCeilings tunedInstance) = None"
    unfolding firstExcess_None budgets_def Let_def
    using set cpuMilli_units [OF sampleLib_units] memoryMiB_units [OF sampleLib_units]
      modelForInstance_context [OF tuned_spec(2), of 0] modelForInstance_parallel [OF tuned_spec(3), of 4]
    by (simp add: tunedCeilings_def)
  ultimately show ?thesis by (simp add: checkCeilings_def)
qed

theorem ceilings_bind_tenants_witness: "(500 :: int) \<le> 2000 \<and> ceCPUMilli tunedCeilings \<le> 16000"
  using ceilings_bind_tenants [OF tuned_checks sampleLib_units tuned_spec(1) _ _ _ _ tuned_spec(2) _ _ tuned_spec(3)]
  by (simp add: ceilingOr_def tunedCeilings_def Let_def)

theorem defaults_admitted_witness:
  "checkCeilings sampleLib \<lparr>ceCPUMilli = 0, ceMemoryMiB = 0, ceContextSize = 0, ceParallelSlots = 0\<rparr> demoInstance = None"
  using defaults_admitted [of demoInstance sampleLib] by (simp add: demoInstance_def)

theorem serverFlag_roundtrip_witness:
  "serverIntFlag (setServerIntFlag [''--parallel'', ''8'', ''--jinja''] ''--parallel'' 2) ''--parallel'' 4 = 2"
  using serverFlag_roundtrip [of "''--parallel''" 2 "[''--parallel'', ''8'', ''--jinja'']" 4] flag_atoi by simp

end
