(* ===== verification/InstanceBase.thy ===== *)
theory InstanceBase
  imports SlugPolicy ModelServer
begin

text \<open>
  The reconciler of LLMInstances: its configuration (the struct of \<^verbatim>\<open>llminstance_controller.go\<close>), the
  reader it uses for routes, and the functions by which it reports a status.  The functions that the
  struct carries for tests, the HTTP client of the default health checker and the libraries behind
  the BYOC mode are fields.
\<close>

record byoc_tls_config =
  btDomain :: string
  btNamespace :: string
  btIssuerName :: string
  btIssuerNamespace :: string
  btDNSClass :: string

record 'w instance_reconciler =
  irClient :: "'w client"
  irRouteReader :: "'w client option"
  irSlugPolicy :: "policy option"
  irLib :: kube_lib
  irHost :: "'w host"
  irModelServerCeilings :: model_server_ceilings
  irPublicHost :: string
  irAuthServiceURL :: string
  irPublicScheme :: string
  irExtraIngressAnnotations :: "(string \<times> string) list"
  irTLSSecretName :: string
  irBYOCTLS :: byoc_tls_config
  irServiceHealthChecker :: "(string \<Rightarrow> 'w \<Rightarrow> goerr option \<times> 'w) option"
  irBYOCHealthChecker :: "(string \<Rightarrow> string \<Rightarrow> 'w \<Rightarrow> goerr option \<times> 'w) option"
  irRemoteClientBuilder :: "(string \<Rightarrow> goerr + 'w client) option"
  irBYOCLib :: "'w byoc_lib"
  irHTTPGet :: "string \<Rightarrow> 'w \<Rightarrow> (goerr + int) \<times> 'w"   \<comment> \<open>a GET without redirects: the status code\<close>

text \<open>Writes of the reconciler to the cluster it runs on.\<close>

abbreviation "localCreate \<equiv> createObj LocalCluster"
abbreviation "localUpdate \<equiv> updateObj LocalCluster"

section \<open>Reading\<close>

definition routeReader :: "'w instance_reconciler \<Rightarrow> 'w client" where
  "routeReader r = (case irRouteReader r of Some c \<Rightarrow> c | None \<Rightarrow> irClient r)"

definition getInstance :: "'w instance_reconciler \<Rightarrow> key \<Rightarrow> ('w, llm_instance option) io" where
  "getInstance r k =
     tryE (getObj (instances (routeReader r)) k)
       (\<lambda>e. if isNotFound e then retE None else failE (APIErr e))
       (\<lambda>inst. retE (Some inst))"

definition ownsLLMResource :: "kube_lib \<Rightarrow> llm_instance \<Rightarrow> objmeta \<Rightarrow> bool" where
  "ownsLLMResource L inst m =
     (case getControllerOf L m of
        None \<Rightarrow> False
      | Some owner \<Rightarrow> omUID (liMeta inst) \<noteq> [] \<and> omNamespace m = omNamespace (liMeta inst) \<and>
          orUID owner = omUID (liMeta inst) \<and> orName owner = omName (liMeta inst) \<and>
          orKind owner = ''LLMInstance'' \<and> orAPIVersion owner = groupVersion)"

definition llamaLabels :: "string \<Rightarrow> string \<rightharpoonup> string" where
  "llamaLabels instanceName = [''app.kubernetes.io/name'' \<mapsto> ''llama-cpp-server'',
     ''llm.privatellms.msp/instance'' \<mapsto> instanceName]"

definition svcNameOf :: "llm_instance \<Rightarrow> string" where
  "svcNameOf inst = omName (liMeta inst) @ ''-llama''"

text \<open>\<^verbatim>\<open>ctrl.SetControllerReference(inst, obj, scheme)\<close>.\<close>

definition controlE :: "'w instance_reconciler \<Rightarrow> llm_instance \<Rightarrow> objmeta \<Rightarrow> ('w, objmeta) io" where
  "controlE r inst m = liftE (setControllerReference (irLib r) ''LLMInstance'' (liMeta inst) m)"

section \<open>Status\<close>

definition statusCondition :: "llm_instance \<Rightarrow> string \<Rightarrow> string \<Rightarrow> string \<Rightarrow> condition" where
  "statusCondition inst st reason message =
     \<lparr>cdType = readyType, cdStatus = st, cdReason = reason, cdMessage = message,
      cdObservedGeneration = omGeneration (liMeta inst), cdLastTransition = None\<rparr>"

definition withStatus :: "kube_lib \<Rightarrow> time \<Rightarrow> llm_instance \<Rightarrow> condition \<Rightarrow> string \<Rightarrow> string \<Rightarrow> llm_instance" where
  "withStatus L now inst cond phase endpoint =
     inst\<lparr>liStatus := (liStatus inst)\<lparr>stConditions := setStatusCondition L now (stConditions (liStatus inst)) cond,
        stPhase := phase, stEndpoint := endpoint, stObservedGeneration := omGeneration (liMeta inst)\<rparr>\<rparr>"

text \<open>The changed object is sent, and on success replaced by the response.\<close>

definition writeStatus :: "'w instance_reconciler \<Rightarrow> llm_instance \<Rightarrow> ('w, unit) io" where
  "writeStatus r inst =
     bindE (holdE inst) (\<lambda>_.
     bindE (apiE (statusUpdateObj LocalCluster OInst (instances (irClient r)) inst)) holdE)"

definition rejectModelSettings :: "'w instance_reconciler \<Rightarrow> llm_instance \<Rightarrow> string \<Rightarrow> ('w, unit) io" where
  "rejectModelSettings r inst message =
     bindE (nowE (irHost r)) (\<lambda>now.
       let inst1 = withStatus (irLib r) now inst
             (statusCondition inst conditionFalse ''ModelSettingsRejected'' message) ''Rejected'' []
       in if liStatus inst1 = liStatus inst then retE () else writeStatus r inst1)"

definition updateProvisioningStatus ::
    "'w instance_reconciler \<Rightarrow> llm_instance \<Rightarrow> string \<Rightarrow> string \<Rightarrow> string \<Rightarrow> ('w, unit) io" where
  "updateProvisioningStatus r inst endpoint reason message =
     bindE (nowE (irHost r)) (\<lambda>now.
       writeStatus r (withStatus (irLib r) now inst
         (statusCondition inst conditionFalse reason message) ''Provisioning'' endpoint))"

definition updateReadyStatus :: "'w instance_reconciler \<Rightarrow> llm_instance \<Rightarrow> string \<Rightarrow> ('w, unit) io" where
  "updateReadyStatus r inst endpoint =
     bindE (nowE (irHost r)) (\<lambda>now.
       writeStatus r (withStatus (irLib r) now inst
         (statusCondition inst conditionTrue ''Provisioned'' ''LLM instance is ready'') ''Ready'' endpoint))"

definition instanceEndpoint :: "'w instance_reconciler \<Rightarrow> string \<Rightarrow> string" where
  "instanceEndpoint r slug =
     (let scheme = (if irPublicScheme r = [] then ''http'' else irPublicScheme r)
      in if trimSpace (irPublicHost r) = [] \<or> trimSpace slug = [] then []
         else scheme @ ''://'' @ irPublicHost r @ ''/llm/'' @ slug)"

lemma emits_statusWrites:
  assumes "\<And>i. keyOf (liMeta i) = keyOf (liMeta inst) \<Longrightarrow> liSpec i = liSpec inst \<Longrightarrow>
    G (Write LocalCluster WStatusUpdate (OInst i))"
  shows "emits G (updateProvisioningStatus r inst endpoint reason message)"
    "emits G (updateReadyStatus r inst endpoint)"
    "emits G (rejectModelSettings r inst message)"
  unfolding updateProvisioningStatus_def updateReadyStatus_def rejectModelSettings_def writeStatus_def withStatus_def Let_def
  by (intro emits_intros assms; simp)+

end
