(* ===== verification/SlugRoute.thy ===== *)
theory SlugRoute
  imports InstanceBase
begin

text \<open>
  \<^verbatim>\<open>internal/controller/slug_policy.go\<close>: how the instance controller applies the slug policy, and the
  checks that keep the route of an instance exclusive.
\<close>

section \<open>Errors\<close>

definition errSlugRouteOwnership :: goerr where
  "errSlugRouteOwnership = Errorf ''named Ingress is not controlled by this LLMInstance'' [ErrSlugRejection]"

definition errSlugRouteConflict :: goerr where
  "errSlugRouteConflict = Errorf ''another Ingress overlaps the selected inference path'' [ErrSlugRejection]"

definition errSlugBackendOwnership :: goerr where
  "errSlugBackendOwnership = Errorf ''named hosted backend is not controlled by this LLMInstance'' [ErrSlugRejection]"

section \<open>Operations\<close>

definition selectSlug :: "'w instance_reconciler \<Rightarrow> llm_instance \<Rightarrow> goerr + selection" where
  "selectSlug r inst =
     (let st = liStatus inst in
      case Select (irSlugPolicy r) (liMeta inst) of
        Inl err \<Rightarrow> Inl (Errorf '': '' [ErrSlugRejection, err])
      | Inr sel \<Rightarrow>
          if slSource sel = Derived \<and> stSlug st = [] \<and>
             (stEndpoint st \<noteq> [] \<or> stActiveBYOCSlug st \<noteq> [] \<or> stActiveBYOCKubeconfigSecretName st \<noteq> [])
          then Inl (Errorf ''a previously provisioned instance requires its reviewed legacy slug'' [ErrSlugRejection])
          else if stActiveBYOCSlug st \<noteq> [] \<and> stActiveBYOCSlug st \<noteq> slSlug sel \<or>
             stSlug st \<noteq> [] \<and> stSlug st \<noteq> slSlug sel
          then Inl (Errorf ''operator slug mapping changed; explicit endpoint and workload migration is required''
                 [ErrSlugRejection])
          else Inr sel)"

text \<open>The part of \<^verbatim>\<open>ensureSlug\<close> that records the selection and reads it back.\<close>

definition persistSlug :: "'w instance_reconciler \<Rightarrow> llm_instance \<Rightarrow> selection \<Rightarrow> ('w, string \<times> bool) io" where
  "persistSlug r inst sel =
     (let patched = inst\<lparr>liStatus := (liStatus inst)\<lparr>stSlug := slSlug sel, stSlugSource := slSource sel\<rparr>\<rparr> in
      bindE (holdE patched) (\<lambda>_.
      bindE (bindE (apiE (statusPatchObj LocalCluster OInst (instances (irClient r)) inst patched)) holdE) (\<lambda>_.
      bindE (apiE (getObj (instances (routeReader r)) (keyOf (liMeta inst)))) (\<lambda>persisted.
        if omUID (liMeta persisted) \<noteq> omUID (liMeta inst) \<or> keyOf (liMeta persisted) \<noteq> keyOf (liMeta inst)
        then failE (Errorf ''instance identity changed during slug persistence'' [ErrSlugRejection])
        else if stSlug (liStatus persisted) \<noteq> slSlug sel \<or> stSlugSource (liStatus persisted) \<noteq> slSource sel
        then failE (Errorf ''LLMInstance schema must persist status.slug and status.slugSource'' [ErrSlugRejection])
        else retE (slSlug sel, True)))))"

text \<open>\<^verbatim>\<open>ensureSlug\<close>: the slug and whether the reconciliation has to be requeued.\<close>

definition ensureSlug :: "'w instance_reconciler \<Rightarrow> llm_instance \<Rightarrow> ('w, string \<times> bool) io" where
  "ensureSlug r inst =
     bindE (liftE (selectSlug r inst)) (\<lambda>sel.
       if stSlug (liStatus inst) = slSlug sel \<and> stSlugSource (liStatus inst) = slSource sel
       then retE (slSlug sel, False)
       else persistSlug r inst sel)"

definition ownsSlugIngress :: "kube_lib \<Rightarrow> llm_instance \<Rightarrow> ingress \<Rightarrow> bool" where
  "ownsSlugIngress L inst ing = ownsLLMResource L inst (igMeta ing)"

text \<open>The error, if any, that an operation returns.\<close>

definition errorOf :: "('s, goerr, unit) eff \<Rightarrow> ('s, goerr, goerr option) eff" where
  "errorOf m = tryE m (\<lambda>e. retE (Some e)) (\<lambda>_. retE None)"

definition errorUnlessNotFound :: "api_error \<Rightarrow> goerr option" where
  "errorUnlessNotFound e = (if isNotFound e then None else Some (APIErr e))"

text \<open>\<^verbatim>\<open>rejectSlug\<close> always returns an error; it withdraws the route first if the cause is a rejection.\<close>

definition withdrawRoute :: "'w instance_reconciler \<Rightarrow> llm_instance \<Rightarrow> ('w, goerr option) io" where
  "withdrawRoute r inst =
     tryE (getObj (ingresses (routeReader r)) (omNamespace (liMeta inst), svcNameOf inst))
       (\<lambda>e. retE (errorUnlessNotFound e))
       (\<lambda>ing. if \<not> ownsSlugIngress (irLib r) inst ing then retE (Some errSlugRouteOwnership)
              else tryE (deleteObj LocalCluster OIng (ingresses (irClient r)) ing (preUIDVersion (igMeta ing)))
                (\<lambda>e. retE (errorUnlessNotFound e)) (\<lambda>_. retE None))"

definition rejectSlug :: "'w instance_reconciler \<Rightarrow> llm_instance \<Rightarrow> goerr \<Rightarrow> ('w, result) io" where
  "rejectSlug r inst cause =
     (if \<not> errors_is cause ErrSlugRejection then failE cause
      else bindE (withdrawRoute r inst) (\<lambda>routeErr.
        bindE (errorOf (updateProvisioningStatus r inst [] ''SlugOwnershipError''
          ''Inference identity requires a valid operator policy and an exclusively owned route'')) (\<lambda>statusErr.
        failE (case errors_join [Some cause, routeErr, statusErr] of Some e \<Rightarrow> e | None \<Rightarrow> cause))))"

definition hostClaimsSlugHost :: "string \<Rightarrow> string \<Rightarrow> bool" where
  "hostClaimsSlugHost rule0 host0 =
     (let rule = toLower rule0; host = toLower host0; dots = (\<lambda>s. length (filter (\<lambda>c. c = CHR ''.'') s))
      in if rule = [] \<or> rule = host then True
         else hasPrefix rule ''*.'' \<and> hasSuffix host (drop 1 rule) \<and> dots host = dots rule)"

definition pathOverlaps :: "string \<Rightarrow> http_path \<Rightarrow> bool" where
  "pathOverlaps selectedPath p =
     (let candidate = trimRight (hpPath p) ''/''
      in hasPrefix candidate selectedPath \<or> hasPrefix selectedPath candidate)"

definition ruleConflicts :: "string \<Rightarrow> string \<Rightarrow> ingress_rule \<Rightarrow> bool" where
  "ruleConflicts publicHost selectedPath rule =
     (hostClaimsSlugHost (rlHost rule) publicHost \<and>
      (case rlHTTP rule of None \<Rightarrow> False | Some paths \<Rightarrow> list_ex (pathOverlaps selectedPath) paths))"

definition ingressConflicts :: "'w instance_reconciler \<Rightarrow> llm_instance \<Rightarrow> string \<Rightarrow> ingress \<Rightarrow> bool" where
  "ingressConflicts r inst selectedPath ing =
     (if keyOf (igMeta ing) = (omNamespace (liMeta inst), svcNameOf inst) \<and> ownsSlugIngress (irLib r) inst ing
      then False
      else igDefaultBackend ing \<noteq> None \<or> list_ex (ruleConflicts (irPublicHost r) selectedPath) (igRules ing))"

definition checkSlugRoute :: "'w instance_reconciler \<Rightarrow> llm_instance \<Rightarrow> string \<Rightarrow> ('w, unit) io" where
  "checkSlugRoute r inst slug =
     bindE (tryE (getObj (ingresses (routeReader r)) (omNamespace (liMeta inst), svcNameOf inst))
        (\<lambda>e. if isNotFound e then retE () else failE (APIErr e))
        (\<lambda>named. if \<not> ownsSlugIngress (irLib r) inst named then failE errSlugRouteOwnership else retE ())) (\<lambda>_.
     bindE (apiE (listObj (ingresses (routeReader r)) anywhere)) (\<lambda>items.
       if list_ex (ingressConflicts r inst (''/llm/'' @ slug)) items then failE errSlugRouteConflict else retE ()))"

definition slugIngressRules :: "'w instance_reconciler \<Rightarrow> string \<Rightarrow> string \<Rightarrow> ingress_rule list" where
  "slugIngressRules r path svcName =
     (let backend = \<lparr>ibService = svcName, ibPort = 8000\<rparr>
      in [\<lparr>rlHost = irPublicHost r, rlHTTP = Some
            [\<lparr>hpPath = path, hpPathType = ''Exact'', hpBackend = backend\<rparr>,
             \<lparr>hpPath = path @ ''/'', hpPathType = ''Prefix'', hpBackend = backend\<rparr>]\<rparr>])"

section \<open>Lemmas\<close>

lemma selectSlug_Inr:
  "selectSlug r inst = Inr sel \<longleftrightarrow>
     Select (irSlugPolicy r) (liMeta inst) = Inr sel \<and>
     \<not> (slSource sel = Derived \<and> stSlug (liStatus inst) = [] \<and>
        (stEndpoint (liStatus inst) \<noteq> [] \<or> stActiveBYOCSlug (liStatus inst) \<noteq> [] \<or>
         stActiveBYOCKubeconfigSecretName (liStatus inst) \<noteq> [])) \<and>
     stActiveBYOCSlug (liStatus inst) \<in> {[], slSlug sel} \<and> stSlug (liStatus inst) \<in> {[], slSlug sel}"
  by (auto simp: selectSlug_def Let_def split: sum.split)

lemma selectSlug_rejects: "selectSlug r inst = Inl e \<Longrightarrow> errors_is e ErrSlugRejection"
  by (auto simp: selectSlug_def Let_def split: sum.splits if_splits)

lemma route_errors:
  "errors_is errSlugRouteOwnership ErrSlugRejection" "errors_is errSlugRouteConflict ErrSlugRejection"
  "errors_is errSlugBackendOwnership ErrSlugRejection"
  by (simp_all add: errSlugRouteOwnership_def errSlugRouteConflict_def errSlugBackendOwnership_def)

lemma pathOverlaps_request:
  assumes "prefix selected request" and "prefix (trimRight (hpPath p) ''/'') request"
  shows "pathOverlaps selected p"
  using assms prefix_same_cases by (fastforce simp: pathOverlaps_def Let_def)

lemma yields_checkSlugRoute:
  "yields (checkSlugRoute r inst slug) (\<lambda>_. \<exists>items. listed (ingresses (routeReader r)) anywhere items \<and>
     \<not> list_ex (ingressConflicts r inst (''/llm/'' @ slug)) items)"
  unfolding checkSlugRoute_def
  by (rule yields_bindE [OF yields_True], rule yields_bindE [OF yields_apiE [OF yields_listObj]])
    (auto intro!: yields_intros)

lemma yields_persistSlug:
  "yields (persistSlug r inst sel) (\<lambda>(slug, requeue). slug = slSlug sel \<and> requeue \<and>
     (\<exists>persisted. serves (instances (routeReader r)) (keyOf (liMeta inst)) persisted \<and>
       omUID (liMeta persisted) = omUID (liMeta inst) \<and> keyOf (liMeta persisted) = keyOf (liMeta inst) \<and>
       stSlug (liStatus persisted) = slSlug sel \<and> stSlugSource (liStatus persisted) = slSource sel))"
  unfolding persistSlug_def Let_def
  by (intro yields_bindE [OF yields_True] yields_bindE [OF yields_apiE [OF yields_getObj]] yields_intros) auto

lemma emits_checkSlugRoute [emits_intros]: "emits G (checkSlugRoute r inst slug)"
  unfolding checkSlugRoute_def by (intro emits_intros)

lemma emits_withdrawRoute:
  assumes "\<And>ing. serves (ingresses (routeReader r)) (omNamespace (liMeta inst), svcNameOf inst) ing \<Longrightarrow>
    ownsSlugIngress (irLib r) inst ing \<Longrightarrow> G (Write LocalCluster (WDelete (preUIDVersion (igMeta ing))) (OIng ing))"
  shows "emits G (withdrawRoute r inst)"
  unfolding withdrawRoute_def
  by (rule emits_try_getObj) (auto intro!: emits_intros assms)

lemma emits_rejectSlug:
  assumes "\<And>ing. serves (ingresses (routeReader r)) (omNamespace (liMeta inst), svcNameOf inst) ing \<Longrightarrow>
      ownsSlugIngress (irLib r) inst ing \<Longrightarrow> G (Write LocalCluster (WDelete (preUIDVersion (igMeta ing))) (OIng ing))"
    and "\<And>now. G (Write LocalCluster WStatusUpdate (OInst (withStatus (irLib r) now inst
      (statusCondition inst conditionFalse ''SlugOwnershipError''
        ''Inference identity requires a valid operator policy and an exclusively owned route'') ''Provisioning'' [])))"
  shows "emits G (rejectSlug r inst cause)"
  unfolding rejectSlug_def errorOf_def updateProvisioningStatus_def writeStatus_def
  by (intro emits_intros emits_withdrawRoute assms)

lemma rejectSlug_fails:
  "\<exists>e. fst (rejectSlug r inst cause s) = Inl e \<and> (errors_is cause ErrSlugRejection \<longrightarrow> errors_is e ErrSlugRejection)"
proof (cases "errors_is cause ErrSlugRejection")
  case False
  then show ?thesis by (simp add: rejectSlug_def failE_def)
next
  case True
  have ret: "\<exists>x. fst (withdrawRoute r inst u) = Inr x" for u
    by (auto simp: withdrawRoute_def tryE_def retE_def split: sum.split prod.split)
  have join: "errors_is (case errors_join [Some cause, a, b] of Some e \<Rightarrow> e | None \<Rightarrow> cause) ErrSlugRejection" for a b
    using True errors_is_join [of "[Some cause, a, b]"] by (auto split: option.split)
  show ?thesis
    using True join ret
    by (auto simp: rejectSlug_def bindE_def tryE_def failE_def errorOf_def retE_def split: sum.split prod.split)
       (metis fst_conv old.sum.exhaust sum.simps(4))+
qed

text \<open>The writes by which a route is withdrawn.\<close>

fun withdrawalWrite :: "'w instance_reconciler \<Rightarrow> llm_instance \<Rightarrow> wreq \<Rightarrow> bool" where
  "withdrawalWrite r inst (Write LocalCluster (WDelete p) (OIng ing)) =
     (p = preUIDVersion (igMeta ing) \<and> ownsSlugIngress (irLib r) inst ing \<and>
      serves (ingresses (routeReader r)) (omNamespace (liMeta inst), svcNameOf inst) ing)"
| "withdrawalWrite r inst (Write LocalCluster WStatusUpdate (OInst i)) =
     (liMeta i = liMeta inst \<and> stEndpoint (liStatus i) = [] \<and> stPhase (liStatus i) = ''Provisioning'')"
| "withdrawalWrite r inst _ = False"

section \<open>Properties\<close>

text \<open>\<^bold>\<open>C16.\<close> An exclusive route: when the route check passes, then among all Ingresses that the API listed
  no other one has a default backend, and no path that another one claims on the public host (or on
  a wildcard over it) is a prefix of any request path under the path of the instance.  So no foreign
  rule, whatever its path type, can receive a request that carries a key of the instance.\<close>

theorem route_exclusive:
  assumes "checkSlugRoute r inst slug s = (Inr (), s')"
  shows "\<exists>items. listed (ingresses (routeReader r)) anywhere items \<and>
    (\<forall>ing \<in> set items.
       keyOf (igMeta ing) = (omNamespace (liMeta inst), svcNameOf inst) \<and> ownsSlugIngress (irLib r) inst ing \<or>
       igDefaultBackend ing = None \<and>
       (\<forall>rule paths p request. rule \<in> set (igRules ing) \<longrightarrow> hostClaimsSlugHost (rlHost rule) (irPublicHost r) \<longrightarrow>
          rlHTTP rule = Some paths \<longrightarrow> p \<in> set paths \<longrightarrow> prefix (''/llm/'' @ slug) request \<longrightarrow>
          \<not> prefix (trimRight (hpPath p) ''/'') request))"
proof -
  obtain items where l: "listed (ingresses (routeReader r)) anywhere items"
    and c: "\<not> list_ex (ingressConflicts r inst (''/llm/'' @ slug)) items"
    using yieldsD [OF yields_checkSlugRoute assms] by blast
  have "keyOf (igMeta ing) = (omNamespace (liMeta inst), svcNameOf inst) \<and> ownsSlugIngress (irLib r) inst ing \<or>
       igDefaultBackend ing = None \<and> \<not> list_ex (ruleConflicts (irPublicHost r) (''/llm/'' @ slug)) (igRules ing)"
    if "ing \<in> set items" for ing
  proof -
    have "\<not> ingressConflicts r inst (''/llm/'' @ slug) ing"
      using c that unfolding list_ex_iff by blast
    then show ?thesis unfolding ingressConflicts_def by (simp split: if_splits)
  qed
  then have "\<forall>ing \<in> set items.
       keyOf (igMeta ing) = (omNamespace (liMeta inst), svcNameOf inst) \<and> ownsSlugIngress (irLib r) inst ing \<or>
       igDefaultBackend ing = None \<and>
       (\<forall>rule paths p request. rule \<in> set (igRules ing) \<longrightarrow> hostClaimsSlugHost (rlHost rule) (irPublicHost r) \<longrightarrow>
          rlHTTP rule = Some paths \<longrightarrow> p \<in> set paths \<longrightarrow> prefix (''/llm/'' @ slug) request \<longrightarrow>
          \<not> prefix (trimRight (hpPath p) ''/'') request)"
    using pathOverlaps_request by (fastforce simp: list_ex_iff ruleConflicts_def)
  with l show ?thesis by blast
qed

text \<open>A slug is never silently changed: the controller goes on with a selection only if it is the
  policy's, agrees with the slug already recorded in the status and with the slug under which a
  remote workload runs, and is not a fresh derived slug for an instance that was provisioned before.\<close>

theorem selectSlug_sticky:
  assumes "selectSlug r inst = Inr sel"
  shows "Select (irSlugPolicy r) (liMeta inst) = Inr sel \<and>
    (stSlug (liStatus inst) \<noteq> [] \<longrightarrow> slSlug sel = stSlug (liStatus inst)) \<and>
    (stActiveBYOCSlug (liStatus inst) \<noteq> [] \<longrightarrow> slSlug sel = stActiveBYOCSlug (liStatus inst)) \<and>
    (slSource sel = Derived \<and> stSlug (liStatus inst) = [] \<longrightarrow>
       stEndpoint (liStatus inst) = [] \<and> stActiveBYOCSlug (liStatus inst) = [] \<and>
       stActiveBYOCKubeconfigSecretName (liStatus inst) = [])"
  using assms unfolding selectSlug_Inr by auto

text \<open>A slug is used only after it is persisted: \<^verbatim>\<open>ensureSlug\<close> returns without a requeue only if the
  status already records slug and source of the selection, and after patching the status it returns
  only if a read from the API shows the same instance with exactly this slug and source.\<close>

theorem ensureSlug_persisted:
  assumes "ensureSlug r inst s = (Inr (slug, requeue), s')"
  shows "\<exists>sel. selectSlug r inst = Inr sel \<and> slug = slSlug sel \<and>
    (if requeue
     then \<exists>persisted. serves (instances (routeReader r)) (keyOf (liMeta inst)) persisted \<and>
       omUID (liMeta persisted) = omUID (liMeta inst) \<and> keyOf (liMeta persisted) = keyOf (liMeta inst) \<and>
       stSlug (liStatus persisted) = slug \<and> stSlugSource (liStatus persisted) = slSource sel
     else stSlug (liStatus inst) = slug \<and> stSlugSource (liStatus inst) = slSource sel \<and> s' = s)"
proof (cases "selectSlug r inst")
  case (Inl e)
  with assms show ?thesis by (simp add: ensureSlug_def bindE_def tryE_def liftE_def failE_def)
next
  case (Inr sel)
  then have run: "ensureSlug r inst s =
      (if stSlug (liStatus inst) = slSlug sel \<and> stSlugSource (liStatus inst) = slSource sel
       then (Inr (slSlug sel, False), s) else persistSlug r inst sel s)"
    by (simp add: ensureSlug_def bindE_def tryE_def liftE_def retE_def)
  show ?thesis
  proof (cases "stSlug (liStatus inst) = slSlug sel \<and> stSlugSource (liStatus inst) = slSource sel")
    case True
    with Inr run assms show ?thesis by auto
  next
    case False
    with run assms have "persistSlug r inst sel s = (Inr (slug, requeue), s')" by (simp only: if_False)
    from yieldsD [OF yields_persistSlug this] Inr show ?thesis by auto
  qed
qed

text \<open>Rejection fails safe: it always returns an error; a cause that is not a rejection is returned
  as it is and nothing is written; otherwise the error still is a rejection, and the only writes are
  the deletion of the Ingress under the instance's own name, controlled by the instance, with UID
  and version as preconditions, and a status that withdraws the endpoint.\<close>

theorem rejectSlug_safe:
  "\<exists>e ws. fst (rejectSlug r inst cause s) = Inl e \<and> journal (snd (rejectSlug r inst cause s)) = journal s @ ws \<and>
    (if errors_is cause ErrSlugRejection
     then errors_is e ErrSlugRejection \<and> list_all (withdrawalWrite r inst) ws
     else e = cause \<and> ws = [])"
proof (cases "errors_is cause ErrSlugRejection")
  case False
  then show ?thesis by (simp add: rejectSlug_def failE_def)
next
  case True
  have "emits (withdrawalWrite r inst) (rejectSlug r inst cause)"
    by (rule emits_rejectSlug) (simp_all add: withStatus_def)
  then obtain ws where "journal (snd (rejectSlug r inst cause s)) = journal s @ ws" "list_all (withdrawalWrite r inst) ws"
    unfolding emits_def list_all_iff by blast
  moreover obtain e where "fst (rejectSlug r inst cause s) = Inl e" "errors_is e ErrSlugRejection"
    using rejectSlug_fails [of r inst cause s] True by blast
  ultimately show ?thesis using True by auto
qed

section \<open>Witnesses\<close>

definition demoReconciler :: "unit client \<Rightarrow> unit instance_reconciler" where
  "demoReconciler c = \<lparr>irClient = c, irRouteReader = None, irSlugPolicy = Some samplePolicy, irLib = sampleLib,
     irHost = sampleHost, irModelServerCeilings = tunedCeilings, irPublicHost = ''llm.example.org'',
     irAuthServiceURL = ''http://auth:8090/'', irPublicScheme = ''https'', irExtraIngressAnnotations = [],
     irTLSSecretName = [], irBYOCTLS = \<lparr>btDomain = [], btNamespace = [], btIssuerName = [], btIssuerNamespace = [],
       btDNSClass = []\<rparr>, irServiceHealthChecker = Some (\<lambda>_ w. (None, w)), irBYOCHealthChecker = None,
     irRemoteClientBuilder = None, irBYOCLib = sampleByoc emptyClient, irHTTPGet = (\<lambda>_ w. (Inr 200, w))\<rparr>"

definition otherIngress :: ingress where
  "otherIngress = \<lparr>igMeta = newMeta ''other'' ''web'', igClass = None, igDefaultBackend = None,
     igRules = [\<lparr>rlHost = ''llm.example.org'', rlHTTP = Some [\<lparr>hpPath = ''/docs'', hpPathType = ''Prefix'',
       hpBackend = \<lparr>ibService = ''web'', ibPort = 80\<rparr>\<rparr>]\<rparr>], igTLS = []\<rparr>"

definition demoIngresses :: "unit client" where
  "demoIngresses = emptyClient\<lparr>ingresses := cannedKind absent [otherIngress],
     instances := cannedKind (\<lambda>_. Inr demoInstance) []\<rparr>"

lemma demo_route: "checkSlugRoute (demoReconciler demoIngresses) demoInstance ''alpha'' startSys = (Inr (), startSys)"
proof -
  have "\<not> ingressConflicts (demoReconciler demoIngresses) demoInstance ''/llm/alpha'' otherIngress" by code_simp
  then show ?thesis
    by (simp add: checkSlugRoute_def routeReader_def demoReconciler_def demoIngresses_def emptyClient_def cannedKind_def absent_def
        isNotFound_def bindE_def tryE_def retE_def apiE_def getObj_def listObj_def readWith_def startSys_def)
qed

theorem route_exclusive_witness:
  "\<exists>items. listed (ingresses (routeReader (demoReconciler demoIngresses))) anywhere items \<and>
     (\<forall>ing \<in> set items. ing \<noteq> otherIngress \<or> igDefaultBackend ing = None)"
  using route_exclusive [OF demo_route] by (fastforce simp: otherIngress_def)

lemma demo_selectSlug:
  "selectSlug (demoReconciler c) demoInstance = Inr \<lparr>slSlug = ''alpha'', slSource = Legacy\<rparr>"
  using sample_Select(1) by (simp add: selectSlug_Inr demoReconciler_def demoInstance_def Legacy_def Derived_def)

theorem selectSlug_sticky_witness:
  "stSlug (liStatus demoInstance) = ''alpha'' \<and> stSlug (liStatus demoInstance) \<noteq> []"
  using selectSlug_sticky [OF demo_selectSlug] by (simp add: demoInstance_def)

lemma demo_ensureSlug: "ensureSlug (demoReconciler c) demoInstance startSys = (Inr (''alpha'', False), startSys)"
  by (simp add: ensureSlug_def demo_selectSlug bindE_def tryE_def liftE_def retE_def)
    (simp add: demoInstance_def Legacy_def)

theorem ensureSlug_persisted_witness: "stSlugSource (liStatus demoInstance) = Legacy"
  using ensureSlug_persisted [OF demo_ensureSlug [of emptyClient]] by (auto simp: demo_selectSlug)

end
