(* ===== verification/Deployment.thy ===== *)
theory Deployment
  imports SlugRoute
begin

text \<open>
  The llama.cpp Deployment of a hosted instance (\<^verbatim>\<open>llminstance_controller.go\<close>): how it is built, and the
  functions that bring an existing one to the desired shape.  The same containers are the base of
  the remote workloads.
\<close>

section \<open>Building\<close>

definition llamaServerImage :: string where
  "llamaServerImage = ''ghcr.io/ggml-org/llama.cpp@sha256:51570a4f93c5ce81ac6f2b1ea16a58771cfded2adb34241df7e75329b24fe76e''"

definition llamaModelVolume :: volume where
  "llamaModelVolume = \<lparr>voName = ''models-volume'', voSource = EmptyDir\<rparr>"

definition modelMount :: volume_mount where
  "modelMount = \<lparr>vmName = ''models-volume'', vmPath = ''/models'', vmReadOnly = False\<rparr>"

definition curlCommand :: string where
  "curlCommand = ''curl --fail --location --retry 10 --retry-all-errors --retry-delay 5 --retry-max-time 600 --connect-timeout 30''"

text \<open>The line that \<^verbatim>\<open>sha256sum -c\<close> reads, printed by the shell: \<^verbatim>\<open>printf '<sum>  <path>\n'\<close>.\<close>

definition printSum :: "string \<Rightarrow> string \<Rightarrow> string" where
  "printSum digest path = ''printf '' @ [CHR 0x27] @ digest @ ''  '' @ path @ [CHR 0x5C] @ ''n'' @ [CHR 0x27] @ '' | sha256sum -c -''"

definition modelDownloadCommand :: "model_selection \<Rightarrow> string" where
  "modelDownloadCommand m =
     (if msSHA256 m \<noteq> [] then
        let path = modelPath m; tmp = modelPath m @ ''.partial''; url = msURL m
        in ''if [ -f '' @ path @ '' ] && '' @ printSum (msSHA256 m) path @ ''; then exit 0; fi; '' @
           ''rm -f '' @ path @ ''; ('' @ curlCommand @ '' --continue-at - --output '' @ tmp @ '' '' @ url @
           '' || (rm -f '' @ tmp @ '' && '' @ curlCommand @ '' --output '' @ tmp @ '' '' @ url @ '')) && '' @
           ''if '' @ printSum (msSHA256 m) tmp @ ''; then mv '' @ tmp @ '' '' @ path @ ''; else rm -f '' @ tmp @ ''; exit 1; fi''
      else curlCommand @ '' --continue-at - --output '' @ modelPath m @ '' '' @ msURL m)"

definition noResources :: resources where
  "noResources = \<lparr>rsRequests = Map.empty, rsLimits = Map.empty\<rparr>"

text \<open>A resource list with the entries whose quantity is given.\<close>

definition quantities :: "kube_lib \<Rightarrow> (string \<times> string) list \<Rightarrow> string \<rightharpoonup> quantity" where
  "quantities L items = map_of (map (\<lambda>(k, v). (k, mustParse L v)) (filter (\<lambda>(k, v). v \<noteq> []) items))"

definition emptyContainer :: container where
  "emptyContainer = \<lparr>cnName = [], cnImage = [], cnCommand = [], cnArgs = [], cnEnv = [], cnPorts = [],
     cnReadiness = None, cnLiveness = None, cnMounts = [], cnResources = noResources, cnSecurity = None,
     cnPullPolicy = [], cnTerminationPath = [], cnTerminationPolicy = []\<rparr>"

definition llamaInitContainer :: "kube_lib \<Rightarrow> model_selection \<Rightarrow> container" where
  "llamaInitContainer L m = emptyContainer\<lparr>cnName := ''download-model'', cnImage := ''curlimages/curl:8.8.0'',
     cnCommand := [''/bin/sh'', ''-c''], cnArgs := [modelDownloadCommand m], cnMounts := [modelMount],
     cnResources := \<lparr>rsRequests = quantities L [(''ephemeral-storage'', msEphemeralRequest m)],
       rsLimits = quantities L [(''ephemeral-storage'', msEphemeralLimit m)]\<rparr>\<rparr>"

definition llmReadinessProbe :: probe where
  "llmReadinessProbe = \<lparr>pbHandler = HTTPGet ''/health'' 8000, pbInitialDelay = 0, pbPeriod = 5, pbTimeout = 2,
     pbSuccess = 0, pbFailure = 6\<rparr>"

definition llmLivenessProbe :: probe where
  "llmLivenessProbe = \<lparr>pbHandler = HTTPGet ''/health'' 8000, pbInitialDelay = 20, pbPeriod = 10, pbTimeout = 2,
     pbSuccess = 0, pbFailure = 6\<rparr>"

definition serverArgs :: "model_selection \<Rightarrow> string list \<Rightarrow> string list" where
  "serverArgs m extraArgs =
     [''-m'', modelPath m, ''--port'', ''8000'', ''--host'', ''0.0.0.0''] @ msServerArgs m @ extraArgs"

definition llamaServerContainer :: "kube_lib \<Rightarrow> model_selection \<Rightarrow> string list \<Rightarrow> container" where
  "llamaServerContainer L m extraArgs = emptyContainer\<lparr>cnName := ''llama-cpp-server'', cnImage := llamaServerImage,
     cnCommand := [''/app/llama-server''], cnArgs := serverArgs m extraArgs,
     cnEnv := [(''MODEL_PATH'', modelPath m)],
     cnPorts := [\<lparr>cpName = [], cpPort = 8000, cpProtocol = ''TCP''\<rparr>],
     cnReadiness := Some llmReadinessProbe, cnLiveness := Some llmLivenessProbe, cnMounts := [modelMount],
     cnResources := \<lparr>rsRequests = quantities L [(''cpu'', msCPURequest m), (''memory'', msMemoryRequest m)],
       rsLimits = quantities L [(''cpu'', msCPULimit m), (''memory'', msMemoryLimit m)]\<rparr>\<rparr>"

definition effectiveDNSPolicy :: "llm_instance \<Rightarrow> string" where
  "effectiveDNSPolicy inst = (if spDNSPolicy (liSpec inst) = ''Default'' then ''Default'' else ''ClusterFirst'')"

definition buildDeployment :: "kube_lib \<Rightarrow> llm_instance \<Rightarrow> (string \<rightharpoonup> string) \<Rightarrow> int \<Rightarrow> model_selection \<Rightarrow> deployment" where
  "buildDeployment L inst labels replicas m =
     \<lparr>dpMeta = (newMeta (omNamespace (liMeta inst)) (svcNameOf inst))\<lparr>omLabels := labels\<rparr>,
      dpReplicas = Some replicas, dpSelector = labels, dpStrategy = [],
      dpTemplate = \<lparr>ptLabels = labels, ptAnnotations = Map.empty, ptDNSPolicy = effectiveDNSPolicy inst,
        ptInitContainers = [llamaInitContainer L m], ptContainers = [llamaServerContainer L m []],
        ptVolumes = [llamaModelVolume], ptAutomount = None, ptRestartPolicy = [], ptGracePeriod = None,
        ptSchedulerName = [], ptServiceAccount = [], ptDeprecatedServiceAccount = [], ptFSGroup = None\<rparr>,
      dpObservedGeneration = 0, dpUpdatedReplicas = 0, dpReadyReplicas = 0, dpAvailableReplicas = 0\<rparr>"

section \<open>Ensuring\<close>

definition ensureDeploymentReplicas :: "int \<Rightarrow> deployment \<Rightarrow> deployment \<times> bool" where
  "ensureDeploymentReplicas desired d =
     (if dpReplicas d = Some desired then (d, False) else (d\<lparr>dpReplicas := Some desired\<rparr>, True))"

definition ensureDeploymentDNSPolicy :: "string \<Rightarrow> deployment \<Rightarrow> deployment \<times> bool" where
  "ensureDeploymentDNSPolicy desired d =
     (if ptDNSPolicy (dpTemplate d) = desired then (d, False)
      else (d\<lparr>dpTemplate := (dpTemplate d)\<lparr>ptDNSPolicy := desired\<rparr>\<rparr>, True))"

definition healthProbe :: "probe option \<Rightarrow> bool" where
  "healthProbe p = (case p of
     None \<Rightarrow> False
   | Some pb \<Rightarrow> (case pbHandler pb of HTTPGet path port \<Rightarrow> path = ''/health'' \<and> port = 8000 | _ \<Rightarrow> False))"

definition ensureLLMContainerProbes :: "container \<Rightarrow> container \<times> bool" where
  "ensureLLMContainerProbes c =
     (let (c, u) = (if \<not> healthProbe (cnReadiness c) then (c\<lparr>cnReadiness := Some llmReadinessProbe\<rparr>, True) else (c, False))
      in if \<not> healthProbe (cnLiveness c) then (c\<lparr>cnLiveness := Some llmLivenessProbe\<rparr>, True) else (c, u))"

text \<open>The init container of that name: its one argument and its resources.\<close>

definition ensureInitContainer :: "kube_lib \<Rightarrow> model_selection \<Rightarrow> container \<Rightarrow> container \<times> bool" where
  "ensureInitContainer L m c =
     (if cnName c \<noteq> ''download-model'' then (c, False)
      else
        let (c, u) = (if cnArgs c \<noteq> [modelDownloadCommand m] then (c\<lparr>cnArgs := [modelDownloadCommand m]\<rparr>, True) else (c, False));
            desired = cnResources (llamaInitContainer L m)
        in if cnResources c \<noteq> desired then (c\<lparr>cnResources := desired\<rparr>, True) else (c, u))"

definition ensureModelPathEnv :: "model_selection \<Rightarrow> container \<Rightarrow> container \<times> bool" where
  "ensureModelPathEnv m c =
     (let env = map (\<lambda>(n, v). if n = ''MODEL_PATH'' then (n, modelPath m) else (n, v)) (cnEnv c)
      in if list_ex (\<lambda>(n, v). n = ''MODEL_PATH'') (cnEnv c)
         then (c\<lparr>cnEnv := env\<rparr>, list_ex (\<lambda>(n, v). n = ''MODEL_PATH'' \<and> v \<noteq> modelPath m) (cnEnv c))
         else (c\<lparr>cnEnv := env @ [(''MODEL_PATH'', modelPath m)]\<rparr>, True))"

definition stringSliceEqual :: "string list \<Rightarrow> string list \<Rightarrow> bool" where
  "stringSliceEqual a b = (if length a \<noteq> length b then False else list_all (\<lambda>i. a ! i = b ! i) [0..<length a])"

lemma stringSliceEqual_eq [simp]: "stringSliceEqual a b = (a = b)"
  by (auto simp: stringSliceEqual_def list_all_iff intro: nth_equalityI)

definition ensureServerContainer :: "kube_lib \<Rightarrow> model_selection \<Rightarrow> string list \<Rightarrow> container \<Rightarrow> container \<times> bool" where
  "ensureServerContainer L m extraArgs c =
     (if cnName c \<noteq> ''llama-cpp-server'' then (c, False)
      else
        let desired = llamaServerContainer L m extraArgs in
        seqEnsure (\<lambda>c. if cnImage c \<noteq> cnImage desired then (c\<lparr>cnImage := cnImage desired\<rparr>, True) else (c, False))
        (seqEnsure (ensureModelPathEnv m)
        (seqEnsure (\<lambda>c. if \<not> stringSliceEqual (cnArgs c) (serverArgs m extraArgs) then (c\<lparr>cnArgs := serverArgs m extraArgs\<rparr>, True) else (c, False))
        (seqEnsure (\<lambda>c. if cnResources c \<noteq> cnResources desired then (c\<lparr>cnResources := cnResources desired\<rparr>, True) else (c, False))
           ensureLLMContainerProbes))) c)"

definition ensureDeploymentModel :: "kube_lib \<Rightarrow> model_selection \<Rightarrow> string list \<Rightarrow> deployment \<Rightarrow> deployment \<times> bool" where
  "ensureDeploymentModel L m extraArgs d =
     (case mapEnsure (ensureInitContainer L m) (ptInitContainers (dpTemplate d)) of
        (inits, u) \<Rightarrow>
          (case mapEnsure (ensureServerContainer L m extraArgs) (ptContainers (dpTemplate d)) of
             (cs, v) \<Rightarrow>
               (d\<lparr>dpTemplate := (dpTemplate d)\<lparr>ptInitContainers := inits, ptContainers := cs\<rparr>\<rparr>, u \<or> v)))"

section \<open>Reconciling\<close>

definition desiredReplicas :: "llm_instance \<Rightarrow> int" where
  "desiredReplicas inst = (if spReplicas (liSpec inst) \<le> 0 then 1 else spReplicas (liSpec inst))"

definition ensureDeployment :: "kube_lib \<Rightarrow> llm_instance \<Rightarrow> model_selection \<Rightarrow> deployment \<Rightarrow> deployment \<times> bool" where
  "ensureDeployment L inst m =
     seqEnsure (seqEnsure (ensureDeploymentReplicas (desiredReplicas inst)) (ensureDeploymentModel L m []))
       (ensureDeploymentDNSPolicy (effectiveDNSPolicy inst))"

definition reconcileDeployment :: "'w instance_reconciler \<Rightarrow> llm_instance \<Rightarrow> (string \<rightharpoonup> string) \<Rightarrow> model_selection
    \<Rightarrow> ('w, unit) io" where
  "reconcileDeployment r inst labels m =
     tryE (getObj (deployments (irClient r)) (omNamespace (liMeta inst), svcNameOf inst))
       (\<lambda>e. if \<not> isNotFound e then failE (APIErr e)
            else
              let d = buildDeployment (irLib r) inst labels (desiredReplicas inst) m
              in bindE (controlE r inst (dpMeta d)) (\<lambda>mt.
                 bindE (apiE (localCreate ODep (deployments (irClient r)) (d\<lparr>dpMeta := mt\<rparr>))) (\<lambda>_. retE ())))
       (\<lambda>existing.
          if \<not> ownsLLMResource (irLib r) inst (dpMeta existing) then failE errSlugBackendOwnership
          else case ensureDeployment (irLib r) inst m existing of
            (d, changed) \<Rightarrow>
              if \<not> changed then retE ()
              else bindE (apiE (localUpdate ODep (deployments (irClient r)) d)) (\<lambda>_. retE ()))"

section \<open>Convergence\<close>

interpretation replicas: converging "ensureDeploymentReplicas n" "\<lambda>d. dpReplicas d = Some n" for n
  by unfold_locales (simp_all add: ensureDeploymentReplicas_def)

interpretation dns_policy: converging "ensureDeploymentDNSPolicy p" "\<lambda>d. ptDNSPolicy (dpTemplate d) = p" for p
  by unfold_locales (simp_all add: ensureDeploymentDNSPolicy_def)

definition probed :: "container \<Rightarrow> bool" where
  "probed c = (healthProbe (cnReadiness c) \<and> healthProbe (cnLiveness c))"

lemma llm_probes_healthy: "healthProbe (Some llmReadinessProbe)" "healthProbe (Some llmLivenessProbe)"
  by (simp_all add: healthProbe_def llmReadinessProbe_def llmLivenessProbe_def)

interpretation probes: converging ensureLLMContainerProbes probed
  by unfold_locales (simp_all add: ensureLLMContainerProbes_def probed_def llm_probes_healthy Let_def)

definition initReady :: "kube_lib \<Rightarrow> model_selection \<Rightarrow> container \<Rightarrow> bool" where
  "initReady L m c = (cnName c = ''download-model'' \<longrightarrow>
     cnArgs c = [modelDownloadCommand m] \<and> cnResources c = cnResources (llamaInitContainer L m))"

interpretation init_container: converging "ensureInitContainer L m" "initReady L m" for L m
  by unfold_locales (auto simp: ensureInitContainer_def initReady_def Let_def)

definition envReady :: "model_selection \<Rightarrow> container \<Rightarrow> bool" where
  "envReady m c = (''MODEL_PATH'' \<in> fst ` set (cnEnv c) \<and>
     (\<forall>(n, v) \<in> set (cnEnv c). n = ''MODEL_PATH'' \<longrightarrow> v = modelPath m))"

interpretation model_env: converging "ensureModelPathEnv m" "envReady m" for m
proof
  fix c
  show "envReady m (fst (ensureModelPathEnv m c))"
    by (force simp: ensureModelPathEnv_def envReady_def Let_def list_ex_iff split: if_splits)
  assume e: "envReady m c"
  then have "map (\<lambda>(n, v). if n = ''MODEL_PATH'' then (n, modelPath m) else (n, v)) (cnEnv c) = cnEnv c"
    by (intro map_idI) (auto simp: envReady_def)
  with e show "ensureModelPathEnv m c = (c, False)"
    by (auto simp: ensureModelPathEnv_def envReady_def Let_def list_ex_iff)
qed

lemma envReady_frame [simp]:
  "envReady m (c\<lparr>cnImage := x\<rparr>) = envReady m c" "envReady m (c\<lparr>cnArgs := a\<rparr>) = envReady m c"
  "envReady m (c\<lparr>cnResources := q\<rparr>) = envReady m c" "envReady m (c\<lparr>cnReadiness := p\<rparr>) = envReady m c"
  "envReady m (c\<lparr>cnLiveness := p\<rparr>) = envReady m c"
  by (simp_all add: envReady_def)

lemma ensureModelPathEnv_frame:
  "cnName (fst (ensureModelPathEnv m c)) = cnName c" "cnImage (fst (ensureModelPathEnv m c)) = cnImage c"
  "cnArgs (fst (ensureModelPathEnv m c)) = cnArgs c" "cnResources (fst (ensureModelPathEnv m c)) = cnResources c"
  "probed (fst (ensureModelPathEnv m c)) = probed c"
  by (simp_all add: ensureModelPathEnv_def probed_def Let_def)

definition serverReady :: "kube_lib \<Rightarrow> model_selection \<Rightarrow> string list \<Rightarrow> container \<Rightarrow> bool" where
  "serverReady L m extra c = (cnName c = ''llama-cpp-server'' \<longrightarrow>
     cnImage c = llamaServerImage \<and> envReady m c \<and> cnArgs c = serverArgs m extra \<and>
     cnResources c = cnResources (llamaServerContainer L m extra) \<and> probed c)"

lemma desired_image: "cnImage (llamaServerContainer L m extra) = llamaServerImage"
  by (simp add: llamaServerContainer_def)

lemma ensureLLMContainerProbes_frame:
  "cnName (fst (ensureLLMContainerProbes c)) = cnName c" "cnImage (fst (ensureLLMContainerProbes c)) = cnImage c"
  "cnArgs (fst (ensureLLMContainerProbes c)) = cnArgs c" "cnResources (fst (ensureLLMContainerProbes c)) = cnResources c"
  "envReady m (fst (ensureLLMContainerProbes c)) = envReady m c"
  by (simp_all add: ensureLLMContainerProbes_def Let_def)

lemma fst_seqEnsure: "fst (seqEnsure f g x) = fst (g (fst (f x)))"
  by (simp add: seqEnsure_def split: prod.split)

interpretation server_container: converging "ensureServerContainer L m extra" "serverReady L m extra" for L m extra
proof
  fix c
  show "serverReady L m extra (fst (ensureServerContainer L m extra c))"
    by (auto simp: ensureServerContainer_def serverReady_def Let_def fst_seqEnsure desired_image
        ensureLLMContainerProbes_frame ensureModelPathEnv_frame probes.ensure_desired model_env.ensure_desired)
  assume "serverReady L m extra c"
  then show "ensureServerContainer L m extra c = (c, False)"
    by (auto simp: ensureServerContainer_def serverReady_def Let_def seqEnsure_def desired_image
        probes.ensure_stable model_env.ensure_stable)
qed

definition modelReady :: "kube_lib \<Rightarrow> model_selection \<Rightarrow> string list \<Rightarrow> deployment \<Rightarrow> bool" where
  "modelReady L m extra d = (list_all (initReady L m) (ptInitContainers (dpTemplate d)) \<and>
     list_all (serverReady L m extra) (ptContainers (dpTemplate d)))"

interpretation deployment_model: converging "ensureDeploymentModel L m extra" "modelReady L m extra" for L m extra
proof
  fix d
  show "modelReady L m extra (fst (ensureDeploymentModel L m extra d))"
    using init_container.map_desired server_container.map_desired
    by (simp add: ensureDeploymentModel_def modelReady_def split: prod.split) (metis fst_conv)
  assume "modelReady L m extra d"
  then show "ensureDeploymentModel L m extra d = (d, False)"
    by (simp add: ensureDeploymentModel_def modelReady_def init_container.map_stable server_container.map_stable)
qed

text \<open>The mutations of a deployment do not undo one another.\<close>

lemma ensureDeploymentModel_replicas: "dpReplicas (fst (ensureDeploymentModel L m extra d)) = dpReplicas d"
  by (simp add: ensureDeploymentModel_def split: prod.split)

interpretation replicas_model: converging_pair
  "ensureDeploymentReplicas n" "\<lambda>d. dpReplicas d = Some n" "ensureDeploymentModel L m extra" "modelReady L m extra"
  for n L m extra
  by unfold_locales (simp add: ensureDeploymentModel_replicas)

interpretation deployment: converging_pair
  "seqEnsure (ensureDeploymentReplicas n) (ensureDeploymentModel L m extra)"
  "\<lambda>d. dpReplicas d = Some n \<and> modelReady L m extra d"
  "ensureDeploymentDNSPolicy p" "\<lambda>d. ptDNSPolicy (dpTemplate d) = p"
  for n L m extra p
  by unfold_locales (simp add: ensureDeploymentDNSPolicy_def modelReady_def)

definition deploymentCurrent :: "kube_lib \<Rightarrow> llm_instance \<Rightarrow> model_selection \<Rightarrow> deployment \<Rightarrow> bool" where
  "deploymentCurrent L inst m d = ((dpReplicas d = Some (desiredReplicas inst) \<and> modelReady L m [] d) \<and>
     ptDNSPolicy (dpTemplate d) = effectiveDNSPolicy inst)"

lemma ensureDeployment_current: "deploymentCurrent L inst m (fst (ensureDeployment L inst m d))"
  unfolding ensureDeployment_def deploymentCurrent_def by (rule deployment.both.ensure_desired)

lemma ensureDeployment_stable: "deploymentCurrent L inst m d \<Longrightarrow> ensureDeployment L inst m d = (d, False)"
  unfolding ensureDeployment_def deploymentCurrent_def by (rule deployment.both.ensure_stable)

lemma buildDeployment_current: "deploymentCurrent L inst m (buildDeployment L inst labels (desiredReplicas inst) m)"
  by (simp add: deploymentCurrent_def buildDeployment_def modelReady_def initReady_def serverReady_def envReady_def probed_def
      llm_probes_healthy)
    (simp add: llamaInitContainer_def llamaServerContainer_def llm_probes_healthy)

section \<open>What is written\<close>

lemma deploymentCurrent_meta [simp]: "deploymentCurrent L inst m (d\<lparr>dpMeta := mt\<rparr>) = deploymentCurrent L inst m d"
  by (simp add: deploymentCurrent_def modelReady_def)

lemma ensureDeployment_meta: "dpMeta (fst (ensureDeployment L inst m d)) = dpMeta d"
  by (simp add: ensureDeployment_def fst_seqEnsure ensureDeploymentDNSPolicy_def ensureDeploymentReplicas_def
      ensureDeploymentModel_def split: prod.split)

text \<open>A Deployment is created under the instance's own name and control, or updated in place when the
  instance controls it; in both cases it has the desired shape.\<close>

fun deploymentWrite :: "'w instance_reconciler \<Rightarrow> llm_instance \<Rightarrow> model_selection \<Rightarrow> wreq \<Rightarrow> bool" where
  "deploymentWrite r inst m (Write LocalCluster WCreate (ODep d)) =
     (deploymentCurrent (irLib r) inst m d \<and>
      (\<exists>m0. setControllerReference (irLib r) ''LLMInstance'' (liMeta inst) m0 = Inr (dpMeta d) \<and>
        keyOf m0 = (omNamespace (liMeta inst), svcNameOf inst)))"
| "deploymentWrite r inst m (Write LocalCluster WUpdate (ODep d)) =
     (deploymentCurrent (irLib r) inst m d \<and> ownsLLMResource (irLib r) inst (dpMeta d) \<and>
      (\<exists>old. serves (deployments (irClient r)) (omNamespace (liMeta inst), svcNameOf inst) old \<and> dpMeta d = dpMeta old))"
| "deploymentWrite r inst m _ = False"

lemma yields_controlE:
  "yields (controlE r inst m0) (\<lambda>m. setControllerReference (irLib r) ''LLMInstance'' (liMeta inst) m0 = Inr m)"
  unfolding controlE_def by (rule yields_liftE)

lemma emits_controlE [emits_intros]: "emits G (controlE r inst m0)"
  unfolding controlE_def by (rule emits_liftE)

lemma emits_reconcileDeployment: "emits (deploymentWrite r inst m) (reconcileDeployment r inst labels m)"
  unfolding reconcileDeployment_def Let_def
proof (rule emits_try_getObj, goal_cases)
  case (1 e)
  have "deploymentWrite r inst m (Write LocalCluster WCreate
      (ODep ((buildDeployment (irLib r) inst labels (desiredReplicas inst) m)\<lparr>dpMeta := mt\<rparr>)))"
    if "setControllerReference (irLib r) ''LLMInstance'' (liMeta inst)
      (dpMeta (buildDeployment (irLib r) inst labels (desiredReplicas inst) m)) = Inr mt" for mt
  proof -
    have "keyOf (dpMeta (buildDeployment (irLib r) inst labels (desiredReplicas inst) m)) =
        (omNamespace (liMeta inst), svcNameOf inst)"
      by (simp add: buildDeployment_def keyOf_def newMeta_def)
    with that show ?thesis using buildDeployment_current by auto
  qed
  then show ?case
    by (intro emits_if emits_failE emits_bind [OF emits_controlE yields_controlE] emits_bindE emits_apiE emits_createObj emits_retE)
next
  case (2 old)
  have "deploymentWrite r inst m (Write LocalCluster WUpdate (ODep d))"
    if "ensureDeployment (irLib r) inst m old = (d, ch)" "ownsLLMResource (irLib r) inst (dpMeta old)" for d ch
    using that 2 ensureDeployment_current [of "irLib r" inst m old] ensureDeployment_meta [of "irLib r" inst m old] by auto
  then show ?case
    by (intro emits_if emits_failE emits_case_prod emits_retE emits_bindE emits_apiE emits_updateObj) simp_all
qed

section \<open>Budgets of the running server\<close>

lemma serverIntFlag_skip:
  "flag \<notin> set pre \<Longrightarrow> serverIntFlag (pre @ args) flag d = serverIntFlag args flag d"
proof (induction pre)
  case (Cons a pre)
  then show ?case by (cases "pre @ args") auto
qed simp

lemma serverArgs_flag:
  assumes "flag \<in> {''--ctx-size'', ''--parallel''}"
  shows "serverIntFlag (serverArgs m []) flag d = serverIntFlag (msServerArgs m) flag d"
proof -
  have "flag \<notin> set [''-m'', modelPath m, ''--port'', ''8000'', ''--host'', ''0.0.0.0'']"
    using assms by (auto simp: modelPath_def)
  then show ?thesis
    unfolding serverArgs_def append_Nil2 by (rule serverIntFlag_skip)
qed

section \<open>Properties\<close>

text \<open>Reconciling the Deployment: every Deployment that is written runs the desired model, replica
  count, DNS policy, image, arguments, resources and probes; it is created under the instance's own
  name with the instance as controller, or is an update of a Deployment that the instance controls.
  No other kind of object is touched.\<close>

theorem deployment_writes:
  assumes "journal s = []" and "w \<in> set (journal (snd (reconcileDeployment r inst labels m s)))"
  shows "\<exists>d. (w = Write LocalCluster WCreate (ODep d) \<and>
      (\<exists>m0. setControllerReference (irLib r) ''LLMInstance'' (liMeta inst) m0 = Inr (dpMeta d) \<and>
         keyOf m0 = (omNamespace (liMeta inst), svcNameOf inst)) \<or>
     w = Write LocalCluster WUpdate (ODep d) \<and> ownsLLMResource (irLib r) inst (dpMeta d)) \<and>
    dpReplicas d = Some (desiredReplicas inst) \<and> ptDNSPolicy (dpTemplate d) = effectiveDNSPolicy inst \<and>
    (\<forall>c \<in> set (ptContainers (dpTemplate d)). cnName c = ''llama-cpp-server'' \<longrightarrow>
       cnImage c = llamaServerImage \<and> cnArgs c = serverArgs m [] \<and>
       cnResources c = cnResources (llamaServerContainer (irLib r) m []) \<and>
       healthProbe (cnReadiness c) \<and> healthProbe (cnLiveness c))"
proof -
  have "deploymentWrite r inst m w"
    using emits_from_empty [OF emits_reconcileDeployment assms] .
  then obtain d where "w = Write LocalCluster WCreate (ODep d) \<or> w = Write LocalCluster WUpdate (ODep d)"
    by (cases "(r, inst, m, w)" rule: deploymentWrite.cases) auto
  with \<open>deploymentWrite r inst m w\<close> show ?thesis
    by (auto simp: deploymentCurrent_def modelReady_def list_all_iff serverReady_def probed_def)
qed

text \<open>\<^bold>\<open>C33.\<close> Convergence: a Deployment as it was built or updated is left alone.  When the API serves a
  controlled Deployment of the desired shape, reconciling it succeeds without a write, and both the
  freshly built Deployment and the result of any update have that shape.\<close>

theorem deployment_converges:
  "deploymentCurrent L inst m (buildDeployment L inst labels (desiredReplicas inst) m) \<and>
   deploymentCurrent L inst m (fst (ensureDeployment L inst m d)) \<and>
   ensureDeployment L inst m (fst (ensureDeployment L inst m d)) = (fst (ensureDeployment L inst m d), False) \<and>
   ensureDeployment L inst m (buildDeployment L inst labels (desiredReplicas inst) m) =
     (buildDeployment L inst labels (desiredReplicas inst) m, False)"
  by (simp add: buildDeployment_current ensureDeployment_current ensureDeployment_stable)

text \<open>\<^bold>\<open>C32.\<close> The ceilings hold for the running server: when an instance has passed the check, the server
  container of a Deployment in its desired shape is started with a context size and a number of
  parallel slots within the provider's ceilings (or the model's own budget).\<close>

theorem server_within_ceilings:
  assumes "checkCeilings L c inst = None"
    and "deploymentCurrent L inst (modelForInstance inst) d"
    and "cn \<in> set (ptContainers (dpTemplate d))" and "cnName cn = ''llama-cpp-server''"
  shows "serverIntFlag (cnArgs cn) ''--ctx-size'' 0 \<le>
      ceilingOr (ceContextSize c) (serverIntFlag (msServerArgs (resolveModel (spModel (liSpec inst)))) ''--ctx-size'' 0) \<and>
    serverIntFlag (cnArgs cn) ''--parallel'' 4 \<le>
      ceilingOr (ceParallelSlots c) (serverIntFlag (msServerArgs (resolveModel (spModel (liSpec inst)))) ''--parallel'' 4)"
proof -
  have "firstExcess (budgets L c inst) = None"
    using assms(1) by (auto simp: checkCeilings_def split: option.splits)
  then have "\<forall>(name, requested, maximum) \<in> set (budgets L c inst). requested \<le> maximum"
    by (simp only: firstExcess_None)
  moreover have "cnArgs cn = serverArgs (modelForInstance inst) []"
    using assms(2-4) by (auto simp: deploymentCurrent_def modelReady_def list_all_iff serverReady_def)
  ultimately show ?thesis by (simp add: serverArgs_flag budgets_def Let_def ceilingOr_def)
qed

section \<open>Witnesses\<close>

definition demoModel :: model_selection where
  "demoModel = modelForInstance demoInstance"

lemma demo_deploy_write:
  "\<exists>d. Write LocalCluster WCreate (ODep d) \<in>
     set (journal (snd (reconcileDeployment (demoReconciler emptyClient) demoInstance labels demoModel startSys)))"
  by (simp add: reconcileDeployment_def demoReconciler_def emptyClient_def cannedKind_def absent_def isNotFound_def
      bindE_def tryE_def retE_def apiE_def getObj_def createObj_def readWith_def writeWith_def startSys_def controlE_def liftE_def
      sampleLib_def takeControl_def controllerOf_def buildDeployment_def newMeta_def Let_def)

theorem deployment_writes_witness:
  "\<exists>d :: deployment. dpReplicas d = Some (desiredReplicas demoInstance) \<and> ptDNSPolicy (dpTemplate d) = effectiveDNSPolicy demoInstance"
proof -
  obtain d where "Write LocalCluster WCreate (ODep d) \<in>
     set (journal (snd (reconcileDeployment (demoReconciler emptyClient) demoInstance Map.empty demoModel startSys)))"
    using demo_deploy_write by blast
  moreover have "journal startSys = []" by (simp add: startSys_def)
  ultimately show ?thesis
    using deployment_writes [of startSys "Write LocalCluster WCreate (ODep d)"] by blast
qed

theorem server_within_ceilings_witness:
  "serverIntFlag (cnArgs (llamaServerContainer sampleLib (modelForInstance tunedInstance) [])) ''--parallel'' 4 \<le> 4"
  using server_within_ceilings [OF tuned_checks
      buildDeployment_current [of sampleLib tunedInstance "modelForInstance tunedInstance" Map.empty],
      of "llamaServerContainer sampleLib (modelForInstance tunedInstance) []"]
  by (simp add: buildDeployment_def ceilingOr_def tunedCeilings_def) (simp add: llamaServerContainer_def)

end
