(* ===== verification/AuthServer.thy ===== *)
theory AuthServer
  imports SlugPolicy
begin

text \<open>
  \<^verbatim>\<open>internal/auth/server.go\<close>: the forward-auth server that decides whether a bearer token may use
  an instance.  The instance comes from the query string of the operator-managed URL, the
  decision from the Kubernetes API.  A request is the raw query and the \<^verbatim>\<open>Authorization\<close> header; the
  response is the status code, the \<^verbatim>\<open>WWW-Authenticate\<close> header and the body.  The routing of paths
  to the handler and the socket deadlines belong to \<^verbatim>\<open>net/http\<close>; a lookup that exceeds its
  deadline is an error of the client.
\<close>

section \<open>Data\<close>

definition slugKey :: string where "slugKey = ''llm.privatellms.msp/slug''"
definition credentialInstanceKey :: string where
  "credentialInstanceKey = ''llm.privatellms.msp/credential-instance-uid''"
definition credentialTargetKey :: string where
  "credentialTargetKey = ''llm.privatellms.msp/credential-target''"

record 'w auth_server =
  asK8sClient :: "'w client"
  asSlugPolicy :: "policy option"
  asLib :: kube_lib

record instance_binding =
  bnNamespace :: string
  bnName :: string
  bnUID :: string
  bnSlug :: string

record http_request =
  rqRawQuery :: string
  rqAuthorization :: string

record http_response =
  rpStatus :: int
  rpWWWAuthenticate :: string
  rpBody :: string

section \<open>Operations\<close>

text \<open>\<^verbatim>\<open>Values.Get\<close>: the first value, or the empty string.\<close>

definition valuesGet :: "(string \<Rightarrow> string list) \<Rightarrow> string \<Rightarrow> string" where
  "valuesGet query key = (case query key of [] \<Rightarrow> [] | v # _ \<Rightarrow> v)"

definition parseBinding :: "kube_lib \<Rightarrow> (string \<Rightarrow> string list) \<Rightarrow> instance_binding option" where
  "parseBinding L query =
     (if \<exists>key \<in> set [''namespace'', ''instance'', ''uid'', ''slug''].
           length (query key) \<noteq> 1 \<or> trimSpace (valuesGet query key) = []
      then None
      else
        let b = \<lparr>bnNamespace = valuesGet query ''namespace'', bnName = valuesGet query ''instance'',
                 bnUID = valuesGet query ''uid'', bnSlug = valuesGet query ''slug''\<rparr>
        in if isDNS1123Label L (bnNamespace b) \<and> isDNS1123Subdomain L (bnName b) \<and>
              isValidLabelValue L (bnSlug b)
           then Some b else None)"

definition ownsToken :: "'w auth_server \<Rightarrow> llm_instance \<Rightarrow> secret \<Rightarrow> ('w, bool) io" where
  "ownsToken srv inst sec =
     (let m = seMeta sec in
      if omNamespace m \<noteq> omNamespace (liMeta inst) \<or> seType sec \<noteq> secretTypeOpaque \<or>
         omDeletion m \<noteq> None \<or>
         getS (omLabels m) ''llm.privatellms.msp/instance'' \<noteq> omName (liMeta inst) \<or>
         getS (omAnnotations m) credentialInstanceKey \<noteq> omUID (liMeta inst) \<or>
         getS (omAnnotations m) credentialTargetKey \<noteq> []
      then retE False
      else case getControllerOf (asLib srv) m of
        None \<Rightarrow> retE False
      | Some owner \<Rightarrow>
          if orUID owner = [] \<or> orKind owner \<noteq> ''APITokenRequest'' \<or> orAPIVersion owner \<noteq> groupVersion
          then retE False
          else tryE (getObj (tokenRequests (asK8sClient srv)) (omNamespace (liMeta inst), orName owner))
            (\<lambda>e. if isNotFound e then retE False else failE (APIErr e))
            (\<lambda>tr. retE (omUID (trMeta tr) = orUID owner \<and> omDeletion (trMeta tr) = None \<and>
               tsInstanceName (trSpec tr) = omName (liMeta inst) \<and>
               ttSecretName (trStatus tr) = omName m \<and>
               ttObservedGeneration (trStatus tr) = omGeneration (trMeta tr) \<and>
               getS (omLabels m) ''llm.privatellms.msp/apitokenrequest'' = omName (trMeta tr))))"

text \<open>The loop over the listed secrets; \<^verbatim>\<open>ConstantTimeCompare\<close> is equality of byte strings.\<close>

fun authorizeSecrets :: "'w auth_server \<Rightarrow> llm_instance \<Rightarrow> string \<Rightarrow> secret list \<Rightarrow> ('w, bool) io" where
  "authorizeSecrets srv inst token [] = retE False"
| "authorizeSecrets srv inst token (sec # secs) =
     (if getS (seData sec) ''OPENAI_API_KEY'' \<noteq> token then authorizeSecrets srv inst token secs
      else bindE (ownsToken srv inst sec)
        (\<lambda>valid. if valid then retE True else authorizeSecrets srv inst token secs))"

definition authorize :: "'w auth_server \<Rightarrow> instance_binding \<Rightarrow> string \<Rightarrow> ('w, bool) io" where
  "authorize srv b token =
     tryE (getObj (instances (asK8sClient srv)) (bnNamespace b, bnName b))
       (\<lambda>e. bindE (ignoreNotFound e) (\<lambda>_. retE False))
       (\<lambda>inst.
          case Select (asSlugPolicy srv) (liMeta inst) of
            Inl _ \<Rightarrow> retE False
          | Inr selection \<Rightarrow>
              if slSlug selection \<noteq> bnSlug b \<or> stSlug (liStatus inst) \<noteq> slSlug selection \<or>
                 stSlugSource (liStatus inst) \<noteq> slSource selection
              then retE False
              else if omUID (liMeta inst) \<noteq> bnUID b \<or> omDeletion (liMeta inst) \<noteq> None \<or> isBYOC inst \<or>
                 stActiveBYOCKubeconfigSecretName (liStatus inst) \<noteq> []
              then retE False
              else bindE (apiE (listObj (secrets (asK8sClient srv))
                     (inNamespace (omNamespace (liMeta inst)) [(slugKey, bnSlug b)])))
                (authorizeSecrets srv inst token))"

definition httpError :: "int \<Rightarrow> string \<Rightarrow> string \<Rightarrow> http_response" where
  "httpError code www msg = \<lparr>rpStatus = code, rpWWWAuthenticate = www, rpBody = msg @ [CHR 0x0A]\<rparr>"

definition bearerToken :: "string \<Rightarrow> string option" where
  "bearerToken header =
     (let token = trimSpace (trimPrefix header ''Bearer '')
      in if \<not> hasPrefix header ''Bearer '' \<or> token = [] then None else Some token)"

text \<open>The handler of \<^verbatim>\<open>/auth/verify\<close>.  It always answers, so it has no error of its own.\<close>

definition verifyHandler :: "'w auth_server \<Rightarrow> http_request \<Rightarrow> ('w sys, unit, http_response) eff" where
  "verifyHandler srv r =
     (case parseBinding (asLib srv) (parseQuery (rqRawQuery r)) of
        None \<Rightarrow> retE (httpError 400 [] ''missing or invalid instance binding'')
      | Some b \<Rightarrow>
          (case bearerToken (rqAuthorization r) of
             None \<Rightarrow> retE (httpError 401 ''Bearer'' ''missing bearer token'')
           | Some token \<Rightarrow>
               tryE (authorize srv b token)
                 (\<lambda>_. retE (httpError 500 [] ''internal error''))
                 (\<lambda>allowed.
                    if \<not> allowed
                    then retE (httpError 401
                      (''Bearer error='' @ [CHR 0x22] @ ''invalid_token'' @ [CHR 0x22]) ''invalid token'')
                    else retE \<lparr>rpStatus = 200, rpWWWAuthenticate = [], rpBody = ''ok''\<rparr>)))"

section \<open>What a positive answer means\<close>

text \<open>The instance is the one the URL binds: the policy selects the slug of the URL for it, its status
  agrees, its UID is the one of the URL, and it is neither being deleted nor served remotely.\<close>

definition routedTo :: "policy option \<Rightarrow> instance_binding \<Rightarrow> llm_instance \<Rightarrow> bool" where
  "routedTo p b inst =
     (case Select p (liMeta inst) of
        Inl _ \<Rightarrow> False
      | Inr sel \<Rightarrow> slSlug sel = bnSlug b \<and> stSlug (liStatus inst) = slSlug sel \<and>
          stSlugSource (liStatus inst) = slSource sel \<and> omUID (liMeta inst) = bnUID b \<and>
          omDeletion (liMeta inst) = None \<and> \<not> isBYOC inst \<and>
          stActiveBYOCKubeconfigSecretName (liStatus inst) = [])"

text \<open>The secret claims to be a hosted credential of this incarnation of the instance.\<close>

definition boundSecret :: "llm_instance \<Rightarrow> secret \<Rightarrow> bool" where
  "boundSecret inst sec =
     (omNamespace (seMeta sec) = omNamespace (liMeta inst) \<and> seType sec = secretTypeOpaque \<and>
      omDeletion (seMeta sec) = None \<and>
      getS (omLabels (seMeta sec)) ''llm.privatellms.msp/instance'' = omName (liMeta inst) \<and>
      getS (omAnnotations (seMeta sec)) credentialInstanceKey = omUID (liMeta inst) \<and>
      getS (omAnnotations (seMeta sec)) credentialTargetKey = [])"

definition tokenOwner :: "kube_lib \<Rightarrow> secret \<Rightarrow> owner_ref \<Rightarrow> bool" where
  "tokenOwner L sec owner =
     (getControllerOf L (seMeta sec) = Some owner \<and> orUID owner \<noteq> [] \<and>
      orKind owner = ''APITokenRequest'' \<and> orAPIVersion owner = groupVersion)"

text \<open>The request vouches for the secret: it is live, names the instance, and its status, written
  for its current generation, names the secret.\<close>

definition vouches :: "llm_instance \<Rightarrow> secret \<Rightarrow> owner_ref \<Rightarrow> token_request \<Rightarrow> bool" where
  "vouches inst sec owner tr =
     (omUID (trMeta tr) = orUID owner \<and> omDeletion (trMeta tr) = None \<and>
      tsInstanceName (trSpec tr) = omName (liMeta inst) \<and>
      ttSecretName (trStatus tr) = omName (seMeta sec) \<and>
      ttObservedGeneration (trStatus tr) = omGeneration (trMeta tr) \<and>
      getS (omLabels (seMeta sec)) ''llm.privatellms.msp/apitokenrequest'' = omName (trMeta tr))"

lemma ownsToken_alt:
  "ownsToken srv inst sec =
     (if \<not> boundSecret inst sec then retE False
      else case getControllerOf (asLib srv) (seMeta sec) of
        None \<Rightarrow> retE False
      | Some owner \<Rightarrow>
          if \<not> tokenOwner (asLib srv) sec owner then retE False
          else tryE (getObj (tokenRequests (asK8sClient srv)) (omNamespace (liMeta inst), orName owner))
            (\<lambda>e. if isNotFound e then retE False else failE (APIErr e))
            (\<lambda>tr. retE (vouches inst sec owner tr)))"
  by (auto simp: ownsToken_def boundSecret_def tokenOwner_def vouches_def Let_def split: option.split)

lemma authorize_alt:
  "authorize srv b token =
     tryE (getObj (instances (asK8sClient srv)) (bnNamespace b, bnName b))
       (\<lambda>e. bindE (ignoreNotFound e) (\<lambda>_. retE False))
       (\<lambda>inst. if \<not> routedTo (asSlugPolicy srv) b inst then retE False
          else bindE (apiE (listObj (secrets (asK8sClient srv))
                 (inNamespace (omNamespace (liMeta inst)) [(slugKey, bnSlug b)])))
            (authorizeSecrets srv inst token))"
  unfolding authorize_def
  by (rule arg_cong [where f = "tryE _ _"]) (auto simp: routedTo_def fun_eq_iff split: sum.split)

text \<open>What the server has seen when it accepts a secret: its controller, and a request under the
  controller's name that vouches for it.\<close>

definition credentialSeen :: "'w auth_server \<Rightarrow> llm_instance \<Rightarrow> secret \<Rightarrow> bool" where
  "credentialSeen srv inst sec =
     (boundSecret inst sec \<and> (\<exists>owner tr. tokenOwner (asLib srv) sec owner \<and>
        serves (tokenRequests (asK8sClient srv)) (omNamespace (liMeta inst), orName owner) tr \<and>
        vouches inst sec owner tr))"

lemma ownsToken_sound: "wp (ownsToken srv inst sec) (\<lambda>v s'. v \<longrightarrow> credentialSeen srv inst sec) (\<lambda>_ _. True) s"
  unfolding ownsToken_alt
  by (auto simp: wp_simps credentialSeen_def split: option.split intro!: wp_getObjI)

lemma authorizeSecrets_sound:
  "wp (authorizeSecrets srv inst token secs)
     (\<lambda>v s'. v \<longrightarrow> (\<exists>sec \<in> set secs. getS (seData sec) ''OPENAI_API_KEY'' = token \<and> credentialSeen srv inst sec))
     (\<lambda>_ _. True) s"
proof (induction secs arbitrary: s)
  case Nil
  show ?case by (simp add: wp_simps)
next
  case (Cons sec secs)
  let ?Q = "\<lambda>secs v s'. v \<longrightarrow>
    (\<exists>sec \<in> set secs. getS (seData sec) ''OPENAI_API_KEY'' = token \<and> credentialSeen srv inst sec)"
  have rest: "wp (authorizeSecrets srv inst token secs) (?Q (sec # secs)) (\<lambda>_ _. True) s" for s
    by (rule wp_cons [OF Cons.IH]) auto
  show ?case
    using rest by (auto simp: wp_simps intro!: wp_cons [OF ownsToken_sound])
qed

lemma authorize_sound:
  "wp (authorize srv b token)
     (\<lambda>v s'. v \<longrightarrow> (\<exists>inst secs sec.
        serves (instances (asK8sClient srv)) (bnNamespace b, bnName b) inst \<and>
        routedTo (asSlugPolicy srv) b inst \<and>
        listed (secrets (asK8sClient srv)) (inNamespace (omNamespace (liMeta inst)) [(slugKey, bnSlug b)]) secs \<and>
        sec \<in> set secs \<and> getS (seData sec) ''OPENAI_API_KEY'' = token \<and> credentialSeen srv inst sec))
     (\<lambda>_ _. True) s"
  unfolding authorize_alt wp_tryE
  by (rule wp_getObjI)
    (auto simp: wp_simps ignoreNotFound_def intro!: wp_listObjI wp_cons [OF authorizeSecrets_sound])

lemma emits_authorizeSecrets: "emits G (authorizeSecrets srv inst token secs)"
  by (induction secs) (auto simp: ownsToken_alt intro!: emits_intros)

lemma emits_authorize: "emits G (authorize srv b token)"
  unfolding authorize_alt by (auto intro!: emits_intros emits_authorizeSecrets)

section \<open>Refinement of a decision on a snapshot\<close>

text \<open>
  When the reader answers from one snapshot of the cluster, the server computes a plain decision
  on that snapshot.  A snapshot gives the instances and requests by key and all secrets.
\<close>

record snapshot =
  snInstances :: "key \<rightharpoonup> llm_instance"
  snTokens :: "key \<rightharpoonup> token_request"
  snSecrets :: "secret list"

definition foundOr404 :: "'o option \<Rightarrow> api_error + 'o" where
  "foundOr404 x = (case x of None \<Rightarrow> Inl (ApiError NotFound ''not found'') | Some y \<Rightarrow> Inr y)"

definition selectSecrets :: "snapshot \<Rightarrow> list_options \<Rightarrow> secret list" where
  "selectSecrets v l = filter (\<lambda>sec. loNamespace l \<in> {None, Some (omNamespace (seMeta sec))} \<and>
     list_all (\<lambda>(k, x). omLabels (seMeta sec) k = Some x) (loLabels l)) (snSecrets v)"

definition readsFrom :: "snapshot \<Rightarrow> 'w client \<Rightarrow> bool" where
  "readsFrom v c =
     ((\<forall>k w. kGet (instances c) k w = (foundOr404 (snInstances v k), w)) \<and>
      (\<forall>k w. kGet (tokenRequests c) k w = (foundOr404 (snTokens v k), w)) \<and>
      (\<forall>l w. kList (secrets c) l w = (Inr (selectSecrets v l), w)))"

definition validCredential :: "kube_lib \<Rightarrow> snapshot \<Rightarrow> llm_instance \<Rightarrow> secret \<Rightarrow> bool" where
  "validCredential L v inst sec =
     (boundSecret inst sec \<and> (case getControllerOf L (seMeta sec) of
        None \<Rightarrow> False
      | Some owner \<Rightarrow> tokenOwner L sec owner \<and>
          (case snTokens v (omNamespace (liMeta inst), orName owner) of
             None \<Rightarrow> False | Some tr \<Rightarrow> vouches inst sec owner tr)))"

definition grants :: "kube_lib \<Rightarrow> policy option \<Rightarrow> snapshot \<Rightarrow> instance_binding \<Rightarrow> string \<Rightarrow> bool" where
  "grants L p v b token =
     (case snInstances v (bnNamespace b, bnName b) of
        None \<Rightarrow> False
      | Some inst \<Rightarrow> routedTo p b inst \<and>
          (\<exists>sec \<in> set (snSecrets v). omLabels (seMeta sec) slugKey = Some (bnSlug b) \<and>
             getS (seData sec) ''OPENAI_API_KEY'' = token \<and> validCredential L v inst sec))"

lemma getObj_reads: "(\<And>w. kGet a k w = (r, w)) \<Longrightarrow> getObj a k = liftE r"
  by (simp add: getObj_def readWith_def liftE_def fun_eq_iff)

lemma listObj_reads: "(\<And>w. kList a k w = (r, w)) \<Longrightarrow> listObj a k = liftE r"
  by (simp add: listObj_def readWith_def liftE_def fun_eq_iff)

lemma ownsToken_refines:
  assumes "readsFrom v (asK8sClient srv)"
  shows "ownsToken srv inst sec = retE (validCredential (asLib srv) v inst sec)"
proof -
  have "getObj (tokenRequests (asK8sClient srv)) k = liftE (foundOr404 (snTokens v k))" for k
    by (rule getObj_reads) (use assms in \<open>unfold readsFrom_def, blast\<close>)
  then show ?thesis
    by (auto simp: ownsToken_alt validCredential_def foundOr404_def isNotFound_def tryE_def liftE_def retE_def
        fun_eq_iff split: option.split)
qed

lemma authorizeSecrets_refines:
  assumes "readsFrom v (asK8sClient srv)"
  shows "authorizeSecrets srv inst token secs =
    retE (\<exists>sec \<in> set secs. getS (seData sec) ''OPENAI_API_KEY'' = token \<and> validCredential (asLib srv) v inst sec)"
  by (induction secs) (auto simp: ownsToken_refines [OF assms] bindE_def tryE_def retE_def fun_eq_iff)

lemma authorize_refines:
  assumes "readsFrom v (asK8sClient srv)"
  shows "authorize srv b token = retE (grants (asLib srv) (asSlugPolicy srv) v b token)"
proof -
  have i: "getObj (instances (asK8sClient srv)) k = liftE (foundOr404 (snInstances v k))" for k
    by (rule getObj_reads) (use assms in \<open>unfold readsFrom_def, blast\<close>)
  have l: "listObj (secrets (asK8sClient srv)) l = liftE (Inr (selectSecrets v l))" for l
    by (rule listObj_reads) (use assms in \<open>unfold readsFrom_def, blast\<close>)
  have "(\<exists>sec \<in> set (selectSecrets v (inNamespace (omNamespace (liMeta inst)) [(slugKey, bnSlug b)])).
      getS (seData sec) ''OPENAI_API_KEY'' = token \<and> validCredential (asLib srv) v inst sec) \<longleftrightarrow>
    (\<exists>sec \<in> set (snSecrets v). omLabels (seMeta sec) slugKey = Some (bnSlug b) \<and>
       getS (seData sec) ''OPENAI_API_KEY'' = token \<and> validCredential (asLib srv) v inst sec)" for inst
    by (auto simp: selectSecrets_def inNamespace_def validCredential_def boundSecret_def)
  then show ?thesis
    unfolding authorize_alt i l authorizeSecrets_refines [OF assms]
    by (auto simp: grants_def foundOr404_def ignoreNotFound_def isNotFound_def bindE_def tryE_def liftE_def apiE_def
        retE_def fun_eq_iff split: option.split)
qed

section \<open>Properties\<close>

text \<open>\<^bold>\<open>C2.\<close> A token is accepted only on evidence: whenever the handler answers 200, for any behaviour
  of the API and any interleaving with other clients, the URL carries a valid binding and the
  header a bearer token; the server has read the bound instance, live, hosted, with the UID of the
  URL and the slug that the policy selects; it has listed a live secret with exactly this key,
  bound to this instance UID and to no remote target; and it has read the live request that
  controls the secret and vouches for it at its current generation.\<close>

theorem verify_sound:
  assumes "verifyHandler srv r s = (Inr resp, s')" and "rpStatus resp = 200"
  shows "\<exists>b token inst secs sec owner tr.
    parseBinding (asLib srv) (parseQuery (rqRawQuery r)) = Some b \<and>
    bearerToken (rqAuthorization r) = Some token \<and>
    serves (instances (asK8sClient srv)) (bnNamespace b, bnName b) inst \<and>
    routedTo (asSlugPolicy srv) b inst \<and>
    listed (secrets (asK8sClient srv)) (inNamespace (omNamespace (liMeta inst)) [(slugKey, bnSlug b)]) secs \<and>
    sec \<in> set secs \<and> getS (seData sec) ''OPENAI_API_KEY'' = token \<and> boundSecret inst sec \<and>
    tokenOwner (asLib srv) sec owner \<and>
    serves (tokenRequests (asK8sClient srv)) (omNamespace (liMeta inst), orName owner) tr \<and>
    vouches inst sec owner tr"
proof -
  from assms obtain b token where bt: "parseBinding (asLib srv) (parseQuery (rqRawQuery r)) = Some b"
      "bearerToken (rqAuthorization r) = Some token"
    by (auto simp: verifyHandler_def httpError_def retE_def split: option.splits)
  with assms obtain s'' where "authorize srv b token s = (Inr True, s'')"
    by (auto simp: verifyHandler_def httpError_def retE_def tryE_def split: sum.splits prod.splits if_splits)
  with authorize_sound [of srv b token s] bt show ?thesis
    unfolding credentialSeen_def by (simp add: wp_Inr)
qed

text \<open>\<^bold>\<open>C20.\<close> On a snapshot of the cluster the handler computes exactly the declared decision: 400 without
  a valid binding, 401 without a bearer token, 200 if and only if the snapshot grants the token,
  401 otherwise; and it changes nothing.  So every valid credential is accepted, whatever other
  secrets the tenant has created.\<close>

theorem verify_refines:
  assumes "readsFrom v (asK8sClient srv)"
  shows "\<exists>resp. verifyHandler srv r s = (Inr resp, s) \<and>
    rpStatus resp =
      (case parseBinding (asLib srv) (parseQuery (rqRawQuery r)) of
         None \<Rightarrow> 400
       | Some b \<Rightarrow> (case bearerToken (rqAuthorization r) of
           None \<Rightarrow> 401
         | Some token \<Rightarrow> if grants (asLib srv) (asSlugPolicy srv) v b token then 200 else 401))"
  unfolding verifyHandler_def authorize_refines [OF assms]
  by (auto simp: tryE_def retE_def httpError_def split: option.split)

text \<open>The handler always answers, with 200, 400, 401 or 500, and never sends a write request to
  the API, however the API behaves.\<close>

theorem verify_total_readonly:
  "\<exists>resp. fst (verifyHandler srv r s) = Inr resp \<and> rpStatus resp \<in> {200, 400, 401, 500} \<and>
     journal (snd (verifyHandler srv r s)) = journal s"
proof -
  have "\<exists>resp. fst (verifyHandler srv r s) = Inr resp \<and> rpStatus resp \<in> {200, 400, 401, 500}"
    by (auto simp: verifyHandler_def httpError_def retE_def tryE_def split: option.split sum.split prod.split)
  moreover have "emits (\<lambda>_. False) (verifyHandler srv r)"
    unfolding verifyHandler_def by (auto intro!: emits_intros emits_authorize)
  then have "journal (snd (verifyHandler srv r s)) = journal s"
    using emits_run [of _ "verifyHandler srv r" s] by (metis append_Nil2 eq_fst_iff last_in_set prod.collapse)
  ultimately show ?thesis by blast
qed

section \<open>Witnesses\<close>

definition demoSnapshot :: snapshot where
  "demoSnapshot = \<lparr>snInstances = [(''default'', ''a'') \<mapsto> demoInstance],
     snTokens = [(''default'', ''t'') \<mapsto> demoToken], snSecrets = [demoSecret]\<rparr>"

definition demoClient :: "unit client" where
  "demoClient = emptyClient\<lparr>
     instances := cannedKind (\<lambda>k. foundOr404 (snInstances demoSnapshot k)) [],
     tokenRequests := cannedKind (\<lambda>k. foundOr404 (snTokens demoSnapshot k)) [],
     secrets := (cannedKind absent [])\<lparr>kList := (\<lambda>l w. (Inr (selectSecrets demoSnapshot l), w))\<rparr>\<rparr>"

definition demoServer :: "unit auth_server" where
  "demoServer = \<lparr>asK8sClient = demoClient, asSlugPolicy = Some samplePolicy, asLib = sampleLib\<rparr>"

definition demoRequest :: http_request where
  "demoRequest = \<lparr>rqRawQuery = ''namespace=default&instance=a&uid=u1&slug=alpha'', rqAuthorization = ''Bearer k''\<rparr>"

definition demoBinding :: instance_binding where
  "demoBinding = \<lparr>bnNamespace = ''default'', bnName = ''a'', bnUID = ''u1'', bnSlug = ''alpha''\<rparr>"

lemma demo_reads: "readsFrom demoSnapshot (asK8sClient demoServer)"
  by (simp add: readsFrom_def demoServer_def demoClient_def cannedKind_def emptyClient_def)

lemma demo_parse: "parseBinding (asLib demoServer) (parseQuery (rqRawQuery demoRequest)) = Some demoBinding"
  by code_simp

lemma demo_bearer: "bearerToken (rqAuthorization demoRequest) = Some ''k''"
  by code_simp

lemma demo_routed: "routedTo (Some samplePolicy) demoBinding demoInstance"
  using sample_Select(1) by (simp add: routedTo_def demoInstance_def demoBinding_def isBYOC_def Legacy_def sampleObj_def newMeta_def)

lemma demo_grants: "grants (asLib demoServer) (asSlugPolicy demoServer) demoSnapshot demoBinding ''k''"
  using demo_routed
  by (simp add: grants_def demoSnapshot_def demoServer_def demoBinding_def demoSecret_def demoToken_def
      validCredential_def boundSecret_def tokenOwner_def vouches_def sampleLib_def controllerOf_def controllerRef_def
      slugKey_def credentialInstanceKey_def credentialTargetKey_def secretTypeOpaque_def newMeta_def lookupD_def)
    (simp add: demoInstance_def sampleObj_def newMeta_def)

theorem verify_refines_witness:
  "\<exists>resp. verifyHandler demoServer demoRequest startSys = (Inr resp, startSys) \<and> rpStatus resp = 200"
  using verify_refines [OF demo_reads, of demoRequest startSys] demo_grants by (simp add: demo_parse demo_bearer)

lemma demo_accepts:
  "verifyHandler demoServer demoRequest startSys =
     (Inr \<lparr>rpStatus = 200, rpWWWAuthenticate = [], rpBody = ''ok''\<rparr>, startSys)"
  unfolding verifyHandler_def authorize_refines [OF demo_reads] using demo_grants
  by (simp add: demo_parse demo_bearer tryE_def retE_def)

theorem verify_sound_witness:
  "\<exists>inst. serves (instances demoClient) (''default'', ''a'') inst \<and> routedTo (Some samplePolicy) demoBinding inst"
proof -
  have "\<exists>inst. serves (instances (asK8sClient demoServer)) (bnNamespace demoBinding, bnName demoBinding) inst \<and>
      routedTo (asSlugPolicy demoServer) demoBinding inst"
    using verify_sound [OF demo_accepts] by (auto simp: demo_parse)
  then show ?thesis by (simp add: demoServer_def demoBinding_def)
qed

end
