(* ===== verification/HostedRoute.thy ===== *)
theory HostedRoute
  imports Deployment AuthServer
begin

text \<open>
  Service, Traefik middlewares and Ingress of a hosted instance (\<^verbatim>\<open>llminstance_controller.go\<close>).  The
  middlewares are unstructured objects; reading and writing nested fields of them is done by the
  functions of \<^verbatim>\<open>apimachinery\<close> in the library record.
\<close>

section \<open>Service\<close>

definition newService :: "llm_instance \<Rightarrow> (string \<rightharpoonup> string) \<Rightarrow> string \<Rightarrow> service" where
  "newService inst labels svcName =
     \<lparr>svMeta = (newMeta (omNamespace (liMeta inst)) svcName)\<lparr>omLabels := labels\<rparr>, svType = [], svSelector = labels,
      svPorts = [\<lparr>svpName = ''http'', svpPort = 8000, svpTargetPort = 8000, svpProtocol = ''TCP'', svpNodePort = 0\<rparr>],
      svLoadBalancer = []\<rparr>"

definition reconcileService :: "'w instance_reconciler \<Rightarrow> llm_instance \<Rightarrow> (string \<rightharpoonup> string) \<Rightarrow> string \<Rightarrow> ('w, unit) io" where
  "reconcileService r inst labels svcName =
     tryE (getObj (services (irClient r)) (omNamespace (liMeta inst), svcName))
       (\<lambda>e. if \<not> isNotFound e then failE (APIErr e)
            else
              let svc = newService inst labels svcName
              in bindE (controlE r inst (svMeta svc)) (\<lambda>mt.
                 bindE (apiE (localCreate OSvc (services (irClient r)) (svc\<lparr>svMeta := mt\<rparr>))) (\<lambda>_. retE ())))
       (\<lambda>svc. if \<not> ownsLLMResource (irLib r) inst (svMeta svc) then failE errSlugBackendOwnership else retE ())"

section \<open>Middlewares\<close>

definition stripMiddlewareName :: "string \<Rightarrow> string" where "stripMiddlewareName svcName = svcName @ ''-strip''"
definition authMiddlewareName :: "string \<Rightarrow> string" where "authMiddlewareName svcName = svcName @ ''-auth''"

text \<open>The CRD is not installed: by the type of the error or by its text.\<close>

definition noMiddlewareKind :: "api_error \<Rightarrow> bool" where
  "noMiddlewareKind e = (isNoMatchError e \<or> sublist (''no matches for kind '' @ quoted ''Middleware'') (api_text e))"

definition newStripMiddleware :: "llm_instance \<Rightarrow> (string \<rightharpoonup> string) \<Rightarrow> string \<Rightarrow> string \<Rightarrow> unstructured" where
  "newStripMiddleware inst labels mwName pathPrefix =
     \<lparr>unMeta = (newMeta (omNamespace (liMeta inst)) mwName)\<lparr>omLabels := labels\<rparr>,
      unSpec = Some (JObj [''stripPrefix'' \<mapsto> JObj [''prefixes'' \<mapsto> JList [JStr pathPrefix]]]), unStatus = None\<rparr>"

definition reconcileStripMiddleware ::
    "'w instance_reconciler \<Rightarrow> llm_instance \<Rightarrow> (string \<rightharpoonup> string) \<Rightarrow> string \<Rightarrow> string \<Rightarrow> ('w, unit) io" where
  "reconcileStripMiddleware r inst labels svcName pathPrefix =
     tryE (getObj (middlewares (irClient r)) (omNamespace (liMeta inst), stripMiddlewareName svcName))
       (\<lambda>e. if noMiddlewareKind e then retE ()
            else if \<not> isNotFound e then failE (APIErr e)
            else
              let mw = newStripMiddleware inst labels (stripMiddlewareName svcName) pathPrefix
              in bindE (controlE r inst (unMeta mw)) (\<lambda>mt.
                 bindE (apiE (localCreate OMw (middlewares (irClient r)) (mw\<lparr>unMeta := mt\<rparr>))) (\<lambda>_. retE ())))
       (\<lambda>mw.
          if \<not> ownsLLMResource (irLib r) inst (unMeta mw)
          then failE (Errorf ''refusing to update foreign strip middleware'' [ErrSlugRejection])
          else case nestedStringSlice (irLib r) mw [''spec'', ''stripPrefix'', ''prefixes''] of
            Inl err \<Rightarrow> failE (Errorf ''invalid strip middleware'' [ErrSlugRejection, err])
          | Inr current \<Rightarrow>
              if current = [pathPrefix] then retE ()
              else (case setNestedStringSlice (irLib r) mw [pathPrefix] [''spec'', ''stripPrefix'', ''prefixes''] of
                Inl err \<Rightarrow> failE (Errorf ''invalid strip middleware'' [ErrSlugRejection, err])
              | Inr mw1 \<Rightarrow> bindE (apiE (localUpdate OMw (middlewares (irClient r)) mw1)) (\<lambda>_. retE ())))"

text \<open>The address of the forward-auth request: the binding of the instance in the query string.\<close>

definition authQuery :: "llm_instance \<Rightarrow> string \<Rightarrow> string" where
  "authQuery inst slug = encodeValues
     [(''namespace'', [omNamespace (liMeta inst)]), (''instance'', [omName (liMeta inst)]),
      (''uid'', [omUID (liMeta inst)]), (''slug'', [slug])]"

definition authAddress :: "'w instance_reconciler \<Rightarrow> llm_instance \<Rightarrow> string \<Rightarrow> string" where
  "authAddress r inst slug = trimRight (irAuthServiceURL r) ''/'' @ ''/auth/verify?'' @ authQuery inst slug"

definition desiredForwardAuth :: "string \<Rightarrow> (string \<rightharpoonup> jvalue) \<Rightarrow> (string \<rightharpoonup> jvalue)" where
  "desiredForwardAuth addr current =
     current(''address'' \<mapsto> JStr addr, ''trustForwardHeader'' \<mapsto> JBool False, ''authResponseHeaders'' \<mapsto> JList [])"

text \<open>The common end of the two cases: the desired options are set and the object is written.\<close>

definition writeForwardAuth :: "'w instance_reconciler \<Rightarrow> string \<Rightarrow> bool \<Rightarrow> unstructured \<Rightarrow> ('w, unit) io" where
  "writeForwardAuth r addr creating mw =
     (case nestedMap (irLib r) mw [''spec'', ''forwardAuth''] of
        Inl err \<Rightarrow> failE (Errorf ''invalid forwardAuth middleware'' [ErrSlugRejection, err])
      | Inr current \<Rightarrow>
          let desired = desiredForwardAuth addr current
          in if \<not> creating \<and> current = desired then retE ()
             else case setNestedMap (irLib r) mw desired [''spec'', ''forwardAuth''] of
               Inl err \<Rightarrow> failE (Errorf ''invalid forwardAuth middleware'' [ErrSlugRejection, err])
             | Inr mw1 \<Rightarrow>
                 bindE (apiE (if creating then localCreate OMw (middlewares (irClient r)) mw1
                              else localUpdate OMw (middlewares (irClient r)) mw1)) (\<lambda>_. retE ()))"

definition reconcileAuthMiddleware ::
    "'w instance_reconciler \<Rightarrow> llm_instance \<Rightarrow> (string \<rightharpoonup> string) \<Rightarrow> string \<Rightarrow> string \<Rightarrow> bool \<Rightarrow> ('w, unit) io" where
  "reconcileAuthMiddleware r inst labels svcName slug createIfMissing =
     (if omUID (liMeta inst) = []
      then failE (Errorf ''cannot bind forwardAuth to an instance without a UID'' [ErrSlugRejection])
      else
        tryE (getObj (middlewares (irClient r)) (omNamespace (liMeta inst), authMiddlewareName svcName))
          (\<lambda>e. if noMiddlewareKind e then retE ()
               else if \<not> isNotFound e then failE (APIErr e)
               else if \<not> createIfMissing then retE ()
               else
                 bindE (controlE r inst ((newMeta (omNamespace (liMeta inst)) (authMiddlewareName svcName))\<lparr>omLabels := labels\<rparr>)) (\<lambda>mt.
                   writeForwardAuth r (authAddress r inst slug) True \<lparr>unMeta = mt, unSpec = None, unStatus = None\<rparr>))
          (\<lambda>mw.
             if \<not> ownsLLMResource (irLib r) inst (unMeta mw)
             then failE (Errorf ''refusing to update forwardAuth middleware: not owned by this LLMInstance'' [ErrSlugRejection])
             else writeForwardAuth r (authAddress r inst slug) False mw))"

definition reconcileForwardAuthMiddleware ::
    "'w instance_reconciler \<Rightarrow> llm_instance \<Rightarrow> (string \<rightharpoonup> string) \<Rightarrow> string \<Rightarrow> string \<Rightarrow> ('w, unit) io" where
  "reconcileForwardAuthMiddleware r inst labels svcName slug = reconcileAuthMiddleware r inst labels svcName slug True"

definition upgradeExistingAuthMiddleware :: "'w instance_reconciler \<Rightarrow> llm_instance \<Rightarrow> ('w, unit) io" where
  "upgradeExistingAuthMiddleware r inst =
     (if isBYOC inst then retE ()
      else bindE (liftE (selectSlug r inst)) (\<lambda>sel.
        reconcileAuthMiddleware r inst (llamaLabels (omName (liMeta inst))) (svcNameOf inst) (slSlug sel) False))"

section \<open>Ingress\<close>

definition routerMiddlewares :: string where "routerMiddlewares = ''traefik.ingress.kubernetes.io/router.middlewares''"
definition routerEntrypoints :: string where "routerEntrypoints = ''traefik.ingress.kubernetes.io/router.entrypoints''"
definition routerTLS :: string where "routerTLS = ''traefik.ingress.kubernetes.io/router.tls''"
definition routerPathmatcher :: string where "routerPathmatcher = ''traefik.ingress.kubernetes.io/router.pathmatcher''"

lemma router_keys_distinct [simp]:
  "routerMiddlewares \<noteq> routerEntrypoints" "routerEntrypoints \<noteq> routerMiddlewares"
  "routerTLS \<noteq> routerMiddlewares" "routerMiddlewares \<noteq> routerTLS"
  "routerTLS \<noteq> routerEntrypoints" "routerEntrypoints \<noteq> routerTLS"
  "routerPathmatcher \<noteq> routerMiddlewares" "routerMiddlewares \<noteq> routerPathmatcher"
  "routerPathmatcher \<noteq> routerEntrypoints" "routerEntrypoints \<noteq> routerPathmatcher"
  "routerPathmatcher \<noteq> routerTLS" "routerTLS \<noteq> routerPathmatcher"
  by (simp_all add: routerMiddlewares_def routerEntrypoints_def routerTLS_def routerPathmatcher_def)

definition annotate :: "string \<Rightarrow> string \<Rightarrow> ingress \<Rightarrow> ingress" where
  "annotate k v ing = ing\<lparr>igMeta := (igMeta ing)\<lparr>omAnnotations := (omAnnotations (igMeta ing))(k \<mapsto> v)\<rparr>\<rparr>"

definition unannotate :: "string \<Rightarrow> ingress \<Rightarrow> ingress" where
  "unannotate k ing = ing\<lparr>igMeta := (igMeta ing)\<lparr>omAnnotations := (omAnnotations (igMeta ing))(k := None)\<rparr>\<rparr>"

definition desiredIngressEntryPoints :: "bool \<Rightarrow> string" where
  "desiredIngressEntryPoints isHTTPS = (if isHTTPS then ''websecure,web'' else ''web'')"

definition desiredMiddlewareAnnotation :: "string \<Rightarrow> string \<Rightarrow> string" where
  "desiredMiddlewareAnnotation ns svcName = ns @ ''-'' @ authMiddlewareName svcName @ ''@kubernetescrd,'' @
     ns @ ''-'' @ stripMiddlewareName svcName @ ''@kubernetescrd''"

definition ensureIngressAnnotations :: "string \<Rightarrow> string \<Rightarrow> bool \<Rightarrow> ingress \<Rightarrow> ingress \<times> bool" where
  "ensureIngressAnnotations desiredMiddleware desiredEntry isHTTPS ing =
     (let (ing, u1) = (if getS (omAnnotations (igMeta ing)) routerMiddlewares \<noteq> desiredMiddleware
            then (annotate routerMiddlewares desiredMiddleware ing, True) else (ing, False));
          (ing, u2) = (if getS (omAnnotations (igMeta ing)) routerEntrypoints \<noteq> desiredEntry
            then (annotate routerEntrypoints desiredEntry ing, True) else (ing, u1))
      in if isHTTPS then
           (if getS (omAnnotations (igMeta ing)) routerTLS \<noteq> trueText
            then (annotate routerTLS trueText ing, True) else (ing, u2))
         else if omAnnotations (igMeta ing) routerTLS \<noteq> None then (unannotate routerTLS ing, True)
         else (ing, u2))"

text \<open>The configured annotations, one after the other; the keys are those of a Go map.\<close>

fun applyExtraIngressAnnotations :: "(string \<times> string) list \<Rightarrow> bool \<Rightarrow> ingress \<Rightarrow> ingress \<times> bool" where
  "applyExtraIngressAnnotations [] override ing = (ing, False)"
| "applyExtraIngressAnnotations ((k, v) # kvs) override ing =
     (let (ing, u) = (if omAnnotations (igMeta ing) k = None \<or> override then (annotate k v ing, True)
                      else if omAnnotations (igMeta ing) k \<noteq> Some v then (annotate k v ing, True) else (ing, False));
          (ing, w) = applyExtraIngressAnnotations kvs override ing
      in (ing, u \<or> w))"

definition ensureIngressClass :: "ingress \<Rightarrow> ingress \<times> bool" where
  "ensureIngressClass ing =
     (if igClass ing \<noteq> Some ''traefik'' then (ing\<lparr>igClass := Some ''traefik''\<rparr>, True) else (ing, False))"

definition ensureIngressHTTPRule :: "'w instance_reconciler \<Rightarrow> string \<Rightarrow> string \<Rightarrow> ingress \<Rightarrow> ingress \<times> bool" where
  "ensureIngressHTTPRule r pathPrefix svcName ing =
     (let desired = slugIngressRules r pathPrefix svcName;
          changed = (igRules ing \<noteq> desired \<or> igDefaultBackend ing \<noteq> None);
          ing = ing\<lparr>igRules := desired, igDefaultBackend := None\<rparr>
      in if omAnnotations (igMeta ing) routerPathmatcher \<noteq> None then (unannotate routerPathmatcher ing, True)
         else (ing, changed))"

definition tlsOf :: "'w instance_reconciler \<Rightarrow> ingress_tls list" where
  "tlsOf r = [\<lparr>itHosts = [irPublicHost r], itSecretName = trimSpace (irTLSSecretName r)\<rparr>]"

definition ensureIngressTLS :: "'w instance_reconciler \<Rightarrow> bool \<Rightarrow> ingress \<Rightarrow> ingress \<times> bool" where
  "ensureIngressTLS r isHTTPS ing =
     (if \<not> isHTTPS \<or> trimSpace (irTLSSecretName r) = [] then (ing, False)
      else case igTLS ing of
        [] \<Rightarrow> (ing\<lparr>igTLS := tlsOf r\<rparr>, True)
      | t # _ \<Rightarrow>
          if itSecretName t \<noteq> trimSpace (irTLSSecretName r) \<or> itHosts t = [] \<or> hd (itHosts t) \<noteq> irPublicHost r
          then (ing\<lparr>igTLS := tlsOf r\<rparr>, True) else (ing, False))"

definition isHTTPS :: "'w instance_reconciler \<Rightarrow> bool" where
  "isHTTPS r = equalFold (irPublicScheme r) ''https''"

definition buildDesiredIngress ::
    "'w instance_reconciler \<Rightarrow> llm_instance \<Rightarrow> (string \<rightharpoonup> string) \<Rightarrow> string \<Rightarrow> string \<Rightarrow> ingress" where
  "buildDesiredIngress r inst labels svcName pathPrefix =
     (let ing = \<lparr>igMeta = (newMeta (omNamespace (liMeta inst)) svcName)\<lparr>omLabels := labels,
            omAnnotations := [routerEntrypoints \<mapsto> desiredIngressEntryPoints (isHTTPS r),
              routerMiddlewares \<mapsto> desiredMiddlewareAnnotation (omNamespace (liMeta inst)) svcName]\<rparr>,
          igClass = Some ''traefik'', igDefaultBackend = None,
          igRules = [\<lparr>rlHost = irPublicHost r, rlHTTP = Some [\<lparr>hpPath = pathPrefix, hpPathType = ''Prefix'',
            hpBackend = \<lparr>ibService = svcName, ibPort = 8000\<rparr>\<rparr>]\<rparr>],
          igTLS = (if \<not> isHTTPS r \<or> trimSpace (irTLSSecretName r) = [] then [] else tlsOf r)\<rparr>;
          ing = fst (applyExtraIngressAnnotations (irExtraIngressAnnotations r) False ing)
      in fst (ensureIngressHTTPRule r pathPrefix svcName ing))"

definition ensureIngress :: "'w instance_reconciler \<Rightarrow> llm_instance \<Rightarrow> string \<Rightarrow> string \<Rightarrow> ingress \<Rightarrow> ingress \<times> bool" where
  "ensureIngress r inst svcName pathPrefix =
     seqEnsure (ensureIngressAnnotations (desiredMiddlewareAnnotation (omNamespace (liMeta inst)) svcName)
                  (desiredIngressEntryPoints (isHTTPS r)) (isHTTPS r))
     (seqEnsure (applyExtraIngressAnnotations (irExtraIngressAnnotations r) True)
     (seqEnsure ensureIngressClass
     (seqEnsure (ensureIngressHTTPRule r pathPrefix svcName) (ensureIngressTLS r (isHTTPS r)))))"

definition reconcileIngress ::
    "'w instance_reconciler \<Rightarrow> llm_instance \<Rightarrow> (string \<rightharpoonup> string) \<Rightarrow> string \<Rightarrow> string \<Rightarrow> ('w, unit) io" where
  "reconcileIngress r inst labels svcName pathPrefix =
     bindE (checkSlugRoute r inst (trimPrefix pathPrefix ''/llm/'')) (\<lambda>_.
     tryE (getObj (ingresses (irClient r)) (omNamespace (liMeta inst), svcName))
       (\<lambda>e. if \<not> isNotFound e then failE (APIErr e)
            else
              let ing = buildDesiredIngress r inst labels svcName pathPrefix
              in bindE (controlE r inst (igMeta ing)) (\<lambda>mt.
                 bindE (apiE (localCreate OIng (ingresses (irClient r)) (ing\<lparr>igMeta := mt\<rparr>))) (\<lambda>_. retE ())))
       (\<lambda>ing.
          if \<not> ownsSlugIngress (irLib r) inst ing then failE errSlugRouteOwnership
          else case ensureIngress r inst svcName pathPrefix ing of
            (ing1, updated) \<Rightarrow>
              if \<not> updated then retE ()
              else bindE (apiE (localUpdate OIng (ingresses (irClient r)) ing1)) (\<lambda>_. retE ())))"

section \<open>Convergence\<close>

lemma annotate_reads [simp]:
  "omAnnotations (igMeta (annotate k v ing)) = (omAnnotations (igMeta ing))(k \<mapsto> v)"
  "omAnnotations (igMeta (unannotate k ing)) = (omAnnotations (igMeta ing))(k := None)"
  "igRules (annotate k v ing) = igRules ing" "igRules (unannotate k ing) = igRules ing"
  "igDefaultBackend (annotate k v ing) = igDefaultBackend ing" "igDefaultBackend (unannotate k ing) = igDefaultBackend ing"
  "igClass (annotate k v ing) = igClass ing" "igClass (unannotate k ing) = igClass ing"
  "igTLS (annotate k v ing) = igTLS ing" "igTLS (unannotate k ing) = igTLS ing"
  by (simp_all add: annotate_def unannotate_def)

definition annotated :: "string \<Rightarrow> string \<Rightarrow> bool \<Rightarrow> ingress \<Rightarrow> bool" where
  "annotated mw entry https ing =
     (getS (omAnnotations (igMeta ing)) routerMiddlewares = mw \<and>
      getS (omAnnotations (igMeta ing)) routerEntrypoints = entry \<and>
      (if https then getS (omAnnotations (igMeta ing)) routerTLS = trueText
       else omAnnotations (igMeta ing) routerTLS = None))"

interpretation ingress_annotations: converging "ensureIngressAnnotations mw entry https" "annotated mw entry https"
  for mw entry https
  by unfold_locales (auto simp: ensureIngressAnnotations_def annotated_def Let_def)

interpretation ingress_class: converging ensureIngressClass "\<lambda>ing. igClass ing = Some ''traefik''"
  by unfold_locales (simp_all add: ensureIngressClass_def)

definition ruled :: "'w instance_reconciler \<Rightarrow> string \<Rightarrow> string \<Rightarrow> ingress \<Rightarrow> bool" where
  "ruled r pathPrefix svcName ing =
     (igRules ing = slugIngressRules r pathPrefix svcName \<and> igDefaultBackend ing = None \<and>
      omAnnotations (igMeta ing) routerPathmatcher = None)"

interpretation ingress_rule: converging "ensureIngressHTTPRule r pathPrefix svcName" "ruled r pathPrefix svcName"
  for r :: "'w instance_reconciler" and pathPrefix svcName
  by unfold_locales (auto simp: ensureIngressHTTPRule_def ruled_def Let_def)

definition tlsReady :: "'w instance_reconciler \<Rightarrow> bool \<Rightarrow> ingress \<Rightarrow> bool" where
  "tlsReady r https ing = (https \<and> trimSpace (irTLSSecretName r) \<noteq> [] \<longrightarrow>
     (\<exists>t ts. igTLS ing = t # ts \<and> itSecretName t = trimSpace (irTLSSecretName r) \<and> itHosts t \<noteq> [] \<and>
        hd (itHosts t) = irPublicHost r))"

interpretation ingress_tls: converging "ensureIngressTLS r https" "tlsReady r https"
  for r :: "'w instance_reconciler" and https
  by unfold_locales (auto simp: ensureIngressTLS_def tlsReady_def tlsOf_def split: list.split)

lemma applyExtra_frame:
  "igRules (fst (applyExtraIngressAnnotations kvs ov ing)) = igRules ing"
  "igDefaultBackend (fst (applyExtraIngressAnnotations kvs ov ing)) = igDefaultBackend ing"
  "igClass (fst (applyExtraIngressAnnotations kvs ov ing)) = igClass ing"
  "igTLS (fst (applyExtraIngressAnnotations kvs ov ing)) = igTLS ing"
  "k \<notin> fst ` set kvs \<Longrightarrow> omAnnotations (igMeta (fst (applyExtraIngressAnnotations kvs ov ing))) k = omAnnotations (igMeta ing) k"
  by (induction kvs ov ing rule: applyExtraIngressAnnotations.induct) (auto simp: Let_def split: prod.split)

lemma ensureIngress_frame:
  "omAnnotations (igMeta (fst (ensureIngressClass ing))) = omAnnotations (igMeta ing)"
  "omAnnotations (igMeta (fst (ensureIngressTLS r https ing))) = omAnnotations (igMeta ing)"
  "igClass (fst (ensureIngressTLS r https ing)) = igClass ing"
  "ruled r' p svc (fst (ensureIngressTLS r https ing)) = ruled r' p svc ing"
  "igClass (fst (ensureIngressHTTPRule r p svc ing)) = igClass ing"
  "igTLS (fst (ensureIngressHTTPRule r p svc ing)) = igTLS ing"
  "k \<noteq> routerPathmatcher \<Longrightarrow>
     omAnnotations (igMeta (fst (ensureIngressHTTPRule r p svc ing))) k = omAnnotations (igMeta ing) k"
  by (auto simp: ensureIngressClass_def ensureIngressTLS_def ensureIngressHTTPRule_def ruled_def Let_def split: list.split)

text \<open>The shape that every written Ingress has, with its metadata before the owner is set.\<close>

definition routeShape :: "'w instance_reconciler \<Rightarrow> llm_instance \<Rightarrow> string \<Rightarrow> string \<Rightarrow> ingress \<Rightarrow> bool" where
  "routeShape r inst svcName pathPrefix ing =
     (ruled r pathPrefix svcName ing \<and> igClass ing = Some ''traefik'' \<and>
      (routerMiddlewares \<notin> fst ` set (irExtraIngressAnnotations r) \<longrightarrow>
         getS (omAnnotations (igMeta ing)) routerMiddlewares = desiredMiddlewareAnnotation (omNamespace (liMeta inst)) svcName))"

lemma ensureIngress_shape: "routeShape r inst svcName pathPrefix (fst (ensureIngress r inst svcName pathPrefix ing))"
proof -
  let ?a = "fst (ensureIngressAnnotations (desiredMiddlewareAnnotation (omNamespace (liMeta inst)) svcName)
                  (desiredIngressEntryPoints (isHTTPS r)) (isHTTPS r) ing)"
  have "annotated (desiredMiddlewareAnnotation (omNamespace (liMeta inst)) svcName)
                  (desiredIngressEntryPoints (isHTTPS r)) (isHTTPS r) ?a"
    by (rule ingress_annotations.ensure_desired)
  then show ?thesis
    by (simp add: routeShape_def ensureIngress_def fst_seqEnsure ensureIngress_frame ingress_rule.ensure_desired
        ingress_class.ensure_desired applyExtra_frame lookupD_def annotated_def)
qed

lemma buildDesiredIngress_shape: "routeShape r inst svcName pathPrefix (buildDesiredIngress r inst labels svcName pathPrefix)"
  by (simp add: routeShape_def buildDesiredIngress_def Let_def ingress_rule.ensure_desired ensureIngress_frame
      applyExtra_frame lookupD_def)

lemma igMeta_identity:
  "keyOf (igMeta (annotate k v ing)) = keyOf (igMeta ing)" "keyOf (igMeta (unannotate k ing)) = keyOf (igMeta ing)"
  by (simp_all add: annotate_def unannotate_def keyOf_def)

lemma applyExtra_key: "keyOf (igMeta (fst (applyExtraIngressAnnotations kvs ov ing))) = keyOf (igMeta ing)"
  by (induction kvs ov ing rule: applyExtraIngressAnnotations.induct) (auto simp: Let_def igMeta_identity split: prod.split)

lemma buildDesiredIngress_key:
  "keyOf (igMeta (buildDesiredIngress r inst labels svcName pathPrefix)) = (omNamespace (liMeta inst), svcName)"
  by (simp add: buildDesiredIngress_def Let_def ensureIngressHTTPRule_def igMeta_identity applyExtra_key)
    (simp add: keyOf_def newMeta_def)

fun ingressWrite :: "'w instance_reconciler \<Rightarrow> llm_instance \<Rightarrow> string \<Rightarrow> string \<Rightarrow> wreq \<Rightarrow> bool" where
  "ingressWrite r inst svcName pathPrefix (Write LocalCluster WCreate (OIng ing)) =
     (\<exists>ing0. routeShape r inst svcName pathPrefix ing0 \<and> keyOf (igMeta ing0) = (omNamespace (liMeta inst), svcName) \<and>
        setControllerReference (irLib r) ''LLMInstance'' (liMeta inst) (igMeta ing0) = Inr (igMeta ing) \<and>
        ing = ing0\<lparr>igMeta := igMeta ing\<rparr>)"
| "ingressWrite r inst svcName pathPrefix (Write LocalCluster WUpdate (OIng ing)) =
     (routeShape r inst svcName pathPrefix ing \<and>
      (\<exists>old. serves (ingresses (irClient r)) (omNamespace (liMeta inst), svcName) old \<and>
         ownsSlugIngress (irLib r) inst old \<and> ing = fst (ensureIngress r inst svcName pathPrefix old)))"
| "ingressWrite r inst svcName pathPrefix _ = False"

lemma emits_reconcileIngress: "emits (ingressWrite r inst svcName pathPrefix) (reconcileIngress r inst labels svcName pathPrefix)"
  unfolding reconcileIngress_def Let_def
proof (rule emits_bindE [OF emits_checkSlugRoute], rule emits_try_getObj, goal_cases)
  case (1 _ e)
  have "ingressWrite r inst svcName pathPrefix (Write LocalCluster WCreate
      (OIng ((buildDesiredIngress r inst labels svcName pathPrefix)\<lparr>igMeta := mt\<rparr>)))"
    if "setControllerReference (irLib r) ''LLMInstance'' (liMeta inst)
      (igMeta (buildDesiredIngress r inst labels svcName pathPrefix)) = Inr mt" for mt
    using that buildDesiredIngress_shape buildDesiredIngress_key
    by (auto intro!: exI [of _ "buildDesiredIngress r inst labels svcName pathPrefix"])
  then show ?case
    by (intro emits_if emits_failE emits_bind [OF emits_controlE yields_controlE] emits_bindE emits_apiE emits_createObj emits_retE)
next
  case (2 _ old)
  have "ingressWrite r inst svcName pathPrefix (Write LocalCluster WUpdate (OIng ing))"
    if "ensureIngress r inst svcName pathPrefix old = (ing, ch)" "ownsSlugIngress (irLib r) inst old" for ing ch
    using that 2 ensureIngress_shape [of r inst svcName pathPrefix old] by force
  then show ?case
    by (intro emits_if emits_failE emits_case_prod emits_retE emits_bindE emits_apiE emits_updateObj) simp_all
qed

section \<open>Middlewares: what is written\<close>

fun authWrite :: "'w instance_reconciler \<Rightarrow> llm_instance \<Rightarrow> string \<Rightarrow> string \<Rightarrow> wreq \<Rightarrow> bool" where
  "authWrite r inst svcName slug (Write LocalCluster WCreate (OMw mw)) =
     (\<exists>m0 mw0 current. keyOf m0 = (omNamespace (liMeta inst), authMiddlewareName svcName) \<and>
        setControllerReference (irLib r) ''LLMInstance'' (liMeta inst) m0 = Inr (unMeta mw0) \<and>
        setNestedMap (irLib r) mw0 (desiredForwardAuth (authAddress r inst slug) current) [''spec'', ''forwardAuth''] = Inr mw)"
| "authWrite r inst svcName slug (Write LocalCluster WUpdate (OMw mw)) =
     (\<exists>mw0 current. serves (middlewares (irClient r)) (omNamespace (liMeta inst), authMiddlewareName svcName) mw0 \<and>
        ownsLLMResource (irLib r) inst (unMeta mw0) \<and>
        nestedMap (irLib r) mw0 [''spec'', ''forwardAuth''] = Inr current \<and>
        setNestedMap (irLib r) mw0 (desiredForwardAuth (authAddress r inst slug) current) [''spec'', ''forwardAuth''] = Inr mw)"
| "authWrite r inst svcName slug _ = False"

lemma emits_writeForwardAuth:
  assumes "\<And>current mw1. nestedMap (irLib r) mw [''spec'', ''forwardAuth''] = Inr current \<Longrightarrow>
    setNestedMap (irLib r) mw (desiredForwardAuth addr current) [''spec'', ''forwardAuth''] = Inr mw1 \<Longrightarrow>
    G (Write LocalCluster (if creating then WCreate else WUpdate) (OMw mw1))"
  shows "emits G (writeForwardAuth r addr creating mw)"
  unfolding writeForwardAuth_def Let_def
  by (intro emits_intros) (use assms in auto)

lemma emits_reconcileAuthMiddleware:
  "emits (authWrite r inst svcName slug) (reconcileAuthMiddleware r inst labels svcName slug create)"
  unfolding reconcileAuthMiddleware_def
proof (rule emits_if [OF emits_failE], rule emits_try_getObj, goal_cases)
  case (1 e)
  let ?m0 = "(newMeta (omNamespace (liMeta inst)) (authMiddlewareName svcName))\<lparr>omLabels := labels\<rparr>"
  have key: "keyOf ?m0 = (omNamespace (liMeta inst), authMiddlewareName svcName)" by (simp add: keyOf_def newMeta_def)
  have "emits (authWrite r inst svcName slug)
      (writeForwardAuth r (authAddress r inst slug) True \<lparr>unMeta = mt, unSpec = None, unStatus = None\<rparr>)"
    if "setControllerReference (irLib r) ''LLMInstance'' (liMeta inst) ?m0 = Inr mt" for mt
    by (rule emits_writeForwardAuth) (use that key in \<open>auto intro!: exI [of _ ?m0] exI [of _ "\<lparr>unMeta = mt, unSpec = None, unStatus = None\<rparr>"]\<close>)
  then show ?case
    by (intro emits_if emits_failE emits_retE emits_bind [OF emits_controlE yields_controlE])
next
  case (2 mw)
  then show ?case
    by (intro emits_if emits_failE emits_writeForwardAuth) auto
qed

section \<open>The binding in the forward-auth address\<close>

lemma authQuery_values:
  "parseQuery (authQuery inst slug) ''namespace'' = [omNamespace (liMeta inst)]"
  "parseQuery (authQuery inst slug) ''instance'' = [omName (liMeta inst)]"
  "parseQuery (authQuery inst slug) ''uid'' = [omUID (liMeta inst)]"
  "parseQuery (authQuery inst slug) ''slug'' = [slug]"
  unfolding authQuery_def by (rule parseQuery_encodeValues; simp)+

definition routeBinding :: "llm_instance \<Rightarrow> string \<Rightarrow> instance_binding" where
  "routeBinding inst slug = \<lparr>bnNamespace = omNamespace (liMeta inst), bnName = omName (liMeta inst),
     bnUID = omUID (liMeta inst), bnSlug = slug\<rparr>"

lemma parseBinding_authQuery:
  "parseBinding L (parseQuery (authQuery inst slug)) =
     (if trimSpace (omNamespace (liMeta inst)) = [] \<or> trimSpace (omName (liMeta inst)) = [] \<or>
         trimSpace (omUID (liMeta inst)) = [] \<or> trimSpace slug = [] \<or>
         \<not> isDNS1123Label L (omNamespace (liMeta inst)) \<or> \<not> isDNS1123Subdomain L (omName (liMeta inst)) \<or>
         \<not> isValidLabelValue L slug
      then None else Some (routeBinding inst slug))"
  by (simp add: parseBinding_def valuesGet_def authQuery_values routeBinding_def Let_def)

text \<open>The names that the auth server accepts in the address of an instance.\<close>

definition wellNamed :: "kube_lib \<Rightarrow> llm_instance \<Rightarrow> string \<Rightarrow> bool" where
  "wellNamed L inst slug =
     (trimSpace (omNamespace (liMeta inst)) \<noteq> [] \<and> trimSpace (omName (liMeta inst)) \<noteq> [] \<and> trimSpace (omUID (liMeta inst)) \<noteq> [] \<and>
      trimSpace slug \<noteq> [] \<and> isDNS1123Label L (omNamespace (liMeta inst)) \<and> isDNS1123Subdomain L (omName (liMeta inst)) \<and>
      isValidLabelValue L slug)"

lemma validCredential_iff:
  "validCredential L v inst sec \<longleftrightarrow> boundSecret inst sec \<and> (\<exists>owner tr. tokenOwner L sec owner \<and>
     snTokens v (omNamespace (liMeta inst), orName owner) = Some tr \<and> vouches inst sec owner tr)"
  by (auto simp: validCredential_def tokenOwner_def split: option.splits)

section \<open>Properties\<close>

text \<open>\<^bold>\<open>C29.\<close> From the middleware to the decision: every middleware that the auth reconciliation writes for an
  instance holds an address whose query makes the auth server, reading from one snapshot, answer 200
  exactly for the keys of this instance: the bearer token is the key of a live secret with the slug of
  the route, bound to the instance and controlled by a live request that vouches for it, and under the
  namespace and name of the instance the server finds the very incarnation that the middleware was
  written for, hosted, not being deleted and selected for this slug.  Nested fields are assumed to
  read back as they were set.\<close>

theorem route_accepts_own_keys:
  fixes srv :: "'v auth_server"
  assumes "journal s = []" and "Write c op (OMw mw) \<in> set (journal (snd (reconcileAuthMiddleware r inst labels svcName slug create s)))"
    and "\<And>u m u'. setNestedMap (irLib r) u m [''spec'', ''forwardAuth''] = Inr u' \<Longrightarrow> nestedMap (irLib r) u' [''spec'', ''forwardAuth''] = Inr m"
    and "readsFrom v (asK8sClient srv)" and "wellNamed (asLib srv) inst slug"
  shows "\<exists>current query resp. nestedMap (irLib r) mw [''spec'', ''forwardAuth''] = Inr current \<and>
    current ''address'' = Some (JStr (trimRight (irAuthServiceURL r) ''/'' @ ''/auth/verify?'' @ query)) \<and>
    verifyHandler srv \<lparr>rqRawQuery = query, rqAuthorization = header\<rparr> a = (Inr resp, a) \<and>
    (rpStatus resp = 200 \<longleftrightarrow> (\<exists>token inst' sec owner tr. bearerToken header = Some token \<and>
       snInstances v (omNamespace (liMeta inst), omName (liMeta inst)) = Some inst' \<and>
       routedTo (asSlugPolicy srv) \<lparr>bnNamespace = omNamespace (liMeta inst), bnName = omName (liMeta inst),
         bnUID = omUID (liMeta inst), bnSlug = slug\<rparr> inst' \<and>
       sec \<in> set (snSecrets v) \<and> omLabels (seMeta sec) slugKey = Some slug \<and> getS (seData sec) ''OPENAI_API_KEY'' = token \<and>
       boundSecret inst' sec \<and> tokenOwner (asLib srv) sec owner \<and>
       snTokens v (omNamespace (liMeta inst'), orName owner) = Some tr \<and> vouches inst' sec owner tr))"
proof -
  obtain mw0 current where "setNestedMap (irLib r) mw0 (desiredForwardAuth (authAddress r inst slug) current) [''spec'', ''forwardAuth''] = Inr mw"
    using emits_from_empty [OF emits_reconcileAuthMiddleware assms(1,2)] by (cases c; cases op) auto
  then have mw: "nestedMap (irLib r) mw [''spec'', ''forwardAuth''] = Inr (desiredForwardAuth (authAddress r inst slug) current)"
    by (rule assms(3))
  have parsed: "parseBinding (asLib srv) (parseQuery (authQuery inst slug)) = Some (routeBinding inst slug)"
    using assms(5) by (simp add: parseBinding_authQuery wellNamed_def)
  have grants: "grants (asLib srv) (asSlugPolicy srv) v (routeBinding inst slug) token \<longleftrightarrow>
      (\<exists>inst' sec owner tr. snInstances v (omNamespace (liMeta inst), omName (liMeta inst)) = Some inst' \<and>
       routedTo (asSlugPolicy srv) (routeBinding inst slug) inst' \<and>
       sec \<in> set (snSecrets v) \<and> omLabels (seMeta sec) slugKey = Some slug \<and> getS (seData sec) ''OPENAI_API_KEY'' = token \<and>
       boundSecret inst' sec \<and> tokenOwner (asLib srv) sec owner \<and>
       snTokens v (omNamespace (liMeta inst'), orName owner) = Some tr \<and> vouches inst' sec owner tr)" for token
    by (auto simp: grants_def validCredential_iff routeBinding_def split: option.split)
  have "\<exists>resp. verifyHandler srv \<lparr>rqRawQuery = authQuery inst slug, rqAuthorization = header\<rparr> a = (Inr resp, a) \<and>
      (rpStatus resp = 200 \<longleftrightarrow> (\<exists>token. bearerToken header = Some token \<and> grants (asLib srv) (asSlugPolicy srv) v (routeBinding inst slug) token))"
    unfolding verifyHandler_def authorize_refines [OF assms(4)]
    by (auto simp: parsed tryE_def retE_def httpError_def split: option.split)
  moreover have "desiredForwardAuth (authAddress r inst slug) current ''address'' =
      Some (JStr (trimRight (irAuthServiceURL r) ''/'' @ ''/auth/verify?'' @ authQuery inst slug))"
    by (simp add: desiredForwardAuth_def authAddress_def)
  moreover note mw
  ultimately show ?thesis unfolding grants unfolding routeBinding_def by blast
qed

text \<open>Round trip of the binding: the auth server decodes from the address exactly the namespace,
  name, UID and slug that the controller encoded, whatever bytes they hold, as long as they are valid.\<close>

theorem auth_binding_roundtrip:
  assumes "isDNS1123Label L (omNamespace (liMeta inst))" "isDNS1123Subdomain L (omName (liMeta inst))"
    and "isValidLabelValue L slug" "trimSpace (omNamespace (liMeta inst)) \<noteq> []" "trimSpace (omName (liMeta inst)) \<noteq> []"
    and "trimSpace (omUID (liMeta inst)) \<noteq> []" "trimSpace slug \<noteq> []"
  shows "parseBinding L (parseQuery (authQuery inst slug)) =
    Some \<lparr>bnNamespace = omNamespace (liMeta inst), bnName = omName (liMeta inst), bnUID = omUID (liMeta inst), bnSlug = slug\<rparr>"
  using assms by (simp add: parseBinding_authQuery routeBinding_def)

text \<open>\<^bold>\<open>C31.\<close> Every Ingress that is written routes exactly the path of the instance and what lies below it to
  the service of the instance: no default backend, no path-matcher override even if the operator's
  extra annotations ask for one, and, unless those annotations replace it, the chain of middlewares
  that authenticates before it strips the prefix.  It is created under the service's name with the
  instance as controller, or replaces an Ingress that the instance controls.\<close>

theorem ingress_writes:
  assumes "journal s = []" and "w \<in> set (journal (snd (reconcileIngress r inst labels svcName pathPrefix s)))"
  shows "\<exists>ing ing0. (w = Write LocalCluster WCreate (OIng ing) \<and> keyOf (igMeta ing0) = (omNamespace (liMeta inst), svcName) \<and>
        setControllerReference (irLib r) ''LLMInstance'' (liMeta inst) (igMeta ing0) = Inr (igMeta ing) \<or>
      w = Write LocalCluster WUpdate (OIng ing) \<and> ing = ing0 \<and>
        (\<exists>old. serves (ingresses (irClient r)) (omNamespace (liMeta inst), svcName) old \<and> ownsSlugIngress (irLib r) inst old)) \<and>
    igRules ing = [\<lparr>rlHost = irPublicHost r, rlHTTP = Some
       [\<lparr>hpPath = pathPrefix, hpPathType = ''Exact'', hpBackend = \<lparr>ibService = svcName, ibPort = 8000\<rparr>\<rparr>,
        \<lparr>hpPath = pathPrefix @ ''/'', hpPathType = ''Prefix'', hpBackend = \<lparr>ibService = svcName, ibPort = 8000\<rparr>\<rparr>]\<rparr>] \<and>
    igDefaultBackend ing = None \<and> omAnnotations (igMeta ing0) routerPathmatcher = None \<and>
    (routerMiddlewares \<notin> fst ` set (irExtraIngressAnnotations r) \<longrightarrow>
       getS (omAnnotations (igMeta ing0)) routerMiddlewares =
         omNamespace (liMeta inst) @ ''-'' @ svcName @ ''-auth@kubernetescrd,'' @
         omNamespace (liMeta inst) @ ''-'' @ svcName @ ''-strip@kubernetescrd'')"
proof -
  have W: "ingressWrite r inst svcName pathPrefix w"
    using emits_from_empty [OF emits_reconcileIngress assms] .
  have shape: "igRules i = [\<lparr>rlHost = irPublicHost r, rlHTTP = Some
       [\<lparr>hpPath = pathPrefix, hpPathType = ''Exact'', hpBackend = \<lparr>ibService = svcName, ibPort = 8000\<rparr>\<rparr>,
        \<lparr>hpPath = pathPrefix @ ''/'', hpPathType = ''Prefix'', hpBackend = \<lparr>ibService = svcName, ibPort = 8000\<rparr>\<rparr>]\<rparr>] \<and>
    igDefaultBackend i = None \<and> omAnnotations (igMeta i) routerPathmatcher = None \<and>
    (routerMiddlewares \<notin> fst ` set (irExtraIngressAnnotations r) \<longrightarrow>
       getS (omAnnotations (igMeta i)) routerMiddlewares =
         omNamespace (liMeta inst) @ ''-'' @ svcName @ ''-auth@kubernetescrd,'' @
         omNamespace (liMeta inst) @ ''-'' @ svcName @ ''-strip@kubernetescrd'')"
    if "routeShape r inst svcName pathPrefix i" for i
    using that by (simp add: routeShape_def ruled_def slugIngressRules_def Let_def desiredMiddlewareAnnotation_def
        authMiddlewareName_def stripMiddlewareName_def)
  show ?thesis
  proof (cases "(r, inst, svcName, pathPrefix, w)" rule: ingressWrite.cases)
    case (1 r' inst' svc' p' ing)
    with W obtain ing0 where "routeShape r inst svcName pathPrefix ing0" "keyOf (igMeta ing0) = (omNamespace (liMeta inst), svcName)"
        "setControllerReference (irLib r) ''LLMInstance'' (liMeta inst) (igMeta ing0) = Inr (igMeta ing)"
      and ing: "ing = ing0\<lparr>igMeta := igMeta ing\<rparr>" by auto
    moreover have "igRules ing = igRules ing0" "igDefaultBackend ing = igDefaultBackend ing0"
      by (subst ing, simp)+
    ultimately show ?thesis using 1 shape [of ing0] by auto
  next
    case (2 r' inst' svc' p' ing)
    with W have "routeShape r inst svcName pathPrefix ing"
      "\<exists>old. serves (ingresses (irClient r)) (omNamespace (liMeta inst), svcName) old \<and> ownsSlugIngress (irLib r) inst old"
      by auto
    with 2 shape [of ing] show ?thesis by auto
  qed (use W in auto)
qed

text \<open>\<^bold>\<open>C30.\<close> Every middleware that the auth reconciliation writes carries the binding address of the
  instance, does not trust forwarded headers and passes none on; it keeps the other options it found,
  and it is created with the instance as controller or was controlled by it.\<close>

theorem auth_middleware_bound:
  assumes "journal s = []" and "Write c op obj \<in> set (journal (snd (reconcileAuthMiddleware r inst labels svcName slug create s)))"
  shows "\<exists>mw0 mw current. c = LocalCluster \<and> obj = OMw mw \<and>
    setNestedMap (irLib r) mw0 (current(
      ''address'' \<mapsto> JStr (trimRight (irAuthServiceURL r) ''/'' @ ''/auth/verify?'' @ authQuery inst slug),
      ''trustForwardHeader'' \<mapsto> JBool False, ''authResponseHeaders'' \<mapsto> JList [])) [''spec'', ''forwardAuth''] = Inr mw \<and>
    (op = WCreate \<and> (\<exists>m0. keyOf m0 = (omNamespace (liMeta inst), authMiddlewareName svcName) \<and>
       setControllerReference (irLib r) ''LLMInstance'' (liMeta inst) m0 = Inr (unMeta mw0)) \<or>
     op = WUpdate \<and> ownsLLMResource (irLib r) inst (unMeta mw0) \<and>
       nestedMap (irLib r) mw0 [''spec'', ''forwardAuth''] = Inr current)"
proof -
  have W: "authWrite r inst svcName slug (Write c op obj)"
    using emits_from_empty [OF emits_reconcileAuthMiddleware assms] .
  show ?thesis
  proof (cases "(r, inst, svcName, slug, Write c op obj)" rule: authWrite.cases)
    case (1 r' inst' svc' sl mw)
    with W show ?thesis by (auto simp: desiredForwardAuth_def authAddress_def)
  next
    case (2 r' inst' svc' sl mw)
    with W show ?thesis by (auto simp: desiredForwardAuth_def authAddress_def)
  qed (use W in auto)
qed

text \<open>With extra annotations configured, the Ingress never settles: the override reports a change
  on every Ingress, so each reconciliation of a controlled Ingress sends an update even when the
  object is already as desired.\<close>

theorem extra_annotations_always_update:
  assumes "irExtraIngressAnnotations r \<noteq> []" and "ownsSlugIngress (irLib r) inst ing"
    and "checkSlugRoute r inst (trimPrefix pathPrefix ''/llm/'') s = (Inr (), s1)"
    and "getObj (ingresses (irClient r)) (omNamespace (liMeta inst), svcName) s1 = (Inr ing, s2)"
  shows "journal (snd (reconcileIngress r inst labels svcName pathPrefix s)) =
    journal s2 @ [Write LocalCluster WUpdate (OIng (fst (ensureIngress r inst svcName pathPrefix ing)))]"
proof -
  have "snd (applyExtraIngressAnnotations (irExtraIngressAnnotations r) True i)" for i
    using assms(1) by (cases "irExtraIngressAnnotations r") (auto simp: Let_def split: prod.split)
  then have "snd (ensureIngress r inst svcName pathPrefix ing)"
    by (auto simp: ensureIngress_def seqEnsure_def split: prod.split) (metis snd_conv)
  then obtain i where "ensureIngress r inst svcName pathPrefix ing = (i, True)"
    by (metis prod.collapse)
  then show ?thesis
    using assms(2-4)
    by (simp add: reconcileIngress_def bindE_def tryE_def retE_def failE_def apiE_def updateObj_def writeWith_def
        split: prod.split sum.split)
qed

section \<open>Witnesses\<close>

lemma demo_valid_names:
  "isDNS1123Label sampleLib ''default''" "isDNS1123Subdomain sampleLib ''a''" "isValidLabelValue sampleLib ''alpha''"
  "trimSpace ''default'' = ''default''" "trimSpace ''a'' = ''a''" "trimSpace ''u1'' = ''u1''" "trimSpace ''alpha'' = ''alpha''"
  by code_simp+

lemma demo_meta: "omNamespace (liMeta demoInstance) = ''default''" "omName (liMeta demoInstance) = ''a''"
  "omUID (liMeta demoInstance) = ''u1''"
  by (simp_all add: demoInstance_def sampleObj_def newMeta_def)

lemma demo_binding: "parseBinding sampleLib (parseQuery (authQuery demoInstance ''alpha'')) = Some demoBinding"
  by (simp add: parseBinding_authQuery demo_valid_names demo_meta routeBinding_def demoBinding_def)

lemma demo_route_accepts:
  "verifyHandler demoServer \<lparr>rqRawQuery = authQuery demoInstance ''alpha'', rqAuthorization = ''Bearer k''\<rparr> startSys =
     (Inr \<lparr>rpStatus = 200, rpWWWAuthenticate = [], rpBody = ''ok''\<rparr>, startSys)"
proof -
  have "asLib demoServer = sampleLib" by (simp add: demoServer_def)
  moreover have "bearerToken ''Bearer k'' = Some ''k''" using demo_bearer by (simp add: demoRequest_def)
  ultimately show ?thesis
    unfolding verifyHandler_def authorize_refines [OF demo_reads] using demo_grants
    by (simp add: demo_binding tryE_def retE_def)
qed

theorem auth_binding_roundtrip_witness:
  "parseBinding sampleLib (parseQuery (authQuery demoInstance ''alpha'')) =
     Some \<lparr>bnNamespace = ''default'', bnName = ''a'', bnUID = ''u1'', bnSlug = ''alpha''\<rparr>"
  using auth_binding_roundtrip [of sampleLib demoInstance "''alpha''"] by (simp add: demo_valid_names demo_meta)

lemmas demo_api_defs = bindE_def tryE_def retE_def failE_def apiE_def liftE_def controlE_def getObj_def createObj_def updateObj_def
  readWith_def writeWith_def cannedKind_def emptyClient_def

lemma demo_control_new:
  "\<exists>m. setControllerReference sampleLib ''LLMInstance'' owner (m0\<lparr>omOwners := []\<rparr>) = Inr m"
  by (simp add: sampleLib_def takeControl_def controllerOf_def)

lemma applyExtra_owners: "omOwners (igMeta (fst (applyExtraIngressAnnotations kvs ov ing))) = omOwners (igMeta ing)"
  by (induction kvs ov ing rule: applyExtraIngressAnnotations.induct) (auto simp: Let_def annotate_def split: prod.split)

lemma buildDesiredIngress_owners: "omOwners (igMeta (buildDesiredIngress r inst labels svcName pathPrefix)) = []"
  by (simp add: buildDesiredIngress_def ensureIngressHTTPRule_def unannotate_def applyExtra_owners Let_def newMeta_def)

lemma sample_control: "omOwners m0 = [] \<Longrightarrow> \<exists>m. setControllerReference sampleLib kind owner m0 = Inr m"
  by (simp add: sampleLib_def takeControl_def controllerOf_def)

lemma demo_ingress_write:
  "\<exists>ing. Write LocalCluster WCreate (OIng ing) \<in>
     set (journal (snd (reconcileIngress (demoReconciler demoIngresses) demoInstance Map.empty ''a-llama'' ''/llm/alpha'' startSys)))"
proof -
  obtain m where m: "setControllerReference sampleLib ''LLMInstance'' (liMeta demoInstance)
      (igMeta (buildDesiredIngress (demoReconciler demoIngresses) demoInstance Map.empty ''a-llama'' ''/llm/alpha'')) = Inr m"
    using sample_control buildDesiredIngress_owners by blast
  have p: "trimPrefix ''/llm/alpha'' ''/llm/'' = ''alpha''" by (simp add: trimPrefix_def)
  have c: "ingresses (irClient (demoReconciler demoIngresses)) = cannedKind absent [otherIngress]"
    "irLib (demoReconciler demoIngresses) = sampleLib" by (simp_all add: demoReconciler_def demoIngresses_def)
  show ?thesis
    unfolding reconcileIngress_def p Let_def
    by (simp add: demo_route [unfolded startSys_def] demo_api_defs c absent_def isNotFound_def m startSys_def)
qed

theorem ingress_writes_witness:
  "\<exists>ing :: ingress. igDefaultBackend ing = None \<and> length (igRules ing) = 1"
proof -
  obtain ing where "Write LocalCluster WCreate (OIng ing) \<in> set (journal (snd (reconcileIngress
      (demoReconciler demoIngresses) demoInstance Map.empty ''a-llama'' ''/llm/alpha'' startSys)))"
    using demo_ingress_write by blast
  moreover have "journal startSys = []" by (simp add: startSys_def)
  ultimately show ?thesis
    using ingress_writes [of startSys "Write LocalCluster WCreate (OIng ing)"] by fastforce
qed

lemma demo_auth_write:
  "\<exists>mw. Write LocalCluster WCreate (OMw mw) \<in> set (journal (snd (reconcileAuthMiddleware
     (demoReconciler emptyClient) demoInstance Map.empty ''a-llama'' ''alpha'' True startSys)))"
proof -
  let ?m0 = "(newMeta (omNamespace (liMeta demoInstance)) (authMiddlewareName ''a-llama''))\<lparr>omLabels := Map.empty\<rparr>"
  obtain m where "setControllerReference sampleLib ''LLMInstance'' (liMeta demoInstance) ?m0 = Inr m"
    using sample_control [of ?m0] by (auto simp: newMeta_def)
  moreover have "\<not> noMiddlewareKind (ApiError NotFound ''not found'')" by code_simp
  moreover have "nestedMap sampleLib \<lparr>unMeta = mt, unSpec = None, unStatus = None\<rparr> p = Inr Map.empty"
      "setNestedMap sampleLib u d p = Inr (putSpec (JObj d) u p)" if "tl p \<noteq> []" for mt u d p
    using that by (cases "tl p") (simp_all add: sampleLib_def mapAt_def)
  ultimately show ?thesis
    by (simp add: reconcileAuthMiddleware_def writeForwardAuth_def demoReconciler_def demo_api_defs demo_meta absent_def
        isNotFound_def startSys_def Let_def)
qed

theorem route_accepts_own_keys_witness:
  "\<exists>query resp. verifyHandler demoServer \<lparr>rqRawQuery = query, rqAuthorization = ''Bearer k''\<rparr> startSys = (Inr resp, startSys) \<and>
     rpStatus resp = 200"
proof -
  obtain mw where w: "Write LocalCluster WCreate (OMw mw) \<in> set (journal (snd (reconcileAuthMiddleware
      (demoReconciler emptyClient) demoInstance Map.empty ''a-llama'' ''alpha'' True startSys)))"
    using demo_auth_write by blast
  have j: "journal startSys = []" by (simp add: startSys_def)
  have lib: "irLib (demoReconciler emptyClient) = sampleLib" "asLib demoServer = sampleLib" by (simp_all add: demoReconciler_def demoServer_def)
  have reads_back: "setNestedMap sampleLib u m p = Inr u' \<Longrightarrow> nestedMap sampleLib u' p = Inr m" for u m p and u' :: unstructured
    by (auto simp: sampleLib_def)
  have named: "wellNamed (asLib demoServer) demoInstance ''alpha''"
    by (simp add: wellNamed_def lib demo_valid_names demo_meta)
  have "bearerToken ''Bearer k'' = Some ''k''" using demo_bearer by (simp add: demoRequest_def)
  moreover have "grants sampleLib (asSlugPolicy demoServer) demoSnapshot demoBinding ''k''" using demo_grants lib by simp
  ultimately show ?thesis
    using route_accepts_own_keys [OF j w _ demo_reads named, of "''Bearer k''" startSys] reads_back
    unfolding lib by (fastforce simp: grants_def validCredential_iff demoBinding_def demo_meta split: option.splits)
qed

theorem auth_middleware_bound_witness:
  "\<exists>mw0 mw current. setNestedMap sampleLib mw0 (current(
      ''address'' \<mapsto> JStr (trimRight ''http://auth:8090/'' ''/'' @ ''/auth/verify?'' @ authQuery demoInstance ''alpha''),
      ''trustForwardHeader'' \<mapsto> JBool False, ''authResponseHeaders'' \<mapsto> JList [])) [''spec'', ''forwardAuth''] = Inr mw"
proof -
  obtain mw where "Write LocalCluster WCreate (OMw mw) \<in> set (journal (snd (reconcileAuthMiddleware
      (demoReconciler emptyClient) demoInstance Map.empty ''a-llama'' ''alpha'' True startSys)))"
    using demo_auth_write by blast
  moreover have "journal startSys = []" by (simp add: startSys_def)
  ultimately have "\<exists>mw0 mw current. setNestedMap (irLib (demoReconciler emptyClient)) mw0 (current(
      ''address'' \<mapsto> JStr (trimRight (irAuthServiceURL (demoReconciler emptyClient)) ''/'' @ ''/auth/verify?'' @ authQuery demoInstance ''alpha''),
      ''trustForwardHeader'' \<mapsto> JBool False, ''authResponseHeaders'' \<mapsto> JList [])) [''spec'', ''forwardAuth''] = Inr mw"
    using auth_middleware_bound [of startSys LocalCluster WCreate "OMw mw"] by blast
  then show ?thesis by (simp add: demoReconciler_def)
qed

definition ownIngress :: ingress where
  "ownIngress = \<lparr>igMeta = (newMeta ''default'' ''a-llama'')\<lparr>omOwners := [controllerRef ''LLMInstance'' (liMeta demoInstance)]\<rparr>,
     igClass = None, igDefaultBackend = None, igRules = [], igTLS = []\<rparr>"

definition annotatingReconciler :: "unit instance_reconciler" where
  "annotatingReconciler = (demoReconciler (emptyClient\<lparr>ingresses := cannedKind (\<lambda>_. Inr ownIngress) [ownIngress]\<rparr>))
     \<lparr>irExtraIngressAnnotations := [(''cert-manager.io/cluster-issuer'', ''garden'')]\<rparr>"

theorem extra_annotations_always_update_witness:
  "length (journal (snd (reconcileIngress annotatingReconciler demoInstance Map.empty ''a-llama'' ''/llm/alpha'' startSys))) = 1"
proof -
  have own: "ownsSlugIngress sampleLib demoInstance ownIngress"
    by (simp add: ownsSlugIngress_def ownsLLMResource_def sampleLib_def controllerOf_def ownIngress_def controllerRef_def demo_meta
        newMeta_def)
  have c: "ingresses (irClient annotatingReconciler) = cannedKind (\<lambda>_. Inr ownIngress) [ownIngress]"
    "irLib annotatingReconciler = sampleLib" "irExtraIngressAnnotations annotatingReconciler \<noteq> []"
    "irRouteReader annotatingReconciler = None"
    by (simp_all add: annotatingReconciler_def demoReconciler_def)
  have key: "keyOf (igMeta ownIngress) = (omNamespace (liMeta demoInstance), svcNameOf demoInstance)"
    by (simp add: ownIngress_def keyOf_def newMeta_def demo_meta svcNameOf_def)
  have chk: "checkSlugRoute annotatingReconciler demoInstance (trimPrefix ''/llm/alpha'' ''/llm/'') startSys = (Inr (), startSys)"
    using own key
    by (simp add: checkSlugRoute_def routeReader_def c demo_api_defs listObj_def ingressConflicts_def startSys_def)
  have get: "getObj (ingresses (irClient annotatingReconciler)) (omNamespace (liMeta demoInstance), ''a-llama'') startSys =
      (Inr ownIngress, startSys)"
    by (simp add: c demo_api_defs startSys_def)
  show ?thesis
    using extra_annotations_always_update [OF c(3) _ chk get] own c(2) by (simp add: startSys_def)
qed

end
