(* ===== verification/GoURL.thy ===== *)
theory GoURL
  imports GoEncoding
begin

text \<open>
  \<^verbatim>\<open>net/url.Parse\<close>, as the endpoint and kubeconfig checks of the operator use it.  Strings are byte
  strings.
\<close>

record url =
  urScheme :: string
  urOpaque :: string
  urHasUser :: bool
  urHost :: string
  urPath :: string
  urRawPath :: string
  urForceQuery :: bool
  urRawQuery :: string
  urFragment :: string

definition emptyURL :: url where
  "emptyURL = \<lparr>urScheme = [], urOpaque = [], urHasUser = False, urHost = [], urPath = [], urRawPath = [],
     urForceQuery = False, urRawQuery = [], urFragment = []\<rparr>"

section \<open>Pieces\<close>

text \<open>\<^verbatim>\<open>strings.Cut\<close> with a one-byte separator, and the text after its last occurrence.\<close>

definition cutAt :: "char \<Rightarrow> string \<Rightarrow> string \<times> string" where
  "cutAt d s = (takeWhile (\<lambda>c. c \<noteq> d) s, drop 1 (dropWhile (\<lambda>c. c \<noteq> d) s))"

definition beforeLast :: "char \<Rightarrow> string \<Rightarrow> string" where
  "beforeLast d s = rev (drop 1 (dropWhile (\<lambda>c. c \<noteq> d) (rev s)))"

definition afterLast :: "char \<Rightarrow> string \<Rightarrow> string" where
  "afterLast d s = rev (takeWhile (\<lambda>c. c \<noteq> d) (rev s))"

definition isLetter :: "char \<Rightarrow> bool" where
  "isLetter c = (let n = of_char c :: nat in 65 \<le> n \<and> n \<le> 90 \<or> 97 \<le> n \<and> n \<le> 122)"

definition isDigit :: "char \<Rightarrow> bool" where
  "isDigit c = (let n = of_char c :: nat in 48 \<le> n \<and> n \<le> 57)"

definition isControl :: "char \<Rightarrow> bool" where
  "isControl c = (let n = of_char c :: nat in n < 32 \<or> n = 127)"

text \<open>\<^verbatim>\<open>getScheme\<close>: \<open>None\<close> for a leading colon, otherwise the scheme and the rest.\<close>

fun schemeScan :: "string \<Rightarrow> string \<Rightarrow> string \<Rightarrow> (string \<times> string) option" where
  "schemeScan raw acc [] = Some ([], raw)"
| "schemeScan raw acc (c # cs) =
     (if isLetter c then schemeScan raw (acc @ [c]) cs
      else if isDigit c \<or> c \<in> set ''+-.'' then
        (if acc = [] then Some ([], raw) else schemeScan raw (acc @ [c]) cs)
      else if c = CHR '':'' then (if acc = [] then None else Some (acc, cs))
      else Some ([], raw))"

definition getScheme :: "string \<Rightarrow> (string \<times> string) option" where
  "getScheme raw = schemeScan raw [] raw"

definition validOptionalPort :: "string \<Rightarrow> bool" where
  "validOptionalPort p = (p = [] \<or> hd p = CHR '':'' \<and> list_all isDigit (tl p))"

text \<open>Unescaping in a path, a fragment or user information: every well-formed escape is decoded.\<close>

fun pathUnescape :: "string \<Rightarrow> string option" where
  "pathUnescape [] = Some []"
| "pathUnescape (c # cs) =
     (if c = CHR ''%'' then
        (case cs of
           a # b # rest \<Rightarrow>
             (case (unhex a, unhex b) of
                (Some x, Some y) \<Rightarrow> map_option ((#) (char_of (16 * x + y))) (pathUnescape rest)
              | _ \<Rightarrow> None)
         | _ \<Rightarrow> None)
      else map_option ((#) c) (pathUnescape cs))"

definition pathSafe :: "char \<Rightarrow> bool" where
  "pathSafe c = (isLetter c \<or> isDigit c \<or> c \<in> set ''-_.~$&+,/:;=@'')"

definition pathEscape :: "string \<Rightarrow> string" where
  "pathEscape s = concat (map (\<lambda>c. if pathSafe c then [c]
     else let n = of_char c :: nat in [CHR ''%'', hexUpper (n div 16), hexUpper (n mod 16)]) s)"

text \<open>Unescaping in a host: only non-ASCII bytes and \<^verbatim>\<open>%25\<close> may be escaped, and only the characters
  of a host may stand unescaped.\<close>

definition hostSafe :: "char \<Rightarrow> bool" where
  "hostSafe c = (isLetter c \<or> isDigit c \<or> c \<in> set ''-_.~!$&()*+,;=:[]<>'' \<or> c = CHR 0x27 \<or> c = CHR 0x22 \<or>
     128 \<le> (of_char c :: nat))"

fun hostUnescape :: "string \<Rightarrow> string option" where
  "hostUnescape [] = Some []"
| "hostUnescape (c # cs) =
     (if c = CHR ''%'' then
        (case cs of
           a # b # rest \<Rightarrow>
             (case (unhex a, unhex b) of
                (Some x, Some y) \<Rightarrow>
                  if x < 8 \<and> (x, y) \<noteq> (2, 5) then None
                  else map_option ((#) (char_of (16 * x + y))) (hostUnescape rest)
              | _ \<Rightarrow> None)
         | _ \<Rightarrow> None)
      else if \<not> hostSafe c then None
      else map_option ((#) c) (hostUnescape cs))"

text \<open>A host in brackets must close its bracket and may be followed by a port; the zone of an IPv6
  address, which may hold any escape, is not told apart from the address.\<close>

definition parseHost :: "string \<Rightarrow> string option" where
  "parseHost host =
     (if hasPrefix host ''['' then
        (if CHR '']'' \<notin> set host \<or> \<not> validOptionalPort (afterLast (CHR '']'') host) then None
         else hostUnescape host)
      else if CHR '':'' \<in> set host \<and> \<not> list_all isDigit (afterLast (CHR '':'') host) then None
      else hostUnescape host)"

definition validUserinfo :: "string \<Rightarrow> bool" where
  "validUserinfo s = list_all (\<lambda>c. isLetter c \<or> isDigit c \<or> c \<in> set ''-._:~!$&()*+,;=%@'' \<or> c = CHR 0x27) s"

definition parseAuthority :: "string \<Rightarrow> (bool \<times> string) option" where
  "parseAuthority a =
     (if CHR ''@'' \<notin> set a then map_option (\<lambda>h. (False, h)) (parseHost a)
      else case parseHost (afterLast (CHR ''@'') a) of
        None \<Rightarrow> None
      | Some h \<Rightarrow>
          let user = beforeLast (CHR ''@'') a
          in if validUserinfo user \<and> pathUnescape user \<noteq> None then Some (True, h) else None)"

definition setPath :: "string \<Rightarrow> url \<Rightarrow> url option" where
  "setPath p u = map_option (\<lambda>path. u\<lparr>urPath := path, urRawPath := (if pathEscape path = p then [] else p)\<rparr>)
     (pathUnescape p)"

section \<open>Parse\<close>

definition parseNoFragment :: "string \<Rightarrow> url option" where
  "parseNoFragment raw =
     (if list_ex isControl raw then None
      else if raw = ''*'' then Some (emptyURL\<lparr>urPath := ''*''\<rparr>)
      else case getScheme raw of
        None \<Rightarrow> None
      | Some (scheme, rest0) \<Rightarrow>
          let force = hasSuffix rest0 ''?'' \<and> length (filter (\<lambda>c. c = CHR ''?'') rest0) = 1;
              (rest, query) = (if force then (butlast rest0, []) else cutAt (CHR ''?'') rest0);
              u = emptyURL\<lparr>urScheme := toLower scheme, urForceQuery := force, urRawQuery := query\<rparr>
          in if \<not> hasPrefix rest ''/'' \<and> scheme \<noteq> [] then Some (u\<lparr>urOpaque := rest\<rparr>)
             else if \<not> hasPrefix rest ''/'' \<and> CHR '':'' \<in> set (fst (cutAt (CHR ''/'') rest)) then None
             else if (scheme \<noteq> [] \<or> \<not> hasPrefix rest ''///'') \<and> hasPrefix rest ''//'' then
               let authority = takeWhile (\<lambda>c. c \<noteq> CHR ''/'') (drop 2 rest);
                   path = dropWhile (\<lambda>c. c \<noteq> CHR ''/'') (drop 2 rest)
               in case parseAuthority authority of
                    None \<Rightarrow> None
                  | Some (hasUser, host) \<Rightarrow> setPath path (u\<lparr>urHasUser := hasUser, urHost := host\<rparr>)
             else setPath rest u)"

definition urlParse :: "string \<Rightarrow> url option" where
  "urlParse raw =
     (let (front, frag) = cutAt (CHR ''#'') raw
      in case parseNoFragment front of
           None \<Rightarrow> None
         | Some u \<Rightarrow> if frag = [] then Some u else map_option (\<lambda>f. u\<lparr>urFragment := f\<rparr>) (pathUnescape frag))"

text \<open>\<^verbatim>\<open>URL.Hostname\<close> and \<^verbatim>\<open>URL.Port\<close>.\<close>

definition splitHostPort :: "string \<Rightarrow> string \<times> string" where
  "splitHostPort hp =
     (let (h, p) = (if CHR '':'' \<in> set hp \<and> list_all isDigit (afterLast (CHR '':'') hp)
                    then (beforeLast (CHR '':'') hp, afterLast (CHR '':'') hp) else (hp, []))
      in (if hasPrefix h ''['' \<and> hasSuffix h '']'' then butlast (tl h) else h, p))"

abbreviation urlHostname :: "url \<Rightarrow> string" where "urlHostname u \<equiv> fst (splitHostPort (urHost u))"
abbreviation urlPort :: "url \<Rightarrow> string" where "urlPort u \<equiv> snd (splitHostPort (urHost u))"

end
