(* ===== verification/ByocTransport.thy ===== *)
theory ByocTransport
  imports HostedRoute GoURL
begin

text \<open>
  \<^verbatim>\<open>internal/controller/llminstance_byoc_transport.go\<close>: how the operator reaches a tenant's cluster, what
  identifies that cluster, which objects on it belong to an instance, the pod that serves the model
  behind a TLS proxy, and the probe of the published endpoint.  The names of the objects come from
  \<^verbatim>\<open>llminstance_byoc.go\<close>.
\<close>

section \<open>Constants and names\<close>

definition byocNamespace :: string where "byocNamespace = ''private-llm''"
definition byocKubeconfigKey :: string where "byocKubeconfigKey = ''kubeconfig''"
definition byocAPIKeyFileKey :: string where "byocAPIKeyFileKey = ''api-keys''"
definition byocAPIKeyMountPath :: string where "byocAPIKeyMountPath = ''/keys''"
definition byocServicePort :: int where "byocServicePort = 443"
definition byocTargetPort :: int where "byocTargetPort = 8443"
definition byocAPIKeysRevAnnotation :: string where "byocAPIKeysRevAnnotation = ''llm.privatellms.msp/api-keys-revision''"
definition byocBootstrapAnnotation :: string where "byocBootstrapAnnotation = ''llm.privatellms.msp/bootstrap-key''"
definition byocReasonMissingSecret :: string where "byocReasonMissingSecret = ''KubeconfigSecretMissing''"
definition byocReasonTargetChanging :: string where "byocReasonTargetChanging = ''BYOCTargetChanging''"
definition byocDefaultServiceAccount :: string where "byocDefaultServiceAccount = ''default''"
definition byocOwnerUIDAnnotation :: string where "byocOwnerUIDAnnotation = ''llm.privatellms.msp/owner-uid''"
definition byocTLSRevisionAnnotation :: string where "byocTLSRevisionAnnotation = ''llm.privatellms.msp/tls-revision''"
definition byocProxyRevisionAnnotation :: string where "byocProxyRevisionAnnotation = ''llm.privatellms.msp/proxy-revision''"
definition byocProxyImage :: string where
  "byocProxyImage = ''docker.io/library/traefik:v3.7.16@sha256:1336e85aaed293bd63d005086e0dd013b04078b26aaeb1c18b26a2f928af7e65''"

definition byocBaseName :: "string \<Rightarrow> string" where
  "byocBaseName slug = ''llm-'' @ take 12 (hexEncode (sha256 slug))"

definition byocKeySecretName :: "string \<Rightarrow> string" where
  "byocKeySecretName slug = byocBaseName slug @ ''-keys''"

definition byocCredentialsName :: "string \<Rightarrow> string" where
  "byocCredentialsName slug = byocBaseName slug @ ''-credentials''"

definition byocAPIKeyFilePath :: string where
  "byocAPIKeyFilePath = byocAPIKeyMountPath @ ''/'' @ byocAPIKeyFileKey"

definition byocProxyName :: "string \<Rightarrow> string" where
  "byocProxyName slug = byocBaseName slug @ ''-proxy''"

definition byocLabels :: "string \<Rightarrow> string \<Rightarrow> string \<rightharpoonup> string" where
  "byocLabels instanceName slug = [''app.kubernetes.io/name'' \<mapsto> ''llama-cpp-server'',
     instanceLabelKey \<mapsto> instanceName, ''llm.privatellms.msp/slug'' \<mapsto> slug]"

definition nul :: string where "nul = [CHR 0x00]"

section \<open>The connection\<close>

definition insecureCluster :: "kube_cluster \<Rightarrow> bool" where
  "insecureCluster cl =
     (case urlParse (kcServer cl) of
        None \<Rightarrow> True
      | Some u \<Rightarrow> urScheme u \<noteq> httpsScheme \<or> urlHostname u = [] \<or> urHasUser u \<or> urRawQuery u \<noteq> [] \<or>
          urFragment u \<noteq> [] \<or> kcInsecureSkipTLSVerify cl \<or> kcCertificateAuthority cl \<noteq> [] \<or> kcProxyURL cl \<noteq> [])"

definition externalAuth :: "kube_auth \<Rightarrow> bool" where
  "externalAuth a = (kaExec a \<or> kaAuthProvider a \<or> kaTokenFile a \<noteq> [] \<or> kaClientCertificate a \<noteq> [] \<or> kaClientKey a \<noteq> [])"

definition verifiedBYOCRESTConfig :: "'w byoc_lib \<Rightarrow> string \<Rightarrow> goerr + rest_config" where
  "verifiedBYOCRESTConfig B data =
     (case blLoad B data of
        None \<Rightarrow> Inl (errNew ''invalid BYOC kubeconfig'')
      | Some raw \<Rightarrow>
        (case kgContexts raw (kgCurrentContext raw) of
           None \<Rightarrow> Inl (errNew ''BYOC kubeconfig has no current context'')
         | Some current \<Rightarrow>
           (case kgClusters raw (kxCluster current) of
              None \<Rightarrow> Inl (errNew ''BYOC kubeconfig has no selected cluster'')
            | Some cluster \<Rightarrow>
              if insecureCluster cluster
              then Inl (errNew ''BYOC API requires verified HTTPS and inline CA data without a proxy'')
              else if (case kgAuthInfos raw (kxAuthInfo current) of None \<Rightarrow> False | Some a \<Rightarrow> externalAuth a)
              then Inl (errNew ''BYOC kubeconfig requires inline credentials; local files and auth plugins are forbidden'')
              else (case blRESTConfig B data of
                None \<Rightarrow> Inl (errNew ''invalid BYOC kubeconfig credentials'')
              | Some cfg \<Rightarrow> Inr (cfg\<lparr>rcTimeout := 30, rcProxy := NoProxy\<rparr>)))))"

definition byocTargetIdentity :: "'w byoc_lib \<Rightarrow> string \<Rightarrow> goerr + string" where
  "byocTargetIdentity B data =
     (case verifiedBYOCRESTConfig B data of
        Inl e \<Rightarrow> Inl e
      | Inr cfg \<Rightarrow> Inr (hexEncode (sha256 (rcHost cfg @ nul @ rcServerName cfg @ nul @ rcCAData cfg))))"

definition byocAPIHTTPClient :: "'w byoc_lib \<Rightarrow> rest_config \<Rightarrow> goerr + http_client" where
  "byocAPIHTTPClient B cfg =
     (case blHTTPClientFor B cfg of
        Inl e \<Rightarrow> Inl e
      | Inr httpClient \<Rightarrow> Inr (httpClient\<lparr>hcFollowsRedirects := False\<rparr>))"

definition defaultRemoteClient :: "'w instance_reconciler \<Rightarrow> string \<Rightarrow> goerr + 'w client" where
  "defaultRemoteClient r kubeconfig =
     (case verifiedBYOCRESTConfig (irBYOCLib r) kubeconfig of
        Inl e \<Rightarrow> Inl e
      | Inr cfg \<Rightarrow>
          (case byocAPIHTTPClient (irBYOCLib r) cfg of
             Inl e \<Rightarrow> Inl e
           | Inr httpClient \<Rightarrow> blNewClient (irBYOCLib r) cfg httpClient))"

definition remoteClientForKubeconfig :: "'w instance_reconciler \<Rightarrow> string \<Rightarrow> goerr + 'w client" where
  "remoteClientForKubeconfig r kubeconfig =
     (case irRemoteClientBuilder r of None \<Rightarrow> defaultRemoteClient r kubeconfig | Some builder \<Rightarrow> builder kubeconfig)"

text \<open>Pin both the API trust identity and the immutable UID of a namespace of the cluster.\<close>

definition byocClusterIdentity :: "'w client \<Rightarrow> string \<Rightarrow> ('w, string) io" where
  "byocClusterIdentity remote apiID =
     tryE (getObj (namespaces remote) ([], ''kube-system''))
       (\<lambda>e. failE (Errorf ''cannot establish BYOC cluster identity'' [APIErr e]))
       (\<lambda>ns. if omUID (nsMeta ns) = [] then failE (errNew ''BYOC cluster namespace has no UID'')
             else retE (hexEncode (sha256 (apiID @ nul @ omUID (nsMeta ns)))))"

section \<open>Ownership of remote objects\<close>

definition byocOwnedAnnotations :: "llm_instance \<Rightarrow> string \<rightharpoonup> string" where
  "byocOwnedAnnotations inst = [byocOwnerUIDAnnotation \<mapsto> omUID (liMeta inst)]"

definition byocOwned :: "objmeta \<Rightarrow> llm_instance \<Rightarrow> bool" where
  "byocOwned m inst = (omUID (liMeta inst) \<noteq> [] \<and> getS (omAnnotations m) byocOwnerUIDAnnotation = omUID (liMeta inst) \<and>
     omOwners m = [])"

definition checkBYOCObjectOwner :: "objmeta \<Rightarrow> llm_instance \<Rightarrow> ('w, unit) io" where
  "checkBYOCObjectOwner m inst =
     (if \<not> byocOwned m inst
      then failE (errNew (''refusing unowned BYOC object '' @ omNamespace m @ ''/'' @ omName m @
        ''; legacy objects require verified migration''))
      else retE ())"

definition safeBYOCSlug :: "llm_instance \<Rightarrow> string \<Rightarrow> string" where
  "safeBYOCSlug inst slug =
     (if stActiveBYOCSlug (liStatus inst) \<noteq> [] then stActiveBYOCSlug (liStatus inst) else trimSpace slug)"

section \<open>The probe of the published endpoint\<close>

text \<open>The body of the default probe: what the response must show.\<close>

definition checkPinned :: "string \<Rightarrow> https_response \<Rightarrow> goerr option" where
  "checkPinned fingerprint resp =
     (case hrTLS resp of
        None \<Rightarrow> Some (errNew ''BYOC TLS certificate was not verified'')
      | Some st \<Rightarrow>
          (case tsPeerCertificates st of
             [] \<Rightarrow> Some (errNew ''BYOC TLS certificate was not verified'')
           | leaf # _ \<Rightarrow>
               if tsVerifiedChains st = 0 then Some (errNew ''BYOC TLS certificate was not verified'')
               else if hexEncode (sha256 leaf) \<noteq> fingerprint
               then Some (errNew ''BYOC endpoint is not serving the delivered instance certificate'')
               else if hrStatusCode resp < 200 \<or> hrStatusCode resp \<ge> 300
               then Some (errNew (''BYOC health returned status '' @ itoa (hrStatusCode resp)))
               else None))"

definition runBYOCHealthCheck :: "'w instance_reconciler \<Rightarrow> string \<Rightarrow> string \<Rightarrow> ('w, unit) io" where
  "runBYOCHealthCheck r targetURL fingerprint =
     (case irBYOCHealthChecker r of
        Some checker \<Rightarrow> hostErrE (checker targetURL fingerprint)
      | None \<Rightarrow>
          if (case urlParse targetURL of None \<Rightarrow> True | Some u \<Rightarrow> urScheme u \<noteq> httpsScheme) \<or> fingerprint = []
          then failE (errNew ''BYOC health requires HTTPS and a delivered certificate fingerprint'')
          else bindE (hostE (blHTTPSGet (irBYOCLib r) targetURL)) (\<lambda>resp.
            case checkPinned fingerprint resp of Some e \<Rightarrow> failE e | None \<Rightarrow> retE ()))"

section \<open>Lemmas\<close>

lemma verified_config:
  assumes "verifiedBYOCRESTConfig B data = Inr cfg"
  shows "\<exists>raw current cluster cfg0. blLoad B data = Some raw \<and> kgContexts raw (kgCurrentContext raw) = Some current \<and>
    kgClusters raw (kxCluster current) = Some cluster \<and> \<not> insecureCluster cluster \<and>
    (\<forall>a. kgAuthInfos raw (kxAuthInfo current) = Some a \<longrightarrow> \<not> externalAuth a) \<and>
    blRESTConfig B data = Some cfg0 \<and> cfg = cfg0\<lparr>rcTimeout := 30, rcProxy := NoProxy\<rparr>"
  using assms by (auto simp: verifiedBYOCRESTConfig_def split: option.splits if_splits)

lemma emits_byocClusterIdentity [emits_intros]: "emits G (byocClusterIdentity remote apiID)"
  unfolding byocClusterIdentity_def by (intro emits_intros)

lemma emits_checkBYOCObjectOwner [emits_intros]: "emits G (checkBYOCObjectOwner m inst)"
  unfolding checkBYOCObjectOwner_def by (intro emits_intros)

lemma emits_runBYOCHealthCheck [emits_intros]: "emits G (runBYOCHealthCheck r u fp)"
  unfolding runBYOCHealthCheck_def by (intro emits_intros)

lemma yields_checkBYOCObjectOwner: "yields (checkBYOCObjectOwner m inst) (\<lambda>_. byocOwned m inst)"
  unfolding checkBYOCObjectOwner_def by (intro yields_intros) simp

section \<open>Properties\<close>

text \<open>\<^bold>\<open>C23.\<close> The client for a tenant's cluster, unless tests replace its builder, is made from a kubeconfig
  whose selected cluster is an \<^verbatim>\<open>https\<close> URL with a host, without user information, query or fragment,
  verified against inline CA data and without a proxy; no auth plugin and no local credential file is
  in use; and the client made of it asks no proxy, follows no redirect and has a timeout.\<close>

theorem byoc_client_verified:
  assumes "irRemoteClientBuilder r = None" and "remoteClientForKubeconfig r data = Inr remote"
  shows "\<exists>raw current cluster u cfg httpClient.
    blLoad (irBYOCLib r) data = Some raw \<and> kgContexts raw (kgCurrentContext raw) = Some current \<and>
    kgClusters raw (kxCluster current) = Some cluster \<and> urlParse (kcServer cluster) = Some u \<and>
    urScheme u = ''https'' \<and> urlHostname u \<noteq> [] \<and> \<not> urHasUser u \<and> urRawQuery u = [] \<and> urFragment u = [] \<and>
    \<not> kcInsecureSkipTLSVerify cluster \<and> kcCertificateAuthority cluster = [] \<and> kcProxyURL cluster = [] \<and>
    (\<forall>a. kgAuthInfos raw (kxAuthInfo current) = Some a \<longrightarrow>
       \<not> kaExec a \<and> \<not> kaAuthProvider a \<and> kaTokenFile a = [] \<and> kaClientCertificate a = [] \<and> kaClientKey a = []) \<and>
    blNewClient (irBYOCLib r) cfg httpClient = Inr remote \<and>
    rcProxy cfg = NoProxy \<and> rcTimeout cfg = 30 \<and> \<not> hcFollowsRedirects httpClient"
proof -
  from assms obtain cfg hc where v: "verifiedBYOCRESTConfig (irBYOCLib r) data = Inr cfg"
    and h: "byocAPIHTTPClient (irBYOCLib r) cfg = Inr hc" and n: "blNewClient (irBYOCLib r) cfg hc = Inr remote"
    by (auto simp: remoteClientForKubeconfig_def defaultRemoteClient_def split: sum.splits)
  from h have "\<not> hcFollowsRedirects hc"
    by (auto simp: byocAPIHTTPClient_def split: sum.splits)
  with n verified_config [OF v] show ?thesis
    by (fastforce simp: insecureCluster_def externalAuth_def httpsScheme_def split: option.splits)
qed

text \<open>\<^bold>\<open>C24.\<close> The probe of a published endpoint is pinned: it succeeds only over \<^verbatim>\<open>https\<close>, with a verified
  chain, when the server presents exactly the certificate whose fingerprint was delivered, and answers
  with a code of the 200 range.\<close>

theorem byoc_probe_pinned:
  assumes "irBYOCHealthChecker r = None" and "runBYOCHealthCheck r targetURL fingerprint s = (Inr (), s')"
  shows "fingerprint \<noteq> [] \<and> (\<exists>u. urlParse targetURL = Some u \<and> urScheme u = ''https'') \<and>
    (\<exists>w resp st leaf chain. fst (blHTTPSGet (irBYOCLib r) targetURL w) = Inr resp \<and> hrTLS resp = Some st \<and>
       0 < tsVerifiedChains st \<and> tsPeerCertificates st = leaf # chain \<and> hexEncode (sha256 leaf) = fingerprint \<and>
       200 \<le> hrStatusCode resp \<and> hrStatusCode resp < 300)"
proof -
  have pinned: "\<exists>st leaf chain. hrTLS resp = Some st \<and> 0 < tsVerifiedChains st \<and> tsPeerCertificates st = leaf # chain \<and>
      hexEncode (sha256 leaf) = fingerprint \<and> 200 \<le> hrStatusCode resp \<and> hrStatusCode resp < 300"
    if "checkPinned fingerprint resp = None" for resp
    using that by (auto simp: checkPinned_def split: option.splits list.splits if_splits)
  have "yields (runBYOCHealthCheck r targetURL fingerprint) (\<lambda>_. fingerprint \<noteq> [] \<and>
      (\<exists>u. urlParse targetURL = Some u \<and> urScheme u = ''https'') \<and>
      (\<exists>w resp. fst (blHTTPSGet (irBYOCLib r) targetURL w) = Inr resp \<and> checkPinned fingerprint resp = None))"
    unfolding runBYOCHealthCheck_def assms(1) option.case
    by (rule yields_if, rule yields_failE, rule yields_bindE [OF yields_hostE])
      (auto intro!: yields_intros simp: httpsScheme_def split: option.splits)
  from yieldsD [OF this assms(2)] pinned show ?thesis by blast
qed

section \<open>Witnesses\<close>

definition byocDemo :: "unit client \<Rightarrow> unit instance_reconciler" where
  "byocDemo remote = (demoReconciler emptyClient)\<lparr>irBYOCLib := sampleByoc remote\<rparr>"

lemma sample_server: "\<not> insecureCluster \<lparr>kcServer = ''https://api.example'', kcInsecureSkipTLSVerify = False,
    kcCertificateAuthority = [], kcProxyURL = []\<rparr>"
  by code_simp

lemma byocDemo_lib [simp]: "irBYOCLib (byocDemo remote) = sampleByoc remote"
    "irRemoteClientBuilder (byocDemo remote) = None" "irBYOCHealthChecker (byocDemo remote) = None"
  by (simp_all add: byocDemo_def demoReconciler_def)

lemma byocDemo_config: "verifiedBYOCRESTConfig (sampleByoc remote) ''k'' =
    Inr \<lparr>rcHost = ''https://api.example'', rcServerName = [], rcCAData = ''k'', rcTimeout = 30, rcProxy = NoProxy\<rparr>"
  using sample_server by (simp add: verifiedBYOCRESTConfig_def sampleByoc_def sampleKubeconfig_def)

lemma byocDemo_client: "remoteClientForKubeconfig (byocDemo remote) ''k'' = Inr remote"
  using byocDemo_config [of remote]
  by (simp add: remoteClientForKubeconfig_def defaultRemoteClient_def byocAPIHTTPClient_def sampleByoc_def)

theorem byoc_client_verified_witness:
  "\<exists>cfg httpClient. blNewClient (sampleByoc emptyClient) cfg httpClient = Inr emptyClient \<and>
     rcProxy cfg = NoProxy \<and> \<not> hcFollowsRedirects httpClient"
  using byoc_client_verified [OF byocDemo_lib(2) byocDemo_client [of emptyClient]] by auto

lemma sample_probe_url: "\<exists>u. urlParse ''https://h'' = Some u \<and> urScheme u = ''https''"
  by (rule exI [of _ "the (urlParse ''https://h'')"]) code_simp

lemma byocDemo_probe:
  "runBYOCHealthCheck (byocDemo emptyClient) ''https://h'' (hexEncode (sha256 ''https://h'')) startSys = (Inr (), startSys)"
proof -
  have "length (hexEncode (sha256 ''https://h'')) \<noteq> 0" by (simp del: length_0_conv)
  then have "hexEncode (sha256 ''https://h'') \<noteq> []" by (simp only: length_0_conv not_False_eq_True)
  with sample_probe_url show ?thesis
    by (auto simp: runBYOCHealthCheck_def httpsScheme_def sampleByoc_def hostE_def checkPinned_def bindE_def tryE_def
        retE_def startSys_def)
qed

theorem byoc_probe_pinned_witness:
  "\<exists>w resp. fst (blHTTPSGet (sampleByoc emptyClient) ''https://h'' w) = Inr resp \<and> hrStatusCode resp < 300"
  using byoc_probe_pinned [OF byocDemo_lib(3) byocDemo_probe] by auto

end
