(* ===== verification/ByocWorkload.thy ===== *)
theory ByocWorkload
  imports ByocTransport "HOL-Library.List_Lexorder" "HOL-Library.Char_ord"
begin

text \<open>
  The objects of an instance on a tenant's cluster (\<^verbatim>\<open>llminstance_byoc.go\<close>, and the pod and proxy parts
  of \<^verbatim>\<open>llminstance_byoc_transport.go\<close>): namespace, proxy configuration, the file of accepted API keys,
  Deployment and Service.
\<close>

abbreviation "remoteCreate \<equiv> createObj RemoteCluster"
abbreviation "remoteUpdate \<equiv> updateObj RemoteCluster"

definition remoteKey :: "string \<Rightarrow> key" where "remoteKey name = (byocNamespace, name)"

section \<open>Namespace\<close>

definition ensureBYOCNamespace :: "'w client \<Rightarrow> ('w, unit) io" where
  "ensureBYOCNamespace remote =
     tryE (getObj (namespaces remote) ([], byocNamespace))
       (\<lambda>e. if \<not> isNotFound e then failE (APIErr e)
            else tryE (remoteCreate ONs (namespaces remote) \<lparr>nsMeta = (newMeta [] byocNamespace)\<lparr>omLabels :=
                     [''app.kubernetes.io/managed-by'' \<mapsto> ''private-llm-operator'']\<rparr>\<rparr>)
              (\<lambda>e. if isAlreadyExists e then retE () else failE (APIErr e)) (\<lambda>_. retE ()))
       (\<lambda>_. retE ())"

section \<open>Proxy configuration\<close>

definition byocProxyConfig :: "string \<Rightarrow> string" where
  "byocProxyConfig hostname = concat (map (\<lambda>line. line @ [CHR 0x0A])
     [''http:'', ''  routers:'', ''    model:'', ''      entryPoints: [websecure]'',
      ''      rule: '' @ quoted (''Host('' @ [CHR 0x60] @ hostname @ [CHR 0x60] @ '')''),
      ''      service: model'', ''      tls: {}'', ''  services:'', ''    model:'', ''      loadBalancer:'',
      ''        servers:'', ''          - url: http://127.0.0.1:8000'', ''        responseForwarding:'',
      ''          flushInterval: -1ms'', ''tls:'', ''  certificates:'', ''    - certFile: /tls/tls.crt'',
      ''      keyFile: /tls/tls.key'', ''  options:'', ''    default:'', ''      minVersion: VersionTLS12'',
      ''      sniStrict: true''])"

definition reconcileBYOCProxyConfig :: "'w client \<Rightarrow> llm_instance \<Rightarrow> string \<Rightarrow> string \<Rightarrow> ('w, unit) io" where
  "reconcileBYOCProxyConfig remote inst slug hostname =
     (let data = [''dynamic.yaml'' \<mapsto> byocProxyConfig hostname] in
      tryE (getObj (configMaps remote) (remoteKey (byocProxyName slug)))
        (\<lambda>e. if isNotFound e
             then bindE (apiE (remoteCreate OCfg (configMaps remote)
                    \<lparr>cmMeta = (newMeta byocNamespace (byocProxyName slug))\<lparr>omAnnotations := byocOwnedAnnotations inst\<rparr>,
                     cmData = data\<rparr>)) (\<lambda>_. retE ())
             else failE (APIErr e))
        (\<lambda>existing. bindE (checkBYOCObjectOwner (cmMeta existing) inst) (\<lambda>_.
           if cmData existing = data then retE ()
           else bindE (apiE (remoteUpdate OCfg (configMaps remote) (existing\<lparr>cmData := data\<rparr>))) (\<lambda>_. retE ()))))"

section \<open>Deployment\<close>

text \<open>Whatever follows a \<^verbatim>\<open>--host\<close> becomes the loopback address, from left to right and in place.\<close>

fun bindLoopback :: "string list \<Rightarrow> string list" where
  "bindLoopback (a # b # args) = a # bindLoopback ((if a = ''--host'' then ''127.0.0.1'' else b) # args)"
| "bindLoopback args = args"

definition healthCommand :: "string list" where
  "healthCommand = [''curl'', ''--fail'', ''--silent'', ''--max-time'', ''2'', ''http://127.0.0.1:8000/health'']"

definition tlsProxyContainer :: "kube_lib \<Rightarrow> container" where
  "tlsProxyContainer L = emptyContainer\<lparr>cnName := ''tls-proxy'', cnImage := byocProxyImage,
     cnArgs := [''--entryPoints.websecure.address=:8443'', ''--providers.file.filename=/config/dynamic.yaml'',
       ''--providers.file.watch=true'', ''--global.checkNewVersion=false'', ''--global.sendAnonymousUsage=false''],
     cnPorts := [\<lparr>cpName = ''https'', cpPort = 8443, cpProtocol = []\<rparr>],
     cnReadiness := Some \<lparr>pbHandler = TCPSocket 8443, pbInitialDelay = 0, pbPeriod = 5, pbTimeout = 0, pbSuccess = 0, pbFailure = 0\<rparr>,
     cnResources := \<lparr>rsRequests = [''cpu'' \<mapsto> mustParse L ''10m'', ''memory'' \<mapsto> mustParse L ''32Mi''],
       rsLimits = [''cpu'' \<mapsto> mustParse L ''500m'', ''memory'' \<mapsto> mustParse L ''128Mi'']\<rparr>,
     cnSecurity := Some \<lparr>scRunAsNonRoot = Some True, scRunAsUser = Some 65532, scAllowPrivilegeEscalation = Some False,
       scReadOnlyRootFilesystem = Some True, scDropCapabilities = [''ALL'']\<rparr>,
     cnMounts := [\<lparr>vmName = ''tls'', vmPath = ''/tls'', vmReadOnly = True\<rparr>,
       \<lparr>vmName = ''proxy-config'', vmPath = ''/config'', vmReadOnly = True\<rparr>]\<rparr>"

text \<open>The model server behind the proxy: it listens on loopback, opens no port, and is probed inside.\<close>

definition loopbackServer :: "container \<Rightarrow> container" where
  "loopbackServer c = c\<lparr>cnArgs := bindLoopback (cnArgs c), cnPorts := [],
     cnReadiness := Some \<lparr>pbHandler = ExecCmd healthCommand, pbInitialDelay = 0, pbPeriod = 5, pbTimeout = 3, pbSuccess = 0, pbFailure = 6\<rparr>,
     cnLiveness := Some \<lparr>pbHandler = ExecCmd healthCommand, pbInitialDelay = 20, pbPeriod = 10, pbTimeout = 3, pbSuccess = 0, pbFailure = 6\<rparr>\<rparr>"

text \<open>The code takes the first container for the model server and panics without one; the only caller
  passes a template with exactly one container.\<close>

definition configureBYOCTLSDeployment :: "kube_lib \<Rightarrow> llm_instance \<Rightarrow> string \<Rightarrow> string \<Rightarrow> string \<Rightarrow> deployment \<Rightarrow> deployment" where
  "configureBYOCTLSDeployment L inst slug tlsSecret tlsRevision d =
     (let t = dpTemplate d in
      d\<lparr>dpMeta := (dpMeta d)\<lparr>omAnnotations := byocOwnedAnnotations inst\<rparr>, dpStrategy := ''Recreate'',
        dpTemplate := t\<lparr>ptAutomount := Some False,
          ptContainers := (case ptContainers t of [] \<Rightarrow> [] | server # others \<Rightarrow> loopbackServer server # others) @ [tlsProxyContainer L],
          ptVolumes := ptVolumes t @ [\<lparr>voName = ''tls'', voSource = SecretVolume tlsSecret None\<rparr>,
            \<lparr>voName = ''proxy-config'', voSource = ConfigMapVolume (byocProxyName slug) None\<rparr>],
          ptAnnotations := (ptAnnotations t)(byocTLSRevisionAnnotation \<mapsto> tlsRevision,
            byocProxyRevisionAnnotation \<mapsto> hexEncode (sha256 (tlsSecret @ nul @ byocProxyImage)))\<rparr>\<rparr>)"

text \<open>The API defaults that are persisted on the pod template.\<close>

definition orDefault :: "int \<Rightarrow> int \<Rightarrow> int" where "orDefault d n = (if n = 0 then d else n)"

definition defaultProbe :: "probe \<Rightarrow> probe" where
  "defaultProbe p = p\<lparr>pbSuccess := orDefault 1 (pbSuccess p), pbFailure := orDefault 3 (pbFailure p),
     pbTimeout := orDefault 1 (pbTimeout p)\<rparr>"

definition defaultContainer :: "container \<Rightarrow> container" where
  "defaultContainer c = c\<lparr>cnPullPolicy := ''IfNotPresent'', cnTerminationPath := ''/dev/termination-log'',
     cnTerminationPolicy := ''File'', cnPorts := map (\<lambda>p. p\<lparr>cpProtocol := ''TCP''\<rparr>) (cnPorts c),
     cnReadiness := map_option defaultProbe (cnReadiness c), cnLiveness := map_option defaultProbe (cnLiveness c)\<rparr>"

fun defaultVolumeSource :: "volume_source \<Rightarrow> volume_source" where
  "defaultVolumeSource (SecretVolume n m) = SecretVolume n (Some 288)"         \<comment> \<open>octal 0440\<close>
| "defaultVolumeSource (ConfigMapVolume n m) = ConfigMapVolume n (Some 292)"   \<comment> \<open>octal 0444\<close>
| "defaultVolumeSource EmptyDir = EmptyDir"

definition corev1defaults :: "deployment \<Rightarrow> deployment" where
  "corev1defaults d =
     (let t = dpTemplate d in
      d\<lparr>dpTemplate := t\<lparr>ptRestartPolicy := ''Always'', ptGracePeriod := Some 30, ptSchedulerName := ''default-scheduler'',
          ptServiceAccount := byocDefaultServiceAccount, ptDeprecatedServiceAccount := byocDefaultServiceAccount,
          ptFSGroup := Some 65532, ptContainers := map defaultContainer (ptContainers t),
          ptInitContainers := map defaultContainer (ptInitContainers t),
          ptVolumes := map (\<lambda>v. v\<lparr>voSource := defaultVolumeSource (voSource v)\<rparr>) (ptVolumes t)\<rparr>\<rparr>)"

definition apiKeyMount :: volume_mount where
  "apiKeyMount = \<lparr>vmName = ''api-keys'', vmPath = byocAPIKeyMountPath, vmReadOnly = True\<rparr>"

definition byocServerContainer :: "kube_lib \<Rightarrow> model_selection \<Rightarrow> container" where
  "byocServerContainer L m =
     (let c = llamaServerContainer L m [''--api-key-file'', byocAPIKeyFilePath] in c\<lparr>cnMounts := cnMounts c @ [apiKeyMount]\<rparr>)"

definition buildBYOCDeployment ::
    "kube_lib \<Rightarrow> llm_instance \<Rightarrow> string \<Rightarrow> int \<Rightarrow> model_selection \<Rightarrow> string \<Rightarrow> string \<Rightarrow> string \<Rightarrow> deployment" where
  "buildBYOCDeployment L inst slug replicas m keysRevision tlsSecret tlsRevision =
     (let labels = byocLabels (omName (liMeta inst)) slug in
      corev1defaults (configureBYOCTLSDeployment L inst slug tlsSecret tlsRevision
       \<lparr>dpMeta = (newMeta byocNamespace (byocBaseName slug))\<lparr>omLabels := labels\<rparr>,
        dpReplicas = Some replicas, dpSelector = labels, dpStrategy = [],
        dpTemplate = \<lparr>ptLabels = labels, ptAnnotations = [byocAPIKeysRevAnnotation \<mapsto> keysRevision],
          ptDNSPolicy = effectiveDNSPolicy inst, ptInitContainers = [llamaInitContainer L m],
          ptContainers = [byocServerContainer L m],
          ptVolumes = [llamaModelVolume, \<lparr>voName = ''api-keys'', voSource = SecretVolume (byocKeySecretName slug) None\<rparr>],
          ptAutomount = None, ptRestartPolicy = [], ptGracePeriod = None, ptSchedulerName = [], ptServiceAccount = [],
          ptDeprecatedServiceAccount = [], ptFSGroup = None\<rparr>,
        dpObservedGeneration = 0, dpUpdatedReplicas = 0, dpReadyReplicas = 0, dpAvailableReplicas = 0\<rparr>))"

definition reconcileBYOCDeployment ::
    "kube_lib \<Rightarrow> 'w client \<Rightarrow> llm_instance \<Rightarrow> string \<Rightarrow> model_selection \<Rightarrow> string \<Rightarrow> string \<Rightarrow> string \<Rightarrow> ('w, unit) io" where
  "reconcileBYOCDeployment L remote inst slug m keysRevision tlsSecret tlsRevision =
     (let desired0 = buildBYOCDeployment L inst slug (desiredReplicas inst) m keysRevision tlsSecret tlsRevision in
      tryE (getObj (deployments remote) (keyOf (dpMeta desired0)))
        (\<lambda>e. if isNotFound e then bindE (apiE (remoteCreate ODep (deployments remote) desired0)) (\<lambda>_. retE ())
             else failE (APIErr e))
        (\<lambda>existing. bindE (checkBYOCObjectOwner (dpMeta existing) inst) (\<lambda>_.
           let desired = corev1defaults (desired0\<lparr>dpSelector := dpSelector existing\<rparr>) in
           if dpTemplate existing = dpTemplate desired \<and> dpReplicas existing = dpReplicas desired \<and>
              dpStrategy existing = dpStrategy desired
           then retE ()
           else bindE (apiE (remoteUpdate ODep (deployments remote)
                  (existing\<lparr>dpTemplate := dpTemplate desired, dpReplicas := dpReplicas desired,
                     dpStrategy := dpStrategy desired\<rparr>))) (\<lambda>_. retE ()))))"

section \<open>Service\<close>

definition byocPort :: "int \<Rightarrow> service_port" where
  "byocPort nodePort = \<lparr>svpName = httpsScheme, svpPort = byocServicePort, svpTargetPort = byocTargetPort,
     svpProtocol = ''TCP'', svpNodePort = nodePort\<rparr>"

definition ensureBYOCServicePort :: "service \<Rightarrow> service \<times> bool" where
  "ensureBYOCServicePort svc =
     (let nodePort = (case find (\<lambda>old. svpPort old = byocServicePort) (svPorts svc) of
            Some old \<Rightarrow> svpNodePort old | None \<Rightarrow> 0)
      in if svPorts svc = [byocPort nodePort] then (svc, False) else (svc\<lparr>svPorts := [byocPort nodePort]\<rparr>, True))"

text \<open>\<^verbatim>\<open>stringMapEqual\<close> compares the sizes and reads every key of the first map in the second.\<close>

definition stringMapEqual :: "(string \<rightharpoonup> string) \<Rightarrow> (string \<rightharpoonup> string) \<Rightarrow> bool" where
  "stringMapEqual a b = (card (dom a) = card (dom b) \<and> (\<forall>k v. a k = Some v \<longrightarrow> getS b k = v))"

definition ensureBYOCServiceType :: "service \<Rightarrow> service \<times> bool" where
  "ensureBYOCServiceType svc =
     (if svType svc = ''LoadBalancer'' then (svc, False) else (svc\<lparr>svType := ''LoadBalancer''\<rparr>, True))"

definition ensureBYOCServiceSelector :: "(string \<rightharpoonup> string) \<Rightarrow> service \<Rightarrow> service \<times> bool" where
  "ensureBYOCServiceSelector labels svc =
     (if stringMapEqual (svSelector svc) labels then (svc, False) else (svc\<lparr>svSelector := labels\<rparr>, True))"

definition ensureBYOCService :: "(string \<rightharpoonup> string) \<Rightarrow> service \<Rightarrow> service \<times> bool" where
  "ensureBYOCService labels = seqEnsure (seqEnsure ensureBYOCServiceType (ensureBYOCServiceSelector labels)) ensureBYOCServicePort"

definition newBYOCService :: "llm_instance \<Rightarrow> string \<Rightarrow> service" where
  "newBYOCService inst slug =
     (let labels = byocLabels (omName (liMeta inst)) slug in
      \<lparr>svMeta = (newMeta byocNamespace (byocBaseName slug))\<lparr>omLabels := labels, omAnnotations := byocOwnedAnnotations inst\<rparr>,
       svType = ''LoadBalancer'', svSelector = labels, svPorts = [byocPort 0], svLoadBalancer = []\<rparr>)"

definition reconcileBYOCService :: "'w client \<Rightarrow> llm_instance \<Rightarrow> string \<Rightarrow> ('w, unit) io" where
  "reconcileBYOCService remote inst slug =
     tryE (getObj (services remote) (remoteKey (byocBaseName slug)))
       (\<lambda>e. if \<not> isNotFound e then failE (APIErr e)
            else bindE (apiE (remoteCreate OSvc (services remote) (newBYOCService inst slug))) (\<lambda>_. retE ()))
       (\<lambda>existing. bindE (checkBYOCObjectOwner (svMeta existing) inst) (\<lambda>_.
          let (svc, updated) = ensureBYOCService (byocLabels (omName (liMeta inst)) slug) existing
          in if \<not> updated then retE ()
             else bindE (apiE (remoteUpdate OSvc (services remote) svc)) (\<lambda>_. retE ())))"

definition loadBalancerAddress :: "service \<Rightarrow> string" where
  "loadBalancerAddress svc =
     (case filter (\<lambda>a. a \<noteq> []) (concat (map (\<lambda>(ip, hostname). [ip, hostname]) (svLoadBalancer svc))) of
        [] \<Rightarrow> [] | a # _ \<Rightarrow> a)"

section \<open>Convergence\<close>

lemma defaultContainer_idem [simp]: "defaultContainer (defaultContainer c) = defaultContainer c"
  by (cases "cnReadiness c"; cases "cnLiveness c") (simp_all add: defaultContainer_def defaultProbe_def orDefault_def comp_def)

lemma defaultVolumeSource_idem [simp]: "defaultVolumeSource (defaultVolumeSource v) = defaultVolumeSource v"
  by (cases v) simp_all

lemma corev1defaults_idem [simp]: "corev1defaults (corev1defaults d) = corev1defaults d"
  by (simp add: corev1defaults_def Let_def comp_def)

lemma corev1defaults_selector [simp]: "corev1defaults (d\<lparr>dpSelector := sel\<rparr>) = (corev1defaults d)\<lparr>dpSelector := sel\<rparr>"
  by (simp add: corev1defaults_def Let_def)

lemma buildBYOC_defaults [simp]:
  "corev1defaults (buildBYOCDeployment L inst slug n m k t v) = buildBYOCDeployment L inst slug n m k t v"
  by (simp add: buildBYOCDeployment_def Let_def)

interpretation byoc_type: converging ensureBYOCServiceType "\<lambda>svc. svType svc = ''LoadBalancer''"
  by unfold_locales (simp_all add: ensureBYOCServiceType_def)

lemma stringMapEqual_refl [simp]: "stringMapEqual a a"
  by (simp add: stringMapEqual_def lookupD_def)

interpretation byoc_selector: converging "ensureBYOCServiceSelector labels" "\<lambda>svc. stringMapEqual (svSelector svc) labels"
  for labels by unfold_locales (simp_all add: ensureBYOCServiceSelector_def)

interpretation byoc_port: converging ensureBYOCServicePort "\<lambda>svc. \<exists>n. svPorts svc = [byocPort n]"
  by unfold_locales (auto simp: ensureBYOCServicePort_def byocPort_def Let_def)

interpretation byoc_type_selector: converging_pair ensureBYOCServiceType "\<lambda>svc. svType svc = ''LoadBalancer''"
    "ensureBYOCServiceSelector labels" "\<lambda>svc. stringMapEqual (svSelector svc) labels" for labels
  by unfold_locales (simp add: ensureBYOCServiceSelector_def)

interpretation byoc_service: converging_pair
    "seqEnsure ensureBYOCServiceType (ensureBYOCServiceSelector labels)"
    "\<lambda>svc. svType svc = ''LoadBalancer'' \<and> stringMapEqual (svSelector svc) labels"
    ensureBYOCServicePort "\<lambda>svc. \<exists>n. svPorts svc = [byocPort n]" for labels
  by unfold_locales (simp add: ensureBYOCServicePort_def Let_def)

text \<open>What the mutations leave alone.\<close>

lemma ensureBYOCService_meta: "svMeta (fst (ensureBYOCService labels svc)) = svMeta svc"
  by (simp add: ensureBYOCService_def seqEnsure_def ensureBYOCServiceType_def ensureBYOCServiceSelector_def
      ensureBYOCServicePort_def Let_def split: prod.split)

section \<open>The sealed pod\<close>

lemma bindLoopback_id: "''--host'' \<notin> set args \<Longrightarrow> bindLoopback args = args"
  by (induction args rule: bindLoopback.induct) auto

lemma bindLoopback_host:
  "''--host'' \<notin> set args \<Longrightarrow> bindLoopback (''--host'' # b # args) = ''--host'' # ''127.0.0.1'' # args"
  using bindLoopback_id [of "''127.0.0.1'' # args"] by simp

lemma bindLoopback_front:
  "\<lbrakk>a \<noteq> ''--host''; args \<noteq> []\<rbrakk> \<Longrightarrow> bindLoopback (a # args) = a # bindLoopback args"
  by (cases args) auto

lemma replaceFlag_set: "replaceFlag flag v args = Some args' \<Longrightarrow> set args' \<subseteq> insert v (set args)"
  by (induction flag v args arbitrary: args' rule: replaceFlag.induct) (auto split: if_splits)

lemma setServerIntFlag_set: "set (setServerIntFlag args flag n) \<subseteq> {flag, itoa n} \<union> set args"
  by (auto simp: setServerIntFlag_def split: option.splits dest!: replaceFlag_set)

lemma resolveModel_no_host: "''--host'' \<notin> set (msServerArgs (resolveModel requested))"
  by (simp add: resolveModel_def plainModel_def qwen3_def Let_def)

lemma setServerIntFlag_no_host:
  assumes "''--host'' \<notin> set args" and "flag \<noteq> ''--host''"
  shows "''--host'' \<notin> set (setServerIntFlag args flag n)"
  using assms itoa_not_flag [of n "''host''"] setServerIntFlag_set [of args flag n] by auto

lemma modelForInstance_no_host: "''--host'' \<notin> set (msServerArgs (modelForInstance inst))"
  using resolveModel_no_host [of "spModel (liSpec inst)"]
  by (auto simp: modelForInstance_def Let_def setServerIntFlag_no_host split: option.split)

lemma loopback_args:
  assumes "''--host'' \<notin> set (msServerArgs m)" and "''--host'' \<notin> set extra"
  shows "bindLoopback (serverArgs m extra) =
    [''-m'', modelPath m, ''--port'', ''8000'', ''--host'', ''127.0.0.1''] @ msServerArgs m @ extra"
proof -
  have "modelPath m \<noteq> ''--host''" by (simp add: modelPath_def)
  moreover have "bindLoopback (''--host'' # ''0.0.0.0'' # (msServerArgs m @ extra)) =
      ''--host'' # ''127.0.0.1'' # (msServerArgs m @ extra)"
    by (rule bindLoopback_host) (use assms in simp)
  ultimately show ?thesis by (simp add: serverArgs_def bindLoopback_front del: bindLoopback.simps(1))
qed

text \<open>A pod that can be reached through the proxy only: the server listens on loopback, declares no port,
  demands a key, and the one port of the pod is the proxy's.\<close>

definition sealedPod :: "pod_template \<Rightarrow> bool" where
  "sealedPod t = (\<exists>server proxy path flags. ptContainers t = [server, proxy] \<and> cnPorts server = [] \<and>
     cnArgs server = [''-m'', path, ''--port'', ''8000'', ''--host'', ''127.0.0.1''] @ flags @ [''--api-key-file'', byocAPIKeyFilePath] \<and>
     ''--host'' \<notin> set flags \<and> map cpPort (cnPorts proxy) = [8443] \<and> ptAutomount t = Some False)"

lemma buildBYOC_sealed:
  assumes "''--host'' \<notin> set (msServerArgs m)"
  shows "sealedPod (dpTemplate (buildBYOCDeployment L inst slug n m k t v))"
proof -
  have "''--host'' \<notin> set [''--api-key-file'', byocAPIKeyFilePath]"
    by (simp add: byocAPIKeyFilePath_def byocAPIKeyMountPath_def)
  note args = loopback_args [OF assms this]
  show ?thesis
    using assms args unfolding sealedPod_def
    by (simp add: buildBYOCDeployment_def corev1defaults_def configureBYOCTLSDeployment_def byocServerContainer_def
        llamaServerContainer_def loopbackServer_def defaultContainer_def tlsProxyContainer_def emptyContainer_def Let_def)
qed

section \<open>Writes\<close>

fun kmeta :: "kobj \<Rightarrow> objmeta" where
  "kmeta (OInst x) = liMeta x"
| "kmeta (OTok x) = trMeta x"
| "kmeta (OSec x) = seMeta x"
| "kmeta (ODep x) = dpMeta x"
| "kmeta (OSvc x) = svMeta x"
| "kmeta (OIng x) = igMeta x"
| "kmeta (OMw x) = unMeta x"
| "kmeta (OCfg x) = cmMeta x"
| "kmeta (ONs x) = nsMeta x"
| "kmeta (OCert x) = unMeta x"
| "kmeta (ODns x) = unMeta x"

text \<open>What services and pods look like when they are written: reachable over TLS only.\<close>

fun sealed :: "kobj \<Rightarrow> bool" where
  "sealed (OSvc svc) = (svType svc = ''LoadBalancer'' \<and> (\<exists>n. svPorts svc = [byocPort n]))"
| "sealed (ODep d) = sealedPod (dpTemplate d)"
| "sealed obj = True"

definition createdFor :: "llm_instance \<Rightarrow> objmeta \<Rightarrow> bool" where
  "createdFor inst m = (omNamespace m = byocNamespace \<and> getS (omAnnotations m) byocOwnerUIDAnnotation = omUID (liMeta inst) \<and>
     omOwners m = [])"

text \<open>A permitted write to the tenant's cluster: the operator's namespace, an object marked with the UID
  of the instance on creation, or one that carries the mark already.\<close>

fun workloadWrite :: "llm_instance \<Rightarrow> wreq \<Rightarrow> bool" where
  "workloadWrite inst (Write RemoteCluster WCreate (ONs ns)) = (omName (nsMeta ns) = byocNamespace)"
| "workloadWrite inst (Write RemoteCluster WCreate obj) = (createdFor inst (kmeta obj) \<and> sealed obj)"
| "workloadWrite inst (Write RemoteCluster WUpdate obj) = (byocOwned (kmeta obj) inst \<and> sealed obj)"
| "workloadWrite inst (Write RemoteCluster (WDelete p) obj) = (byocOwned (kmeta obj) inst \<and> p = preUID (kmeta obj))"
| "workloadWrite inst _ = False"

lemma emits_owned:
  assumes "byocOwned m inst \<Longrightarrow> emits G k"
  shows "emits G (bindE (checkBYOCObjectOwner m inst) (\<lambda>_. k))"
  by (rule emits_bind [OF emits_checkBYOCObjectOwner yields_checkBYOCObjectOwner]) (rule assms)

lemma emits_ensureBYOCNamespace: "emits (workloadWrite inst) (ensureBYOCNamespace remote)"
  unfolding ensureBYOCNamespace_def by (intro emits_intros) (simp add: newMeta_def)

lemma emits_reconcileBYOCProxyConfig: "emits (workloadWrite inst) (reconcileBYOCProxyConfig remote inst slug hostname)"
  unfolding reconcileBYOCProxyConfig_def Let_def
  by (intro emits_owned emits_intros) (simp_all add: newMeta_def createdFor_def byocOwnedAnnotations_def)

lemma emits_reconcileBYOCService: "emits (workloadWrite inst) (reconcileBYOCService remote inst slug)"
proof -
  have "workloadWrite inst (Write RemoteCluster WUpdate (OSvc svc))"
    if "byocOwned (svMeta svc0) inst" "ensureBYOCService labels svc0 = (svc, u)" for svc svc0 u labels
    using that byoc_service.pair_desired [of labels svc0] ensureBYOCService_meta [of labels svc0]
    by (simp add: ensureBYOCService_def)
  then show ?thesis
    unfolding reconcileBYOCService_def Let_def
    by (intro emits_owned emits_intros)
      (auto simp: newMeta_def createdFor_def byocOwnedAnnotations_def newBYOCService_def Let_def)
qed

lemma buildBYOC_meta:
  "omNamespace (dpMeta (buildBYOCDeployment L inst slug n m k t v)) = byocNamespace"
  "omAnnotations (dpMeta (buildBYOCDeployment L inst slug n m k t v)) = byocOwnedAnnotations inst"
  "omOwners (dpMeta (buildBYOCDeployment L inst slug n m k t v)) = []"
  by (simp_all add: buildBYOCDeployment_def corev1defaults_def configureBYOCTLSDeployment_def newMeta_def Let_def)

lemma buildBYOC_replicas: "dpReplicas (buildBYOCDeployment L inst slug n m k t v) = Some n"
  by (simp add: buildBYOCDeployment_def corev1defaults_def configureBYOCTLSDeployment_def Let_def)

lemma emits_reconcileBYOCDeployment:
  assumes "''--host'' \<notin> set (msServerArgs m)"
  shows "emits (workloadWrite inst) (reconcileBYOCDeployment L remote inst slug m k t v)"
  unfolding reconcileBYOCDeployment_def Let_def
  by (intro emits_owned emits_intros)
    (simp_all add: createdFor_def buildBYOC_meta byocOwnedAnnotations_def buildBYOC_sealed [OF assms])

section \<open>Properties\<close>

text \<open>\<^bold>\<open>C25.\<close> The pod that is built for a tenant's cluster is sealed, whatever the tenant asks for: it has two
  containers; the model server listens on the loopback address only, opens no port and is started
  with the file of accepted keys; the one open port belongs to the TLS proxy, which runs without
  privileges; and no credential of the cluster is mounted.\<close>

theorem byoc_server_sealed:
  "\<exists>server proxy. ptContainers (dpTemplate (buildBYOCDeployment L inst slug n (modelForInstance inst) k t v)) = [server, proxy] \<and>
     cnPorts server = [] \<and>
     cnArgs server = [''-m'', modelPath (modelForInstance inst), ''--port'', ''8000'', ''--host'', ''127.0.0.1''] @
       msServerArgs (modelForInstance inst) @ [''--api-key-file'', ''/keys/api-keys''] \<and>
     ''--host'' \<notin> set (msServerArgs (modelForInstance inst)) \<and>
     map (\<lambda>p. (cpPort p, cpProtocol p)) (cnPorts proxy) = [(8443, ''TCP'')] \<and>
     cnSecurity proxy = Some \<lparr>scRunAsNonRoot = Some True, scRunAsUser = Some 65532, scAllowPrivilegeEscalation = Some False,
       scReadOnlyRootFilesystem = Some True, scDropCapabilities = [''ALL'']\<rparr> \<and>
     ptAutomount (dpTemplate (buildBYOCDeployment L inst slug n (modelForInstance inst) k t v)) = Some False"
proof -
  have "''--host'' \<notin> set [''--api-key-file'', ''/keys/api-keys'']" by simp
  note args = loopback_args [OF modelForInstance_no_host this]
  show ?thesis
    using args modelForInstance_no_host [of inst]
    by (simp add: buildBYOCDeployment_def corev1defaults_def configureBYOCTLSDeployment_def byocServerContainer_def
        llamaServerContainer_def loopbackServer_def defaultContainer_def tlsProxyContainer_def emptyContainer_def Let_def
        byocAPIKeyFilePath_def byocAPIKeyMountPath_def byocAPIKeyFileKey_def)
qed

text \<open>An owned Deployment on the tenant's cluster converges in one step and is then left alone: a run
  that reads it sends no write if template, replicas and strategy are those that would be built now
  with the API defaults filled in, and otherwise exactly one update, which makes them so and keeps
  everything else (the immutable selector included).\<close>

theorem byoc_deployment_settles:
  fixes L inst slug m k t v
  defines "desired \<equiv> buildBYOCDeployment L inst slug (desiredReplicas inst) m k t v"
  assumes "getObj (deployments remote) (byocNamespace, byocBaseName slug) s = (Inr existing, s1)"
    and "byocOwned (dpMeta existing) inst"
  shows "let current = (\<lambda>d. dpTemplate d = dpTemplate desired \<and> dpReplicas d = dpReplicas desired \<and> dpStrategy d = dpStrategy desired);
      updated = existing\<lparr>dpTemplate := dpTemplate desired, dpReplicas := dpReplicas desired, dpStrategy := dpStrategy desired\<rparr>
    in journal (snd (reconcileBYOCDeployment L remote inst slug m k t v s)) =
         journal s1 @ (if current existing then [] else [Write RemoteCluster WUpdate (ODep updated)]) \<and>
       current updated"
proof -
  have key: "keyOf (dpMeta desired) = (byocNamespace, byocBaseName slug)"
    by (simp add: desired_def keyOf_def buildBYOCDeployment_def corev1defaults_def configureBYOCTLSDeployment_def newMeta_def Let_def)
  have run: "reconcileBYOCDeployment L remote inst slug m k t v s =
      (if dpTemplate existing = dpTemplate desired \<and> dpReplicas existing = dpReplicas desired \<and> dpStrategy existing = dpStrategy desired
       then retE ()
       else bindE (apiE (remoteUpdate ODep (deployments remote)
              (existing\<lparr>dpTemplate := dpTemplate desired, dpReplicas := dpReplicas desired, dpStrategy := dpStrategy desired\<rparr>)))
            (\<lambda>_. retE ())) s1"
    using assms(2,3) key
    by (simp add: reconcileBYOCDeployment_def Let_def tryE_def bindE_def checkBYOCObjectOwner_def retE_def flip: desired_def)
       (simp add: desired_def)
  show ?thesis
    by (simp add: run Let_def retE_def bindE_def tryE_def apiE_def updateObj_def writeWith_def failE_def split: prod.split sum.split)
qed

text \<open>\<^verbatim>\<open>stringMapEqual\<close> reads a key that the second map does not have as the empty string, so a service
  whose selector has lost the slug label, but carries some other label with an empty value, passes
  for up to date: it selects no pod of the instance and is never repaired.\<close>

theorem byoc_selector_confused:
  assumes "slug \<noteq> []"
  shows "\<exists>svc. ensureBYOCService (byocLabels name slug) svc = (svc, False) \<and>
    svSelector svc ''llm.privatellms.msp/slug'' = None \<and>
    byocLabels name slug ''llm.privatellms.msp/slug'' = Some slug"
proof -
  define sel :: "string \<rightharpoonup> string" where
    "sel = [''app.kubernetes.io/name'' \<mapsto> ''llama-cpp-server'', instanceLabelKey \<mapsto> name, ''spare'' \<mapsto> []]"
  define svc where "svc = (newBYOCService demoInstance slug)\<lparr>svSelector := sel\<rparr>"
  have "stringMapEqual sel (byocLabels name slug)"
    by (simp add: stringMapEqual_def sel_def byocLabels_def instanceLabelKey_def lookupD_def)
  then have "svType svc = ''LoadBalancer'' \<and> stringMapEqual (svSelector svc) (byocLabels name slug)"
      "\<exists>n. svPorts svc = [byocPort n]"
    by (auto simp: svc_def newBYOCService_def Let_def)
  then have "ensureBYOCService (byocLabels name slug) svc = (svc, False)"
    unfolding ensureBYOCService_def by (intro byoc_service.pair_stable conjI) blast+
  moreover have "sel ''llm.privatellms.msp/slug'' = None" "byocLabels name slug ''llm.privatellms.msp/slug'' = Some slug"
    by (simp_all add: sel_def byocLabels_def instanceLabelKey_def)
  ultimately show ?thesis by (intro exI [of _ svc]) (simp add: svc_def)
qed

text \<open>Without empty values the comparison is equality.\<close>

lemma stringMapEqual_eq:
  assumes "finite (dom b)" and "[] \<notin> ran a" and "stringMapEqual a b"
  shows "a = b"
proof -
  have sub: "b k = Some v" if "a k = Some v" for k v
    using that assms(2,3) by (auto simp: stringMapEqual_def lookupD_def ran_def split: option.splits)
  then have "dom a \<subseteq> dom b" by auto
  moreover have "card (dom a) = card (dom b)" using assms(3) by (simp add: stringMapEqual_def)
  ultimately have "dom a = dom b" using assms(1) by (metis card_subset_eq)
  then have "a k = b k" for k using sub [of k] by (cases "a k") (metis domIff, simp)
  then show ?thesis by (rule ext)
qed

section \<open>Witnesses\<close>

definition demoByocDeployment :: deployment where
  "demoByocDeployment = (buildBYOCDeployment sampleLib demoInstance ''alpha'' 1 (modelForInstance demoInstance) ''7'' ''c'' ''f'')\<lparr>dpReplicas := None\<rparr>"

definition demoRemote :: "unit client" where
  "demoRemote = emptyClient\<lparr>deployments := cannedKind (\<lambda>_. Inr demoByocDeployment) []\<rparr>"

lemma demo_remote_deployment: "getObj (deployments demoRemote) k startSys = (Inr demoByocDeployment, startSys)"
  by (simp add: demoRemote_def cannedKind_def getObj_def readWith_def startSys_def)

lemma demo_owned: "byocOwned (dpMeta demoByocDeployment) demoInstance"
  by (simp add: demoByocDeployment_def byocOwned_def buildBYOC_meta byocOwnedAnnotations_def demoInstance_def sampleObj_def newMeta_def)

theorem byoc_deployment_settles_witness:
  "\<exists>d. journal (snd (reconcileBYOCDeployment sampleLib demoRemote demoInstance ''alpha'' (modelForInstance demoInstance) ''7'' ''c'' ''f'' startSys)) =
     [Write RemoteCluster WUpdate (ODep d)]"
  using byoc_deployment_settles [OF demo_remote_deployment demo_owned, of sampleLib "''alpha''" "modelForInstance demoInstance" "''7''" "''c''" "''f''"]
  by (simp add: Let_def buildBYOC_replicas startSys_def) (simp add: demoByocDeployment_def)

theorem byoc_selector_confused_witness:
  "\<exists>svc. ensureBYOCService (byocLabels ''a'' ''s'') svc = (svc, False) \<and> svSelector svc ''llm.privatellms.msp/slug'' = None"
  using byoc_selector_confused [of "''s''" "''a''"] by auto

end
