(* ===== verification/GoNetIP.thy ===== *)
theory GoNetIP
  imports GoURL
begin

text \<open>
  IP addresses: \<^verbatim>\<open>net.ParseIP\<close> (which agrees with \<^verbatim>\<open>netip.ParseAddr\<close> on addresses without a zone) and the
  classification of addresses in packages \<^verbatim>\<open>net\<close> and \<^verbatim>\<open>net/netip\<close>.  An address is its value, of 32 or 128
  bits.
\<close>

datatype addr = V4 int | V6 int

section \<open>Parsing\<close>

definition ipv4Field :: "string \<Rightarrow> int option" where
  "ipv4Field f =
     (if f \<noteq> [] \<and> list_all isDigit f \<and> (f = ''0'' \<or> hd f \<noteq> CHR ''0'') \<and> length f \<le> 3
      then (case parseNat 0 f of None \<Rightarrow> None | Some n \<Rightarrow> if n \<le> 255 then Some (int n) else None)
      else None)"

definition octets :: "int \<Rightarrow> int \<Rightarrow> int \<Rightarrow> int \<Rightarrow> int" where
  "octets a b c d = ((a * 256 + b) * 256 + c) * 256 + d"

definition parseIPv4 :: "string \<Rightarrow> int option" where
  "parseIPv4 s =
     (case map ipv4Field (splitOn (CHR ''.'') s) of
        [Some a, Some b, Some c, Some d] \<Rightarrow> Some (octets a b c d)
      | _ \<Rightarrow> None)"

fun hexValue :: "int \<Rightarrow> string \<Rightarrow> int" where
  "hexValue acc [] = acc"
| "hexValue acc (c # cs) = hexValue (acc * 16 + (case unhex c of Some d \<Rightarrow> int d | None \<Rightarrow> 0)) cs"

text \<open>The loop of the IPv6 parser.  The first argument counts the groups that may still follow; the groups
  read so far and the place of the ellipsis are accumulated.\<close>

fun ipv6Loop :: "nat \<Rightarrow> int list \<Rightarrow> nat option \<Rightarrow> string \<Rightarrow> (int list \<times> nat option) option" where
  "ipv6Loop 0 groups ellipsis s = (if s = [] then Some (groups, ellipsis) else None)"
| "ipv6Loop (Suc n) groups ellipsis s =
     (let digits = takeWhile (\<lambda>c. unhex c \<noteq> None) s; rest = dropWhile (\<lambda>c. unhex c \<noteq> None) s;
          more = groups @ [hexValue 0 digits]
      in if digits = [] \<or> length digits > 4 then None
         else if hasPrefix rest ''.'' then
           (if ellipsis = None \<and> length groups \<noteq> 6 \<or> length groups + 2 > 8 then None
            else case parseIPv4 s of
              None \<Rightarrow> None
            | Some v \<Rightarrow> Some (groups @ [v div 65536, v mod 65536], ellipsis))
         else if rest = [] then Some (more, ellipsis)
         else if hd rest \<noteq> CHR '':'' \<or> length rest = 1 then None
         else if hasPrefix (tl rest) '':'' then
           (if ellipsis \<noteq> None then None
            else if tl (tl rest) = [] then Some (more, Some (length more))
            else ipv6Loop n more (Some (length more)) (tl (tl rest)))
         else ipv6Loop n more ellipsis (tl rest))"

definition expandGroups :: "int list \<Rightarrow> nat option \<Rightarrow> int list option" where
  "expandGroups groups ellipsis =
     (if length groups < 8 then
        (case ellipsis of
           None \<Rightarrow> None
         | Some k \<Rightarrow> Some (take k groups @ replicate (8 - length groups) 0 @ drop k groups))
      else if ellipsis \<noteq> None then None else Some groups)"

definition groupsValue :: "int list \<Rightarrow> int" where
  "groupsValue = foldl (\<lambda>v g. v * 65536 + g) 0"

definition parseIPv6 :: "string \<Rightarrow> int option" where
  "parseIPv6 s =
     (if s = ''::'' then Some 0
      else
        case (if hasPrefix s ''::'' then ipv6Loop 8 [] (Some 0) (drop 2 s) else ipv6Loop 8 [] None s) of
          None \<Rightarrow> None
        | Some (groups, ellipsis) \<Rightarrow> map_option groupsValue (expandGroups groups ellipsis))"

definition parseIP :: "string \<Rightarrow> addr option" where
  "parseIP s =
     (case filter (\<lambda>c. c \<in> set ''.:%'') s of
        [] \<Rightarrow> None
      | c # _ \<Rightarrow> if c = CHR ''.'' then map_option V4 (parseIPv4 s)
                 else if c = CHR '':'' then map_option V6 (parseIPv6 s) else None)"

section \<open>Classification\<close>

text \<open>An IPv4-mapped IPv6 address is treated as the IPv4 address (\<^verbatim>\<open>To4\<close>, \<^verbatim>\<open>Unmap\<close>).\<close>

fun unmap :: "addr \<Rightarrow> addr" where
  "unmap (V4 n) = V4 n"
| "unmap (V6 n) = (if n div 2 ^ 32 = 65535 then V4 (n mod 2 ^ 32) else V6 n)"

text \<open>\<^verbatim>\<open>Prefix.Contains\<close>: same family, equal in the leading bits.\<close>

fun inPrefix :: "addr \<Rightarrow> nat \<Rightarrow> addr \<Rightarrow> bool" where
  "inPrefix (V4 base) bits (V4 n) = (n div 2 ^ (32 - bits) = base div 2 ^ (32 - bits))"
| "inPrefix (V6 base) bits (V6 n) = (n div 2 ^ (128 - bits) = base div 2 ^ (128 - bits))"
| "inPrefix _ _ _ = False"

definition ip4 :: "int \<Rightarrow> int \<Rightarrow> int \<Rightarrow> int \<Rightarrow> addr" where
  "ip4 a b c d = V4 (octets a b c d)"

definition ip6 :: "int list \<Rightarrow> addr" where
  "ip6 leading = V6 (groupsValue (leading @ replicate (8 - length leading) 0))"

definition isUnspecified :: "addr \<Rightarrow> bool" where
  "isUnspecified a = (a = V4 0 \<or> a = V6 0)"

definition isLoopback :: "addr \<Rightarrow> bool" where
  "isLoopback a = (inPrefix (ip4 127 0 0 0) 8 a \<or> a = V6 1)"

definition isMulticast :: "addr \<Rightarrow> bool" where
  "isMulticast a = (inPrefix (ip4 224 0 0 0) 4 a \<or> inPrefix (ip6 [0xff00]) 8 a)"

definition isLinkLocalUnicast :: "addr \<Rightarrow> bool" where
  "isLinkLocalUnicast a = (inPrefix (ip4 169 254 0 0) 16 a \<or> inPrefix (ip6 [0xfe80]) 10 a)"

definition isGlobalUnicast :: "addr \<Rightarrow> bool" where
  "isGlobalUnicast a = (a \<noteq> ip4 255 255 255 255 \<and> \<not> isUnspecified a \<and> \<not> isLoopback a \<and> \<not> isMulticast a \<and> \<not> isLinkLocalUnicast a)"

definition isPrivate :: "addr \<Rightarrow> bool" where
  "isPrivate a = (inPrefix (ip4 10 0 0 0) 8 a \<or> inPrefix (ip4 172 16 0 0) 12 a \<or> inPrefix (ip4 192 168 0 0) 16 a \<or>
     inPrefix (ip6 [0xfc00]) 7 a)"

section \<open>Bounds\<close>

lemma ipv4Field_range: "ipv4Field f = Some n \<Longrightarrow> 0 \<le> n \<and> n \<le> 255"
  by (auto simp: ipv4Field_def split: if_splits option.splits)

lemma parseIPv4_range: "parseIPv4 s = Some n \<Longrightarrow> 0 \<le> n \<and> n < 2 ^ 32"
  by (auto simp: parseIPv4_def octets_def split: list.splits option.splits dest!: ipv4Field_range)

lemma parseIP_v4_range: "parseIP s = Some (V4 n) \<Longrightarrow> 0 \<le> n \<and> n < 2 ^ 32"
  by (auto simp: parseIP_def split: list.splits if_splits dest: parseIPv4_range)

text \<open>Every group that the IPv6 parser reads fits in 16 bits, so an address fits in 128.\<close>

definition group16 :: "int \<Rightarrow> bool" where
  "group16 g = (0 \<le> g \<and> g < 65536)"

lemma unhex_range: "unhex c = Some d \<Longrightarrow> d < 16"
  by (auto simp: unhex_def Let_def split: if_splits)

lemma hexValue_range:
  assumes "0 \<le> acc"
  shows "0 \<le> hexValue acc ds \<and> hexValue acc ds < (acc + 1) * 16 ^ length ds"
  using assms
proof (induction ds arbitrary: acc)
  case Nil
  then show ?case by simp
next
  case (Cons c ds)
  let ?d = "case unhex c of Some d \<Rightarrow> int d | None \<Rightarrow> 0"
  have d: "0 \<le> ?d" "?d \<le> 15"
    using unhex_range [of c] by (fastforce split: option.split)+
  then have "hexValue (acc * 16 + ?d) ds < (acc * 16 + ?d + 1) * 16 ^ length ds" "0 \<le> hexValue (acc * 16 + ?d) ds"
    using Cons.IH [of "acc * 16 + ?d"] Cons.prems by auto
  moreover have "(acc * 16 + ?d + 1) * 16 ^ length ds \<le> ((acc + 1) * 16) * 16 ^ length ds"
    by (rule mult_right_mono) (use d in auto)
  ultimately have "hexValue (acc * 16 + ?d) ds < ((acc + 1) * 16) * 16 ^ length ds" by linarith
  with \<open>0 \<le> hexValue (acc * 16 + ?d) ds\<close> show ?case
    by (simp only: hexValue.simps list.size power_Suc power_add mult.assoc power_one_right add.commute [of _ 1]
        One_nat_def add_0_right add_Suc_right)
qed

lemma hexValue_group: "length ds \<le> 4 \<Longrightarrow> group16 (hexValue 0 ds)"
proof -
  assume "length ds \<le> 4"
  then have "(16 :: int) ^ length ds \<le> 16 ^ 4" by (intro power_increasing) auto
  with hexValue_range [of 0 ds] show ?thesis by (simp add: group16_def)
qed

lemma ipv6Loop_groups:
  assumes "ipv6Loop n groups e s = Some (groups', e')" and "list_all group16 groups" and "length groups + n \<le> 8"
  shows "list_all group16 groups' \<and> length groups' \<le> 8"
  using assms
proof (induction n groups e s rule: ipv6Loop.induct)
  case (1 groups e s)
  then show ?case by (auto split: if_splits)
next
  case (2 n groups e s)
  let ?digits = "takeWhile (\<lambda>c. unhex c \<noteq> None) s"
  let ?rest = "dropWhile (\<lambda>c. unhex c \<noteq> None) s"
  have ok: "?digits \<noteq> []" "length ?digits \<le> 4" using 2(3) by (auto simp: Let_def split: if_splits)
  then have more: "list_all group16 (groups @ [hexValue 0 ?digits])" using 2(4) hexValue_group by simp
  show ?case
  proof (cases "hasPrefix ?rest ''.''")
    case True
    then obtain v where v: "parseIPv4 s = Some v" "groups' = groups @ [v div 65536, v mod 65536]" "length groups + 2 \<le> 8"
      using 2(3) ok by (auto simp: Let_def split: if_splits option.splits)
    then have "group16 (v div 65536)" "group16 (v mod 65536)"
      using parseIPv4_range [OF v(1)] by (auto simp: group16_def)
    with v 2(4) show ?thesis by simp
  next
    case False
    have len: "length (groups @ [hexValue 0 ?digits]) + n \<le> 8" using 2(5) by simp
    show ?thesis
      using 2(3) ok False more len 2(1) [OF refl refl refl] 2(2) [OF refl refl refl]
      by (auto simp: Let_def split: if_splits)
  qed
qed

lemma groupsValue_range: "list_all group16 gs \<Longrightarrow> 0 \<le> groupsValue gs \<and> groupsValue gs < 65536 ^ length gs"
proof (induction gs rule: rev_induct)
  case Nil
  then show ?case by (simp add: groupsValue_def)
next
  case (snoc g gs)
  then have "0 \<le> groupsValue gs" "groupsValue gs + 1 \<le> 65536 ^ length gs" "0 \<le> g" "g < 65536"
    by (auto simp: group16_def)
  then have "(groupsValue gs + 1) * 65536 \<le> 65536 ^ length gs * 65536" by (intro mult_right_mono) auto
  with \<open>0 \<le> groupsValue gs\<close> \<open>0 \<le> g\<close> \<open>g < 65536\<close> show ?case by (simp add: groupsValue_def)
qed

lemma parseIPv6_range:
  assumes "parseIPv6 s = Some n"
  shows "0 \<le> n \<and> n < 2 ^ 128"
proof (cases "s = ''::''")
  case True
  with assms show ?thesis by (simp add: parseIPv6_def)
next
  case False
  from assms False obtain gs e gs' where gs: "list_all group16 gs \<and> length gs \<le> 8" "expandGroups gs e = Some gs'" "n = groupsValue gs'"
    by (auto simp: parseIPv6_def split: option.splits if_splits dest!: ipv6Loop_groups)
  moreover have "list_all group16 (take k gs)" "list_all group16 (drop k gs)" for k
    using gs(1) by (metis append_take_drop_id list_all_append)+
  ultimately have "list_all group16 gs'" "length gs' = 8"
    by (auto simp: expandGroups_def group16_def list_all_iff split: if_splits option.splits)
  with groupsValue_range [of gs'] gs(3) show ?thesis by simp
qed

lemma parseIP_v6_range: "parseIP s = Some (V6 n) \<Longrightarrow> 0 \<le> n \<and> n < 2 ^ 128"
  by (auto simp: parseIP_def split: list.splits if_splits dest: parseIPv6_range)

end
