(* ===== verification/TokenController.thy ===== *)
theory TokenController
  imports SlugPolicy ControllerBase GoNetIP
begin

text \<open>
  \<^verbatim>\<open>internal/controller/tokenrequest_controller.go\<close>: the controller that mints, binds, rotates and
  withdraws the API keys of instances.  An operation that mutates an object through a pointer
  returns the object; a write returns what the server sent back, as the Go client does.
\<close>

section \<open>Data\<close>

definition openAIAPIKeyKey :: string where "openAIAPIKeyKey = ''OPENAI_API_KEY''"
definition openAIAPIURLKey :: string where "openAIAPIURLKey = ''OPENAI_API_URL''"
definition compatibilityLabelKey :: string where "compatibilityLabelKey = ''apeirora.eu/llm-api-compatibility''"
definition compatibilityLabelOpenAI :: string where "compatibilityLabelOpenAI = ''openai''"
definition secretUpdatedAtAnnotation :: string where
  "secretUpdatedAtAnnotation = ''llm.privatellms.msp/secret-updated-at''"
definition tokenSecretVersionAnnotation :: string where
  "tokenSecretVersionAnnotation = ''llm.privatellms.msp/token-secret-version''"
definition endpointUnavailableAnnotation :: string where
  "endpointUnavailableAnnotation = ''llm.privatellms.msp/endpoint-unavailable''"
definition credentialTargetAnnotation :: string where
  "credentialTargetAnnotation = ''llm.privatellms.msp/credential-target''"
definition credentialInstanceAnnotation :: string where
  "credentialInstanceAnnotation = ''llm.privatellms.msp/credential-instance-uid''"
definition unavailableAPIURL :: string where "unavailableAPIURL = ''https://unavailable.invalid''"
definition apiTokenRequestFinalizer :: string where
  "apiTokenRequestFinalizer = ''llm.privatellms.msp/apitokenrequest-finalizer''"

lemmas token_keys =
  openAIAPIKeyKey_def openAIAPIURLKey_def compatibilityLabelKey_def secretUpdatedAtAnnotation_def
  tokenSecretVersionAnnotation_def endpointUnavailableAnnotation_def credentialTargetAnnotation_def
  credentialInstanceAnnotation_def slugAnnotationKey_def instanceLabelKey_def

record 'w token_reconciler =
  tcClient :: "'w client"
  tcSlugPolicy :: "policy option"
  tcLib :: kube_lib
  tcHost :: "'w host"

text \<open>Updating one label, annotation or data item of a secret.\<close>

definition setLabel :: "string \<Rightarrow> string \<Rightarrow> secret \<Rightarrow> secret" where
  "setLabel k v sec = sec\<lparr>seMeta := (seMeta sec)\<lparr>omLabels := (omLabels (seMeta sec))(k \<mapsto> v)\<rparr>\<rparr>"

definition setAnnotation :: "string \<Rightarrow> string \<Rightarrow> secret \<Rightarrow> secret" where
  "setAnnotation k v sec = sec\<lparr>seMeta := (seMeta sec)\<lparr>omAnnotations := (omAnnotations (seMeta sec))(k \<mapsto> v)\<rparr>\<rparr>"

definition dropAnnotation :: "string \<Rightarrow> secret \<Rightarrow> secret" where
  "dropAnnotation k sec = sec\<lparr>seMeta := (seMeta sec)\<lparr>omAnnotations := (omAnnotations (seMeta sec))(k := None)\<rparr>\<rparr>"

definition setData :: "string \<Rightarrow> string \<Rightarrow> secret \<Rightarrow> secret" where
  "setData k v sec = sec\<lparr>seData := (seData sec)(k \<mapsto> v)\<rparr>"

abbreviation secLabel :: "secret \<Rightarrow> string \<Rightarrow> string" where
  "secLabel sec \<equiv> getS (omLabels (seMeta sec))"

abbreviation secAnnotation :: "secret \<Rightarrow> string \<Rightarrow> string" where
  "secAnnotation sec \<equiv> getS (omAnnotations (seMeta sec))"

section \<open>Keys\<close>

definition generateToken :: "'w host \<Rightarrow> nat \<Rightarrow> ('w, string) io" where
  "generateToken h numBytes = bindE (randE h numBytes) (\<lambda>b. retE (trimRight (base64Encode b) ''=''))"

definition ownsTokenSecret :: "kube_lib \<Rightarrow> token_request \<Rightarrow> secret \<Rightarrow> bool" where
  "ownsTokenSecret L tr sec =
     (omUID (trMeta tr) \<noteq> [] \<and> omNamespace (seMeta sec) = omNamespace (trMeta tr) \<and>
      (case getControllerOf L (seMeta sec) of
         None \<Rightarrow> False
       | Some owner \<Rightarrow> orAPIVersion owner = groupVersion \<and> orKind owner = ''APITokenRequest'' \<and>
           orUID owner = omUID (trMeta tr) \<and> orName owner = omName (trMeta tr)) \<and>
      seType sec = secretTypeOpaque)"

definition validBYOCTokenEndpoint :: "kube_lib \<Rightarrow> string \<Rightarrow> bool" where
  "validBYOCTokenEndpoint L endpoint =
     (case urlParse endpoint of
        None \<Rightarrow> False
      | Some u \<Rightarrow>
          if urScheme u \<noteq> httpsScheme \<or> urHost u = [] \<or> urHasUser u \<or> urOpaque u \<noteq> [] \<or>
             urRawQuery u \<noteq> [] \<or> urForceQuery u \<or> urFragment u \<noteq> [] \<or> urRawPath u \<noteq> [] \<or>
             (urPath u \<noteq> [] \<and> urPath u \<noteq> ''/'') \<or> (urlPort u \<noteq> [] \<and> urlPort u \<noteq> ''443'')
          then False
          else
            let host = urlHostname u
            in if urHost u \<noteq> host \<and> urHost u \<noteq> host @ '':443'' then False
               else parseIP host = None \<and> isDNS1123Subdomain L host \<and> CHR ''.'' \<in> set host \<and>
                 \<not> hasSuffix host ''.invalid'')"

text \<open>The remote mode of an instance, as three places of the controller compute it.\<close>

definition byocInstance :: "llm_instance \<Rightarrow> bool" where
  "byocInstance inst = (isBYOC inst \<or> stActiveBYOCKubeconfigSecretName (liStatus inst) \<noteq> [])"

definition legacyHostedBindingMatches :: "secret \<Rightarrow> llm_instance \<Rightarrow> string \<Rightarrow> bool" where
  "legacyHostedBindingMatches sec inst selectedSlug =
     (secLabel sec instanceLabelKey = omName (liMeta inst) \<and> selectedSlug \<noteq> [] \<and>
      secLabel sec slugAnnotationKey = selectedSlug)"

text \<open>\<^verbatim>\<open>rotateTokenForTarget\<close>: the secret afterwards and whether it changed.\<close>

definition rotateTokenForTarget ::
    "'w host \<Rightarrow> secret \<Rightarrow> llm_instance option \<Rightarrow> bool \<Rightarrow> string \<Rightarrow> ('w, secret \<times> bool) io" where
  "rotateTokenForTarget h sec inst0 allowHosted selectedSlug =
     (case inst0 of
        None \<Rightarrow> retE (sec, False)
      | Some inst \<Rightarrow>
          let byoc = byocInstance inst;
              target = (if byoc then stActiveBYOCTargetID (liStatus inst) else []);
              instanceUID = omUID (liMeta inst)
          in if byoc \<and> target = [] then retE (sec, False)
             else if byoc \<and> instanceUID = []
             then failE (errNew ''cannot bind a BYOC key without an instance UID'')
             else if \<not> byoc \<and> \<not> allowHosted then retE (sec, False)
             else if \<not> byoc \<and> secAnnotation sec credentialTargetAnnotation = [] \<and>
               secAnnotation sec credentialInstanceAnnotation = [] \<and>
               legacyHostedBindingMatches sec inst selectedSlug
             then (if instanceUID = [] then retE (sec, False)
                   else retE (setAnnotation credentialInstanceAnnotation instanceUID sec, True))
             else if secAnnotation sec credentialTargetAnnotation = target \<and>
               secAnnotation sec credentialInstanceAnnotation = instanceUID
             then retE (sec, False)
             else bindE (generateToken h 32) (\<lambda>token.
               let sec1 = setData openAIAPIKeyKey token sec;
                   sec2 = (if target = [] then dropAnnotation credentialTargetAnnotation sec1
                           else setAnnotation credentialTargetAnnotation target sec1)
               in retE (setAnnotation credentialInstanceAnnotation instanceUID sec2, True)))"

definition touchAPITokenRequest :: "'w token_reconciler \<Rightarrow> token_request \<Rightarrow> string \<Rightarrow> ('w, token_request) io" where
  "touchAPITokenRequest r tr secretVersion =
     (if secretVersion \<noteq> [] \<and> getS (omAnnotations (trMeta tr)) tokenSecretVersionAnnotation = secretVersion
      then retE tr
      else bindE (nowTextE (tcHost r)) (\<lambda>now.
        apiE (updateObj LocalCluster OTok (tokenRequests (tcClient r))
          (tr\<lparr>trMeta := (trMeta tr)\<lparr>omAnnotations := (omAnnotations (trMeta tr))
             (secretUpdatedAtAnnotation \<mapsto> now, tokenSecretVersionAnnotation \<mapsto> secretVersion)\<rparr>\<rparr>))))"

section \<open>Secrets\<close>

definition newTokenSecret ::
    "token_request \<Rightarrow> llm_instance \<Rightarrow> string \<Rightarrow> string \<Rightarrow> string \<Rightarrow> string \<Rightarrow> secret" where
  "newTokenSecret tr inst secretName slug endpoint token =
     (let labels = [''app.kubernetes.io/name'' \<mapsto> ''llm-token'',
                    ''llm.privatellms.msp/instance'' \<mapsto> omName (liMeta inst),
                    ''llm.privatellms.msp/apitokenrequest'' \<mapsto> omName (trMeta tr),
                    compatibilityLabelKey \<mapsto> compatibilityLabelOpenAI];
          labels = (if slug \<noteq> [] then labels(''llm.privatellms.msp/slug'' \<mapsto> slug) else labels);
          annotations = [''llm.privatellms.msp/description'' \<mapsto> trimSpace (tsDescription (trSpec tr))];
          annotations = (if omUID (liMeta inst) \<noteq> []
            then annotations(credentialInstanceAnnotation \<mapsto> omUID (liMeta inst)) else annotations)
      in \<lparr>seMeta = (newMeta (omNamespace (trMeta tr)) secretName)\<lparr>omLabels := labels, omAnnotations := annotations\<rparr>,
          seType = secretTypeOpaque, seData = Map.empty,
          seStringData = [openAIAPIKeyKey \<mapsto> token, openAIAPIURLKey \<mapsto> endpoint]\<rparr>)"

text \<open>The secret that is to be created, with the binding of a remote instance.\<close>

definition mintedSecret ::
    "token_request \<Rightarrow> llm_instance \<Rightarrow> string \<Rightarrow> string \<Rightarrow> string \<Rightarrow> string \<Rightarrow> secret" where
  "mintedSecret tr inst secretName slug endpoint token =
     (let sec = newTokenSecret tr inst secretName slug endpoint token
      in if byocInstance inst
         then setAnnotation credentialInstanceAnnotation (omUID (liMeta inst))
                (setAnnotation credentialTargetAnnotation (stActiveBYOCTargetID (liStatus inst)) sec)
         else sec)"

definition createSecret :: "'w token_reconciler \<Rightarrow> token_request \<Rightarrow> llm_instance \<Rightarrow> string \<Rightarrow> string \<Rightarrow> string
    \<Rightarrow> ('w, unit) io" where
  "createSecret r tr inst secretName slug endpoint =
     bindE (generateToken (tcHost r) 32) (\<lambda>token.
       if byocInstance inst \<and> (stActiveBYOCTargetID (liStatus inst) = [] \<or> omUID (liMeta inst) = [])
       then failE (errNew ''cannot mint a BYOC token before its target identity is established'')
       else
         let sec = mintedSecret tr inst secretName slug endpoint token
         in bindE (liftE (setControllerReference (tcLib r) ''APITokenRequest'' (trMeta tr) (seMeta sec)))
              (\<lambda>m. bindE (apiE (createObj LocalCluster OSec (secrets (tcClient r)) (sec\<lparr>seMeta := m\<rparr>)))
                (\<lambda>_. retE ())))"

text \<open>\<^verbatim>\<open>applySecretMutations\<close>: the steps in the order of the code; each reports whether it changed.\<close>

definition applySecretMutations :: "secret \<Rightarrow> string \<Rightarrow> string \<Rightarrow> string \<Rightarrow> secret \<times> bool" where
  "applySecretMutations sec instanceName slug endpoint =
     (let (sec, u1) = (if omAnnotations (seMeta sec) endpointUnavailableAnnotation \<noteq> None
                       then (dropAnnotation endpointUnavailableAnnotation sec, True) else (sec, False));
          (sec, u2) = (if secLabel sec instanceLabelKey \<noteq> instanceName
                       then (setLabel instanceLabelKey instanceName sec, True) else (sec, u1));
          (sec, u3) = (if secLabel sec compatibilityLabelKey \<noteq> compatibilityLabelOpenAI
                       then (setLabel compatibilityLabelKey compatibilityLabelOpenAI sec, True) else (sec, u2));
          (sec, u4) = (if slug \<noteq> [] \<and> secLabel sec slugAnnotationKey \<noteq> slug
                       then (setLabel slugAnnotationKey slug sec, True) else (sec, u3))
      in if seData sec openAIAPIURLKey \<noteq> Some endpoint
         then (setData openAIAPIURLKey endpoint sec, True) else (sec, u4))"

definition ensureSecret :: "'w token_reconciler \<Rightarrow> token_request \<Rightarrow> llm_instance \<Rightarrow> string \<Rightarrow> string \<Rightarrow> string
    \<Rightarrow> ('w, token_request) io" where
  "ensureSecret r tr inst secretName slug endpoint =
     tryE (getObj (secrets (tcClient r)) (omNamespace (trMeta tr), secretName))
       (\<lambda>e. if isNotFound e then bindE (createSecret r tr inst secretName slug endpoint) (\<lambda>_. retE tr)
            else failE (APIErr e))
       (\<lambda>sec.
          if \<not> ownsTokenSecret (tcLib r) tr sec
          then failE (errNew ''refusing to use token Secret: unexpected controller owner or type'')
          else bindE (rotateTokenForTarget (tcHost r) sec (Some inst) True slug) (\<lambda>(sec1, rotated).
            case applySecretMutations sec1 (omName (liMeta inst)) slug endpoint of
              (sec2, updated) \<Rightarrow>
                bindE (if updated \<or> rotated
                       then apiE (updateObj LocalCluster OSec (secrets (tcClient r)) sec2) else retE sec2)
                  (\<lambda>sec3. touchAPITokenRequest r tr (omResourceVersion (seMeta sec3)))))"

text \<open>The mutations by which \<^verbatim>\<open>invalidateTokenEndpoint\<close> withdraws a route.\<close>

definition withdrawMutations :: "secret \<Rightarrow> llm_instance option \<Rightarrow> bool \<Rightarrow> secret \<times> bool" where
  "withdrawMutations sec inst0 changed =
     (let (sec, c1) = (case inst0 of
            None \<Rightarrow> (sec, changed)
          | Some inst \<Rightarrow>
              if byocInstance inst \<and> stActiveBYOCTargetID (liStatus inst) \<noteq> [] \<and>
                 secLabel sec instanceLabelKey \<noteq> omName (liMeta inst)
              then (setLabel instanceLabelKey (omName (liMeta inst)) sec, True) else (sec, changed));
          (sec, c2) = (if getS (seData sec) openAIAPIURLKey \<noteq> unavailableAPIURL
            then (setData openAIAPIURLKey unavailableAPIURL sec, True) else (sec, c1))
      in if secAnnotation sec endpointUnavailableAnnotation \<noteq> trueText
         then (setAnnotation endpointUnavailableAnnotation trueText sec, True) else (sec, c2))"

definition invalidateTokenEndpoint :: "'w token_reconciler \<Rightarrow> token_request \<Rightarrow> llm_instance option
    \<Rightarrow> ('w, token_request) io" where
  "invalidateTokenEndpoint r tr inst0 =
     tryE (getObj (secrets (tcClient r)) (omNamespace (trMeta tr), omName (trMeta tr) @ ''-token''))
       (\<lambda>e. bindE (ignoreNotFound e) (\<lambda>_. retE tr))
       (\<lambda>sec.
          if \<not> ownsTokenSecret (tcLib r) tr sec
          then failE (errNew ''refusing to invalidate token Secret: unexpected controller owner or type'')
          else bindE (rotateTokenForTarget (tcHost r) sec inst0 False []) (\<lambda>(sec1, rotated).
            case withdrawMutations sec1 inst0 rotated of
              (sec2, changed) \<Rightarrow>
                bindE (if changed then apiE (updateObj LocalCluster OSec (secrets (tcClient r)) sec2)
                       else retE sec2) (\<lambda>sec3.
                bindE (touchAPITokenRequest r tr (omResourceVersion (seMeta sec3))) (\<lambda>tr1.
                retE (tr1\<lparr>trStatus := (trStatus tr1)\<lparr>ttSecretName := omName (seMeta sec3)\<rparr>\<rparr>)))))"

section \<open>Status\<close>

definition setTRStatusCondition :: "token_request \<Rightarrow> condition \<Rightarrow> token_request" where
  "setTRStatusCondition tr c =
     tr\<lparr>trStatus := (trStatus tr)\<lparr>ttConditions :=
        filter (\<lambda>d. cdType d \<noteq> cdType c) (ttConditions (trStatus tr)) @ [c]\<rparr>\<rparr>"

definition updateReadyStatus :: "'w token_reconciler \<Rightarrow> token_request \<Rightarrow> string \<Rightarrow> ('w, token_request) io" where
  "updateReadyStatus r tr secretName =
     bindE (nowE (tcHost r)) (\<lambda>now.
       let tr1 = setTRStatusCondition tr
                   (newCondition readyType conditionTrue ''Provisioned'' ''Token generated'' now)
       in apiE (statusUpdateObj LocalCluster OTok (tokenRequests (tcClient r))
            (tr1\<lparr>trStatus := (trStatus tr1)\<lparr>ttSecretName := secretName, ttPhase := ''Ready'',
               ttObservedGeneration := omGeneration (trMeta tr1)\<rparr>\<rparr>)))"

definition updatePendingStatus :: "'w token_reconciler \<Rightarrow> token_request \<Rightarrow> string \<Rightarrow> string \<Rightarrow> ('w, token_request) io" where
  "updatePendingStatus r tr reason message =
     bindE (nowE (tcHost r)) (\<lambda>now.
       let tr1 = setTRStatusCondition tr (newCondition readyType conditionFalse reason message now)
       in apiE (statusUpdateObj LocalCluster OTok (tokenRequests (tcClient r))
            (tr1\<lparr>trStatus := (trStatus tr1)\<lparr>ttPhase := ''Pending'',
               ttObservedGeneration := omGeneration (trMeta tr1)\<rparr>\<rparr>)))"

section \<open>Deletion\<close>

text \<open>Failures of single deletions are logged and do not block.\<close>

fun deleteOwnedSecrets :: "'w token_reconciler \<Rightarrow> token_request \<Rightarrow> secret list \<Rightarrow> ('w, unit) io" where
  "deleteOwnedSecrets r tr [] = retE ()"
| "deleteOwnedSecrets r tr (sec # secs) =
     (if \<not> ownsTokenSecret (tcLib r) tr sec then deleteOwnedSecrets r tr secs
      else tryE (deleteObj LocalCluster OSec (secrets (tcClient r)) sec (preUIDVersion (seMeta sec)))
        (\<lambda>_. deleteOwnedSecrets r tr secs) (\<lambda>_. deleteOwnedSecrets r tr secs))"

text \<open>The retry loop that removes the finalizer; \<open>n\<close> attempts are left.\<close>

fun dropFinalizer :: "nat \<Rightarrow> 'w token_reconciler \<Rightarrow> key \<Rightarrow> token_request \<Rightarrow> ('w, unit) io" where
  "dropFinalizer 0 r key tr = retE ()"
| "dropFinalizer (Suc n) r key tr =
     tryE (updateObj LocalCluster OTok (tokenRequests (tcClient r))
            (tr\<lparr>trMeta := removeFinalizer (tcLib r) (trMeta tr) apiTokenRequestFinalizer\<rparr>))
       (\<lambda>e. if isNotFound e then retE ()
            else if isConflict e then
              tryE (getObj (tokenRequests (tcClient r)) key) (\<lambda>_. retE ())
                (\<lambda>fresh. dropFinalizer n r key fresh)
            else failE (APIErr e))
       (\<lambda>_. retE ())"

definition finalizeTokenRequest :: "'w token_reconciler \<Rightarrow> token_request \<Rightarrow> ('w, result) io" where
  "finalizeTokenRequest r tr =
     (if \<not> containsFinalizer (tcLib r) (trMeta tr) apiTokenRequestFinalizer then retE doneResult
      else
        bindE (tryE (listObj (secrets (tcClient r)) (inNamespace (omNamespace (trMeta tr))
                 [(''llm.privatellms.msp/apitokenrequest'', omName (trMeta tr))]))
            (\<lambda>_. retE ()) (deleteOwnedSecrets r tr)) (\<lambda>_.
        bindE (dropFinalizer 3 r (keyOf (trMeta tr)) tr) (\<lambda>_. retE doneResult)))"

text \<open>\<^verbatim>\<open>ensureFinalizer\<close>: \<open>Some\<close> result when the reconciliation is handled.\<close>

definition ensureFinalizer :: "'w token_reconciler \<Rightarrow> token_request \<Rightarrow> ('w, result option) io" where
  "ensureFinalizer r tr =
     (if containsFinalizer (tcLib r) (trMeta tr) apiTokenRequestFinalizer then retE None
      else tryE (updateObj LocalCluster OTok (tokenRequests (tcClient r))
                   (tr\<lparr>trMeta := addFinalizer (tcLib r) (trMeta tr) apiTokenRequestFinalizer\<rparr>))
        (\<lambda>_. retE (Some (requeueAfter 5)))
        (\<lambda>_. retE (Some \<lparr>rsRequeue = True, rsAfter = 0\<rparr>)))"

section \<open>Reconcile\<close>

definition selectedSlug :: "policy option \<Rightarrow> llm_instance \<Rightarrow> string" where
  "selectedSlug p inst =
     (case Select p (liMeta inst) of
        Inl _ \<Rightarrow> []
      | Inr sel \<Rightarrow> if stSlug (liStatus inst) \<noteq> slSlug sel \<or> stSlugSource (liStatus inst) \<noteq> slSource sel
                  then [] else slSlug sel)"

definition instanceReady :: "kube_lib \<Rightarrow> llm_instance \<Rightarrow> bool" where
  "instanceReady L inst =
     (case findStatusCondition L (stConditions (liStatus inst)) readyType of
        None \<Rightarrow> False
      | Some c \<Rightarrow> cdStatus c = conditionTrue \<and>
          stObservedGeneration (liStatus inst) = omGeneration (liMeta inst) \<and>
          cdObservedGeneration c = omGeneration (liMeta inst) \<and> omDeletion (liMeta inst) = None)"

definition publishedEndpoint :: "llm_instance \<Rightarrow> string" where
  "publishedEndpoint inst = trimSpace (stEndpoint (liStatus inst))"

definition validEndpoint :: "kube_lib \<Rightarrow> llm_instance \<Rightarrow> bool" where
  "validEndpoint L inst =
     (\<not> byocInstance inst \<or>
      (stActiveBYOCTargetID (liStatus inst) \<noteq> [] \<and> validBYOCTokenEndpoint L (publishedEndpoint inst)))"

definition waitingFor :: "kube_lib \<Rightarrow> policy option \<Rightarrow> llm_instance \<Rightarrow> string list" where
  "waitingFor L p inst =
     (if selectedSlug p inst = [] then [''operator-selected slug''] else []) @
     (if publishedEndpoint inst = [] then [''status.endpoint''] else []) @
     (if \<not> instanceReady L inst then [''current Ready condition''] else []) @
     (if \<not> validEndpoint L inst then [''verified HTTPS endpoint''] else [])"

definition reconcileReferenced :: "'w token_reconciler \<Rightarrow> token_request \<Rightarrow> llm_instance \<Rightarrow> ('w, result) io" where
  "reconcileReferenced r tr inst =
     (let slug = selectedSlug (tcSlugPolicy r) inst; endpoint = publishedEndpoint inst
      in if slug = [] \<or> endpoint = [] \<or> \<not> instanceReady (tcLib r) inst \<or> \<not> validEndpoint (tcLib r) inst
         then bindE (invalidateTokenEndpoint r tr (Some inst)) (\<lambda>tr1.
              bindE (updatePendingStatus r tr1 ''InstanceNotReady''
                (''Waiting for LLMInstance '' @ quoted (omName (liMeta inst)) @ '' to populate '' @
                 joinStr (waitingFor (tcLib r) (tcSlugPolicy r) inst) '' and '')) (\<lambda>_.
              retE (requeueAfter 10)))
         else bindE (ensureSecret r tr inst (omName (trMeta tr) @ ''-token'') slug endpoint) (\<lambda>tr1.
              bindE (updateReadyStatus r tr1 (omName (trMeta tr) @ ''-token'')) (\<lambda>_.
              retE doneResult)))"

definition Reconcile :: "'w token_reconciler \<Rightarrow> key \<Rightarrow> ('w, result) io" where
  "Reconcile r req =
     tryE (getObj (tokenRequests (tcClient r)) req)
       (\<lambda>e. bindE (ignoreNotFound e) (\<lambda>_. retE doneResult))
       (\<lambda>tr.
          if omDeletion (trMeta tr) \<noteq> None then finalizeTokenRequest r tr
          else bindE (ensureFinalizer r tr) (\<lambda>handled.
            case handled of
              Some res \<Rightarrow> retE res
            | None \<Rightarrow>
                tryE (getObj (instances (tcClient r)) (fst req, tsInstanceName (trSpec tr)))
                  (\<lambda>e. if isNotFound e
                       then bindE (invalidateTokenEndpoint r tr None) (\<lambda>tr1.
                            bindE (updatePendingStatus r tr1 ''InstanceNotFound'' ''Referenced LLMInstance not found'') (\<lambda>_.
                            retE (requeueAfter 10)))
                       else failE (APIErr e))
                  (reconcileReferenced r tr)))"

text \<open>The watch mapping: which requests an event on an instance enqueues.\<close>

definition findTokenRequestsForInstance :: "'w token_reconciler \<Rightarrow> llm_instance \<Rightarrow> ('w, key list) io" where
  "findTokenRequestsForInstance r inst =
     tryE (listObj (tokenRequests (tcClient r)) (inNamespace (omNamespace (liMeta inst)) []))
       (\<lambda>_. retE [])
       (\<lambda>items. retE (map (\<lambda>tr. keyOf (trMeta tr))
          (filter (\<lambda>tr. trimSpace (tsInstanceName (trSpec tr)) = omName (liMeta inst)) items)))"

section \<open>Keys: binding and rotation\<close>

lemma yields_generateToken: "yields (generateToken h n) (\<lambda>t. \<exists>b. drawn h n b \<and> t = base64Raw b)"
  unfolding generateToken_def
  by (rule yields_bindE [OF yields_randE], rule yields_retE) (auto simp: trimRight_base64Encode)

text \<open>The mutations of a secret touch labels, annotations and data only.\<close>

definition frame :: "secret \<Rightarrow> secret" where
  "frame sec = sec\<lparr>seMeta := (seMeta sec)\<lparr>omLabels := Map.empty, omAnnotations := Map.empty\<rparr>, seData := Map.empty\<rparr>"

definition edits :: "secret \<Rightarrow> secret \<Rightarrow> bool" where
  "edits sec sec' = (frame sec' = frame sec)"

lemma edits_refl [simp]: "edits sec sec"
  by (simp add: edits_def)

lemma edits_trans: "edits a b \<Longrightarrow> edits b c \<Longrightarrow> edits a c"
  by (simp add: edits_def)

lemma edits_steps [simp]:
  "edits a (setLabel k v b) = edits a b" "edits a (setAnnotation k v b) = edits a b"
  "edits a (dropAnnotation k b) = edits a b" "edits a (setData k v b) = edits a b"
  by (simp_all add: edits_def frame_def setLabel_def setAnnotation_def dropAnnotation_def setData_def)

lemma edits_identity:
  assumes "edits a b"
  shows "keyOf (seMeta b) = keyOf (seMeta a)" "omUID (seMeta b) = omUID (seMeta a)"
    "omOwners (seMeta b) = omOwners (seMeta a)" "seType b = seType a"
proof -
  have m: "f (seMeta (frame b)) = f (seMeta (frame a))" for f :: "objmeta \<Rightarrow> 'x" using assms by (simp add: edits_def)
  show "omUID (seMeta b) = omUID (seMeta a)" using m [of omUID] by (simp add: frame_def)
  show "keyOf (seMeta b) = keyOf (seMeta a)" using m [of keyOf] by (simp add: frame_def keyOf_def)
  show "omOwners (seMeta b) = omOwners (seMeta a)" using m [of omOwners] by (simp add: frame_def)
  have "seType (frame b) = seType (frame a)" using assms by (simp add: edits_def)
  then show "seType b = seType a" by (simp add: frame_def)
qed

text \<open>Reading back after a mutation.\<close>

lemma secret_reads [simp]:
  "secLabel (setLabel k v sec) k' = (if k' = k then v else secLabel sec k')"
  "secLabel (setAnnotation k v sec) k' = secLabel sec k'"
  "secLabel (dropAnnotation k sec) k' = secLabel sec k'"
  "secLabel (setData k v sec) k' = secLabel sec k'"
  "omAnnotations (seMeta (setLabel k v sec)) = omAnnotations (seMeta sec)"
  "omAnnotations (seMeta (setAnnotation k v sec)) = (omAnnotations (seMeta sec))(k \<mapsto> v)"
  "omAnnotations (seMeta (dropAnnotation k sec)) = (omAnnotations (seMeta sec))(k := None)"
  "omAnnotations (seMeta (setData k v sec)) = omAnnotations (seMeta sec)"
  "seData (setLabel k v sec) = seData sec"
  "seData (setAnnotation k v sec) = seData sec"
  "seData (dropAnnotation k sec) = seData sec"
  "seData (setData k v sec) = (seData sec)(k \<mapsto> v)"
  by (simp_all add: setLabel_def setAnnotation_def dropAnnotation_def setData_def)

lemma token_keys_distinct [simp]:
  "credentialTargetAnnotation \<noteq> credentialInstanceAnnotation"
  "credentialInstanceAnnotation \<noteq> credentialTargetAnnotation"
  "endpointUnavailableAnnotation \<noteq> credentialTargetAnnotation"
  "endpointUnavailableAnnotation \<noteq> credentialInstanceAnnotation"
  "credentialTargetAnnotation \<noteq> endpointUnavailableAnnotation"
  "credentialInstanceAnnotation \<noteq> endpointUnavailableAnnotation"
  "openAIAPIURLKey \<noteq> openAIAPIKeyKey" "openAIAPIKeyKey \<noteq> openAIAPIURLKey"
  "instanceLabelKey \<noteq> compatibilityLabelKey" "compatibilityLabelKey \<noteq> instanceLabelKey"
  "slugAnnotationKey \<noteq> compatibilityLabelKey" "compatibilityLabelKey \<noteq> slugAnnotationKey"
  "slugAnnotationKey \<noteq> instanceLabelKey" "instanceLabelKey \<noteq> slugAnnotationKey"
  by (simp_all add: token_keys)

text \<open>The remote target a credential of the instance has to name; none when it is hosted.\<close>

definition targetOf :: "llm_instance \<Rightarrow> string" where
  "targetOf inst = (if byocInstance inst then stActiveBYOCTargetID (liStatus inst) else [])"

definition boundTo :: "secret \<Rightarrow> llm_instance \<Rightarrow> bool" where
  "boundTo sec inst = (secAnnotation sec credentialTargetAnnotation = targetOf inst \<and>
     secAnnotation sec credentialInstanceAnnotation = omUID (liMeta inst))"

text \<open>An unannotated key from before the upgrade, still bound to the instance by name and slug.\<close>

definition legacyBound :: "secret \<Rightarrow> llm_instance \<Rightarrow> string \<Rightarrow> bool" where
  "legacyBound sec inst slug = (\<not> byocInstance inst \<and> secAnnotation sec credentialTargetAnnotation = [] \<and>
     secAnnotation sec credentialInstanceAnnotation = [] \<and> legacyHostedBindingMatches sec inst slug)"

text \<open>The rotated secret: a fresh key under the new binding.\<close>

definition rebind :: "llm_instance \<Rightarrow> string \<Rightarrow> secret \<Rightarrow> secret" where
  "rebind inst token sec =
     setAnnotation credentialInstanceAnnotation (omUID (liMeta inst))
       (if targetOf inst = [] then dropAnnotation credentialTargetAnnotation (setData openAIAPIKeyKey token sec)
        else setAnnotation credentialTargetAnnotation (targetOf inst) (setData openAIAPIKeyKey token sec))"

lemma rebind_props:
  "edits a (rebind inst token sec) = edits a sec" "boundTo (rebind inst token sec) inst"
  "seData (rebind inst token sec) = (seData sec)(openAIAPIKeyKey \<mapsto> token)"
  by (simp_all add: rebind_def boundTo_def)

lemma rotate_cases:
  "rotateTokenForTarget h sec (Some inst) allow slug =
     (if byocInstance inst \<and> targetOf inst = [] then retE (sec, False)
      else if byocInstance inst \<and> omUID (liMeta inst) = []
      then failE (errNew ''cannot bind a BYOC key without an instance UID'')
      else if \<not> byocInstance inst \<and> \<not> allow then retE (sec, False)
      else if legacyBound sec inst slug
      then (if omUID (liMeta inst) = [] then retE (sec, False)
            else retE (setAnnotation credentialInstanceAnnotation (omUID (liMeta inst)) sec, True))
      else if boundTo sec inst then retE (sec, False)
      else bindE (generateToken h 32) (\<lambda>token. retE (rebind inst token sec, True)))"
  unfolding rotateTokenForTarget_def option.case Let_def legacyBound_def boundTo_def targetOf_def rebind_def
  by (rule refl | simp)+

lemma yields_rotate_edits:
  "yields (rotateTokenForTarget h sec inst0 allow slug) (\<lambda>(sec', ch). edits sec sec' \<and> (\<not> ch \<longrightarrow> sec' = sec))"
proof (cases inst0)
  case None
  then show ?thesis by (simp add: rotateTokenForTarget_def yields_retE)
next
  case (Some inst)
  show ?thesis unfolding Some rotate_cases
    by (intro yields_intros yields_bindE [OF yields_True]) (simp_all add: rebind_props)
qed

lemma yields_rotate_binds:
  assumes "omUID (liMeta inst) \<noteq> []" and "byocInstance inst \<Longrightarrow> stActiveBYOCTargetID (liStatus inst) \<noteq> []"
  shows "yields (rotateTokenForTarget h sec (Some inst) True slug) (\<lambda>(sec', ch). boundTo sec' inst \<and>
    (if boundTo sec inst \<or> legacyBound sec inst slug then seData sec' = seData sec
     else \<exists>b. drawn h 32 b \<and> seData sec' = (seData sec)(openAIAPIKeyKey \<mapsto> base64Raw b)))"
proof -
  have t: "byocInstance inst \<Longrightarrow> targetOf inst \<noteq> []" using assms(2) by (simp add: targetOf_def)
  have l: "legacyBound sec inst slug \<Longrightarrow>
      boundTo (setAnnotation credentialInstanceAnnotation (omUID (liMeta inst)) sec) inst"
    by (simp add: legacyBound_def boundTo_def targetOf_def)
  show ?thesis unfolding rotate_cases
    by (intro yields_intros yields_bindE [OF yields_generateToken])
      (use assms(1) t l in \<open>auto simp: rebind_props\<close>)
qed

section \<open>The mutations converge\<close>

definition carriesEndpoint :: "secret \<Rightarrow> string \<Rightarrow> string \<Rightarrow> string \<Rightarrow> bool" where
  "carriesEndpoint sec name slug endpoint =
     (omAnnotations (seMeta sec) endpointUnavailableAnnotation = None \<and> secLabel sec instanceLabelKey = name \<and>
      secLabel sec compatibilityLabelKey = compatibilityLabelOpenAI \<and>
      (slug \<noteq> [] \<longrightarrow> secLabel sec slugAnnotationKey = slug) \<and> seData sec openAIAPIURLKey = Some endpoint)"

interpretation endpoint_mutations: converging
  "\<lambda>sec. applySecretMutations sec name slug endpoint" "\<lambda>sec. carriesEndpoint sec name slug endpoint"
  for name slug endpoint
proof
  fix sec
  show "carriesEndpoint (fst (applySecretMutations sec name slug endpoint)) name slug endpoint"
    by (simp add: applySecretMutations_def carriesEndpoint_def)
  assume "carriesEndpoint sec name slug endpoint"
  then show "applySecretMutations sec name slug endpoint = (sec, False)"
    by (auto simp: applySecretMutations_def carriesEndpoint_def)
qed

definition withdrawn :: "secret \<Rightarrow> llm_instance option \<Rightarrow> bool" where
  "withdrawn sec inst0 =
     (getS (seData sec) openAIAPIURLKey = unavailableAPIURL \<and>
      secAnnotation sec endpointUnavailableAnnotation = trueText \<and>
      (case inst0 of None \<Rightarrow> True
       | Some inst \<Rightarrow> byocInstance inst \<and> stActiveBYOCTargetID (liStatus inst) \<noteq> [] \<longrightarrow>
           secLabel sec instanceLabelKey = omName (liMeta inst)))"

interpretation withdraw_mutations: converging
  "\<lambda>sec. withdrawMutations sec inst0 False" "\<lambda>sec. withdrawn sec inst0"
  for inst0
proof
  fix sec
  show "withdrawn (fst (withdrawMutations sec inst0 False)) inst0"
    by (cases inst0) (simp_all add: withdrawMutations_def withdrawn_def)
  assume "withdrawn sec inst0"
  then show "withdrawMutations sec inst0 False = (sec, False)"
    by (cases inst0) (auto simp: withdrawMutations_def withdrawn_def)
qed

lemma applySecretMutations_edits: "edits a (fst (applySecretMutations sec name slug endpoint)) = edits a sec"
  by (simp add: applySecretMutations_def)

lemma applySecretMutations_bound:
  "boundTo (fst (applySecretMutations sec name slug endpoint)) inst = boundTo sec inst"
  by (simp add: applySecretMutations_def boundTo_def)

lemma applySecretMutations_key:
  "seData (fst (applySecretMutations sec name slug endpoint)) openAIAPIKeyKey = seData sec openAIAPIKeyKey"
  by (simp add: applySecretMutations_def)

lemma withdrawMutations_fst: "fst (withdrawMutations sec inst0 changed) = fst (withdrawMutations sec inst0 False)"
  by (cases inst0) (simp_all add: withdrawMutations_def)

lemma withdrawMutations_edits: "edits a (fst (withdrawMutations sec inst0 changed)) = edits a sec"
  by (cases inst0) (simp_all add: withdrawMutations_def)

section \<open>Which writes the controller sends\<close>

text \<open>An instance on which a key may be issued.\<close>

definition usable :: "'w token_reconciler \<Rightarrow> llm_instance \<Rightarrow> bool" where
  "usable r inst = (selectedSlug (tcSlugPolicy r) inst \<noteq> [] \<and> publishedEndpoint inst \<noteq> [] \<and>
     instanceReady (tcLib r) inst \<and> validEndpoint (tcLib r) inst)"

lemma selectedSlug_uid: "selectedSlug p inst \<noteq> [] \<Longrightarrow> omUID (liMeta inst) \<noteq> []"
  by (auto simp: selectedSlug_def Select_def split: option.splits if_splits sum.splits)

lemma usable_target: "usable r inst \<Longrightarrow> byocInstance inst \<Longrightarrow> stActiveBYOCTargetID (liStatus inst) \<noteq> []"
  by (simp add: usable_def validEndpoint_def)

text \<open>The request and the instance that the reconciliation of a key has read.\<close>

definition readRequest :: "'w token_reconciler \<Rightarrow> key \<Rightarrow> token_request \<Rightarrow> bool" where
  "readRequest r req tr = serves (tokenRequests (tcClient r)) req tr"

definition readInstance :: "'w token_reconciler \<Rightarrow> key \<Rightarrow> token_request \<Rightarrow> llm_instance \<Rightarrow> bool" where
  "readInstance r req tr inst = serves (instances (tcClient r)) (fst req, tsInstanceName (trSpec tr)) inst"

text \<open>A secret that makes its key usable on an instance: bound to its identity, routed to its slug.\<close>

definition issuedFor :: "'w token_reconciler \<Rightarrow> secret \<Rightarrow> llm_instance \<Rightarrow> bool" where
  "issuedFor r sec inst =
     (boundTo sec inst \<and>
      carriesEndpoint sec (omName (liMeta inst)) (selectedSlug (tcSlugPolicy r) inst) (publishedEndpoint inst))"

definition freshFor :: "'w token_reconciler \<Rightarrow> secret \<Rightarrow> token_request \<Rightarrow> llm_instance \<Rightarrow> bool" where
  "freshFor r sec tr inst =
     (\<exists>b m. drawn (tcHost r) 32 b \<and>
        (let new = mintedSecret tr inst (omName (trMeta tr) @ ''-token'') (selectedSlug (tcSlugPolicy r) inst)
               (publishedEndpoint inst) (base64Raw b)
         in setControllerReference (tcLib r) ''APITokenRequest'' (trMeta tr) (seMeta new) = Inr m \<and>
            sec = new\<lparr>seMeta := m\<rparr>))"

text \<open>A key survives an update only if it was already bound to this instance and target, or is a
  legacy key of it; otherwise it is replaced by a freshly drawn one.\<close>

definition reissued :: "'w token_reconciler \<Rightarrow> secret \<Rightarrow> secret \<Rightarrow> llm_instance \<Rightarrow> bool" where
  "reissued r old sec inst =
     (issuedFor r sec inst \<and>
      (if boundTo old inst \<or> legacyBound old inst (selectedSlug (tcSlugPolicy r) inst)
       then seData sec openAIAPIKeyKey = seData old openAIAPIKeyKey
       else \<exists>b. drawn (tcHost r) 32 b \<and> seData sec openAIAPIKeyKey = Some (base64Raw b)))"

text \<open>Withdrawing a route leaves the key and its binding alone, or rotates the key with the binding when the
  instance has moved to another remote target.\<close>

definition sameCredential :: "secret \<Rightarrow> secret \<Rightarrow> bool" where
  "sameCredential old sec = (seData sec openAIAPIKeyKey = seData old openAIAPIKeyKey \<and>
     secAnnotation sec credentialInstanceAnnotation = secAnnotation old credentialInstanceAnnotation \<and>
     secAnnotation sec credentialTargetAnnotation = secAnnotation old credentialTargetAnnotation)"

definition movedTo :: "'w host \<Rightarrow> secret \<Rightarrow> secret \<Rightarrow> llm_instance \<Rightarrow> bool" where
  "movedTo h old sec inst = (byocInstance inst \<and> \<not> boundTo old inst \<and> boundTo sec inst \<and>
     (\<exists>b. drawn h 32 b \<and> seData sec openAIAPIKeyKey = Some (base64Raw b)))"

definition ownedSecretRead :: "'w token_reconciler \<Rightarrow> token_request \<Rightarrow> secret \<Rightarrow> bool" where
  "ownedSecretRead r tr old =
     (serves (secrets (tcClient r)) (omNamespace (trMeta tr), omName (trMeta tr) @ ''-token'') old \<and>
      ownsTokenSecret (tcLib r) tr old)"

definition secretUpdate :: "'w token_reconciler \<Rightarrow> key \<Rightarrow> secret \<Rightarrow> bool" where
  "secretUpdate r req sec =
     (\<exists>tr old. readRequest r req tr \<and> ownedSecretRead r tr old \<and> edits old sec \<and>
        (withdrawn sec None \<and> (sameCredential old sec \<or> (\<exists>inst. readInstance r req tr inst \<and> movedTo (tcHost r) old sec inst)) \<or>
         (\<exists>inst. readInstance r req tr inst \<and> usable r inst \<and> reissued r old sec inst)))"

definition secretDelete :: "'w token_reconciler \<Rightarrow> key \<Rightarrow> secret \<Rightarrow> bool" where
  "secretDelete r req sec =
     (\<exists>tr. readRequest r req tr \<and> omDeletion (trMeta tr) \<noteq> None \<and> ownsTokenSecret (tcLib r) tr sec)"

definition secretCreate :: "'w token_reconciler \<Rightarrow> key \<Rightarrow> secret \<Rightarrow> bool" where
  "secretCreate r req sec =
     (\<exists>tr inst. readRequest r req tr \<and> readInstance r req tr inst \<and> usable r inst \<and> freshFor r sec tr inst)"

definition readyWrite :: "'w token_reconciler \<Rightarrow> key \<Rightarrow> token_request \<Rightarrow> bool" where
  "readyWrite r req t =
     (\<exists>tr inst. readRequest r req tr \<and> readInstance r req tr inst \<and> usable r inst \<and>
         ttSecretName (trStatus t) = omName (trMeta tr) @ ''-token'')"

fun tokenWrite :: "'w token_reconciler \<Rightarrow> key \<Rightarrow> wreq \<Rightarrow> bool" where
  "tokenWrite r req (Write LocalCluster WUpdate (OTok t)) = True"
| "tokenWrite r req (Write LocalCluster WStatusUpdate (OTok t)) =
     (ttPhase (trStatus t) = ''Pending'' \<or> ttPhase (trStatus t) = ''Ready'' \<and> readyWrite r req t)"
| "tokenWrite r req (Write LocalCluster (WDelete p) (OSec sec)) =
     (p = preUIDVersion (seMeta sec) \<and> secretDelete r req sec)"
| "tokenWrite r req (Write LocalCluster WUpdate (OSec sec)) = secretUpdate r req sec"
| "tokenWrite r req (Write LocalCluster WCreate (OSec sec)) = secretCreate r req sec"
| "tokenWrite r req _ = False"

lemma emits_generateToken [emits_intros]: "emits G (generateToken h n)"
  unfolding generateToken_def by (intro emits_intros)

lemma emits_rotate [emits_intros]: "emits G (rotateTokenForTarget h sec inst0 allow slug)"
  unfolding rotateTokenForTarget_def by (intro emits_intros emits_generateToken)

lemma emits_touch: "emits (tokenWrite r req) (touchAPITokenRequest r' tr v)"
  unfolding touchAPITokenRequest_def by (intro emits_intros) simp

lemma emits_createSecret:
  assumes "readRequest r req tr" "readInstance r req tr inst" "usable r inst"
  shows "emits (tokenWrite r req)
    (createSecret r tr inst (omName (trMeta tr) @ ''-token'') (selectedSlug (tcSlugPolicy r) inst) (publishedEndpoint inst))"
proof -
  have "secretCreate r req (new\<lparr>seMeta := m\<rparr>)"
    if "\<exists>b. drawn (tcHost r) 32 b \<and> token = base64Raw b"
      "new = mintedSecret tr inst (omName (trMeta tr) @ ''-token'') (selectedSlug (tcSlugPolicy r) inst) (publishedEndpoint inst) token"
      "setControllerReference (tcLib r) ''APITokenRequest'' (trMeta tr) (seMeta new) = Inr m" for token new m
    unfolding secretCreate_def freshFor_def Let_def using that assms by blast
  then show ?thesis
    unfolding createSecret_def Let_def
    by (intro emits_bind [OF emits_generateToken yields_generateToken] emits_if emits_failE
        emits_bind [OF emits_liftE yields_liftE] emits_bindE emits_apiE emits_createObj emits_retE) simp
qed

text \<open>What a rotation for the instance hands on, and why the secret may be written then.\<close>

definition rotatedFor :: "'w token_reconciler \<Rightarrow> llm_instance \<Rightarrow> secret \<Rightarrow> secret \<Rightarrow> bool" where
  "rotatedFor r inst old sec = (edits old sec \<and> boundTo sec inst \<and>
     (if boundTo old inst \<or> legacyBound old inst (selectedSlug (tcSlugPolicy r) inst) then seData sec = seData old
      else \<exists>b. drawn (tcHost r) 32 b \<and> seData sec = (seData old)(openAIAPIKeyKey \<mapsto> base64Raw b)))"

lemma yields_rotatedFor:
  assumes "usable r inst"
  shows "yields (rotateTokenForTarget (tcHost r) old (Some inst) True (selectedSlug (tcSlugPolicy r) inst)) (\<lambda>(sec, _). rotatedFor r inst old sec)"
proof (rule yieldsI)
  fix s x s'
  assume run: "rotateTokenForTarget (tcHost r) old (Some inst) True (selectedSlug (tcSlugPolicy r) inst) s = (Inr x, s')"
  have "omUID (liMeta inst) \<noteq> []" using assms selectedSlug_uid by (auto simp: usable_def)
  then show "case x of (sec, _) \<Rightarrow> rotatedFor r inst old sec"
    using yieldsD [OF yields_rotate_edits run] yieldsD [OF yields_rotate_binds run] usable_target [OF assms]
    by (cases x) (auto simp: rotatedFor_def)
qed

lemma rotated_update:
  assumes "readRequest r req tr" "readInstance r req tr inst" "usable r inst" "ownsTokenSecret (tcLib r) tr old"
    and "serves (secrets (tcClient r)) (omNamespace (trMeta tr), omName (trMeta tr) @ ''-token'') old" and "rotatedFor r inst old sec"
  shows "secretUpdate r req (fst (applySecretMutations sec (omName (liMeta inst)) (selectedSlug (tcSlugPolicy r) inst) (publishedEndpoint inst)))"
proof -
  let ?sec = "fst (applySecretMutations sec (omName (liMeta inst)) (selectedSlug (tcSlugPolicy r) inst) (publishedEndpoint inst))"
  have "edits old ?sec" "issuedFor r ?sec inst"
    using assms(6) unfolding issuedFor_def rotatedFor_def
    by (simp_all add: applySecretMutations_edits applySecretMutations_bound endpoint_mutations.ensure_desired)
  moreover have "seData ?sec openAIAPIKeyKey = seData sec openAIAPIKeyKey" by (rule applySecretMutations_key)
  ultimately have "reissued r old ?sec inst" "edits old ?sec"
    using assms(6) by (auto simp: reissued_def rotatedFor_def split: if_splits)
  then show ?thesis using assms unfolding secretUpdate_def ownedSecretRead_def by blast
qed

lemma emits_ensureSecret:
  assumes "readRequest r req tr" "readInstance r req tr inst" "usable r inst"
  shows "emits (tokenWrite r req)
    (ensureSecret r tr inst (omName (trMeta tr) @ ''-token'') (selectedSlug (tcSlugPolicy r) inst) (publishedEndpoint inst))"
  unfolding ensureSecret_def
proof (rule emits_try_getObj, goal_cases)
  case (1 e)
  show ?case by (auto intro!: emits_intros emits_createSecret assms)
next
  case (2 old)
  show ?case
  proof (intro emits_if emits_failE emits_bind [OF emits_rotate yields_rotatedFor [OF assms(3)]] emits_case_prod emits_bindE emits_touch
      emits_apiE emits_updateObj emits_retE, goal_cases)
    case (1 x sec1 rotated sec2 updated)
    then show ?case using rotated_update [OF assms _ 2, of sec1] by simp
  qed
qed

lemma yields_rotate_moves:
  "yields (rotateTokenForTarget h sec inst0 False slug) (\<lambda>(sec', ch). edits sec sec' \<and>
     (sameCredential sec sec' \<or> (\<exists>inst. inst0 = Some inst \<and> movedTo h sec sec' inst)))"
proof (cases inst0)
  case None
  then show ?thesis by (simp add: rotateTokenForTarget_def yields_retE sameCredential_def)
next
  case (Some inst)
  show ?thesis unfolding Some rotate_cases
    by (intro yields_intros yields_bindE [OF yields_generateToken])
      (auto simp: rebind_props sameCredential_def movedTo_def legacyBound_def)
qed

lemma withdrawMutations_same:
  "sameCredential a (fst (withdrawMutations sec inst0 changed)) = sameCredential a sec"
  "movedTo h a (fst (withdrawMutations sec inst0 changed)) inst = movedTo h a sec inst"
  by (cases inst0; simp add: withdrawMutations_def sameCredential_def movedTo_def boundTo_def)+

lemma emits_invalidate:
  assumes "readRequest r req tr" and read: "\<And>inst. inst0 = Some inst \<Longrightarrow> readInstance r req tr inst"
  shows "emits (tokenWrite r req) (invalidateTokenEndpoint r tr inst0)"
  unfolding invalidateTokenEndpoint_def
proof (rule emits_try_getObj)
  fix old
  assume sv: "serves (secrets (tcClient r)) (omNamespace (trMeta tr), omName (trMeta tr) @ ''-token'') old"
  show "emits (tokenWrite r req)
     (if \<not> ownsTokenSecret (tcLib r) tr old
      then failE (errNew ''refusing to invalidate token Secret: unexpected controller owner or type'')
      else bindE (rotateTokenForTarget (tcHost r) old inst0 False []) (\<lambda>(sec1, rotated).
        case withdrawMutations sec1 inst0 rotated of
          (sec2, changed) \<Rightarrow>
            bindE (if changed then apiE (updateObj LocalCluster OSec (secrets (tcClient r)) sec2) else retE sec2)
              (\<lambda>sec3. bindE (touchAPITokenRequest r tr (omResourceVersion (seMeta sec3))) (\<lambda>tr1.
                retE (tr1\<lparr>trStatus := (trStatus tr1)\<lparr>ttSecretName := omName (seMeta sec3)\<rparr>\<rparr>)))))"
  proof (intro emits_if emits_failE emits_bind [OF emits_rotate yields_rotate_moves] emits_case_prod emits_bindE
      emits_touch emits_apiE emits_updateObj emits_retE)
    fix x sec1 rotated sec2 changed
    assume own: "\<not> \<not> ownsTokenSecret (tcLib r) tr old"
      and x: "(\<lambda>(sec', ch). edits old sec' \<and> (sameCredential old sec' \<or> (\<exists>inst. inst0 = Some inst \<and> movedTo (tcHost r) old sec' inst))) x"
        "x = (sec1, rotated)"
      and wd: "withdrawMutations sec1 inst0 rotated = (sec2, changed)"
    have sec2: "sec2 = fst (withdrawMutations sec1 inst0 rotated)" using wd by simp
    have "edits old sec2" using x unfolding sec2 by (simp add: withdrawMutations_edits)
    moreover have "withdrawn sec2 inst0"
      unfolding sec2 withdrawMutations_fst [of sec1 inst0 rotated] by (rule withdraw_mutations.ensure_desired)
    then have "withdrawn sec2 None" by (simp add: withdrawn_def)
    moreover have "sameCredential old sec2 \<or> (\<exists>inst. readInstance r req tr inst \<and> movedTo (tcHost r) old sec2 inst)"
      using x read unfolding sec2 by (auto simp: withdrawMutations_same)
    ultimately have "secretUpdate r req sec2"
      using own sv assms(1) unfolding secretUpdate_def ownedSecretRead_def by blast
    then show "tokenWrite r req (Write LocalCluster WUpdate (OSec sec2))" by simp
  qed
qed (auto intro!: emits_intros)

lemma emits_deleteOwnedSecrets:
  assumes "readRequest r req tr" "omDeletion (trMeta tr) \<noteq> None"
  shows "emits (tokenWrite r req) (deleteOwnedSecrets r tr secs)"
proof -
  have "secretDelete r req sec" if "ownsTokenSecret (tcLib r) tr sec" for sec
    using assms that unfolding secretDelete_def by blast
  then show ?thesis by (induction secs) (auto intro!: emits_intros)
qed

lemma emits_dropFinalizer: "emits (tokenWrite r req) (dropFinalizer n r' key tr)"
  by (induction n arbitrary: tr) (auto intro!: emits_intros)

lemma emits_Reconcile: "emits (tokenWrite r req) (Reconcile r req)"
  unfolding Reconcile_def
proof (rule emits_try_getObj)
  fix tr
  assume "serves (tokenRequests (tcClient r)) req tr"
  then have rd: "readRequest r req tr" by (simp add: readRequest_def)
  have fin: "omDeletion (trMeta tr) \<noteq> None \<Longrightarrow> emits (tokenWrite r req) (finalizeTokenRequest r tr)"
    unfolding finalizeTokenRequest_def
    by (intro emits_intros emits_dropFinalizer emits_deleteOwnedSecrets [OF rd])
  have ens: "emits (tokenWrite r req) (ensureFinalizer r tr)"
    unfolding ensureFinalizer_def by (intro emits_intros) simp
  have pend: "emits (tokenWrite r req) (updatePendingStatus r tr' reason msg)" for tr' reason msg
    unfolding updatePendingStatus_def by (intro emits_intros) simp
  have ready: "emits (tokenWrite r req) (updateReadyStatus r tr' (omName (trMeta tr) @ ''-token''))"
    if "readInstance r req tr inst" "usable r inst" for tr' inst
    unfolding updateReadyStatus_def
    by (intro emits_intros) (use that rd in \<open>auto simp: readyWrite_def\<close>)
  have ref: "emits (tokenWrite r req) (reconcileReferenced r tr inst)" if "readInstance r req tr inst" for inst
  proof (cases "usable r inst")
    case True
    then show ?thesis unfolding reconcileReferenced_def Let_def
      by (intro emits_intros emits_invalidate [OF rd] pend emits_ensureSecret [OF rd that True] ready [OF that True]) (use that in simp_all)
  next
    case False
    then show ?thesis unfolding reconcileReferenced_def Let_def usable_def
      by (intro emits_intros emits_invalidate [OF rd] pend) (use that in auto)
  qed
  show "emits (tokenWrite r req)
     (if omDeletion (trMeta tr) \<noteq> None then finalizeTokenRequest r tr
      else bindE (ensureFinalizer r tr) (\<lambda>handled.
        case handled of Some res \<Rightarrow> retE res
        | None \<Rightarrow> tryE (getObj (instances (tcClient r)) (fst req, tsInstanceName (trSpec tr)))
            (\<lambda>e. if isNotFound e
                 then bindE (invalidateTokenEndpoint r tr None) (\<lambda>tr1.
                   bindE (updatePendingStatus r tr1 ''InstanceNotFound'' ''Referenced LLMInstance not found'') (\<lambda>_.
                     retE (requeueAfter 10)))
                 else failE (APIErr e))
            (reconcileReferenced r tr)))"
    by (intro emits_if emits_case_option emits_bindE emits_try_getObj emits_retE emits_failE
        fin ens emits_invalidate [OF rd] pend ref)
      (simp_all add: readInstance_def)
qed (auto intro!: emits_intros)

section \<open>Properties\<close>

lemma token_run: "journal s = [] \<Longrightarrow> w \<in> set (journal (snd (Reconcile r req s))) \<Longrightarrow> tokenWrite r req w"
  using emits_Reconcile emits_from_empty by blast

lemma minted_bound:
  "omUID (liMeta inst) \<noteq> [] \<Longrightarrow> boundTo (mintedSecret tr inst name slug endpoint token) inst"
  by (simp add: mintedSecret_def newTokenSecret_def boundTo_def targetOf_def Let_def)
    (simp add: newMeta_def token_keys lookupD_def)

text \<open>\<^bold>\<open>C10.\<close> A reconciliation deletes nothing but secrets, each with its own UID and resource version as
  preconditions, and only while the request it was called for is being deleted and is the exact
  controller of the secret.  Labels that a tenant copies onto another secret never suffice.\<close>

theorem token_deletes_only_owned:
  assumes "journal s = []"
    and "Write c (WDelete p) obj \<in> set (journal (snd (Reconcile r req s)))"
  shows "\<exists>sec tr. c = LocalCluster \<and> obj = OSec sec \<and> p = preUIDVersion (seMeta sec) \<and>
    serves (tokenRequests (tcClient r)) req tr \<and> omDeletion (trMeta tr) \<noteq> None \<and>
    ownsTokenSecret (tcLib r) tr sec"
proof -
  have "tokenWrite r req (Write c (WDelete p) obj)" using assms by (rule token_run)
  then show ?thesis by (cases c; cases obj) (auto simp: secretDelete_def readRequest_def)
qed

text \<open>\<^bold>\<open>C27.\<close> A request is reported Ready only for an instance on which its key works: the reconciliation has
  read the referenced instance with a slug that the policy selects and its status confirms, a
  published endpoint, a Ready condition of its current generation, no deletion in progress and, in
  remote mode, an established target behind a verified HTTPS endpoint.\<close>

theorem token_ready_justified:
  assumes "journal s = []"
    and "Write c WStatusUpdate (OTok t) \<in> set (journal (snd (Reconcile r req s)))"
    and "ttPhase (trStatus t) = ''Ready''"
  shows "\<exists>tr inst. serves (tokenRequests (tcClient r)) req tr \<and>
    serves (instances (tcClient r)) (fst req, tsInstanceName (trSpec tr)) inst \<and>
    selectedSlug (tcSlugPolicy r) inst \<noteq> [] \<and> publishedEndpoint inst \<noteq> [] \<and>
    instanceReady (tcLib r) inst \<and> validEndpoint (tcLib r) inst \<and>
    ttSecretName (trStatus t) = omName (trMeta tr) @ ''-token''"
proof -
  have "tokenWrite r req (Write c WStatusUpdate (OTok t))" using assms(1,2) by (rule token_run)
  with assms(3) show ?thesis
    by (cases c) (auto simp: readyWrite_def readRequest_def readInstance_def usable_def)
qed

text \<open>\<^bold>\<open>C9.\<close> Rotation: whenever a reconciliation updates a secret, the secret it read is controlled by the
  request and only labels, annotations and data change.  If the secret publishes the endpoint of a
  ready instance it is bound to the UID and the remote target of that instance, and the key it held is
  kept only if it was bound to the same UID and target already, or is an unannotated legacy key with
  the name and the selected slug of the hosted instance; any other key is replaced by one drawn from the
  random source.  If the route is withdrawn instead, the key and its binding both stay as they are, or
  both change: the key is freshly drawn and bound to the instance that was read, on a remote target that
  the old key was not bound to.  So no key is ever carried over to another instance or target.\<close>

theorem token_rotation:
  assumes "journal s = []"
    and "Write c WUpdate (OSec sec) \<in> set (journal (snd (Reconcile r req s)))"
  shows "\<exists>tr old. serves (tokenRequests (tcClient r)) req tr \<and>
    serves (secrets (tcClient r)) (omNamespace (trMeta tr), omName (trMeta tr) @ ''-token'') old \<and>
    ownsTokenSecret (tcLib r) tr old \<and> edits old sec \<and>
    (getS (seData sec) openAIAPIURLKey = unavailableAPIURL \<and>
       secAnnotation sec endpointUnavailableAnnotation = ''true'' \<and>
       (seData sec openAIAPIKeyKey = seData old openAIAPIKeyKey \<and>
        secAnnotation sec credentialInstanceAnnotation = secAnnotation old credentialInstanceAnnotation \<and>
        secAnnotation sec credentialTargetAnnotation = secAnnotation old credentialTargetAnnotation \<or>
        (\<exists>inst b. serves (instances (tcClient r)) (fst req, tsInstanceName (trSpec tr)) inst \<and> byocInstance inst \<and>
           \<not> boundTo old inst \<and> secAnnotation sec credentialInstanceAnnotation = omUID (liMeta inst) \<and>
           secAnnotation sec credentialTargetAnnotation = targetOf inst \<and>
           drawn (tcHost r) 32 b \<and> seData sec openAIAPIKeyKey = Some (base64Raw b))) \<or>
     (\<exists>inst. serves (instances (tcClient r)) (fst req, tsInstanceName (trSpec tr)) inst \<and> usable r inst \<and>
        secAnnotation sec credentialInstanceAnnotation = omUID (liMeta inst) \<and>
        secAnnotation sec credentialTargetAnnotation = targetOf inst \<and>
        seData sec openAIAPIURLKey = Some (publishedEndpoint inst) \<and>
        (if boundTo old inst \<or> legacyBound old inst (selectedSlug (tcSlugPolicy r) inst)
         then seData sec openAIAPIKeyKey = seData old openAIAPIKeyKey
         else \<exists>b. drawn (tcHost r) 32 b \<and> seData sec openAIAPIKeyKey = Some (base64Raw b))))"
proof -
  have "tokenWrite r req (Write c WUpdate (OSec sec))" using assms by (rule token_run)
  then have "secretUpdate r req sec" by (cases c) auto
  then obtain tr old where base: "readRequest r req tr" "ownedSecretRead r tr old" "edits old sec"
    and alt: "withdrawn sec None \<and> (sameCredential old sec \<or> (\<exists>inst. readInstance r req tr inst \<and> movedTo (tcHost r) old sec inst)) \<or>
      (\<exists>inst. readInstance r req tr inst \<and> usable r inst \<and> reissued r old sec inst)"
    unfolding secretUpdate_def by blast
  from alt show ?thesis
  proof
    assume "withdrawn sec None \<and> (sameCredential old sec \<or> (\<exists>inst. readInstance r req tr inst \<and> movedTo (tcHost r) old sec inst))"
    with base show ?thesis
      unfolding withdrawn_def sameCredential_def movedTo_def boundTo_def [of sec] readRequest_def readInstance_def
        ownedSecretRead_def trueText_def by blast
  next
    assume "\<exists>inst. readInstance r req tr inst \<and> usable r inst \<and> reissued r old sec inst"
    with base show ?thesis
      unfolding reissued_def issuedFor_def boundTo_def [of sec] carriesEndpoint_def readRequest_def readInstance_def
        ownedSecretRead_def by blast
  qed
qed

text \<open>A secret that a reconciliation creates holds a freshly drawn key and the endpoint of a ready
  instance, is bound to the UID and remote target of that instance, and is handed to
  \<^verbatim>\<open>SetControllerReference\<close> with the request as owner before it is sent.\<close>

theorem token_minted_bound:
  assumes "journal s = []"
    and "Write c WCreate obj \<in> set (journal (snd (Reconcile r req s)))"
  shows "\<exists>tr inst b new m. serves (tokenRequests (tcClient r)) req tr \<and>
    serves (instances (tcClient r)) (fst req, tsInstanceName (trSpec tr)) inst \<and> usable r inst \<and>
    drawn (tcHost r) 32 b \<and>
    seStringData new = [openAIAPIKeyKey \<mapsto> base64Raw b, openAIAPIURLKey \<mapsto> publishedEndpoint inst] \<and>
    keyOf (seMeta new) = (omNamespace (trMeta tr), omName (trMeta tr) @ ''-token'') \<and>
    secAnnotation new credentialInstanceAnnotation = omUID (liMeta inst) \<and>
    secAnnotation new credentialTargetAnnotation = targetOf inst \<and>
    secLabel new slugAnnotationKey = selectedSlug (tcSlugPolicy r) inst \<and>
    setControllerReference (tcLib r) ''APITokenRequest'' (trMeta tr) (seMeta new) = Inr m \<and>
    obj = OSec (new\<lparr>seMeta := m\<rparr>)"
proof -
  have "tokenWrite r req (Write c WCreate obj)" using assms by (rule token_run)
  then obtain sec where "obj = OSec sec" "secretCreate r req sec" by (cases c; cases obj) auto
  then obtain tr inst b m where f: "readRequest r req tr" "readInstance r req tr inst" "usable r inst"
      "drawn (tcHost r) 32 b"
    and new: "setControllerReference (tcLib r) ''APITokenRequest'' (trMeta tr)
        (seMeta (mintedSecret tr inst (omName (trMeta tr) @ ''-token'') (selectedSlug (tcSlugPolicy r) inst)
          (publishedEndpoint inst) (base64Raw b))) = Inr m"
      "obj = OSec ((mintedSecret tr inst (omName (trMeta tr) @ ''-token'') (selectedSlug (tcSlugPolicy r) inst)
          (publishedEndpoint inst) (base64Raw b))\<lparr>seMeta := m\<rparr>)"
    unfolding secretCreate_def freshFor_def Let_def by blast
  let ?new = "mintedSecret tr inst (omName (trMeta tr) @ ''-token'') (selectedSlug (tcSlugPolicy r) inst)
    (publishedEndpoint inst) (base64Raw b)"
  have slug: "selectedSlug (tcSlugPolicy r) inst \<noteq> []" using f(3) by (simp add: usable_def)
  have "boundTo ?new inst" by (rule minted_bound) (rule selectedSlug_uid [OF slug])
  moreover have "seStringData ?new = [openAIAPIKeyKey \<mapsto> base64Raw b, openAIAPIURLKey \<mapsto> publishedEndpoint inst]"
    "keyOf (seMeta ?new) = (omNamespace (trMeta tr), omName (trMeta tr) @ ''-token'')"
    "secLabel ?new slugAnnotationKey = selectedSlug (tcSlugPolicy r) inst"
    using slug
    by (simp_all add: mintedSecret_def newTokenSecret_def keyOf_def setAnnotation_def newMeta_def Let_def slugAnnotationKey_def)
  ultimately show ?thesis
    using f new unfolding boundTo_def readRequest_def readInstance_def by blast
qed

text \<open>A generated key is the unpadded URL-safe base64 text of the bytes that the random source
  delivered: 43 characters for 32 bytes, and different for different bytes.\<close>

theorem generateToken_text:
  assumes "generateToken h n s = (Inr t, s')" and "generateToken h n u = (Inr t', u')"
  shows "\<exists>b b'. randRead h n (world s) = (Inr b, world s') \<and> randRead h n (world u) = (Inr b', world u') \<and>
    set t \<subseteq> set base64Alphabet \<and> (length b = 32 \<longrightarrow> length t = 43) \<and>
    (length b = length b' \<longrightarrow> (t = t' \<longleftrightarrow> b = b'))"
proof -
  have run: "\<exists>b. randRead h n (world a) = (Inr b, world a') \<and> x = base64Raw b"
    if "generateToken h n a = (Inr x, a')" for a a' x
    using that
    by (auto simp: generateToken_def bindE_def tryE_def randE_def retE_def failE_def trimRight_base64Encode
        split: prod.splits sum.splits)
  obtain b b' where "randRead h n (world s) = (Inr b, world s')" "t = base64Raw b"
      "randRead h n (world u) = (Inr b', world u')" "t' = base64Raw b'"
    using run [OF assms(1)] run [OF assms(2)] by blast
  then show ?thesis
    using base64Raw_alphabet [of b] by (auto simp: length_base64Raw dest: base64Raw_inj)
qed

text \<open>In the steady state a request causes no traffic: when the secret already carries the endpoint
  and the binding, and the request has recorded the secret's version, ensuring the secret succeeds
  and sends no write.\<close>

theorem ensureSecret_quiescent:
  assumes "getObj (secrets (tcClient r)) (omNamespace (trMeta tr), name) s = (Inr sec, s')"
    and "ownsTokenSecret (tcLib r) tr sec"
    and "boundTo sec inst" and "omUID (liMeta inst) \<noteq> []"
    and "byocInstance inst \<longrightarrow> stActiveBYOCTargetID (liStatus inst) \<noteq> []"
    and "carriesEndpoint sec (omName (liMeta inst)) slug endpoint"
    and "omResourceVersion (seMeta sec) \<noteq> []"
    and "getS (omAnnotations (trMeta tr)) tokenSecretVersionAnnotation = omResourceVersion (seMeta sec)"
  shows "ensureSecret r tr inst name slug endpoint s = (Inr tr, s') \<and> journal s' = journal s"
proof -
  have "\<not> legacyBound sec inst slug" using assms(3,4) by (auto simp: legacyBound_def boundTo_def)
  then have "rotateTokenForTarget (tcHost r) sec (Some inst) True slug = retE (sec, False)"
    using assms(3-5) by (simp add: rotate_cases targetOf_def)
  moreover have "applySecretMutations sec (omName (liMeta inst)) slug endpoint = (sec, False)"
    using assms(6) by (rule endpoint_mutations.ensure_stable)
  moreover have "touchAPITokenRequest r tr (omResourceVersion (seMeta sec)) = retE tr"
    using assms(7,8) by (simp add: touchAPITokenRequest_def)
  ultimately have "ensureSecret r tr inst name slug endpoint s = (Inr tr, s')"
    using assms(1,2) by (simp add: ensureSecret_def bindE_def tryE_def retE_def)
  moreover have "journal s' = journal s"
    using assms(1) by (auto simp: getObj_def readWith_def split: prod.splits)
  ultimately show ?thesis by blast
qed

section \<open>Witnesses\<close>

definition demoReady :: llm_instance where
  "demoReady = demoInstance\<lparr>liStatus := (liStatus demoInstance)\<lparr>stConditions :=
     [newCondition ''Ready'' ''True'' ''ServiceHealthy'' [] 0]\<rparr>\<rparr>"

definition demoOwned :: token_request where
  "demoOwned = demoToken\<lparr>trMeta := (trMeta demoToken)\<lparr>omFinalizers := [apiTokenRequestFinalizer]\<rparr>\<rparr>"

definition demoGone :: token_request where
  "demoGone = demoOwned\<lparr>trMeta := (trMeta demoOwned)\<lparr>omDeletion := Some 1\<rparr>\<rparr>"

definition demoTokens :: "token_request \<Rightarrow> (key \<Rightarrow> api_error + secret) \<Rightarrow> unit token_reconciler" where
  "demoTokens tr getSecret = \<lparr>tcClient = emptyClient\<lparr>
       instances := cannedKind (\<lambda>_. Inr demoReady) [],
       tokenRequests := cannedKind (\<lambda>_. Inr tr) [],
       secrets := cannedKind getSecret [demoSecret]\<rparr>,
     tcSlugPolicy = Some samplePolicy, tcLib = sampleLib, tcHost = sampleHost\<rparr>"

lemma journal_startSys: "journal startSys = []"
  by (simp add: startSys_def)

lemma demo_owns:
  "ownsTokenSecret sampleLib demoGone demoSecret" "ownsTokenSecret sampleLib demoOwned demoSecret"
  by (simp_all add: ownsTokenSecret_def sampleLib_def controllerOf_def controllerRef_def demoGone_def demoOwned_def
      demoSecret_def demoToken_def newMeta_def groupVersion_def secretTypeOpaque_def)

lemma demo_usable:
  "selectedSlug (Some samplePolicy) demoReady = ''alpha''" "instanceReady sampleLib demoReady"
  "publishedEndpoint demoReady = ''e''" "\<not> byocInstance demoReady" "validEndpoint sampleLib demoReady"
  "omUID (liMeta demoReady) = ''u1''" "omName (liMeta demoReady) = ''a''"
proof -
  show "selectedSlug (Some samplePolicy) demoReady = ''alpha''"
    using sample_Select(1) by (simp add: selectedSlug_def demoReady_def demoInstance_def Legacy_def)
  show "instanceReady sampleLib demoReady"
    by (simp add: instanceReady_def sampleLib_def demoReady_def demoInstance_def newCondition_def readyType_def
        conditionTrue_def sampleObj_def newMeta_def)
  have "trimSpace ''e'' = ''e''" by code_simp
  then show "publishedEndpoint demoReady = ''e''" by (simp add: publishedEndpoint_def demoReady_def demoInstance_def)
  show b: "\<not> byocInstance demoReady" by (simp add: byocInstance_def isBYOC_def demoReady_def demoInstance_def)
  then show "validEndpoint sampleLib demoReady" by (simp add: validEndpoint_def)
  show "omUID (liMeta demoReady) = ''u1''" "omName (liMeta demoReady) = ''a''"
    by (simp_all add: demoReady_def demoInstance_def sampleObj_def newMeta_def)
qed

lemmas demo_run_defs = demoTokens_def emptyClient_def cannedKind_def startSys_def request_defs readWith_def writeWith_def
  bindE_def tryE_def retE_def failE_def apiE_def nowE_def nowTextE_def liftE_def

lemma demo_delete_write:
  "Write LocalCluster (WDelete (preUIDVersion (seMeta demoSecret))) (OSec demoSecret) \<in>
     set (journal (snd (Reconcile (demoTokens demoGone absent) (''default'', ''t'') startSys)))"
proof -
  have "omDeletion (trMeta demoGone) \<noteq> None" "apiTokenRequestFinalizer \<in> set (omFinalizers (trMeta demoGone))"
    by (simp_all add: demoGone_def demoOwned_def)
  then show ?thesis using demo_owns(1)
    by (simp add: Reconcile_def finalizeTokenRequest_def demo_run_defs numeral_3_eq_3) (simp add: sampleLib_def)
qed

lemma demo_no_deletion:
  "omDeletion (trMeta demoOwned) = None" "containsFinalizer sampleLib (trMeta demoOwned) apiTokenRequestFinalizer"
  by (simp_all add: demoOwned_def demoToken_def newMeta_def sampleLib_def)

lemma demo_generate: "generateToken sampleHost 32 s = (Inr (base64Raw (replicate 32 (CHR 0x2A))), s)"
  unfolding generateToken_def bindE_def tryE_def randE_def retE_def sampleHost_def
  by (simp only: host.select_convs prod.case sum.case trimRight_base64Encode) simp

lemma demo_control:
  "\<exists>m. setControllerReference sampleLib ''APITokenRequest'' owner
     (seMeta (mintedSecret tr demoReady name slug endpoint token)) = Inr m"
  by (simp add: sampleLib_def takeControl_def controllerOf_def mintedSecret_def newTokenSecret_def demo_usable Let_def newMeta_def)

lemma demo_create_run:
  "\<exists>sec t. journal (snd (Reconcile (demoTokens demoOwned absent) (''default'', ''t'') startSys)) =
     [Write LocalCluster WCreate (OSec sec), Write LocalCluster WStatusUpdate (OTok t)] \<and>
     ttPhase (trStatus t) = ''Ready''"
proof -
  obtain m where m: "setControllerReference sampleLib ''APITokenRequest'' (trMeta demoOwned)
     (seMeta (mintedSecret demoOwned demoReady (omName (trMeta demoOwned) @ ''-token'') ''alpha'' ''e''
       (base64Raw (replicate 32 (CHR 0x2A))))) = Inr m"
    using demo_control by blast
  show ?thesis
    by (simp add: Reconcile_def reconcileReferenced_def ensureFinalizer_def ensureSecret_def createSecret_def
        updateReadyStatus_def demo_run_defs demo_generate demo_no_deletion demo_usable absent_def isNotFound_def m
        Let_def del: replicate.simps)
qed

theorem token_deletes_only_owned_witness:
  "\<exists>sec tr. serves (tokenRequests (tcClient (demoTokens demoGone absent))) (''default'', ''t'') tr \<and>
     ownsTokenSecret (tcLib (demoTokens demoGone absent)) tr sec"
  using token_deletes_only_owned [OF journal_startSys demo_delete_write] by blast

lemma demo_reads_instance:
  "serves (tokenRequests (tcClient (demoTokens demoOwned g))) k tr \<Longrightarrow> tsInstanceName (trSpec tr) = ''a''"
  by (auto simp: demoTokens_def serves_def cannedKind_def demoOwned_def demoToken_def)

theorem token_ready_justified_witness:
  "\<exists>inst. serves (instances (tcClient (demoTokens demoOwned absent))) (''default'', ''a'') inst \<and>
     instanceReady (tcLib (demoTokens demoOwned absent)) inst"
proof -
  obtain t where t: "Write LocalCluster WStatusUpdate (OTok t) \<in>
      set (journal (snd (Reconcile (demoTokens demoOwned absent) (''default'', ''t'') startSys)))"
      "ttPhase (trStatus t) = ''Ready''"
    using demo_create_run by fastforce
  from token_ready_justified [OF journal_startSys this] show ?thesis
    using demo_reads_instance by fastforce
qed

theorem token_minted_bound_witness:
  "\<exists>inst new. serves (instances (tcClient (demoTokens demoOwned absent))) (''default'', ''a'') inst \<and>
     secAnnotation new credentialInstanceAnnotation = omUID (liMeta inst)"
proof -
  obtain sec where "Write LocalCluster WCreate (OSec sec) \<in>
      set (journal (snd (Reconcile (demoTokens demoOwned absent) (''default'', ''t'') startSys)))"
    using demo_create_run by fastforce
  from token_minted_bound [OF journal_startSys this] show ?thesis
    using demo_reads_instance by fastforce
qed

text \<open>A secret whose key is bound to the instance but whose endpoint is stale.\<close>

lemma demo_bound: "boundTo demoSecret demoReady"
  by (simp add: boundTo_def targetOf_def demo_usable demoSecret_def newMeta_def lookupD_def
      credentialInstanceAnnotation_def credentialTargetAnnotation_def)

lemma demo_rotate: "rotateTokenForTarget h demoSecret (Some demoReady) True slug = retE (demoSecret, False)"
proof -
  have "\<not> legacyBound demoSecret demoReady slug" using demo_bound by (simp add: boundTo_def legacyBound_def demo_usable)
  then show ?thesis using demo_bound by (simp add: rotate_cases demo_usable)
qed

lemma applySecretMutations_changed:
  "seData sec openAIAPIURLKey \<noteq> Some endpoint \<Longrightarrow> snd (applySecretMutations sec name slug endpoint)"
  by (simp add: applySecretMutations_def)

lemma demo_stale: "snd (applySecretMutations demoSecret name slug endpoint)"
  by (rule applySecretMutations_changed) (simp add: demoSecret_def openAIAPIURLKey_def)

lemma demo_update_write:
  "\<exists>sec. Write LocalCluster WUpdate (OSec sec) \<in>
     set (journal (snd (Reconcile (demoTokens demoOwned (\<lambda>_. Inr demoSecret)) (''default'', ''t'') startSys)))"
proof -
  obtain sec where "applySecretMutations demoSecret ''a'' ''alpha'' ''e'' = (sec, True)"
    using demo_stale by (metis prod.collapse)
  then show ?thesis
    by (simp add: Reconcile_def reconcileReferenced_def ensureFinalizer_def ensureSecret_def touchAPITokenRequest_def
        updateReadyStatus_def demo_run_defs demo_no_deletion demo_usable demo_owns demo_rotate Let_def)
qed

theorem token_rotation_witness:
  "\<exists>old tr. serves (secrets (tcClient (demoTokens demoOwned (\<lambda>_. Inr demoSecret)))) (''default'', ''t-token'') old \<and>
     ownsTokenSecret (tcLib (demoTokens demoOwned (\<lambda>_. Inr demoSecret))) tr old"
proof -
  obtain sec where "Write LocalCluster WUpdate (OSec sec) \<in>
      set (journal (snd (Reconcile (demoTokens demoOwned (\<lambda>_. Inr demoSecret)) (''default'', ''t'') startSys)))"
    using demo_update_write by blast
  from token_rotation [OF journal_startSys this] show ?thesis
    by (auto simp: demoTokens_def serves_def cannedKind_def)
qed

theorem generateToken_text_witness: "length (base64Raw (replicate 32 (CHR 0x2A))) = 43"
  using generateToken_text [OF demo_generate [of startSys] demo_generate [of startSys]]
  by (auto simp: sampleHost_def simp del: replicate.simps)

definition demoCurrent :: secret where
  "demoCurrent = (let sec = fst (applySecretMutations demoSecret ''a'' ''alpha'' ''e'')
     in sec\<lparr>seMeta := (seMeta sec)\<lparr>omResourceVersion := ''7''\<rparr>\<rparr>)"

definition demoSeen :: token_request where
  "demoSeen = demoOwned\<lparr>trMeta := (trMeta demoOwned)\<lparr>omAnnotations := [tokenSecretVersionAnnotation \<mapsto> ''7'']\<rparr>\<rparr>"

theorem ensureSecret_quiescent_witness:
  "fst (ensureSecret (demoTokens demoSeen (\<lambda>_. Inr demoCurrent)) demoSeen demoReady ''t-token'' ''alpha'' ''e'' startSys) = Inr demoSeen"
proof -
  let ?sec = "fst (applySecretMutations demoSecret ''a'' ''alpha'' ''e'')"
  have "edits demoSecret ?sec" by (simp add: applySecretMutations_edits)
  note e = edits_identity [OF this]
  have own: "ownsTokenSecret (tcLib (demoTokens demoSeen (\<lambda>_. Inr demoCurrent))) demoSeen demoCurrent"
    using demo_owns(2) e
    by (simp add: demoTokens_def ownsTokenSecret_def demoSeen_def demoCurrent_def sampleLib_def controllerOf_def keyOf_def Let_def
        split: option.splits)
  have get: "getObj (secrets (tcClient (demoTokens demoSeen (\<lambda>_. Inr demoCurrent)))) (omNamespace (trMeta demoSeen), ''t-token'') startSys =
      (Inr demoCurrent, startSys)"
    by (simp add: demoTokens_def getObj_def readWith_def cannedKind_def startSys_def)
  have bound: "boundTo demoCurrent demoReady"
    using applySecretMutations_bound [of demoSecret "''a''" "''alpha''" "''e''" demoReady] demo_bound
    by (simp add: demoCurrent_def boundTo_def Let_def)
  have carry: "carriesEndpoint demoCurrent ''a'' ''alpha'' ''e''"
    using endpoint_mutations.ensure_desired [of demoSecret "''a''" "''alpha''" "''e''"]
    by (simp add: demoCurrent_def carriesEndpoint_def Let_def)
  show ?thesis
    using ensureSecret_quiescent [OF get own bound, of "''alpha''" "''e''"] carry
    by (simp add: demo_usable demoCurrent_def demoSeen_def Let_def)
qed

end
