(* ===== verification/ByocKeys.thy ===== *)
theory ByocKeys
  imports ByocWorkload TokenController
begin

text \<open>
  The API keys of a BYOC workload (\<^verbatim>\<open>llminstance_byoc.go\<close>): the server on the tenant's cluster reads the
  accepted keys from a file, one per line, which the operator assembles from the token secrets of
  the instance and delivers in a secret on that cluster.
\<close>

definition newline :: string where "newline = [CHR 0x0A]"

section \<open>The key file\<close>

text \<open>The owner of a secret that may carry a key: an APITokenRequest, of a live opaque secret.\<close>

definition keyOwner :: "kube_lib \<Rightarrow> secret \<Rightarrow> owner_ref option" where
  "keyOwner L sec =
     (case getControllerOf L (seMeta sec) of
        None \<Rightarrow> None
      | Some owner \<Rightarrow>
          if orKind owner \<noteq> ''APITokenRequest'' \<or> orAPIVersion owner \<noteq> groupVersion \<or> seType sec \<noteq> secretTypeOpaque \<or>
             omDeletion (seMeta sec) \<noteq> None
          then None else Some owner)"

definition requestVouches :: "llm_instance \<Rightarrow> secret \<Rightarrow> owner_ref \<Rightarrow> token_request \<Rightarrow> bool" where
  "requestVouches inst sec owner tr =
     (omUID (trMeta tr) = orUID owner \<and> tsInstanceName (trSpec tr) = omName (liMeta inst) \<and>
      omDeletion (trMeta tr) = None \<and> ttSecretName (trStatus tr) = omName (seMeta sec))"

definition boundToTarget :: "llm_instance \<Rightarrow> secret \<Rightarrow> bool" where
  "boundToTarget inst sec =
     (stActiveBYOCTargetID (liStatus inst) \<noteq> [] \<and>
      secAnnotation sec credentialTargetAnnotation = stActiveBYOCTargetID (liStatus inst) \<and>
      secAnnotation sec credentialInstanceAnnotation = omUID (liMeta inst))"

text \<open>The key of a secret, if it fits on one line of the file.\<close>

definition lineKey :: "secret \<Rightarrow> string option" where
  "lineKey sec =
     (case seData sec openAIAPIKeyKey of
        None \<Rightarrow> None
      | Some v \<Rightarrow> if v \<noteq> [] \<and> CHR 0x0D \<notin> set v \<and> CHR 0x0A \<notin> set v then Some v else None)"

definition acceptedKeys :: "llm_instance \<Rightarrow> secret \<Rightarrow> owner_ref \<Rightarrow> token_request \<Rightarrow> string list" where
  "acceptedKeys inst sec owner tr =
     (if \<not> requestVouches inst sec owner tr then []
      else if \<not> boundToTarget inst sec then []
      else case lineKey sec of None \<Rightarrow> [] | Some v \<Rightarrow> [v])"

fun collectKeys :: "'w instance_reconciler \<Rightarrow> llm_instance \<Rightarrow> secret list \<Rightarrow> ('w, string list) io" where
  "collectKeys r inst [] = retE []"
| "collectKeys r inst (sec # secs) =
     (case keyOwner (irLib r) sec of
        None \<Rightarrow> collectKeys r inst secs
      | Some owner \<Rightarrow>
          tryE (getObj (tokenRequests (irClient r)) (omNamespace (liMeta inst), orName owner))
            (\<lambda>e. if isNotFound e then collectKeys r inst secs else failE (APIErr e))
            (\<lambda>tr. bindE (collectKeys r inst secs) (\<lambda>keys. retE (acceptedKeys inst sec owner tr @ keys))))"

definition bootstrapKey :: "'w instance_reconciler \<Rightarrow> ('w, string \<times> bool) io" where
  "bootstrapKey r = bindE (generateToken (irHost r) 32) (\<lambda>token. retE (token @ newline, True))"

definition desiredAPIKeyFile :: "'w instance_reconciler \<Rightarrow> 'w client \<Rightarrow> llm_instance \<Rightarrow> string \<Rightarrow> ('w, string \<times> bool) io" where
  "desiredAPIKeyFile r remote inst slug =
     bindE (apiE (listObj (secrets (irClient r))
       (inNamespace (omNamespace (liMeta inst)) [(instanceLabelKey, omName (liMeta inst))]))) (\<lambda>secs.
     bindE (collectKeys r inst secs) (\<lambda>keys.
       if keys \<noteq> [] then retE (joinStr (sort keys) newline @ newline, False)
       else
         tryE (getObj (secrets remote) (remoteKey (byocKeySecretName slug)))
           (\<lambda>e. if \<not> isNotFound e then failE (APIErr e) else bootstrapKey r)
           (\<lambda>existing. bindE (checkBYOCObjectOwner (seMeta existing) inst) (\<lambda>_.
              if secAnnotation existing byocBootstrapAnnotation = trueText \<and> getS (seData existing) byocAPIKeyFileKey \<noteq> []
              then retE (getS (seData existing) byocAPIKeyFileKey, True)
              else bootstrapKey r))))"

section \<open>The secret that carries it\<close>

definition newKeySecret :: "llm_instance \<Rightarrow> string \<Rightarrow> string \<Rightarrow> bool \<Rightarrow> secret" where
  "newKeySecret inst slug keyFile bootstrap =
     \<lparr>seMeta = (newMeta byocNamespace (byocKeySecretName slug))\<lparr>omLabels := byocLabels (omName (liMeta inst)) slug,
        omAnnotations := (if bootstrap then (byocOwnedAnnotations inst)(byocBootstrapAnnotation \<mapsto> trueText)
                          else byocOwnedAnnotations inst)\<rparr>,
      seType = secretTypeOpaque, seData = Map.empty, seStringData = [byocAPIKeyFileKey \<mapsto> keyFile]\<rparr>"

definition ensureKeyFile :: "string \<Rightarrow> secret \<Rightarrow> secret \<times> bool" where
  "ensureKeyFile keyFile sec =
     (if getS (seData sec) byocAPIKeyFileKey \<noteq> keyFile then (setData byocAPIKeyFileKey keyFile sec, True) else (sec, False))"

definition ensureBootstrapMark :: "bool \<Rightarrow> secret \<Rightarrow> secret \<times> bool" where
  "ensureBootstrapMark bootstrap sec =
     (if secAnnotation sec byocBootstrapAnnotation \<noteq> (if bootstrap then trueText else [])
      then (if bootstrap then setAnnotation byocBootstrapAnnotation trueText sec
            else dropAnnotation byocBootstrapAnnotation sec, True)
      else (sec, False))"

text \<open>\<^verbatim>\<open>reconcileBYOCKeySecret\<close> returns the resource version that the pods are annotated with.\<close>

definition reconcileBYOCKeySecret :: "'w client \<Rightarrow> llm_instance \<Rightarrow> string \<Rightarrow> string \<Rightarrow> bool \<Rightarrow> ('w, string) io" where
  "reconcileBYOCKeySecret remote inst slug keyFile bootstrap =
     tryE (getObj (secrets remote) (remoteKey (byocKeySecretName slug)))
       (\<lambda>e. if \<not> isNotFound e then failE (APIErr e)
            else bindE (apiE (remoteCreate OSec (secrets remote) (newKeySecret inst slug keyFile bootstrap))) (\<lambda>sec.
              retE (omResourceVersion (seMeta sec))))
       (\<lambda>existing. bindE (checkBYOCObjectOwner (seMeta existing) inst) (\<lambda>_.
          let (sec, updated) = seqEnsure (ensureKeyFile keyFile) (ensureBootstrapMark bootstrap) existing
          in if \<not> updated then retE (omResourceVersion (seMeta sec))
             else bindE (apiE (remoteUpdate OSec (secrets remote) sec)) (\<lambda>sec1. retE (omResourceVersion (seMeta sec1)))))"

section \<open>Lemmas\<close>

lemma emits_collectKeys [emits_intros]: "emits G (collectKeys r inst secs)"
  by (induction secs) (auto intro!: emits_intros)

lemma emits_desiredAPIKeyFile [emits_intros]: "emits G (desiredAPIKeyFile r remote inst slug)"
  unfolding desiredAPIKeyFile_def bootstrapKey_def by (intro emits_intros)

interpretation key_file: converging "ensureKeyFile keyFile" "\<lambda>sec. getS (seData sec) byocAPIKeyFileKey = keyFile" for keyFile
  by unfold_locales (simp_all add: ensureKeyFile_def setData_def)

interpretation bootstrap_mark: converging "ensureBootstrapMark b"
    "\<lambda>sec. secAnnotation sec byocBootstrapAnnotation = (if b then trueText else [])" for b
  by unfold_locales (simp_all add: ensureBootstrapMark_def setAnnotation_def dropAnnotation_def)

interpretation key_secret: converging_pair "ensureKeyFile keyFile" "\<lambda>sec. getS (seData sec) byocAPIKeyFileKey = keyFile"
    "ensureBootstrapMark b" "\<lambda>sec. secAnnotation sec byocBootstrapAnnotation = (if b then trueText else [])" for keyFile b
  by unfold_locales (simp add: ensureBootstrapMark_def setAnnotation_def dropAnnotation_def)

lemma key_secret_owned:
  assumes "byocOwned (seMeta sec) inst" and "seqEnsure (ensureKeyFile f) (ensureBootstrapMark b) sec = (sec', u)"
  shows "byocOwned (seMeta sec') inst"
proof -
  have "byocBootstrapAnnotation \<noteq> byocOwnerUIDAnnotation"
    by (simp add: byocBootstrapAnnotation_def byocOwnerUIDAnnotation_def)
  with assms show ?thesis
    by (auto simp: seqEnsure_def ensureKeyFile_def ensureBootstrapMark_def byocOwned_def setData_def setAnnotation_def
        dropAnnotation_def split: if_splits)
qed

lemma emits_reconcileBYOCKeySecret: "emits (workloadWrite inst) (reconcileBYOCKeySecret remote inst slug f b)"
  unfolding reconcileBYOCKeySecret_def Let_def
  by (intro emits_owned emits_intros)
    (auto simp: newKeySecret_def newMeta_def createdFor_def byocOwnedAnnotations_def byocBootstrapAnnotation_def
      byocOwnerUIDAnnotation_def lookupD_def intro: key_secret_owned)

section \<open>The file on a snapshot\<close>

text \<open>The secret opens the tenant's server with key \<open>k\<close>: it is a live opaque secret of the instance's
  namespace, labelled with its name and controlled by an APITokenRequest; that request is live,
  names the instance and the secret; and the secret is bound to this instance and to the active
  target.\<close>

definition opensTarget :: "kube_lib \<Rightarrow> snapshot \<Rightarrow> llm_instance \<Rightarrow> secret \<Rightarrow> string \<Rightarrow> bool" where
  "opensTarget L v inst sec k =
     (omNamespace (seMeta sec) = omNamespace (liMeta inst) \<and> omLabels (seMeta sec) instanceLabelKey = Some (omName (liMeta inst)) \<and>
      seType sec = secretTypeOpaque \<and> omDeletion (seMeta sec) = None \<and>
      (\<exists>owner tr. getControllerOf L (seMeta sec) = Some owner \<and> orKind owner = ''APITokenRequest'' \<and>
         orAPIVersion owner = groupVersion \<and> snTokens v (omNamespace (liMeta inst), orName owner) = Some tr \<and>
         requestVouches inst sec owner tr) \<and>
      boundToTarget inst sec \<and> lineKey sec = Some k)"

definition keysOn :: "kube_lib \<Rightarrow> snapshot \<Rightarrow> llm_instance \<Rightarrow> secret \<Rightarrow> string list" where
  "keysOn L v inst sec =
     (case keyOwner L sec of
        None \<Rightarrow> []
      | Some owner \<Rightarrow> (case snTokens v (omNamespace (liMeta inst), orName owner) of
          None \<Rightarrow> [] | Some tr \<Rightarrow> acceptedKeys inst sec owner tr))"

lemma collectKeys_refines:
  assumes "readsFrom v (irClient r)"
  shows "collectKeys r inst secs = retE (concat (map (keysOn (irLib r) v inst) secs))"
proof (induction secs)
  case Nil
  show ?case by simp
next
  case (Cons sec secs)
  have "getObj (tokenRequests (irClient r)) k = liftE (foundOr404 (snTokens v k))" for k
    by (rule getObj_reads) (use assms in \<open>unfold readsFrom_def, blast\<close>)
  with Cons.IH show ?case
    by (auto simp: keysOn_def foundOr404_def isNotFound_def tryE_def bindE_def liftE_def retE_def fun_eq_iff split: option.split)
qed

lemma set_keysOn:
  assumes "omNamespace (seMeta sec) = omNamespace (liMeta inst)" "omLabels (seMeta sec) instanceLabelKey = Some (omName (liMeta inst))"
  shows "set (keysOn L v inst sec) = {k. opensTarget L v inst sec k}"
proof (cases "getControllerOf L (seMeta sec)")
  case None
  then show ?thesis by (simp add: keysOn_def opensTarget_def keyOwner_def)
next
  case (Some owner)
  then show ?thesis
    using assms
    by (cases "snTokens v (omNamespace (liMeta inst), orName owner)"; cases "lineKey sec")
      (auto simp: keysOn_def opensTarget_def keyOwner_def acceptedKeys_def)
qed

definition fileKeys :: "kube_lib \<Rightarrow> snapshot \<Rightarrow> llm_instance \<Rightarrow> string list" where
  "fileKeys L v inst = concat (map (keysOn L v inst)
     (selectSecrets v (inNamespace (omNamespace (liMeta inst)) [(instanceLabelKey, omName (liMeta inst))])))"

lemma set_fileKeys: "set (fileKeys L v inst) = {k. \<exists>sec \<in> set (snSecrets v). opensTarget L v inst sec k}"
proof -
  let ?sel = "selectSecrets v (inNamespace (omNamespace (liMeta inst)) [(instanceLabelKey, omName (liMeta inst))])"
  have "set (keysOn L v inst sec) = {k. opensTarget L v inst sec k}" if "sec \<in> set ?sel" for sec
    using that by (intro set_keysOn) (auto simp: selectSecrets_def inNamespace_def)
  moreover have "sec \<in> set ?sel" if "sec \<in> set (snSecrets v)" "opensTarget L v inst sec k" for sec k
    using that by (auto simp: selectSecrets_def inNamespace_def opensTarget_def)
  moreover have "set ?sel \<subseteq> set (snSecrets v)" by (auto simp: selectSecrets_def)
  ultimately have "(\<exists>sec \<in> set ?sel. k \<in> set (keysOn L v inst sec)) \<longleftrightarrow> (\<exists>sec \<in> set (snSecrets v). opensTarget L v inst sec k)" for k
    by blast
  then show ?thesis by (simp add: fileKeys_def set_eq_iff)
qed

lemma desiredAPIKeyFile_refines:
  assumes "readsFrom v (irClient r)"
  shows "desiredAPIKeyFile r remote inst slug =
    (if fileKeys (irLib r) v inst \<noteq> [] then retE (joinStr (sort (fileKeys (irLib r) v inst)) newline @ newline, False)
     else tryE (getObj (secrets remote) (remoteKey (byocKeySecretName slug)))
           (\<lambda>e. if \<not> isNotFound e then failE (APIErr e) else bootstrapKey r)
           (\<lambda>existing. bindE (checkBYOCObjectOwner (seMeta existing) inst) (\<lambda>_.
              if secAnnotation existing byocBootstrapAnnotation = trueText \<and> getS (seData existing) byocAPIKeyFileKey \<noteq> []
              then retE (getS (seData existing) byocAPIKeyFileKey, True)
              else bootstrapKey r)))"
proof -
  have l: "listObj (secrets (irClient r)) l = liftE (Inr (selectSecrets v l))" for l
    by (rule listObj_reads) (use assms in \<open>unfold readsFrom_def, blast\<close>)
  have b: "bindE (apiE (liftE (Inr x))) f = f x" "bindE (retE y) g = g y" for x f y g
    by (simp_all add: bindE_def apiE_def tryE_def liftE_def retE_def fun_eq_iff)
  show ?thesis
    unfolding desiredAPIKeyFile_def l b collectKeys_refines [OF assms] fileKeys_def [symmetric] ..
qed

lemma yields_bootstrapKey: "yields (bootstrapKey r) (\<lambda>(file, b). b \<and> (\<exists>bytes. drawn (irHost r) 32 bytes \<and> file = base64Raw bytes @ newline))"
  unfolding bootstrapKey_def
  by (rule yields_bindE [OF yields_generateToken]) (auto intro!: yields_intros)

text \<open>The lines of the file are the keys, in order.\<close>

lemma keyfile_lines:
  assumes "keys \<noteq> []" and "\<forall>k \<in> set keys. CHR 0x0A \<notin> set k"
  shows "splitOn (CHR 0x0A) (joinStr keys newline @ newline) = keys @ [[]]"
  using assms unfolding newline_def
  by (induction keys "[CHR 0x0A]" rule: joinStr.induct) (auto simp: splitOn_append)

lemma lineKey_line: "lineKey sec = Some k \<Longrightarrow> CHR 0x0A \<notin> set k"
  by (simp add: lineKey_def split: option.splits if_splits)

section \<open>Properties\<close>

text \<open>\<^bold>\<open>C22.\<close> The key file of a tenant's server is exact: when the operator reads from one snapshot, the lines of
  the file are, sorted, exactly the keys of the secrets that open this target (no key of another
  instance, another target or a deleted request gets in, none that belongs is left out, and no key
  can smuggle in a second line).  If there is none the server stays locked behind a bootstrap key: a
  fresh one, or the content of the owned secret that is already there and is marked as holding a
  bootstrap key.  So once the last key is revoked no file that served keys is kept.\<close>

theorem byoc_keyfile_exact:
  assumes "readsFrom v (irClient r)" and "desiredAPIKeyFile r remote inst slug s = (Inr (file, bootstrap), s')"
  shows "let keys = {k. \<exists>sec \<in> set (snSecrets v). opensTarget (irLib r) v inst sec k} in
    (bootstrap \<longleftrightarrow> keys = {}) \<and>
    (if bootstrap
     then (\<exists>bytes. drawn (irHost r) 32 bytes \<and> file = base64Raw bytes @ newline) \<or>
          (\<exists>sec. serves (secrets remote) (remoteKey (byocKeySecretName slug)) sec \<and> byocOwned (seMeta sec) inst \<and>
             secAnnotation sec byocBootstrapAnnotation = trueText \<and>
             file = getS (seData sec) byocAPIKeyFileKey \<and> file \<noteq> [])
     else \<exists>lines. splitOn (CHR 0x0A) file = lines @ [[]] \<and> sorted lines \<and> set lines = keys)"
proof (cases "fileKeys (irLib r) v inst = []")
  case True
  have "yields (desiredAPIKeyFile r remote inst slug) (\<lambda>(file, b). b \<and>
      ((\<exists>bytes. drawn (irHost r) 32 bytes \<and> file = base64Raw bytes @ newline) \<or>
       (\<exists>sec. serves (secrets remote) (remoteKey (byocKeySecretName slug)) sec \<and> byocOwned (seMeta sec) inst \<and>
             secAnnotation sec byocBootstrapAnnotation = trueText \<and>
             file = getS (seData sec) byocAPIKeyFileKey \<and> file \<noteq> [])))"
    unfolding desiredAPIKeyFile_refines [OF assms(1)] using True
    by (auto intro!: yields_tryE [OF yields_getObj] yields_bindE [OF yields_checkBYOCObjectOwner] yields_intros
        yields_weaken [OF yields_bootstrapKey])
  from yieldsD [OF this assms(2)] True set_fileKeys [of "irLib r" v inst] show ?thesis by (auto simp: Let_def)
next
  case False
  let ?keys = "fileKeys (irLib r) v inst"
  have "\<forall>k \<in> set (sort ?keys). CHR 0x0A \<notin> set k"
    unfolding set_sort set_fileKeys opensTarget_def using lineKey_line by blast
  moreover have "sort ?keys \<noteq> []" using False by (metis length_0_conv length_sort)
  ultimately have "splitOn (CHR 0x0A) (joinStr (sort ?keys) newline @ newline) = sort ?keys @ [[]]"
    by (intro keyfile_lines)
  moreover have "file = joinStr (sort ?keys) newline @ newline" "\<not> bootstrap"
    using assms(2) False unfolding desiredAPIKeyFile_refines [OF assms(1)] by (simp_all add: retE_def)
  ultimately have "\<exists>lines. splitOn (CHR 0x0A) file = lines @ [[]] \<and> sorted lines \<and> set lines = set ?keys"
    by (metis set_sort sorted_sort)
  moreover have "set ?keys \<noteq> {}" using False by simp
  ultimately show ?thesis
    using \<open>\<not> bootstrap\<close> unfolding Let_def set_fileKeys by (simp only: if_False)
qed

section \<open>Witnesses\<close>

definition targetInstance :: llm_instance where
  "targetInstance = demoInstance\<lparr>liStatus := (liStatus demoInstance)\<lparr>stActiveBYOCTargetID := ''t1''\<rparr>\<rparr>"

definition targetSecret :: secret where
  "targetSecret = setAnnotation credentialTargetAnnotation ''t1'' demoSecret"

definition targetSnapshot :: snapshot where
  "targetSnapshot = demoSnapshot\<lparr>snSecrets := [targetSecret]\<rparr>"

definition targetClient :: "unit client" where
  "targetClient = demoClient\<lparr>secrets := (cannedKind absent [])\<lparr>kList := (\<lambda>l w. (Inr (selectSecrets targetSnapshot l), w))\<rparr>\<rparr>"

lemma target_reads: "readsFrom targetSnapshot (irClient (demoReconciler targetClient))"
  by (simp add: readsFrom_def demoReconciler_def targetClient_def demoClient_def cannedKind_def emptyClient_def targetSnapshot_def)

lemma target_opens: "opensTarget sampleLib targetSnapshot targetInstance targetSecret ''k''"
  by (simp add: opensTarget_def targetSecret_def demoSecret_def setAnnotation_def secretTypeOpaque_def sampleLib_def
      controllerOf_def controllerRef_def targetSnapshot_def demoSnapshot_def boundToTarget_def lineKey_def token_keys
      requestVouches_def demoToken_def newMeta_def)
    (simp add: targetInstance_def demoInstance_def sampleObj_def newMeta_def)

lemma demoReconciler_lib [simp]: "irLib (demoReconciler c) = sampleLib" "irHost (demoReconciler c) = sampleHost"
  by (simp_all add: demoReconciler_def)

lemma target_keys: "fileKeys sampleLib targetSnapshot targetInstance \<noteq> []"
  using target_opens set_fileKeys [of sampleLib targetSnapshot targetInstance]
  by (auto simp: targetSnapshot_def)

lemma target_run:
  "desiredAPIKeyFile (demoReconciler targetClient) emptyClient targetInstance ''alpha'' startSys =
     (Inr (joinStr (sort (fileKeys sampleLib targetSnapshot targetInstance)) newline @ newline, False), startSys)"
  using target_keys by (simp add: desiredAPIKeyFile_refines [OF target_reads] retE_def)

theorem byoc_keyfile_exact_witness:
  "{k. \<exists>sec \<in> set (snSecrets targetSnapshot). opensTarget sampleLib targetSnapshot targetInstance sec k} \<noteq> {}"
  using byoc_keyfile_exact [OF target_reads target_run] by (simp add: Let_def)

end
