(* ===== verification/ByocAddress.thy ===== *)
theory ByocAddress
  imports GoNetIP
begin

text \<open>
  \<^verbatim>\<open>internal/controller/llminstance_byoc_tls.go\<close>, \<^verbatim>\<open>validBYOCDNSTarget\<close>: the addresses of load balancers on
  a tenant's cluster that the operator's DNS may point to, and their description as intervals.
\<close>

definition specialRanges :: "(addr \<times> nat) list" where
  "specialRanges = [(ip4 0 0 0 0, 8), (ip4 100 64 0 0, 10), (ip4 192 0 0 0, 24), (ip4 192 0 2 0, 24), (ip4 198 18 0 0, 15),
     (ip4 198 51 100 0, 24), (ip4 203 0 113 0, 24), (ip4 240 0 0 0, 4), (ip6 [0x2001, 0xdb8], 32), (ip6 [0x2001, 0], 32),
     (ip6 [0x2002], 16), (ip6 [0x64, 0xff9b], 96), (ip6 [0x64, 0xff9b, 1], 48)]"

definition validBYOCDNSTarget :: "string \<Rightarrow> bool" where
  "validBYOCDNSTarget address =
     (case parseIP address of
        None \<Rightarrow> False
      | Some ip \<Rightarrow>
          let a = unmap ip
          in if \<not> isGlobalUnicast a \<or> isPrivate a \<or> isLoopback a \<or> isLinkLocalUnicast a \<or> isUnspecified a then False
             else \<not> list_ex (\<lambda>(base, bits). inPrefix base bits a) specialRanges)"

text \<open>The addresses that the public may be sent to, as intervals of numbers.\<close>

fun publicAddress :: "addr \<Rightarrow> bool" where
  "publicAddress (V4 n) =
     (octets 1 0 0 0 \<le> n \<and> n < octets 224 0 0 0 \<and>
      n \<notin> {octets 10 0 0 0 ..< octets 11 0 0 0} \<and> n \<notin> {octets 100 64 0 0 ..< octets 100 128 0 0} \<and>
      n \<notin> {octets 127 0 0 0 ..< octets 128 0 0 0} \<and> n \<notin> {octets 169 254 0 0 ..< octets 169 255 0 0} \<and>
      n \<notin> {octets 172 16 0 0 ..< octets 172 32 0 0} \<and> n \<notin> {octets 192 0 0 0 ..< octets 192 0 1 0} \<and>
      n \<notin> {octets 192 0 2 0 ..< octets 192 0 3 0} \<and> n \<notin> {octets 192 168 0 0 ..< octets 192 169 0 0} \<and>
      n \<notin> {octets 198 18 0 0 ..< octets 198 20 0 0} \<and> n \<notin> {octets 198 51 100 0 ..< octets 198 51 101 0} \<and>
      n \<notin> {octets 203 0 113 0 ..< octets 203 0 114 0})"
| "publicAddress (V6 n) =
     (n \<noteq> 0 \<and> n \<noteq> 1 \<and> n < 0xff * 2 ^ 120 \<and>
      n \<notin> {0x64ff9b * 2 ^ 96 ..< 0x64ff9b * 2 ^ 96 + 2 ^ 32} \<and> n \<notin> {0x64ff9b0001 * 2 ^ 80 ..< 0x64ff9b0002 * 2 ^ 80} \<and>
      n \<notin> {0x20010000 * 2 ^ 96 ..< 0x20010001 * 2 ^ 96} \<and> n \<notin> {0x20010db8 * 2 ^ 96 ..< 0x20010db9 * 2 ^ 96} \<and>
      n \<notin> {0x2002 * 2 ^ 112 ..< 0x2003 * 2 ^ 112} \<and> n \<notin> {0xfc * 2 ^ 120 ..< 0xfe * 2 ^ 120} \<and>
      n \<notin> {0xfe8 * 2 ^ 116 ..< 0xfec * 2 ^ 116})"

lemma same_block:
  fixes n base k :: int
  assumes "0 < k" and "base mod k = 0"
  shows "n div k = base div k \<longleftrightarrow> n \<in> {base ..< base + k}"
proof -
  obtain q where q: "base = k * q" using assms(2) by (auto simp: mod_eq_0_iff_dvd elim: dvdE)
  have "n div k = q \<longleftrightarrow> k * q \<le> n \<and> n < k * q + k"
  proof
    assume "n div k = q"
    then show "k * q \<le> n \<and> n < k * q + k"
      using mult_div_mod_eq [of k n] pos_mod_bound [OF assms(1), of n] pos_mod_sign [OF assms(1), of n] by auto
  next
    assume "k * q \<le> n \<and> n < k * q + k"
    then show "n div k = q" by (intro int_div_pos_eq [of n k q "n - k * q"]) auto
  qed
  with q assms(1) show ?thesis by simp
qed

lemma inPrefix_V4:
  assumes "octets a b c d mod 2 ^ (32 - bits) = 0"
  shows "inPrefix (ip4 a b c d) bits (V4 n) \<longleftrightarrow> n \<in> {octets a b c d ..< octets a b c d + 2 ^ (32 - bits)}"
  using same_block [OF _ assms, of n] by (simp add: ip4_def)

lemma inPrefix_V6:
  assumes "groupsValue (gs @ replicate (8 - length gs) 0) mod 2 ^ (128 - bits) = 0"
  shows "inPrefix (ip6 gs) bits (V6 n) \<longleftrightarrow> n \<in> {groupsValue (gs @ replicate (8 - length gs) 0) ..<
    groupsValue (gs @ replicate (8 - length gs) 0) + 2 ^ (128 - bits)}"
  using same_block [OF _ assms, of n] by (simp add: ip6_def)

lemma inPrefix_mixed [simp]: "\<not> inPrefix (ip4 a b c d) bits (V6 n)" "\<not> inPrefix (ip6 gs) bits (V4 n)"
  by (simp_all add: ip4_def ip6_def)

lemmas address_classes =
  isGlobalUnicast_def isPrivate_def isLoopback_def isLinkLocalUnicast_def isMulticast_def isUnspecified_def

lemma v4_blocks:
  "inPrefix (ip4 127 0 0 0) 8 (V4 n) \<longleftrightarrow> n \<in> {octets 127 0 0 0 ..< octets 128 0 0 0}"
  "inPrefix (ip4 224 0 0 0) 4 (V4 n) \<longleftrightarrow> n \<in> {octets 224 0 0 0 ..< octets 240 0 0 0}"
  "inPrefix (ip4 169 254 0 0) 16 (V4 n) \<longleftrightarrow> n \<in> {octets 169 254 0 0 ..< octets 169 255 0 0}"
  "inPrefix (ip4 10 0 0 0) 8 (V4 n) \<longleftrightarrow> n \<in> {octets 10 0 0 0 ..< octets 11 0 0 0}"
  "inPrefix (ip4 172 16 0 0) 12 (V4 n) \<longleftrightarrow> n \<in> {octets 172 16 0 0 ..< octets 172 32 0 0}"
  "inPrefix (ip4 192 168 0 0) 16 (V4 n) \<longleftrightarrow> n \<in> {octets 192 168 0 0 ..< octets 192 169 0 0}"
  "inPrefix (ip4 0 0 0 0) 8 (V4 n) \<longleftrightarrow> n \<in> {0 ..< octets 1 0 0 0}"
  "inPrefix (ip4 100 64 0 0) 10 (V4 n) \<longleftrightarrow> n \<in> {octets 100 64 0 0 ..< octets 100 128 0 0}"
  "inPrefix (ip4 192 0 0 0) 24 (V4 n) \<longleftrightarrow> n \<in> {octets 192 0 0 0 ..< octets 192 0 1 0}"
  "inPrefix (ip4 192 0 2 0) 24 (V4 n) \<longleftrightarrow> n \<in> {octets 192 0 2 0 ..< octets 192 0 3 0}"
  "inPrefix (ip4 198 18 0 0) 15 (V4 n) \<longleftrightarrow> n \<in> {octets 198 18 0 0 ..< octets 198 20 0 0}"
  "inPrefix (ip4 198 51 100 0) 24 (V4 n) \<longleftrightarrow> n \<in> {octets 198 51 100 0 ..< octets 198 51 101 0}"
  "inPrefix (ip4 203 0 113 0) 24 (V4 n) \<longleftrightarrow> n \<in> {octets 203 0 113 0 ..< octets 203 0 114 0}"
  "inPrefix (ip4 240 0 0 0) 4 (V4 n) \<longleftrightarrow> n \<in> {octets 240 0 0 0 ..< 2 ^ 32}"
  by (subst inPrefix_V4; simp add: octets_def)+

lemma zeros:
  "replicate 7 (0::int) = [0, 0, 0, 0, 0, 0, 0]" "replicate 6 (0::int) = [0, 0, 0, 0, 0, 0]"
  "replicate 5 (0::int) = [0, 0, 0, 0, 0]"
  by (simp_all add: numeral_eq_Suc)

lemma v6_blocks:
  "inPrefix (ip6 [0xff00]) 8 (V6 n) \<longleftrightarrow> n \<in> {0xff * 2 ^ 120 ..< 2 ^ 128}"
  "inPrefix (ip6 [0xfe80]) 10 (V6 n) \<longleftrightarrow> n \<in> {0xfe8 * 2 ^ 116 ..< 0xfec * 2 ^ 116}"
  "inPrefix (ip6 [0xfc00]) 7 (V6 n) \<longleftrightarrow> n \<in> {0xfc * 2 ^ 120 ..< 0xfe * 2 ^ 120}"
  "inPrefix (ip6 [0x2001, 0xdb8]) 32 (V6 n) \<longleftrightarrow> n \<in> {0x20010db8 * 2 ^ 96 ..< 0x20010db9 * 2 ^ 96}"
  "inPrefix (ip6 [0x2001, 0]) 32 (V6 n) \<longleftrightarrow> n \<in> {0x20010000 * 2 ^ 96 ..< 0x20010001 * 2 ^ 96}"
  "inPrefix (ip6 [0x2002]) 16 (V6 n) \<longleftrightarrow> n \<in> {0x2002 * 2 ^ 112 ..< 0x2003 * 2 ^ 112}"
  "inPrefix (ip6 [0x64, 0xff9b]) 96 (V6 n) \<longleftrightarrow> n \<in> {0x64ff9b * 2 ^ 96 ..< 0x64ff9b * 2 ^ 96 + 2 ^ 32}"
  "inPrefix (ip6 [0x64, 0xff9b, 1]) 48 (V6 n) \<longleftrightarrow> n \<in> {0x64ff9b0001 * 2 ^ 80 ..< 0x64ff9b0002 * 2 ^ 80}"
  by (subst inPrefix_V6; simp add: groupsValue_def zeros)+

definition publicUnicast :: "addr \<Rightarrow> bool" where
  "publicUnicast a = (isGlobalUnicast a \<and> \<not> isPrivate a \<and> \<not> isLoopback a \<and> \<not> isLinkLocalUnicast a \<and> \<not> isUnspecified a \<and>
     \<not> list_ex (\<lambda>(base, bits). inPrefix base bits a) specialRanges)"

lemma special_V4:
  "list_ex (\<lambda>(base, bits). inPrefix base bits (V4 n)) specialRanges \<longleftrightarrow>
     n \<in> {0 ..< octets 1 0 0 0} \<or> n \<in> {octets 100 64 0 0 ..< octets 100 128 0 0} \<or> n \<in> {octets 192 0 0 0 ..< octets 192 0 1 0} \<or>
     n \<in> {octets 192 0 2 0 ..< octets 192 0 3 0} \<or> n \<in> {octets 198 18 0 0 ..< octets 198 20 0 0} \<or>
     n \<in> {octets 198 51 100 0 ..< octets 198 51 101 0} \<or> n \<in> {octets 203 0 113 0 ..< octets 203 0 114 0} \<or>
     n \<in> {octets 240 0 0 0 ..< 2 ^ 32}"
  unfolding specialRanges_def by (simp only: list_ex_iff list.set v4_blocks [symmetric]) simp

lemma special_V6:
  "list_ex (\<lambda>(base, bits). inPrefix base bits (V6 n)) specialRanges \<longleftrightarrow>
     n \<in> {0x20010db8 * 2 ^ 96 ..< 0x20010db9 * 2 ^ 96} \<or> n \<in> {0x20010000 * 2 ^ 96 ..< 0x20010001 * 2 ^ 96} \<or>
     n \<in> {0x2002 * 2 ^ 112 ..< 0x2003 * 2 ^ 112} \<or> n \<in> {0x64ff9b * 2 ^ 96 ..< 0x64ff9b * 2 ^ 96 + 2 ^ 32} \<or>
     n \<in> {0x64ff9b0001 * 2 ^ 80 ..< 0x64ff9b0002 * 2 ^ 80}"
  unfolding specialRanges_def by (simp only: list_ex_iff list.set v6_blocks [symmetric]) simp

lemma publicAddress_V4:
  assumes "0 \<le> n" "n < 2 ^ 32"
  shows "publicUnicast (V4 n) \<longleftrightarrow> publicAddress (V4 n)"
proof -
  have low: "n \<in> {0 ..< octets 1 0 0 0} \<longleftrightarrow> \<not> octets 1 0 0 0 \<le> n" using assms(1) by auto
  have high: "n < octets 224 0 0 0 \<longleftrightarrow> n \<notin> {octets 224 0 0 0 ..< octets 240 0 0 0} \<and> n \<notin> {octets 240 0 0 0 ..< 2 ^ 32}"
    using assms(2) by (auto simp: octets_def)
  have zero: "octets 1 0 0 0 \<le> n \<Longrightarrow> n \<noteq> 0" by (auto simp: octets_def)
  have bcast: "V4 n = ip4 255 255 255 255 \<Longrightarrow> n \<in> {octets 240 0 0 0 ..< 2 ^ 32}" by (simp add: ip4_def octets_def)
  show ?thesis
    unfolding publicUnicast_def publicAddress.simps address_classes v4_blocks special_V4 inPrefix_mixed addr.inject addr.distinct
    using low high zero bcast by (simp only: inPrefix_mixed addr.distinct addr.inject simp_thms) blast
qed

lemma publicAddress_V6:
  assumes "n < 2 ^ 128"
  shows "publicUnicast (V6 n) \<longleftrightarrow> publicAddress (V6 n)"
proof -
  have high: "n < 0xff * 2 ^ 120 \<longleftrightarrow> n \<notin> {0xff * 2 ^ 120 ..< 2 ^ 128}" using assms by auto
  show ?thesis
    unfolding publicUnicast_def publicAddress.simps address_classes v6_blocks special_V6 inPrefix_mixed addr.inject addr.distinct
    using high by (simp add: ip4_def) blast
qed

lemma unmap_range:
  assumes "parseIP s = Some ip" "unmap ip = a"
  shows "case a of V4 n \<Rightarrow> 0 \<le> n \<and> n < 2 ^ 32 | V6 n \<Rightarrow> n < 2 ^ 128"
  using assms parseIP_v4_range [of s] parseIP_v6_range [of s]
  by (cases ip) (auto split: if_splits)

text \<open>
  \<^bold>\<open>C14.\<close> The operator's DNS is pointed to an address exactly when it is the address of a public
  host: the text is an IP address (one mapped into IPv6 counts as the IPv4 address it carries), and
  its number is outside every private, loopback, link-local, shared, documentation, benchmark,
  multicast, reserved, translation and tunnelling block.  The check by prefixes in the code and the
  intervals of \<^term>\<open>publicAddress\<close> agree on every string.
\<close>

theorem byoc_dns_target_public:
  "validBYOCDNSTarget address \<longleftrightarrow> (\<exists>ip. parseIP address = Some ip \<and> publicAddress (unmap ip))"
proof (cases "parseIP address")
  case None
  then show ?thesis by (simp add: validBYOCDNSTarget_def)
next
  case (Some ip)
  have "publicUnicast (unmap ip) \<longleftrightarrow> publicAddress (unmap ip)"
    using unmap_range [OF Some refl] publicAddress_V4 publicAddress_V6 by (cases "unmap ip") auto
  moreover have "validBYOCDNSTarget address = publicUnicast (unmap ip)"
    unfolding validBYOCDNSTarget_def publicUnicast_def Let_def Some option.case by (simp only: if_bool_eq_conj) blast
  ultimately show ?thesis using Some by simp
qed

end
