(* ===== verification/ByocTLS.thy ===== *)
theory ByocTLS
  imports ByocWorkload ByocAddress
begin

text \<open>
  \<^verbatim>\<open>internal/controller/llminstance_byoc_tls.go\<close>: the certificate and DNS entry of an instance on a tenant's
  cluster, the delivery of the validated key pair to that cluster, and the removal of all of it.
  Certificates and DNS entries are objects of the operator's own cluster, in a namespace of their
  own; the controllers that act on them are outside the repository.
\<close>

section \<open>Names and identity\<close>

definition byocTLSOwnerLabel :: string where "byocTLSOwnerLabel = ''llm.privatellms.msp/tls-owner-uid''"
definition byocTLSCertificateLabel :: string where "byocTLSCertificateLabel = ''llm.privatellms.msp/tls-certificate-uid''"
definition byocTLSTargetLabel :: string where "byocTLSTargetLabel = ''llm.privatellms.msp/tls-target''"
definition byocTLSRenewalMargin :: time where "byocTLSRenewalMargin = 2 * 60 * 1000000000"
definition byocCertificateReadyState :: string where "byocCertificateReadyState = ''Ready''"
definition byocTLSRevokedAnnotation :: string where "byocTLSRevokedAnnotation = ''cert.gardener.cloud/revoked''"
definition byocTLSRevokedValue :: string where "byocTLSRevokedValue = ''true''"
definition byocDNSClassAnnotation :: string where "byocDNSClassAnnotation = ''dns.gardener.cloud/class''"
definition certificateAPIVersion :: string where "certificateAPIVersion = ''cert.gardener.cloud/v1alpha1''"
definition certificateKind :: string where "certificateKind = ''Certificate''"
definition tlsCertKey :: string where "tlsCertKey = ''tls.crt''"
definition tlsPrivateKeyKey :: string where "tlsPrivateKeyKey = ''tls.key''"

definition errTLSNotReady :: "string \<Rightarrow> goerr" where
  "errTLSNotReady msg = Errorf msg [ErrBYOCTLSNotReady]"

text \<open>\<^verbatim>\<open>byocTLSIdentity\<close>: the object name and the host name of an instance on a target.\<close>

definition byocTLSName :: "llm_instance \<Rightarrow> string \<Rightarrow> string" where
  "byocTLSName inst targetID = ''byoc-'' @ take 32 (hexEncode (sha256 (omUID (liMeta inst) @ nul @ targetID)))"

definition byocTLSIdentity :: "kube_lib \<Rightarrow> llm_instance \<Rightarrow> byoc_tls_config \<Rightarrow> string \<Rightarrow> goerr + (string \<times> string)" where
  "byocTLSIdentity L inst cfg targetID =
     (if omUID (liMeta inst) = [] then Inl (errNew ''BYOC TLS requires an instance UID'')
      else if \<not> isDNS1123Subdomain L (btDomain cfg) \<or> CHR ''.'' \<notin> set (btDomain cfg)
      then Inl (errNew ''BYOC TLS requires an operator configured DNS domain'')
      else if \<not> isDNS1123Label L (btNamespace cfg) \<or> btNamespace cfg = omNamespace (liMeta inst)
      then Inl (errNew ''BYOC TLS requires a separate operator credential namespace'')
      else if targetID = [] then Inl (errNew ''BYOC TLS requires a verified target identity'')
      else
        let name = byocTLSName inst targetID; hostname = name @ ''.'' @ btDomain cfg
        in if \<not> isDNS1123Subdomain L hostname then Inl (errNew ''BYOC TLS hostname is invalid'')
           else Inr (name, hostname))"

definition validateBYOCTLSIssuer :: "kube_lib \<Rightarrow> byoc_tls_config \<Rightarrow> goerr option" where
  "validateBYOCTLSIssuer L cfg =
     (if btIssuerName cfg = [] \<or> \<not> isDNS1123Subdomain L (btIssuerName cfg)
      then Some (errNew ''BYOC TLS requires a valid issuer name'')
      else if btIssuerNamespace cfg \<noteq> [] \<and> \<not> isDNS1123Label L (btIssuerNamespace cfg)
      then Some (errNew ''BYOC TLS issuer namespace is invalid'')
      else None)"

definition byocIssuerRef :: "byoc_tls_config \<Rightarrow> string \<rightharpoonup> jvalue" where
  "byocIssuerRef cfg =
     (if btIssuerNamespace cfg \<noteq> []
      then [''name'' \<mapsto> JStr (btIssuerName cfg), ''namespace'' \<mapsto> JStr (btIssuerNamespace cfg)]
      else [''name'' \<mapsto> JStr (btIssuerName cfg)])"

definition byocTLSObject :: "string \<Rightarrow> string \<Rightarrow> unstructured" where
  "byocTLSObject ns name = \<lparr>unMeta = newMeta ns name, unSpec = None, unStatus = None\<rparr>"

definition byocTLSOwned :: "objmeta \<Rightarrow> llm_instance \<Rightarrow> bool" where
  "byocTLSOwned m inst = (getS (omLabels m) byocTLSOwnerLabel = omUID (liMeta inst) \<and> omUID (liMeta inst) \<noteq> [] \<and> omOwners m = [])"

definition requireBYOCTLSOwner :: "objmeta \<Rightarrow> llm_instance \<Rightarrow> ('w, unit) io" where
  "requireBYOCTLSOwner m inst =
     (if getS (omLabels m) byocTLSOwnerLabel \<noteq> omUID (liMeta inst) \<or> omUID (liMeta inst) = []
      then failE (errNew (''refusing foreign BYOC TLS object '' @ omNamespace m @ ''/'' @ omName m))
      else if omOwners m \<noteq> []
      then failE (errNew (''unexpected ownerReference on BYOC TLS object '' @ omNamespace m @ ''/'' @ omName m))
      else retE ())"

definition byocTLSTarget :: "string \<Rightarrow> goerr + string" where
  "byocTLSTarget targetID =
     (if targetID = [] then Inl (errNew ''BYOC TLS requires a verified target identity'')
      else Inr (take 32 (hexEncode (sha256 targetID))))"

text \<open>Passing on an optional error.\<close>

definition errE :: "goerr option \<Rightarrow> ('w, unit) io" where
  "errE e = (case e of Some x \<Rightarrow> failE x | None \<Rightarrow> retE ())"

section \<open>Certificate\<close>

definition byocCertificateSpec :: "string \<Rightarrow> string \<Rightarrow> string \<Rightarrow> byoc_tls_config \<Rightarrow> llm_instance \<Rightarrow> string \<rightharpoonup> jvalue" where
  "byocCertificateSpec name hostname certificateUID cfg inst =
     (let labels = [byocTLSOwnerLabel \<mapsto> JStr (omUID (liMeta inst))] in
      [''dnsNames'' \<mapsto> JList [JStr hostname],
       ''secretRef'' \<mapsto> JObj [''name'' \<mapsto> JStr name, ''namespace'' \<mapsto> JStr (btNamespace cfg)],
       ''issuerRef'' \<mapsto> JObj (byocIssuerRef cfg),
       ''secretLabels'' \<mapsto> JObj (if certificateUID \<noteq> [] then labels(byocTLSCertificateLabel \<mapsto> JStr certificateUID) else labels)])"

definition preserveField :: "'w byoc_lib \<Rightarrow> unstructured \<Rightarrow> string \<Rightarrow> (string \<rightharpoonup> jvalue) \<Rightarrow> goerr + (string \<rightharpoonup> jvalue)" where
  "preserveField B cert field desired =
     (case blNestedField B cert [''spec'', field] of
        Inl _ \<Rightarrow> Inl (errNew ''invalid BYOC Certificate renewal specification'')
      | Inr None \<Rightarrow> Inr desired
      | Inr (Some JNull) \<Rightarrow> Inr desired
      | Inr (Some value) \<Rightarrow>
          if field = ''renew''
          then (case value of
                  JBool _ \<Rightarrow> Inr (desired(field \<mapsto> value))
                | _ \<Rightarrow> Inl (errNew ''BYOC Certificate renew must be a boolean''))
          else (case value of
                  JStr timestamp \<Rightarrow>
                    if blRFC3339 B timestamp then Inr (desired(field \<mapsto> value))
                    else Inl (errNew ''BYOC Certificate ensureRenewedAfter must be an RFC3339 timestamp'')
                | _ \<Rightarrow> Inl (errNew ''BYOC Certificate ensureRenewedAfter must be an RFC3339 timestamp'')))"

definition preserveBYOCCertificateRenewal :: "'w byoc_lib \<Rightarrow> unstructured \<Rightarrow> (string \<rightharpoonup> jvalue) \<Rightarrow> goerr + (string \<rightharpoonup> jvalue)" where
  "preserveBYOCCertificateRenewal B cert desired =
     (case preserveField B cert ''renew'' desired of
        Inl e \<Rightarrow> Inl e
      | Inr d \<Rightarrow> preserveField B cert ''ensureRenewedAfter'' d)"

text \<open>An owner reference that does not point at the given Certificate.\<close>

definition foreignOwner :: "string \<Rightarrow> string \<Rightarrow> owner_ref \<Rightarrow> bool" where
  "foreignOwner name uid owner = (orAPIVersion owner \<noteq> certificateAPIVersion \<or> orKind owner \<noteq> certificateKind \<or>
     orName owner \<noteq> name \<or> orUID owner \<noteq> uid)"

definition requireBYOCSourceSecret :: "secret \<Rightarrow> unstructured \<Rightarrow> llm_instance \<Rightarrow> goerr option" where
  "requireBYOCSourceSecret sec cert inst =
     (let uid = omUID (unMeta cert); labels = omLabels (seMeta sec) in
      if uid = [] \<or> getS labels byocTLSOwnerLabel \<noteq> omUID (liMeta inst) \<or> getS labels byocTLSCertificateLabel \<noteq> uid
      then Some (errNew ''source TLS Secret is not bound to the instance Certificate'')
      else if list_ex (foreignOwner (omName (unMeta cert)) uid) (omOwners (seMeta sec))
      then Some (errNew ''source TLS Secret has a foreign ownerReference'')
      else if seType sec \<noteq> secretTypeTLS then Some (errNew ''source TLS Secret has an unexpected type'')
      else None)"

text \<open>The only transition that is permitted for a secret that is not bound yet: the first issuance.\<close>

definition firstIssuance :: "'w byoc_lib \<Rightarrow> secret \<Rightarrow> unstructured \<Rightarrow> string \<Rightarrow> llm_instance \<Rightarrow> bool" where
  "firstIssuance B source cert name inst =
     (let labels = omLabels (seMeta source) in
      blNestedString B cert [''spec'', ''secretLabels'', byocTLSCertificateLabel] = [] \<and>
      getS labels byocTLSCertificateLabel = [] \<and> getS labels byocTLSOwnerLabel = omUID (liMeta inst) \<and>
      seType source = secretTypeTLS \<and> \<not> list_ex (foreignOwner name (omUID (unMeta cert))) (omOwners (seMeta source)))"

text \<open>Neither the output secret nor its cache may exist when issuance is requested.\<close>

definition refusePreexisting :: "'w instance_reconciler \<Rightarrow> string \<Rightarrow> string \<Rightarrow> ('w, unit) io" where
  "refusePreexisting r ns secretName =
     tryE (getObj (secrets (irClient r)) (ns, secretName))
       (\<lambda>e. if isNotFound e then retE () else failE (APIErr e))
       (\<lambda>_. failE (errNew (''refusing pre-existing BYOC TLS Secret '' @ ns @ ''/'' @ secretName)))"

definition lastValidName :: "string \<Rightarrow> string" where "lastValidName name = name @ ''-last-valid''"

text \<open>The existing Certificate, or a new one as the server returns it.\<close>

definition obtainCertificate ::
    "'w instance_reconciler \<Rightarrow> llm_instance \<Rightarrow> byoc_tls_config \<Rightarrow> string \<Rightarrow> string \<Rightarrow> ('w, unstructured) io" where
  "obtainCertificate r inst cfg name hostname =
     tryE (getObj (certificates (irClient r)) (btNamespace cfg, name))
       (\<lambda>e. if isNotFound e
            then bindE (forE [name, lastValidName name] (refusePreexisting r (btNamespace cfg))) (\<lambda>_.
              apiE (localCreate OCert (certificates (irClient r))
                ((byocTLSObject (btNamespace cfg) name)\<lparr>
                   unMeta := (newMeta (btNamespace cfg) name)\<lparr>omLabels := [byocTLSOwnerLabel \<mapsto> omUID (liMeta inst)]\<rparr>,
                   unSpec := Some (JObj (byocCertificateSpec name hostname [] cfg inst))\<rparr>)))
            else failE (APIErr e))
       retE"

definition guardSource :: "'w instance_reconciler \<Rightarrow> llm_instance \<Rightarrow> byoc_tls_config \<Rightarrow> string \<Rightarrow> unstructured \<Rightarrow> ('w, unit) io" where
  "guardSource r inst cfg name cert =
     tryE (getObj (secrets (irClient r)) (btNamespace cfg, name))
       (\<lambda>e. if isNotFound e then retE () else failE (APIErr e))
       (\<lambda>source. case requireBYOCSourceSecret source cert inst of
          None \<Rightarrow> retE ()
        | Some err \<Rightarrow> if firstIssuance (irBYOCLib r) source cert name inst then retE () else failE err)"

definition reconcileBYOCManagedCertificate ::
    "'w instance_reconciler \<Rightarrow> llm_instance \<Rightarrow> byoc_tls_config \<Rightarrow> string \<Rightarrow> ('w, unit) io" where
  "reconcileBYOCManagedCertificate r inst cfg targetID =
     bindE (errE (validateBYOCTLSIssuer (irLib r) cfg)) (\<lambda>_.
     bindE (liftE (byocTLSIdentity (irLib r) inst cfg targetID)) (\<lambda>(name, hostname).
     bindE (obtainCertificate r inst cfg name hostname) (\<lambda>cert.
     bindE (requireBYOCTLSOwner (unMeta cert) inst) (\<lambda>_.
       if omDeletion (unMeta cert) \<noteq> None then failE (errTLSNotReady ''Certificate is deleting'')
       else if omUID (unMeta cert) = [] then failE (errTLSNotReady ''Certificate has no UID'')
       else
         bindE (guardSource r inst cfg name cert) (\<lambda>_.
         bindE (liftE (preserveBYOCCertificateRenewal (irBYOCLib r) cert
           (byocCertificateSpec name hostname (omUID (unMeta cert)) cfg inst))) (\<lambda>desired.
           if unSpec cert = Some (JObj desired) then retE ()
           else bindE (apiE (localUpdate OCert (certificates (irClient r)) (cert\<lparr>unSpec := Some (JObj desired)\<rparr>)))
             (\<lambda>_. retE ())))))))"

section \<open>DNS\<close>

definition dnsSpec :: "string \<Rightarrow> string \<Rightarrow> jvalue" where
  "dnsSpec hostname address = JObj [''dnsName'' \<mapsto> JStr hostname, ''targets'' \<mapsto> JList [JStr address], ''ttl'' \<mapsto> JInt 60]"

definition reconcileBYOCDNS ::
    "'w instance_reconciler \<Rightarrow> llm_instance \<Rightarrow> byoc_tls_config \<Rightarrow> string \<Rightarrow> string \<Rightarrow> ('w, unit) io" where
  "reconcileBYOCDNS r inst cfg address targetID =
     (if btDNSClass cfg = [] then failE (errNew ''BYOC TLS DNS class is required'')
      else bindE (liftE (byocTLSIdentity (irLib r) inst cfg targetID)) (\<lambda>(name, hostname).
        if \<not> validBYOCDNSTarget address
        then failE (errNew ''BYOC TLS requires a public unicast LoadBalancer IP address'')
        else
          let desired = dnsSpec hostname address in
          tryE (getObj (dnsEntries (irClient r)) (btNamespace cfg, name))
            (\<lambda>e. if isNotFound e
                 then bindE (apiE (localCreate ODns (dnsEntries (irClient r))
                        ((byocTLSObject (btNamespace cfg) name)\<lparr>
                           unMeta := (newMeta (btNamespace cfg) name)\<lparr>omLabels := [byocTLSOwnerLabel \<mapsto> omUID (liMeta inst)],
                             omAnnotations := [byocDNSClassAnnotation \<mapsto> btDNSClass cfg]\<rparr>,
                           unSpec := Some desired\<rparr>))) (\<lambda>_. retE ())
                 else failE (APIErr e))
            (\<lambda>obj. bindE (requireBYOCTLSOwner (unMeta obj) inst) (\<lambda>_.
               if omDeletion (unMeta obj) \<noteq> None then failE (errTLSNotReady ''DNSEntry is deleting'')
               else if unSpec obj = Some desired \<and> getS (omAnnotations (unMeta obj)) byocDNSClassAnnotation = btDNSClass cfg
               then retE ()
               else bindE (apiE (localUpdate ODns (dnsEntries (irClient r))
                      (obj\<lparr>unMeta := (unMeta obj)\<lparr>omAnnotations :=
                             (omAnnotations (unMeta obj))(byocDNSClassAnnotation \<mapsto> btDNSClass cfg)\<rparr>,
                           unSpec := Some desired\<rparr>))) (\<lambda>_. retE ())))))"

section \<open>Key material\<close>

definition strongKey :: "public_key \<Rightarrow> goerr option" where
  "strongKey k =
     (case k of
        RSAKey bits \<Rightarrow> if bits < 2048 then Some (errNew ''TLS RSA key is too small'') else None
      | ECDSAKey bits \<Rightarrow> if bits < 256 then Some (errNew ''TLS ECDSA key is too small'') else None
      | OtherKey \<Rightarrow> Some (errNew ''TLS certificate has an unsupported public key type''))"

text \<open>The checks on the leaf certificate, in order.\<close>

definition checkLeaf :: "x509_cert \<Rightarrow> string \<Rightarrow> time \<Rightarrow> goerr option" where
  "checkLeaf leaf hostname now =
     (if xcIsCA leaf \<or> xcDNSNames leaf \<noteq> [hostname] \<or> xcIPAddresses leaf \<noteq> [] \<or> xcEmailAddresses leaf \<noteq> [] \<or> xcURIs leaf \<noteq> []
      then Some (errNew ''TLS certificate must contain only the instance DNS SAN'')
      else if \<not> now < xcNotAfter leaf - byocTLSRenewalMargin \<or> now < xcNotBefore leaf
      then Some (errNew ''TLS certificate is outside its usable validity period'')
      else if ServerAuth \<notin> set (xcExtKeyUsage leaf) then Some (errNew ''TLS certificate lacks serverAuth usage'')
      else strongKey (xcPublicKey leaf))"

fun parseAll :: "'w byoc_lib \<Rightarrow> string list \<Rightarrow> x509_cert list option" where
  "parseAll B [] = Some []"
| "parseAll B (raw # raws) =
     (case blParseCertificate B raw of
        None \<Rightarrow> None
      | Some c \<Rightarrow> map_option ((#) c) (parseAll B raws))"

text \<open>\<^verbatim>\<open>validateBYOCTLSMaterial\<close> returns the fingerprint of the leaf.\<close>

definition validateBYOCTLSMaterial :: "'w byoc_lib \<Rightarrow> (string \<rightharpoonup> string) \<Rightarrow> string \<Rightarrow> time \<Rightarrow> goerr + string" where
  "validateBYOCTLSMaterial B data hostname now =
     (case blKeyPair B (getS data tlsCertKey) (getS data tlsPrivateKeyKey) of
        None \<Rightarrow> Inl (errNew ''TLS certificate and key are invalid or do not match'')
      | Some (raw, chain) \<Rightarrow>
        (case blParseCertificate B raw of
           None \<Rightarrow> Inl (errNew ''TLS leaf certificate is invalid'')
         | Some leaf \<Rightarrow>
           (case checkLeaf leaf hostname now of
              Some e \<Rightarrow> Inl e
            | None \<Rightarrow>
              (case parseAll B chain of
                 None \<Rightarrow> Inl (errNew ''TLS certificate chain is invalid'')
               | Some intermediates \<Rightarrow>
                   if \<not> blVerify B leaf hostname intermediates now
                   then Inl (errNew ''TLS certificate chain or hostname verification failed'')
                   else Inr (hexEncode (sha256 (xcRaw leaf)))))))"

section \<open>Delivery\<close>

definition requireBYOCTargetSecret :: "secret \<Rightarrow> llm_instance \<Rightarrow> string \<Rightarrow> ('w, unit) io" where
  "requireBYOCTargetSecret sec inst target =
     bindE (requireBYOCTLSOwner (seMeta sec) inst) (\<lambda>_.
       if getS (omLabels (seMeta sec)) byocTLSTargetLabel \<noteq> target \<or> seType sec \<noteq> secretTypeTLS
       then failE (errNew ''TLS Secret is not bound to the verified target'') else retE ())"

definition copyBYOCTLSData :: "(string \<rightharpoonup> string) \<Rightarrow> string \<rightharpoonup> string" where
  "copyBYOCTLSData data = [tlsCertKey \<mapsto> getS data tlsCertKey, tlsPrivateKeyKey \<mapsto> getS data tlsPrivateKeyKey]"

text \<open>\<^verbatim>\<open>writeBYOCTLSSecret\<close> works on either cluster; the site names the one behind the client.\<close>

definition writeBYOCTLSSecret ::
    "site \<Rightarrow> 'w client \<Rightarrow> key \<Rightarrow> llm_instance \<Rightarrow> string \<Rightarrow> (string \<rightharpoonup> string) \<Rightarrow> ('w, unit) io" where
  "writeBYOCTLSSecret c cl k inst target data =
     tryE (getObj (secrets cl) k)
       (\<lambda>e. if isNotFound e
            then bindE (apiE (createObj c OSec (secrets cl)
                   \<lparr>seMeta = (newMeta (fst k) (snd k))\<lparr>omLabels :=
                      [byocTLSOwnerLabel \<mapsto> omUID (liMeta inst), byocTLSTargetLabel \<mapsto> target]\<rparr>,
                    seType = secretTypeTLS, seData = copyBYOCTLSData data, seStringData = Map.empty\<rparr>)) (\<lambda>_. retE ())
            else failE (APIErr e))
       (\<lambda>sec. bindE (requireBYOCTargetSecret sec inst target) (\<lambda>_.
          if omDeletion (seMeta sec) \<noteq> None then failE (errTLSNotReady ''TLS Secret is deleting'')
          else if seData sec = copyBYOCTLSData data then retE ()
          else bindE (apiE (updateObj c OSec (secrets cl) (sec\<lparr>seData := copyBYOCTLSData data\<rparr>))) (\<lambda>_. retE ())))"

text \<open>The issued material, if the Certificate is ready for its current generation and the material is
  valid; \<open>None\<close> sends the caller to the cache.\<close>

definition issuedMaterial ::
    "'w instance_reconciler \<Rightarrow> llm_instance \<Rightarrow> byoc_tls_config \<Rightarrow> unstructured \<Rightarrow> string \<Rightarrow> string \<Rightarrow> time \<Rightarrow>
     ('w, ((string \<rightharpoonup> string) \<times> string) option) io" where
  "issuedMaterial r inst cfg cert name hostname now =
     tryE (getObj (secrets (irClient r)) (btNamespace cfg, name))
       (\<lambda>e. if isNotFound e then retE None else failE (APIErr e))
       (\<lambda>source.
          case requireBYOCSourceSecret source cert inst of
            Some err \<Rightarrow> failE err
          | None \<Rightarrow>
              if getS (omAnnotations (seMeta source)) byocTLSRevokedAnnotation = byocTLSRevokedValue
              then failE (errTLSNotReady ''certificate has been revoked'')
              else if blNestedString (irBYOCLib r) cert [''status'', ''state''] = byocCertificateReadyState \<and>
                blNestedInt64 (irBYOCLib r) cert [''status'', ''observedGeneration''] = omGeneration (unMeta cert)
              then (case validateBYOCTLSMaterial (irBYOCLib r) (seData source) hostname now of
                      Inr revision \<Rightarrow> retE (Some (seData source, revision))
                    | Inl _ \<Rightarrow> retE None)
              else retE None)"

text \<open>Newly issued material goes to the cache first; without any, the cache must still be valid.\<close>

definition servingMaterial ::
    "'w instance_reconciler \<Rightarrow> llm_instance \<Rightarrow> byoc_tls_config \<Rightarrow> string \<Rightarrow> string \<Rightarrow> string \<Rightarrow> time \<Rightarrow>
     ((string \<rightharpoonup> string) \<times> string) option \<Rightarrow> ('w, (string \<rightharpoonup> string) \<times> string) io" where
  "servingMaterial r inst cfg target name hostname now issued =
     (case issued of
        Some (data, revision) \<Rightarrow>
          bindE (writeBYOCTLSSecret LocalCluster (irClient r) (btNamespace cfg, lastValidName name) inst target data) (\<lambda>_.
            retE (data, revision))
      | None \<Rightarrow>
          tryE (getObj (secrets (irClient r)) (btNamespace cfg, lastValidName name))
            (\<lambda>e. if isNotFound e then failE (errTLSNotReady ''no valid issued certificate'') else failE (APIErr e))
            (\<lambda>cache. bindE (requireBYOCTargetSecret cache inst target) (\<lambda>_.
               case validateBYOCTLSMaterial (irBYOCLib r) (seData cache) hostname now of
                 Inl _ \<Rightarrow> failE (errTLSNotReady ''last serving certificate is no longer valid'')
               | Inr revision \<Rightarrow> retE (seData cache, revision))))"

text \<open>The Certificate must be owned, live, converged and not revoked.\<close>

definition deliverableCertificate ::
    "'w instance_reconciler \<Rightarrow> llm_instance \<Rightarrow> byoc_tls_config \<Rightarrow> string \<Rightarrow> string \<Rightarrow> ('w, unstructured) io" where
  "deliverableCertificate r inst cfg name hostname =
     bindE (apiE (getObj (certificates (irClient r)) (btNamespace cfg, name))) (\<lambda>cert.
     bindE (requireBYOCTLSOwner (unMeta cert) inst) (\<lambda>_.
       if omDeletion (unMeta cert) \<noteq> None then failE (errTLSNotReady ''Certificate is deleting'')
       else
         bindE (liftE (preserveBYOCCertificateRenewal (irBYOCLib r) cert
           (byocCertificateSpec name hostname (omUID (unMeta cert)) cfg inst))) (\<lambda>desired.
           if unSpec cert \<noteq> Some (JObj desired) then failE (errTLSNotReady ''Certificate specification has not converged'')
           else if blNestedString (irBYOCLib r) cert [''status'', ''state''] = ''Revoked'' \<or>
             getS (omAnnotations (unMeta cert)) byocTLSRevokedAnnotation = byocTLSRevokedValue
           then failE (errTLSNotReady ''certificate has been revoked'')
           else retE cert)))"

definition reconcileBYOCTLSSecret ::
    "'w instance_reconciler \<Rightarrow> 'w client \<Rightarrow> llm_instance \<Rightarrow> byoc_tls_config \<Rightarrow> string \<Rightarrow> ('w, string) io" where
  "reconcileBYOCTLSSecret r remote inst cfg targetID =
     bindE (errE (validateBYOCTLSIssuer (irLib r) cfg)) (\<lambda>_.
     bindE (liftE (byocTLSIdentity (irLib r) inst cfg targetID)) (\<lambda>(name, hostname).
     bindE (liftE (byocTLSTarget targetID)) (\<lambda>target.
     bindE (deliverableCertificate r inst cfg name hostname) (\<lambda>cert.
     bindE (nowE (irHost r)) (\<lambda>now.
     bindE (issuedMaterial r inst cfg cert name hostname now) (\<lambda>issued.
     bindE (servingMaterial r inst cfg target name hostname now issued) (\<lambda>(data, revision).
     bindE (writeBYOCTLSSecret RemoteCluster remote (remoteKey name) inst target data) (\<lambda>_.
       retE revision))))))))"

section \<open>Removal\<close>

text \<open>A deletion that tolerates an object that is gone, with UID and version as preconditions.\<close>

definition deleteExact :: "site \<Rightarrow> ('o \<Rightarrow> kobj) \<Rightarrow> ('w, 'o) kind_api \<Rightarrow> ('o \<Rightarrow> objmeta) \<Rightarrow> 'o \<Rightarrow> ('w, unit) io" where
  "deleteExact c tag a meta x =
     (if omDeletion (meta x) \<noteq> None then retE ()
      else tryE (deleteObj c tag a x (preUIDVersion (meta x))) ignoreNotFound retE)"

definition cleanupBYOCDNS :: "'w instance_reconciler \<Rightarrow> llm_instance \<Rightarrow> byoc_tls_config \<Rightarrow> string \<Rightarrow> ('w, unit) io" where
  "cleanupBYOCDNS r inst cfg targetID =
     bindE (liftE (byocTLSIdentity (irLib r) inst cfg targetID)) (\<lambda>(name, _).
     tryE (getObj (dnsEntries (irClient r)) (btNamespace cfg, name))
       (\<lambda>e. if isNotFound e then retE () else failE (APIErr e))
       (\<lambda>obj. bindE (requireBYOCTLSOwner (unMeta obj) inst) (\<lambda>_.
          bindE (deleteExact LocalCluster ODns (dnsEntries (irClient r)) unMeta obj) (\<lambda>_.
            failE (errTLSNotReady ''waiting for DNSEntry removal'')))))"

definition cleanupBYOCRemoteTLS :: "'w instance_reconciler \<Rightarrow> 'w client \<Rightarrow> llm_instance \<Rightarrow> byoc_tls_config \<Rightarrow> string \<Rightarrow> ('w, unit) io" where
  "cleanupBYOCRemoteTLS r remote inst cfg targetID =
     bindE (liftE (byocTLSIdentity (irLib r) inst cfg targetID)) (\<lambda>(name, _).
     bindE (liftE (byocTLSTarget targetID)) (\<lambda>target.
     tryE (getObj (secrets remote) (remoteKey name))
       (\<lambda>e. if isNotFound e then retE () else failE (APIErr e))
       (\<lambda>sec. bindE (requireBYOCTargetSecret sec inst target) (\<lambda>_.
          bindE (deleteExact RemoteCluster OSec (secrets remote) seMeta sec) (\<lambda>_.
            failE (errTLSNotReady ''waiting for remote TLS Secret removal''))))))"

text \<open>The Certificate is removed first.  If its output is not bound to it yet the handshake of the first
  issuance is finished instead.\<close>

definition stopIssuance ::
    "'w instance_reconciler \<Rightarrow> llm_instance \<Rightarrow> byoc_tls_config \<Rightarrow> string \<Rightarrow> string \<Rightarrow> unstructured \<Rightarrow> ('w, unit) io" where
  "stopIssuance r inst cfg targetID name cert =
     (let remove = bindE (deleteExact LocalCluster OCert (certificates (irClient r)) unMeta cert) (\<lambda>_.
            failE (errTLSNotReady ''waiting for Certificate removal'')) in
      if omDeletion (unMeta cert) \<noteq> None then failE (errTLSNotReady ''waiting for Certificate removal'')
      else tryE (getObj (secrets (irClient r)) (btNamespace cfg, name))
        (\<lambda>e. if isNotFound e then remove else failE (APIErr e))
        (\<lambda>source. if requireBYOCSourceSecret source cert inst \<noteq> None
           then bindE (reconcileBYOCManagedCertificate r inst cfg targetID) (\<lambda>_.
             failE (errTLSNotReady ''waiting for source Certificate ownership''))
           else remove))"

definition orphanedSource :: "llm_instance \<Rightarrow> string \<Rightarrow> secret \<Rightarrow> goerr option" where
  "orphanedSource inst name sec =
     (let uid = getS (omLabels (seMeta sec)) byocTLSCertificateLabel in
      if getS (omLabels (seMeta sec)) byocTLSOwnerLabel \<noteq> omUID (liMeta inst) \<or> uid = [] \<or> seType sec \<noteq> secretTypeTLS
      then Some (errNew ''cannot verify orphaned source TLS Secret ownership'')
      else if list_ex (foreignOwner name uid) (omOwners (seMeta sec))
      then Some (errNew ''orphaned source TLS Secret has a foreign ownerReference'')
      else None)"

text \<open>One of the two secrets; the result says whether it was still there.\<close>

definition removeTLSSecret ::
    "'w instance_reconciler \<Rightarrow> llm_instance \<Rightarrow> byoc_tls_config \<Rightarrow> string \<Rightarrow> string \<Rightarrow> string \<Rightarrow> ('w, bool) io" where
  "removeTLSSecret r inst cfg target name secretName =
     tryE (getObj (secrets (irClient r)) (btNamespace cfg, secretName))
       (\<lambda>e. if isNotFound e then retE False else failE (APIErr e))
       (\<lambda>sec. bindE (if secretName = name then errE (orphanedSource inst name sec)
                     else requireBYOCTargetSecret sec inst target) (\<lambda>_.
          bindE (deleteExact LocalCluster OSec (secrets (irClient r)) seMeta sec) (\<lambda>_. retE True)))"

definition cleanupBYOCManagedTLS :: "'w instance_reconciler \<Rightarrow> llm_instance \<Rightarrow> byoc_tls_config \<Rightarrow> string \<Rightarrow> ('w, unit) io" where
  "cleanupBYOCManagedTLS r inst cfg targetID =
     bindE (cleanupBYOCDNS r inst cfg targetID) (\<lambda>_.
     bindE (liftE (byocTLSIdentity (irLib r) inst cfg targetID)) (\<lambda>(name, _).
     bindE (liftE (byocTLSTarget targetID)) (\<lambda>target.
     tryE (getObj (certificates (irClient r)) (btNamespace cfg, name))
       (\<lambda>e. if \<not> isNotFound e then failE (APIErr e)
            else
              bindE (removeTLSSecret r inst cfg target name name) (\<lambda>p1.
              bindE (removeTLSSecret r inst cfg target name (lastValidName name)) (\<lambda>p2.
                if p1 \<or> p2 then failE (errTLSNotReady ''waiting for managed TLS Secret removal'') else retE ())))
       (\<lambda>cert. bindE (requireBYOCTLSOwner (unMeta cert) inst) (\<lambda>_. stopIssuance r inst cfg targetID name cert)))))"

section \<open>Writes\<close>

text \<open>What the objects hold when they are written: a DNS entry points at a public address, a TLS secret
  holds material that was valid for the host name of the instance on some target.\<close>

text \<open>Material fit for serving: the key belongs to the leaf, the leaf names the host and nothing else, it is
  valid now and for two more minutes, may authenticate servers, has a key of sufficient size, and a
  chain to a trusted root.\<close>

fun keyStrength :: "public_key \<Rightarrow> bool" where
  "keyStrength (RSAKey bits) = (2048 \<le> bits)"
| "keyStrength (ECDSAKey bits) = (256 \<le> bits)"
| "keyStrength OtherKey = False"

definition servable :: "'w byoc_lib \<Rightarrow> (string \<rightharpoonup> string) \<Rightarrow> string \<Rightarrow> time \<Rightarrow> bool" where
  "servable B data hostname now = (\<exists>raw chain leaf intermediates.
     blKeyPair B (getS data tlsCertKey) (getS data tlsPrivateKeyKey) = Some (raw, chain) \<and>
     blParseCertificate B raw = Some leaf \<and> \<not> xcIsCA leaf \<and> xcDNSNames leaf = [hostname] \<and>
     xcIPAddresses leaf = [] \<and> xcEmailAddresses leaf = [] \<and> xcURIs leaf = [] \<and>
     xcNotBefore leaf \<le> now \<and> now + 120000000000 < xcNotAfter leaf \<and>
     ServerAuth \<in> set (xcExtKeyUsage leaf) \<and> keyStrength (xcPublicKey leaf) \<and>
     map Some intermediates = map (blParseCertificate B) chain \<and> blVerify B leaf hostname intermediates now)"

definition boundSecret :: "string \<Rightarrow> secret \<Rightarrow> bool" where
  "boundSecret target sec = (getS (omLabels (seMeta sec)) byocTLSTargetLabel = target \<and> seType sec = secretTypeTLS)"

fun tlsContent :: "'w instance_reconciler \<Rightarrow> llm_instance \<Rightarrow> kobj \<Rightarrow> bool" where
  "tlsContent r inst (ODns o1) = (\<exists>hostname address. unSpec o1 = Some (dnsSpec hostname address) \<and> validBYOCDNSTarget address)"
| "tlsContent r inst (OSec sec) = (\<exists>cfg targetID name hostname now.
     byocTLSIdentity (irLib r) inst cfg targetID = Inr (name, hostname) \<and> servable (irBYOCLib r) (seData sec) hostname now)"
| "tlsContent r inst (OCert c) = True"
| "tlsContent r inst _ = False"

text \<open>A permitted write to the objects of the TLS machinery: they carry the UID of the instance as a
  label, and deletions are conditional on UID and version.\<close>

fun tlsKind :: "kobj \<Rightarrow> bool" where
  "tlsKind (OSec _) = True"
| "tlsKind (OCert _) = True"
| "tlsKind (ODns _) = True"
| "tlsKind _ = False"

definition tlsLabelled :: "llm_instance \<Rightarrow> objmeta \<Rightarrow> bool" where
  "tlsLabelled inst m = (omUID (liMeta inst) \<noteq> [] \<and> getS (omLabels m) byocTLSOwnerLabel = omUID (liMeta inst))"

fun tlsWrite :: "'w instance_reconciler \<Rightarrow> llm_instance \<Rightarrow> wreq \<Rightarrow> bool" where
  "tlsWrite r inst (Write c WCreate obj) = (tlsLabelled inst (kmeta obj) \<and> tlsContent r inst obj)"
| "tlsWrite r inst (Write c WUpdate obj) = (tlsLabelled inst (kmeta obj) \<and> tlsContent r inst obj)"
| "tlsWrite r inst (Write c (WDelete p) obj) = (tlsLabelled inst (kmeta obj) \<and> tlsKind obj \<and> p = preUIDVersion (kmeta obj))"
| "tlsWrite r inst _ = False"

text \<open>The writes of a delivery to one target.\<close>

definition delivers :: "'w instance_reconciler \<Rightarrow> llm_instance \<Rightarrow> byoc_tls_config \<Rightarrow> string \<Rightarrow> wreq \<Rightarrow> bool" where
  "delivers r inst cfg targetID w = (\<exists>c op sec name hostname target now.
     w = Write c op (OSec sec) \<and> (op = WCreate \<or> op = WUpdate) \<and>
     byocTLSIdentity (irLib r) inst cfg targetID = Inr (name, hostname) \<and> byocTLSTarget targetID = Inr target \<and>
     tlsLabelled inst (seMeta sec) \<and> boundSecret target sec \<and> servable (irBYOCLib r) (seData sec) hostname now)"

lemma delivers_tlsWrite: "delivers r inst cfg targetID w \<Longrightarrow> tlsWrite r inst w"
  unfolding delivers_def by (elim exE conjE disjE) (simp_all, blast+)

lemma parseAll_Some: "parseAll B raws = Some cs \<longleftrightarrow> map Some cs = map (blParseCertificate B) raws"
  by (induction raws arbitrary: cs) (auto simp: Cons_eq_map_conv map_eq_Cons_conv split: option.splits)

lemma strongKey_None: "strongKey k = None \<longleftrightarrow> keyStrength k"
  by (cases k) (auto simp: strongKey_def)

lemma checkLeaf_None:
  "checkLeaf leaf hostname now = None \<longleftrightarrow> \<not> xcIsCA leaf \<and> xcDNSNames leaf = [hostname] \<and> xcIPAddresses leaf = [] \<and>
     xcEmailAddresses leaf = [] \<and> xcURIs leaf = [] \<and> xcNotBefore leaf \<le> now \<and> now + 120000000000 < xcNotAfter leaf \<and>
     ServerAuth \<in> set (xcExtKeyUsage leaf) \<and> keyStrength (xcPublicKey leaf)"
  by (auto simp: checkLeaf_def byocTLSRenewalMargin_def strongKey_None not_less)

lemma validated_servable: "validateBYOCTLSMaterial B data hostname now = Inr revision \<Longrightarrow> servable B data hostname now"
  unfolding validateBYOCTLSMaterial_def servable_def
  by (auto simp: parseAll_Some checkLeaf_None split: option.splits prod.splits if_splits)

lemma servable_validated: "servable B data hostname now \<Longrightarrow> \<exists>revision. validateBYOCTLSMaterial B data hostname now = Inr revision"
  unfolding servable_def validateBYOCTLSMaterial_def
  by (elim exE conjE) (simp add: checkLeaf_None [THEN iffD2] parseAll_Some [THEN iffD2])

lemma emits_requireBYOCTLSOwner [emits_intros]: "emits G (requireBYOCTLSOwner m inst)"
  unfolding requireBYOCTLSOwner_def by (intro emits_intros)

lemma yields_requireBYOCTLSOwner: "yields (requireBYOCTLSOwner m inst) (\<lambda>_. byocTLSOwned m inst)"
  unfolding requireBYOCTLSOwner_def by (intro yields_intros) (simp add: byocTLSOwned_def)

lemma byocTLSOwned_labelled: "byocTLSOwned m inst \<Longrightarrow> tlsLabelled inst m"
  by (simp add: byocTLSOwned_def tlsLabelled_def)

lemma emits_tlsOwned:
  "(tlsLabelled inst m \<Longrightarrow> emits G k) \<Longrightarrow> emits G (bindE (requireBYOCTLSOwner m inst) (\<lambda>_. k))"
  by (rule emits_bind [OF emits_requireBYOCTLSOwner yields_requireBYOCTLSOwner]) (blast dest: byocTLSOwned_labelled)

lemma emits_requireBYOCTargetSecret [emits_intros]: "emits G (requireBYOCTargetSecret sec inst target)"
  unfolding requireBYOCTargetSecret_def by (intro emits_intros)

lemma yields_requireBYOCTargetSecret:
  "yields (requireBYOCTargetSecret sec inst target) (\<lambda>_. tlsLabelled inst (seMeta sec) \<and> boundSecret target sec)"
  unfolding boundSecret_def requireBYOCTargetSecret_def
  by (rule yields_bindE [OF yields_requireBYOCTLSOwner]) (auto intro!: yields_intros dest: byocTLSOwned_labelled)

lemma emits_targetOwned:
  "(tlsLabelled inst (seMeta sec) \<Longrightarrow> boundSecret target sec \<Longrightarrow> emits G k) \<Longrightarrow>
   emits G (bindE (requireBYOCTargetSecret sec inst target) (\<lambda>_. k))"
  by (rule emits_bind [OF emits_requireBYOCTargetSecret yields_requireBYOCTargetSecret]) blast

lemma emits_errE [emits_intros]: "emits G (errE e)"
  unfolding errE_def by (intro emits_intros)

lemma yields_errE: "yields (errE e) (\<lambda>_. e = None)"
  unfolding errE_def by (intro yields_intros) simp

lemma byocTLSIdentity_Inr:
  assumes "byocTLSIdentity L inst cfg targetID = Inr (name, hostname)"
  shows "omUID (liMeta inst) \<noteq> []" "targetID \<noteq> []" "name = byocTLSName inst targetID"
    "hostname = name @ ''.'' @ btDomain cfg" "btNamespace cfg \<noteq> omNamespace (liMeta inst)"
  using assms by (auto simp: byocTLSIdentity_def Let_def split: if_splits)

lemma emits_identity:
  assumes "\<And>name hostname. byocTLSIdentity L inst cfg targetID = Inr (name, hostname) \<Longrightarrow> omUID (liMeta inst) \<noteq> [] \<Longrightarrow> emits G (k (name, hostname))"
  shows "emits G (bindE (liftE (byocTLSIdentity L inst cfg targetID)) k)"
proof (rule emits_bind_liftE)
  fix x
  assume x: "byocTLSIdentity L inst cfg targetID = Inr x"
  then show "emits G (k x)" using assms [of "fst x" "snd x"] byocTLSIdentity_Inr(1) [of L inst cfg targetID "fst x" "snd x"] by simp
qed

lemma validate_copy [simp]: "validateBYOCTLSMaterial B (copyBYOCTLSData data) = validateBYOCTLSMaterial B data"
proof -
  have "getS (copyBYOCTLSData data) tlsCertKey = getS data tlsCertKey"
    "getS (copyBYOCTLSData data) tlsPrivateKeyKey = getS data tlsPrivateKeyKey"
    by (simp_all add: copyBYOCTLSData_def lookupD_def tlsCertKey_def tlsPrivateKeyKey_def)
  then show ?thesis by (intro ext) (simp add: validateBYOCTLSMaterial_def)
qed

lemma emits_writeBYOCTLSSecret:
  assumes "byocTLSIdentity (irLib r) inst cfg targetID = Inr (name, hostname)" and "byocTLSTarget targetID = Inr target"
    and "validateBYOCTLSMaterial (irBYOCLib r) data hostname now = Inr revision"
  shows "emits (delivers r inst cfg targetID) (writeBYOCTLSSecret c cl k inst target data)"
proof -
  have uid: "omUID (liMeta inst) \<noteq> []" by (rule byocTLSIdentity_Inr(1) [OF assms(1)])
  have distinct: "byocTLSOwnerLabel \<noteq> byocTLSTargetLabel" by (simp add: byocTLSOwnerLabel_def byocTLSTargetLabel_def)
  have valid: "servable (irBYOCLib r) (copyBYOCTLSData data) hostname now"
    by (rule validated_servable [of _ _ _ _ revision]) (simp add: assms(3))
  have ok: "delivers r inst cfg targetID (Write c op (OSec sec))"
    if "op = WCreate \<or> op = WUpdate" "tlsLabelled inst (seMeta sec)" "boundSecret target sec" "seData sec = copyBYOCTLSData data"
    for op sec using that assms(1,2) valid by (auto simp: delivers_def)
  show ?thesis
    unfolding writeBYOCTLSSecret_def
    by (intro emits_targetOwned emits_intros ok)
      (use uid distinct in \<open>auto simp: tlsLabelled_def boundSecret_def newMeta_def lookupD_def\<close>)
qed

lemma emits_deleteExact:
  assumes "tlsLabelled inst (meta x)" "tlsKind (tag x)" "kmeta (tag x) = meta x"
  shows "emits (tlsWrite r inst) (deleteExact c tag a meta x)"
  unfolding deleteExact_def using assms by (intro emits_intros) simp

lemma emits_obtainCertificate:
  "omUID (liMeta inst) \<noteq> [] \<Longrightarrow> emits (tlsWrite r inst) (obtainCertificate r inst cfg name hostname)"
  unfolding obtainCertificate_def refusePreexisting_def
  by (intro emits_intros) (simp add: tlsLabelled_def lookupD_def)

lemma emits_guardSource [emits_intros]: "emits G (guardSource r inst cfg name cert)"
  unfolding guardSource_def by (intro emits_intros)

lemma emits_reconcileBYOCManagedCertificate:
  "emits (tlsWrite r inst) (reconcileBYOCManagedCertificate r inst cfg targetID)"
  unfolding reconcileBYOCManagedCertificate_def
  by (rule emits_bindE [OF emits_errE], rule emits_identity, unfold prod.case, rule emits_bindE [OF emits_obtainCertificate])
    (auto intro!: emits_tlsOwned emits_intros)

lemma emits_reconcileBYOCDNS: "emits (tlsWrite r inst) (reconcileBYOCDNS r inst cfg address targetID)"
  unfolding reconcileBYOCDNS_def
  by (intro emits_if emits_failE emits_identity, unfold prod.case Let_def, intro emits_tlsOwned emits_intros)
    (auto simp: tlsLabelled_def lookupD_def)

text \<open>Material that is handed on has been validated.\<close>

lemma yields_issuedMaterial:
  "yields (issuedMaterial r inst cfg cert name hostname now)
     (\<lambda>i. \<forall>data revision. i = Some (data, revision) \<longrightarrow> validateBYOCTLSMaterial (irBYOCLib r) data hostname now = Inr revision)"
proof -
  have split: "yields (case v of Inl e \<Rightarrow> m e | Inr x \<Rightarrow> k x) P"
    if "\<And>e. v = Inl e \<Longrightarrow> yields (m e) P" "\<And>x. v = Inr x \<Longrightarrow> yields (k x) P" for v m k and P :: "_ \<Rightarrow> bool"
    using that by (cases v) auto
  show ?thesis
    unfolding issuedMaterial_def
    by (rule yields_tryE [OF yields_getObj]) (auto intro!: yields_intros split)
qed

lemma yields_servingMaterial:
  assumes "\<And>data revision. issued = Some (data, revision) \<Longrightarrow> validateBYOCTLSMaterial (irBYOCLib r) data hostname now = Inr revision"
  shows "yields (servingMaterial r inst cfg target name hostname now issued)
    (\<lambda>(data, revision). validateBYOCTLSMaterial (irBYOCLib r) data hostname now = Inr revision)"
proof (cases issued)
  case None
  have split: "yields (case v of Inl e \<Rightarrow> failE (f e) | Inr x \<Rightarrow> retE (g x)) P"
    if "\<And>x. v = Inr x \<Longrightarrow> P (g x)" for v f g and P :: "_ \<Rightarrow> bool"
    using that by (cases v) (auto intro: yields_intros)
  show ?thesis
    unfolding servingMaterial_def None option.case
    by (rule yields_tryE [OF yields_getObj]) (auto intro!: yields_intros yields_bindE [OF yields_True] split)
next
  case (Some x)
  then show ?thesis
    using assms by (cases x) (auto simp: servingMaterial_def intro!: yields_bindE [OF yields_True] yields_intros)
qed

lemma emits_issuedMaterial [emits_intros]: "emits G (issuedMaterial r inst cfg cert name hostname now)"
  unfolding issuedMaterial_def by (intro emits_intros)

lemma emits_servingMaterial:
  assumes "byocTLSIdentity (irLib r) inst cfg targetID = Inr (name, hostname)" and "byocTLSTarget targetID = Inr target"
    and "\<And>data revision. issued = Some (data, revision) \<Longrightarrow> validateBYOCTLSMaterial (irBYOCLib r) data hostname now = Inr revision"
  shows "emits (delivers r inst cfg targetID) (servingMaterial r inst cfg target name hostname now issued)"
proof (cases issued)
  case None
  then show ?thesis unfolding servingMaterial_def by (auto intro!: emits_intros)
next
  case (Some x)
  then show ?thesis
    using emits_writeBYOCTLSSecret [OF assms(1,2)] assms(3) by (cases x) (auto simp: servingMaterial_def intro!: emits_intros)
qed

lemma emits_deliverableCertificate [emits_intros]: "emits G (deliverableCertificate r inst cfg name hostname)"
  unfolding deliverableCertificate_def by (intro emits_intros)

lemma delivers_reconcileBYOCTLSSecret:
  "emits (delivers r inst cfg targetID) (reconcileBYOCTLSSecret r remote inst cfg targetID)"
  unfolding reconcileBYOCTLSSecret_def
proof (rule emits_bindE [OF emits_errE], rule emits_identity, unfold prod.case, intro emits_bind_liftE
    emits_bindE [OF emits_deliverableCertificate] emits_bindE [OF emits_nowE] emits_bind [OF emits_issuedMaterial yields_issuedMaterial], goal_cases)
  case (1 u name hostname target cert now issued)
  show ?case
  proof (rule emits_bind [OF emits_servingMaterial yields_servingMaterial], goal_cases)
    case (5 x)
    then show ?case
      using 1(1,3) by (cases x) (auto intro!: emits_intros emits_writeBYOCTLSSecret)
  qed (use 1 in auto)
qed

lemma emits_reconcileBYOCTLSSecret: "emits (tlsWrite r inst) (reconcileBYOCTLSSecret r remote inst cfg targetID)"
  by (rule emits_mono [OF delivers_reconcileBYOCTLSSecret delivers_tlsWrite])

lemma yields_reconcileBYOCTLSSecret:
  "yields (reconcileBYOCTLSSecret r remote inst cfg targetID) (\<lambda>revision. \<exists>name hostname data now.
     byocTLSIdentity (irLib r) inst cfg targetID = Inr (name, hostname) \<and>
     validateBYOCTLSMaterial (irBYOCLib r) data hostname now = Inr revision)"
  unfolding reconcileBYOCTLSSecret_def
proof (rule yields_bindE [OF yields_errE], rule yields_bindE [OF yields_liftE], goal_cases)
  case (1 u x)
  obtain name hostname where x: "x = (name, hostname)" by (cases x)
  show ?case
    unfolding x prod.case
  proof (rule yields_bindE [OF yields_liftE], rule yields_bindE [OF yields_True], rule yields_bindE [OF yields_True],
      rule yields_bindE [OF yields_issuedMaterial], goal_cases)
    case (1 target cert now issued)
    then show ?case
      using \<open>byocTLSIdentity (irLib r) inst cfg targetID = Inr x\<close> x
      by (intro yields_bindE [OF yields_servingMaterial]) (auto intro!: yields_bindE [OF yields_True] yields_retE)
  qed
qed

section \<open>Removal writes little and in order\<close>

lemma emits_cleanupBYOCDNS: "emits (tlsWrite r inst) (cleanupBYOCDNS r inst cfg targetID)"
  unfolding cleanupBYOCDNS_def
  by (rule emits_identity, unfold prod.case) (intro emits_tlsOwned emits_intros emits_deleteExact, simp_all)

lemma emits_cleanupBYOCRemoteTLS: "emits (tlsWrite r inst) (cleanupBYOCRemoteTLS r remote inst cfg targetID)"
  unfolding cleanupBYOCRemoteTLS_def
  by (rule emits_identity, unfold prod.case) (intro emits_targetOwned emits_intros emits_deleteExact, simp_all)

lemma emits_stopIssuance:
  "tlsLabelled inst (unMeta cert) \<Longrightarrow> emits (tlsWrite r inst) (stopIssuance r inst cfg targetID name cert)"
  unfolding stopIssuance_def Let_def
  by (intro emits_intros emits_deleteExact emits_reconcileBYOCManagedCertificate) simp_all

lemma emits_removeTLSSecret:
  assumes "omUID (liMeta inst) \<noteq> []"
  shows "emits (tlsWrite r inst) (removeTLSSecret r inst cfg target name secretName)"
proof -
  have "yields (if secretName = name then errE (orphanedSource inst name sec) else requireBYOCTargetSecret sec inst target)
      (\<lambda>_. tlsLabelled inst (seMeta sec))" for sec :: secret
  proof (rule yields_if)
    show "yields (errE (orphanedSource inst name sec)) (\<lambda>_. tlsLabelled inst (seMeta sec))"
      by (rule yields_weaken [OF yields_errE]) (use assms in \<open>auto simp: orphanedSource_def tlsLabelled_def Let_def split: if_splits\<close>)
  qed (rule yields_weaken [OF yields_requireBYOCTargetSecret], blast)
  note labelled = this
  show ?thesis
    unfolding removeTLSSecret_def
  proof (rule emits_tryE [OF emits_getObj], intro emits_intros, rule emits_bind [OF _ labelled])
    fix sec :: secret
    assume "tlsLabelled inst (seMeta sec)"
    then show "emits (tlsWrite r inst) (bindE (deleteExact LocalCluster OSec (secrets (irClient r)) seMeta sec) (\<lambda>_. retE True))"
      by (intro emits_intros emits_deleteExact) simp_all
  qed (intro emits_intros)
qed

text \<open>The part of \<^verbatim>\<open>cleanupBYOCManagedTLS\<close> after the DNS entry.\<close>

definition cleanupCertificate :: "'w instance_reconciler \<Rightarrow> llm_instance \<Rightarrow> byoc_tls_config \<Rightarrow> string \<Rightarrow> ('w, unit) io" where
  "cleanupCertificate r inst cfg targetID =
     bindE (liftE (byocTLSIdentity (irLib r) inst cfg targetID)) (\<lambda>(name, _).
     bindE (liftE (byocTLSTarget targetID)) (\<lambda>target.
     tryE (getObj (certificates (irClient r)) (btNamespace cfg, name))
       (\<lambda>e. if \<not> isNotFound e then failE (APIErr e)
            else
              bindE (removeTLSSecret r inst cfg target name name) (\<lambda>p1.
              bindE (removeTLSSecret r inst cfg target name (lastValidName name)) (\<lambda>p2.
                if p1 \<or> p2 then failE (errTLSNotReady ''waiting for managed TLS Secret removal'') else retE ())))
       (\<lambda>cert. bindE (requireBYOCTLSOwner (unMeta cert) inst) (\<lambda>_. stopIssuance r inst cfg targetID name cert))))"

lemma cleanupBYOCManagedTLS_split:
  "cleanupBYOCManagedTLS r inst cfg targetID = bindE (cleanupBYOCDNS r inst cfg targetID) (\<lambda>_. cleanupCertificate r inst cfg targetID)"
  by (simp add: cleanupBYOCManagedTLS_def cleanupCertificate_def)

lemma emits_cleanupCertificate: "emits (tlsWrite r inst) (cleanupCertificate r inst cfg targetID)"
  unfolding cleanupCertificate_def
  by (rule emits_identity, unfold prod.case)
    (intro emits_tlsOwned emits_intros emits_stopIssuance emits_removeTLSSecret, simp_all)

lemma emits_cleanupBYOCManagedTLS: "emits (tlsWrite r inst) (cleanupBYOCManagedTLS r inst cfg targetID)"
  unfolding cleanupBYOCManagedTLS_split by (rule emits_bindE [OF emits_cleanupBYOCDNS emits_cleanupCertificate])

text \<open>A removal step that found something to remove fails, so the next step does not run.\<close>

lemmas silent_intros = emits_intros [where G = "\<lambda>_. False"]

lemma quiet_silentRet: "quiet (retE x)"
  by (rule quiet_silent) (rule emits_retE)

lemmas quiet_intros = quiet_failE quiet_silentRet quiet_if quiet_bind_fail quiet_tryE quiet_bindE

lemma quiet_cleanupBYOCDNS: "quiet (cleanupBYOCDNS r inst cfg targetID)"
  unfolding cleanupBYOCDNS_def
  by (intro quiet_bindE [OF quiet_silent [OF emits_liftE]] quiet_tryE emits_getObj)
     (auto split: prod.split intro!: quiet_intros quiet_silent [OF emits_requireBYOCTLSOwner] emits_getObj)

lemma removeTLSSecret_False:
  assumes "removeTLSSecret r inst cfg target name n s = (Inr False, s')"
  shows "journal s' = journal s"
proof -
  obtain v t where g: "getObj (secrets (irClient r)) (btNamespace cfg, n) s = (v, t)" by (cases "getObj (secrets (irClient r)) (btNamespace cfg, n) s")
  have t: "journal t = journal s" by (rule silent_run [OF emits_getObj g])
  show ?thesis
  proof (cases v)
    case (Inl e)
    with assms g t show ?thesis by (auto simp: removeTLSSecret_def tryE_def retE_def failE_def split: if_splits)
  next
    case (Inr sec)
    have "fst (bindE m (\<lambda>_. bindE k (\<lambda>_. retE True)) u) \<noteq> Inr False" for m :: "('a, unit) io" and k :: "('a, unit) io" and u
      by (auto simp: bindE_def tryE_def retE_def failE_def split: prod.split sum.split)
    with assms g Inr show ?thesis by (simp add: removeTLSSecret_def tryE_def) (metis fst_conv)
  qed
qed

lemma quiet_removals:
  "quiet (bindE (removeTLSSecret r inst cfg target name a) (\<lambda>p1. bindE (removeTLSSecret r inst cfg target name b) (\<lambda>p2.
     if p1 \<or> p2 then failE e else retE ())))"
  unfolding quiet_def
proof (intro allI impI)
  fix s x s'
  assume run: "bindE (removeTLSSecret r inst cfg target name a) (\<lambda>p1. bindE (removeTLSSecret r inst cfg target name b) (\<lambda>p2.
     if p1 \<or> p2 then failE e else retE ())) s = (Inr x, s')"
  then obtain t where "removeTLSSecret r inst cfg target name a s = (Inr False, t)" "removeTLSSecret r inst cfg target name b t = (Inr False, s')"
    by (auto simp: bindE_def tryE_def failE_def retE_def split: prod.splits sum.splits if_splits)
  then show "journal s' = journal s" using removeTLSSecret_False by metis
qed

lemma quiet_stopIssuance: "quiet (stopIssuance r inst cfg targetID name cert)"
  unfolding stopIssuance_def Let_def by (intro quiet_if quiet_failE quiet_bind_fail quiet_tryE emits_getObj)

lemma quiet_cleanupBYOCRemoteTLS: "quiet (cleanupBYOCRemoteTLS r remote inst cfg targetID)"
  unfolding cleanupBYOCRemoteTLS_def
proof (rule quiet_bindE [OF quiet_silent [OF emits_liftE]], goal_cases)
  case (1 x)
  show ?case
    by (cases x) (auto intro!: quiet_bindE [OF quiet_silent [OF emits_liftE]] quiet_tryE emits_getObj quiet_if quiet_failE
        quiet_silentRet quiet_bindE [OF quiet_silent [OF emits_requireBYOCTargetSecret]] quiet_bind_fail)
qed

text \<open>What a removal has found when it returns: each object answered for as absent.\<close>

definition dnsGone :: "'w instance_reconciler \<Rightarrow> llm_instance \<Rightarrow> byoc_tls_config \<Rightarrow> string \<Rightarrow> bool" where
  "dnsGone r inst cfg targetID = (\<exists>name hostname. byocTLSIdentity (irLib r) inst cfg targetID = Inr (name, hostname) \<and>
     vanished (dnsEntries (irClient r)) (btNamespace cfg, name))"

definition certificateGone :: "'w instance_reconciler \<Rightarrow> llm_instance \<Rightarrow> byoc_tls_config \<Rightarrow> string \<Rightarrow> bool" where
  "certificateGone r inst cfg targetID = (\<exists>name hostname. byocTLSIdentity (irLib r) inst cfg targetID = Inr (name, hostname) \<and>
     vanished (certificates (irClient r)) (btNamespace cfg, name) \<and>
     vanished (secrets (irClient r)) (btNamespace cfg, name) \<and> vanished (secrets (irClient r)) (btNamespace cfg, lastValidName name))"

definition deliveredGone :: "'w instance_reconciler \<Rightarrow> 'w client \<Rightarrow> llm_instance \<Rightarrow> byoc_tls_config \<Rightarrow> string \<Rightarrow> bool" where
  "deliveredGone r remote inst cfg targetID = (\<exists>name hostname. byocTLSIdentity (irLib r) inst cfg targetID = Inr (name, hostname) \<and>
     vanished (secrets remote) (remoteKey name))"

lemma yields_bind_fail: "yields (bindE m (\<lambda>x. failE (e x))) P"
  by (rule yields_bindE [OF yields_True]) (rule yields_failE)

lemma yields_cleanupBYOCDNS: "yields (cleanupBYOCDNS r inst cfg targetID) (\<lambda>_. dnsGone r inst cfg targetID)"
  unfolding cleanupBYOCDNS_def
  by (rule yields_bindE [OF yields_liftE])
    (auto simp: dnsGone_def split: prod.split intro!: yields_try_getObj yields_intros yields_bindE [OF yields_True])

lemma yields_removeTLSSecret:
  "yields (removeTLSSecret r inst cfg target name n) (\<lambda>p. \<not> p \<longrightarrow> vanished (secrets (irClient r)) (btNamespace cfg, n))"
  unfolding removeTLSSecret_def
  by (rule yields_try_getObj) (auto intro!: yields_intros yields_bindE [OF yields_True])

lemma yields_stopIssuance: "yields (stopIssuance r inst cfg targetID name cert) P"
  unfolding stopIssuance_def Let_def by (intro yields_intros yields_try_getObj yields_bind_fail)

lemma yields_cleanupCertificate: "yields (cleanupCertificate r inst cfg targetID) (\<lambda>_. certificateGone r inst cfg targetID)"
  unfolding cleanupCertificate_def
proof (rule yields_bindE [OF yields_liftE], goal_cases)
  case (1 x)
  then obtain name hostname where x: "x = (name, hostname)" "byocTLSIdentity (irLib r) inst cfg targetID = Inr (name, hostname)"
    by (cases x) simp
  show ?case
    unfolding x(1) prod.case
  proof (rule yields_bindE [OF yields_True], rule yields_try_getObj, goal_cases)
    case (1 target e)
    then show ?case
      by (simp, intro yields_bindE [OF yields_removeTLSSecret] yields_intros) (auto simp: certificateGone_def x(2))
  qed (auto intro!: yields_intros yields_bindE [OF yields_True] yields_stopIssuance)
qed

lemma quiet_cleanupCertificate: "quiet (cleanupCertificate r inst cfg targetID)"
  unfolding cleanupCertificate_def
proof (rule quiet_bindE [OF quiet_silent [OF emits_liftE]], goal_cases)
  case (1 x)
  show ?case
    by (cases x) (auto intro!: quiet_bindE [OF quiet_silent [OF emits_liftE]] quiet_tryE emits_getObj quiet_if quiet_failE
        quiet_removals quiet_bindE [OF quiet_silent [OF emits_requireBYOCTLSOwner]] quiet_stopIssuance)
qed

lemma quiet_cleanupBYOCManagedTLS: "quiet (cleanupBYOCManagedTLS r inst cfg targetID)"
  unfolding cleanupBYOCManagedTLS_split by (rule quiet_bindE [OF quiet_cleanupBYOCDNS quiet_cleanupCertificate])

lemma yields_cleanupBYOCRemoteTLS:
  "yields (cleanupBYOCRemoteTLS r remote inst cfg targetID) (\<lambda>_. deliveredGone r remote inst cfg targetID)"
  unfolding cleanupBYOCRemoteTLS_def
  by (rule yields_bindE [OF yields_liftE])
    (auto simp: deliveredGone_def split: prod.split intro!: yields_try_getObj yields_intros yields_bindE [OF yields_True])

section \<open>Properties\<close>

text \<open>
  \<^bold>\<open>C15.\<close> Delivery of the serving certificate.  Every write of \<^verbatim>\<open>reconcileBYOCTLSSecret\<close>, on either cluster and
  on failing runs too, puts a TLS secret that is labelled with the UID of the instance and with the
  target, and whose material is fit for the host name of this instance on this target: a matching key
  of sufficient strength, a leaf for that one name, valid for at least two more minutes, for server
  authentication, with a verified chain.  A successful run returns the fingerprint of such material.
\<close>

theorem byoc_tls_delivered:
  "emits (delivers r inst cfg targetID) (reconcileBYOCTLSSecret r remote inst cfg targetID) \<and>
   yields (reconcileBYOCTLSSecret r remote inst cfg targetID) (\<lambda>revision. \<exists>name hostname data now.
     byocTLSIdentity (irLib r) inst cfg targetID = Inr (name, hostname) \<and> servable (irBYOCLib r) data hostname now \<and>
     validateBYOCTLSMaterial (irBYOCLib r) data hostname now = Inr revision)"
proof
  show "emits (delivers r inst cfg targetID) (reconcileBYOCTLSSecret r remote inst cfg targetID)"
    by (rule delivers_reconcileBYOCTLSSecret)
  show "yields (reconcileBYOCTLSSecret r remote inst cfg targetID) (\<lambda>revision. \<exists>name hostname data now.
     byocTLSIdentity (irLib r) inst cfg targetID = Inr (name, hostname) \<and> servable (irBYOCLib r) data hostname now \<and>
     validateBYOCTLSMaterial (irBYOCLib r) data hostname now = Inr revision)"
    by (rule yields_weaken [OF yields_reconcileBYOCTLSSecret]) (blast dest: validated_servable)
qed

text \<open>
  Material is accepted exactly when it is fit for serving (\<^term>\<open>servable\<close>), whatever the X.509 library
  answers; the early returns of the code leave no other gap and reject nothing else.
\<close>

theorem byoc_tls_material_exact:
  "(\<exists>revision. validateBYOCTLSMaterial B data hostname now = Inr revision) \<longleftrightarrow> servable B data hostname now"
  using validated_servable servable_validated by blast

end
