(* ===== verification/Readiness.thy ===== *)
theory Readiness
  imports HostedRoute
begin

text \<open>
  When a hosted instance is ready (\<^verbatim>\<open>llminstance_controller.go\<close>): the Deployment has rolled out, its
  Service has ready endpoints on the server's port, and the server answers its health probe.
\<close>

text \<open>A verdict with reason and message.\<close>

record verdict =
  vdReady :: bool
  vdReason :: string
  vdMessage :: string

definition verdict :: "bool \<Rightarrow> string \<Rightarrow> string \<Rightarrow> verdict" where
  "verdict b reason message = \<lparr>vdReady = b, vdReason = reason, vdMessage = message\<rparr>"

definition rolloutTarget :: "deployment \<Rightarrow> int" where
  "rolloutTarget d = (case dpReplicas d of Some n \<Rightarrow> if n > 0 then n else 1 | None \<Rightarrow> 1)"

definition deploymentReadiness :: "deployment \<Rightarrow> string \<Rightarrow> verdict" where
  "deploymentReadiness d deployName =
     (let desired = rolloutTarget d; name = quoted deployName; fraction = (\<lambda>n. itoa n @ ''/'' @ itoa desired)
      in if dpObservedGeneration d < omGeneration (dpMeta d)
         then verdict False ''DeploymentProgressing'' (''Deployment '' @ name @ '' has not observed latest generation'')
         else if dpUpdatedReplicas d < desired
         then verdict False ''DeploymentProgressing'' (''Deployment '' @ name @ '' updated replicas '' @ fraction (dpUpdatedReplicas d))
         else if dpReadyReplicas d < desired
         then verdict False ''DeploymentNotReady'' (''Deployment '' @ name @ '' ready replicas '' @ fraction (dpReadyReplicas d))
         else if dpAvailableReplicas d < desired
         then verdict False ''DeploymentNotAvailable'' (''Deployment '' @ name @ '' available replicas '' @ fraction (dpAvailableReplicas d))
         else verdict True [] [])"

text \<open>The loop over subsets and ports.\<close>

definition readyOnPort :: "int \<Rightarrow> endpoints \<Rightarrow> bool" where
  "readyOnPort port ep = list_ex (\<lambda>sub. esAddresses sub \<noteq> [] \<and> port \<in> set (esPorts sub)) (enSubsets ep)"

definition serviceHasReadyEndpoints :: "'w instance_reconciler \<Rightarrow> string \<Rightarrow> string \<Rightarrow> int \<Rightarrow> ('w, bool \<times> string) io" where
  "serviceHasReadyEndpoints r namespace serviceName expectedPort =
     tryE (getObj (endpointsApi (irClient r)) (namespace, serviceName))
       (\<lambda>e. if isNotFound e then retE (False, ''Endpoints for Service '' @ quoted serviceName @ '' not found'')
            else failE (APIErr e))
       (\<lambda>ep. if readyOnPort expectedPort ep then retE (True, [])
             else retE (False, ''Service '' @ quoted serviceName @ '' has no ready endpoints on port '' @ itoa expectedPort))"

definition serviceProbeURL :: "string \<Rightarrow> string \<Rightarrow> int \<Rightarrow> string \<Rightarrow> string" where
  "serviceProbeURL namespace serviceName port path =
     ''http://'' @ serviceName @ ''.'' @ namespace @ ''.svc.cluster.local:'' @ itoa port @ path"

definition defaultServiceHealthChecker :: "'w instance_reconciler \<Rightarrow> string \<Rightarrow> ('w, unit) io" where
  "defaultServiceHealthChecker r targetURL =
     bindE (hostE (irHTTPGet r targetURL)) (\<lambda>code.
       if code < 200 \<or> code \<ge> 300 then failE (errNew (''unexpected status code '' @ itoa code)) else retE ())"

definition runServiceHealthCheck :: "'w instance_reconciler \<Rightarrow> string \<Rightarrow> ('w, unit) io" where
  "runServiceHealthCheck r targetURL =
     (case irServiceHealthChecker r of
        None \<Rightarrow> defaultServiceHealthChecker r targetURL
      | Some checker \<Rightarrow> hostErrE (checker targetURL))"

text \<open>
  \<^verbatim>\<open>err.Error()\<close>, where the text of an error reaches a status message.  The errors there are those of the
  probes, of the connection to a cluster and of the ceilings: they come from a library or wrap
  nothing, so the text of a wrapped error is never part of it.
\<close>

fun errorText :: "goerr \<Rightarrow> string" where
  "errorText (APIErr e) = api_text e"
| "errorText ErrSlugRejection = ''unsafe inference identity or route configuration''"
| "errorText ErrBYOCTLSNotReady = ''BYOC TLS is not ready''"
| "errorText ErrLegacyUnmapped = ''legacy instance has no reviewed slug mapping''"
| "errorText ErrIdentity = ''instance identity does not match the slug policy''"
| "errorText ErrServerClosed = ''http: Server closed''"
| "errorText (Errorf msg _) = msg"
| "errorText (Joined es) = drop 1 (concat (map (\<lambda>e. CHR 0x0A # errorText e) es))"

definition evaluateInstanceReadiness :: "'w instance_reconciler \<Rightarrow> llm_instance \<Rightarrow> string \<Rightarrow> ('w, verdict) io" where
  "evaluateInstanceReadiness r inst svcName =
     (let ns = omNamespace (liMeta inst); deployName = svcNameOf inst in
      tryE (getObj (deployments (irClient r)) (ns, deployName))
        (\<lambda>e. if isNotFound e
             then retE (verdict False ''DeploymentNotFound'' (''Deployment '' @ quoted deployName @ '' not found''))
             else failE (APIErr e))
        (\<lambda>d. let v = deploymentReadiness d deployName in
           if \<not> vdReady v then retE v
           else
             bindE (serviceHasReadyEndpoints r ns svcName 8000) (\<lambda>(endpointsReady, message).
               if \<not> endpointsReady then retE (verdict False ''ServiceEndpointsMissing'' message)
               else
                 let probeURL = serviceProbeURL ns svcName 8000 ''/health'' in
                 tryE (runServiceHealthCheck r probeURL)
                   (\<lambda>err. retE (verdict False ''HealthCheckFailed'' (''Service probe failed for '' @ probeURL @ '': '' @ errorText err)))
                   (\<lambda>_. retE (verdict True ''Provisioned'' ''LLM instance is ready'')))))"

section \<open>Lemmas\<close>

definition rolledOut :: "deployment \<Rightarrow> bool" where
  "rolledOut d = (omGeneration (dpMeta d) \<le> dpObservedGeneration d \<and> rolloutTarget d \<le> dpUpdatedReplicas d \<and>
     rolloutTarget d \<le> dpReadyReplicas d \<and> rolloutTarget d \<le> dpAvailableReplicas d)"

lemma deploymentReadiness_ready: "vdReady (deploymentReadiness d n) = rolledOut d"
  by (auto simp: deploymentReadiness_def rolledOut_def verdict_def Let_def)

text \<open>What the probe of the service has seen when it succeeds.\<close>

definition healthySeen :: "'w instance_reconciler \<Rightarrow> string \<Rightarrow> bool" where
  "healthySeen r u =
     (case irServiceHealthChecker r of
        None \<Rightarrow> (\<exists>w code. fst (irHTTPGet r u w) = Inr code \<and> 200 \<le> code \<and> code < 300)
      | Some checker \<Rightarrow> (\<exists>w. fst (checker u w) = None))"

lemma yields_runServiceHealthCheck: "yields (runServiceHealthCheck r u) (\<lambda>_. healthySeen r u)"
proof (cases "irServiceHealthChecker r")
  case None
  have "yields (defaultServiceHealthChecker r u) (\<lambda>_. \<exists>w code. fst (irHTTPGet r u w) = Inr code \<and> 200 \<le> code \<and> code < 300)"
    unfolding defaultServiceHealthChecker_def
    by (rule yields_bindE [OF yields_hostE]) (auto intro!: yields_intros simp: not_less not_le)
  with None show ?thesis by (simp add: runServiceHealthCheck_def healthySeen_def)
next
  case (Some checker)
  then show ?thesis using yields_hostErrE [of "checker u"] by (simp add: runServiceHealthCheck_def healthySeen_def)
qed

text \<open>What the readiness check has read when it calls an instance ready.\<close>

definition readySeen :: "'w instance_reconciler \<Rightarrow> llm_instance \<Rightarrow> string \<Rightarrow> bool" where
  "readySeen r inst svcName =
     ((\<exists>d. serves (deployments (irClient r)) (omNamespace (liMeta inst), svcNameOf inst) d \<and> rolledOut d) \<and>
      (\<exists>ep. serves (endpointsApi (irClient r)) (omNamespace (liMeta inst), svcName) ep \<and> readyOnPort 8000 ep) \<and>
      healthySeen r (serviceProbeURL (omNamespace (liMeta inst)) svcName 8000 ''/health''))"

lemma yields_serviceHasReadyEndpoints:
  "yields (serviceHasReadyEndpoints r ns n port)
     (\<lambda>(b, _). b \<longrightarrow> (\<exists>ep. serves (endpointsApi (irClient r)) (ns, n) ep \<and> readyOnPort port ep))"
  unfolding serviceHasReadyEndpoints_def
  by (rule yields_tryE [OF yields_getObj]) (auto intro!: yields_intros)

lemma yields_evaluateInstanceReadiness:
  "yields (evaluateInstanceReadiness r inst svcName) (\<lambda>v. vdReady v \<longrightarrow> readySeen r inst svcName)"
  unfolding evaluateInstanceReadiness_def Let_def
proof (rule yields_tryE [OF yields_getObj], goal_cases)
  case (1 e)
  show ?case by (auto intro!: yields_intros simp: verdict_def)
next
  case (2 d)
  show ?case
  proof (rule yields_if)
    show "yields (retE (deploymentReadiness d (svcNameOf inst))) (\<lambda>v. vdReady v \<longrightarrow> readySeen r inst svcName)"
      if "\<not> vdReady (deploymentReadiness d (svcNameOf inst))"
      using that by (auto intro!: yields_retE)
  next
    assume "\<not> \<not> vdReady (deploymentReadiness d (svcNameOf inst))"
    then have "rolledOut d" by (simp add: deploymentReadiness_ready)
    with 2 have d: "\<exists>d. serves (deployments (irClient r)) (omNamespace (liMeta inst), svcNameOf inst) d \<and> rolledOut d" by blast
    show "yields (bindE (serviceHasReadyEndpoints r (omNamespace (liMeta inst)) svcName 8000) (\<lambda>(endpointsReady, message).
               if \<not> endpointsReady then retE (verdict False ''ServiceEndpointsMissing'' message)
               else tryE (runServiceHealthCheck r (serviceProbeURL (omNamespace (liMeta inst)) svcName 8000 ''/health''))
                   (\<lambda>err. retE (verdict False ''HealthCheckFailed'' (''Service probe failed for '' @
                     serviceProbeURL (omNamespace (liMeta inst)) svcName 8000 ''/health'' @ '': '' @ errorText err)))
                   (\<lambda>_. retE (verdict True ''Provisioned'' ''LLM instance is ready''))))
        (\<lambda>v. vdReady v \<longrightarrow> readySeen r inst svcName)"
      by (rule yields_bindE [OF yields_serviceHasReadyEndpoints])
        (auto intro!: yields_intros yields_tryE [OF yields_runServiceHealthCheck] simp: verdict_def readySeen_def d)
  qed
qed

lemma emits_evaluateInstanceReadiness [emits_intros]: "emits G (evaluateInstanceReadiness r inst svcName)"
  unfolding evaluateInstanceReadiness_def serviceHasReadyEndpoints_def runServiceHealthCheck_def
    defaultServiceHealthChecker_def Let_def
  by (intro emits_intros)

end
