(* ===== verification/ByocController.thy ===== *)
theory ByocController
  imports ByocKeys ByocTLS Readiness
begin

text \<open>
  \<^verbatim>\<open>internal/controller/llminstance_byoc.go\<close>: the reconciliation of an instance that runs on a tenant's
  cluster, from the kubeconfig in a secret to the published endpoint, the move to another cluster,
  and the removal of everything that was put there.
\<close>

section \<open>Credentials\<close>

definition kubeconfigInvalid :: string where "kubeconfigInvalid = ''KubeconfigInvalid''"

text \<open>\<^verbatim>\<open>inst.Spec.ClusterRef.KubeconfigSecretName\<close>, read only where \<^verbatim>\<open>IsBYOC\<close> holds.\<close>

definition clusterSecretName :: "llm_instance \<Rightarrow> string" where
  "clusterSecretName inst = (case spClusterRef (liSpec inst) of None \<Rightarrow> [] | Some c \<Rightarrow> crKubeconfigSecretName c)"

text \<open>\<^verbatim>\<open>byocKubeconfig\<close>: the reason and message why there is none, or the credentials.\<close>

definition byocKubeconfig :: "'w instance_reconciler \<Rightarrow> llm_instance \<Rightarrow> ('w, (string \<times> string) + string) io" where
  "byocKubeconfig r inst =
     (let secretName = clusterSecretName inst in
      tryE (getObj (secrets (irClient r)) (omNamespace (liMeta inst), secretName))
        (\<lambda>e. if \<not> isNotFound e then failE (APIErr e)
             else retE (Inl (byocReasonMissingSecret, ''kubeconfig Secret '' @ quoted secretName @ '' not found'')))
        (\<lambda>sec. if getS (seData sec) byocKubeconfigKey \<noteq> [] then retE (Inr (getS (seData sec) byocKubeconfigKey))
               else retE (Inl (kubeconfigInvalid, ''kubeconfig Secret '' @ quoted secretName @ '' has no '' @
                 quoted byocKubeconfigKey @ '' key''))))"

definition byocClient :: "'w instance_reconciler \<Rightarrow> llm_instance \<Rightarrow> ('w, (string \<times> string) + ('w client \<times> string)) io" where
  "byocClient r inst =
     bindE (byocKubeconfig r inst) (\<lambda>k. case k of
        Inl x \<Rightarrow> retE (Inl x)
      | Inr kubeconfig \<Rightarrow>
          (case remoteClientForKubeconfig r kubeconfig of
             Inl err \<Rightarrow> retE (Inl (kubeconfigInvalid, ''cannot build client for BYOC cluster: '' @ errorText err))
           | Inr remote \<Rightarrow> retE (Inr (remote, kubeconfig))))"

text \<open>\<^verbatim>\<open>cachedBYOCKubeconfig\<close>: \<open>None\<close> for nil.\<close>

definition cachedBYOCKubeconfig :: "'w instance_reconciler \<Rightarrow> llm_instance \<Rightarrow> string \<Rightarrow> ('w, string option) io" where
  "cachedBYOCKubeconfig r inst slug =
     (if slug = [] then retE None
      else
        let name = byocCredentialsName slug in
        tryE (getObj (secrets (irClient r)) (omNamespace (liMeta inst), name))
          (\<lambda>e. if isNotFound e then retE None else failE (APIErr e))
          (\<lambda>cached.
             if \<not> isControlledBy (irLib r) (seMeta cached) (liMeta inst)
             then failE (errNew ''refusing foreign cached BYOC credentials'')
             else if getS (seData cached) byocKubeconfigKey = []
             then failE (errNew (''cached BYOC credentials Secret '' @ quoted name @ '' has no '' @ quoted byocKubeconfigKey @ '' key''))
             else retE (Some (getS (seData cached) byocKubeconfigKey))))"

definition newCredentials :: "llm_instance \<Rightarrow> string \<Rightarrow> string \<Rightarrow> secret" where
  "newCredentials inst slug kubeconfig =
     \<lparr>seMeta = (newMeta (omNamespace (liMeta inst)) (byocCredentialsName slug))\<lparr>
        omLabels := byocLabels (omName (liMeta inst)) slug\<rparr>,
      seType = secretTypeOpaque, seData = [byocKubeconfigKey \<mapsto> kubeconfig], seStringData = Map.empty\<rparr>"

definition ensureCachedCredentials :: "'w instance_reconciler \<Rightarrow> llm_instance \<Rightarrow> string \<Rightarrow> string \<Rightarrow> ('w, unit) io" where
  "ensureCachedCredentials r inst slug kubeconfig =
     tryE (getObj (secrets (irClient r)) (omNamespace (liMeta inst), byocCredentialsName slug))
       (\<lambda>e. if \<not> isNotFound e then failE (APIErr e)
            else
              let sec = newCredentials inst slug kubeconfig in
              bindE (controlE r inst (seMeta sec)) (\<lambda>m.
              bindE (apiE (localCreate OSec (secrets (irClient r)) (sec\<lparr>seMeta := m\<rparr>))) (\<lambda>_. retE ())))
       (\<lambda>existing.
          if \<not> isControlledBy (irLib r) (seMeta existing) (liMeta inst)
          then failE (errNew ''refusing foreign cached BYOC credentials'')
          else if getS (seData existing) byocKubeconfigKey = kubeconfig then retE ()
          else bindE (apiE (localUpdate OSec (secrets (irClient r))
            (existing\<lparr>seData := (seData existing)(byocKubeconfigKey \<mapsto> kubeconfig)\<rparr>))) (\<lambda>_. retE ()))"

section \<open>Removal\<close>

definition byocCleanupTLSConfig :: "'w instance_reconciler \<Rightarrow> llm_instance \<Rightarrow> byoc_tls_config" where
  "byocCleanupTLSConfig r inst =
     (let cfg = irBYOCTLS r; domain = stActiveBYOCTLSDomain (liStatus inst); ns = stActiveBYOCTLSNamespace (liStatus inst)
      in cfg\<lparr>btDomain := (if domain \<noteq> [] then domain else btDomain cfg),
             btNamespace := (if ns \<noteq> [] then ns else btNamespace cfg)\<rparr>)"

text \<open>One iteration of the loop of \<^verbatim>\<open>cleanupBYOCObjects\<close>: the errors it adds, and whether the object is
  still there.\<close>

definition removeOwned ::
    "('o \<Rightarrow> kobj) \<Rightarrow> ('w, 'o) kind_api \<Rightarrow> ('o \<Rightarrow> objmeta) \<Rightarrow> string \<Rightarrow> llm_instance \<Rightarrow> ('w, goerr list \<times> bool) io" where
  "removeOwned tag a meta name inst =
     tryE (getObj a (remoteKey name))
       (\<lambda>e. retE (if isNotFound e then [] else [APIErr e], False))
       (\<lambda>obj. tryE (checkBYOCObjectOwner (meta obj) inst)
          (\<lambda>e. retE ([e], False))
          (\<lambda>_. tryE (deleteObj RemoteCluster tag a obj (preUID (meta obj)))
             (\<lambda>e. retE (if isNotFound e then []
                        else [Errorf (''delete '' @ omNamespace (meta obj) @ ''/'' @ omName (meta obj)) [APIErr e]], True))
             (\<lambda>_. retE ([], True))))"

definition cleanupBYOCObjects :: "'w client \<Rightarrow> llm_instance \<Rightarrow> string \<Rightarrow> ('w, unit) io" where
  "cleanupBYOCObjects remote inst slug =
     bindE (removeOwned ODep (deployments remote) dpMeta (byocBaseName slug) inst) (\<lambda>(es1, p1).
     bindE (removeOwned OSvc (services remote) svMeta (byocBaseName slug) inst) (\<lambda>(es2, p2).
     bindE (removeOwned OSec (secrets remote) seMeta (byocKeySecretName slug) inst) (\<lambda>(es3, p3).
     bindE (removeOwned OCfg (configMaps remote) cmMeta (byocProxyName slug) inst) (\<lambda>(es4, p4).
       let waiting = (if p1 \<or> p2 \<or> p3 \<or> p4 then [errTLSNotReady ''waiting for owned BYOC objects to disappear''] else [])
       in errE (errors_join (map Some (es1 @ es2 @ es3 @ es4 @ waiting)))))))"

definition deleteCachedBYOCCredentials :: "'w instance_reconciler \<Rightarrow> llm_instance \<Rightarrow> string \<Rightarrow> ('w, unit) io" where
  "deleteCachedBYOCCredentials r inst slug =
     tryE (getObj (secrets (irClient r)) (omNamespace (liMeta inst), byocCredentialsName slug))
       ignoreNotFound
       (\<lambda>cached.
          if \<not> isControlledBy (irLib r) (seMeta cached) (liMeta inst)
          then failE (errNew ''refusing to delete foreign cached credentials'')
          else tryE (deleteObj LocalCluster OSec (secrets (irClient r)) cached (preUID (seMeta cached))) ignoreNotFound retE)"

text \<open>The client behind cached credentials, for a cluster that is still the recorded one.\<close>

definition reachBYOCTarget :: "'w instance_reconciler \<Rightarrow> string \<Rightarrow> string \<Rightarrow> string \<Rightarrow> ('w, 'w client) io" where
  "reachBYOCTarget r data targetID refusal =
     bindE (liftE (remoteClientForKubeconfig r data)) (\<lambda>remote.
     bindE (liftE (byocTargetIdentity (irBYOCLib r) data)) (\<lambda>apiID.
     bindE (byocClusterIdentity remote apiID) (\<lambda>actualID.
       if targetID \<noteq> [] \<and> actualID \<noteq> targetID then failE (errNew refusal) else retE remote)))"

text \<open>The remote part of the removal, common to both callers.\<close>

definition removeBYOCTarget ::
    "'w instance_reconciler \<Rightarrow> llm_instance \<Rightarrow> string \<Rightarrow> string \<Rightarrow> string \<Rightarrow> string \<Rightarrow> ('w, unit) io" where
  "removeBYOCTarget r inst slug data targetID refusal =
     bindE (reachBYOCTarget r data targetID refusal) (\<lambda>remote.
     bindE (cleanupBYOCObjects remote inst slug) (\<lambda>_.
       if targetID \<noteq> [] then cleanupBYOCRemoteTLS r remote inst (byocCleanupTLSConfig r inst) targetID else retE ()))"

definition cleanupSlug :: "'w instance_reconciler \<Rightarrow> llm_instance \<Rightarrow> goerr + string" where
  "cleanupSlug r inst =
     (let st = liStatus inst in
      if stActiveBYOCSlug st = [] \<and> stActiveBYOCKubeconfigSecretName st \<noteq> []
      then (case Select (irSlugPolicy r) (liMeta inst) of
              Inl err \<Rightarrow> Inl (Errorf ''legacy BYOC cleanup requires its reviewed slug mapping'' [err])
            | Inr selection \<Rightarrow> Inr (slSlug selection))
      else Inr (stActiveBYOCSlug st))"

definition cleanupBYOC :: "'w instance_reconciler \<Rightarrow> llm_instance \<Rightarrow> ('w, unit) io" where
  "cleanupBYOC r inst =
     (let targetID = stActiveBYOCTargetID (liStatus inst) in
      bindE (liftE (cleanupSlug r inst)) (\<lambda>slug.
      bindE (if targetID \<noteq> [] then cleanupBYOCManagedTLS r inst (byocCleanupTLSConfig r inst) targetID else retE ()) (\<lambda>_.
        if stActiveBYOCKubeconfigSecretName (liStatus inst) = [] then retE ()
        else
          bindE (cachedBYOCKubeconfig r inst slug) (\<lambda>data. case data of
             None \<Rightarrow> failE (errNew ''cannot clean BYOC without protected cached credentials'')
           | Some kubeconfig \<Rightarrow>
               bindE (removeBYOCTarget r inst slug kubeconfig targetID ''refusing cleanup on replacement BYOC cluster'') (\<lambda>_.
                 deleteCachedBYOCCredentials r inst slug)))))"

section \<open>A change of the target\<close>

text \<open>Whether the instance stays where it is: the part of \<^verbatim>\<open>cleanupChangedBYOCTarget\<close> that returns nil.\<close>

definition keepsBYOCTarget :: "'w instance_reconciler \<Rightarrow> llm_instance \<Rightarrow> string \<Rightarrow> ('w, bool) io" where
  "keepsBYOCTarget r inst oldData =
     (if \<not> isBYOC inst then retE False
      else
        let same = (stActiveBYOCKubeconfigSecretName (liStatus inst) = clusterSecretName inst);
            oldID = stActiveBYOCTargetID (liStatus inst) in
        bindE (byocKubeconfig r inst) (\<lambda>k. case k of
          Inl _ \<Rightarrow> retE same
        | Inr data \<Rightarrow>
            bindE (liftE (byocTargetIdentity (irBYOCLib r) oldData)) (\<lambda>oldAPI.
            bindE (liftE (byocTargetIdentity (irBYOCLib r) data)) (\<lambda>newAPI.
              if same \<and> oldAPI = newAPI
              then
                bindE (liftE (remoteClientForKubeconfig r data)) (\<lambda>remote.
                bindE (byocClusterIdentity remote newAPI) (\<lambda>currentID.
                  retE (oldID = [] \<or> currentID = oldID)))
              else retE False))))"

definition forgetTarget :: "llm_instance \<Rightarrow> llm_instance" where
  "forgetTarget inst = inst\<lparr>liStatus := (liStatus inst)\<lparr>stActiveBYOCKubeconfigSecretName := [], stActiveBYOCTargetID := [],
     stActiveBYOCTLSDomain := [], stActiveBYOCTLSNamespace := []\<rparr>\<rparr>"

text \<open>The rest of it: stop advertising, remove, forget.  After each status update the instance is the
  response of the API.\<close>

definition leaveBYOCTarget :: "'w instance_reconciler \<Rightarrow> llm_instance \<Rightarrow> string \<Rightarrow> string \<Rightarrow> ('w, unit) io" where
  "leaveBYOCTarget r inst0 slug oldData =
     (let oldID = stActiveBYOCTargetID (liStatus inst0) in
      bindE (updateProvisioningStatus r inst0 [] byocReasonTargetChanging ''Removing the previous BYOC endpoint'') (\<lambda>_.
      bindE heldE (\<lambda>inst.
      bindE (if oldID \<noteq> [] then cleanupBYOCManagedTLS r inst (byocCleanupTLSConfig r inst) oldID else retE ()) (\<lambda>_.
      bindE (removeBYOCTarget r inst slug oldData oldID
        ''previous BYOC cluster identity changed; refusing cleanup on replacement cluster'') (\<lambda>_.
      bindE (updateProvisioningStatus r (forgetTarget inst) [] byocReasonTargetChanging ''Previous BYOC target removed'') (\<lambda>_.
      bindE heldE (\<lambda>inst1. deleteCachedBYOCCredentials r inst1 slug)))))))"

definition cleanupChangedBYOCTarget :: "'w instance_reconciler \<Rightarrow> llm_instance \<Rightarrow> string \<Rightarrow> ('w, unit) io" where
  "cleanupChangedBYOCTarget r inst slug0 =
     (if stActiveBYOCKubeconfigSecretName (liStatus inst) = [] then retE ()
      else
        let slug = safeBYOCSlug inst slug0 in
        bindE (cachedBYOCKubeconfig r inst slug) (\<lambda>cached. case cached of
          None \<Rightarrow> failE (errNew ''cached BYOC credentials missing for previous target'')
        | Some oldData \<Rightarrow>
            bindE (keepsBYOCTarget r inst oldData) (\<lambda>keep.
              if keep then retE () else leaveBYOCTarget r inst slug oldData)))"

section \<open>Reconciliation\<close>

definition reconcileBYOCWorkload ::
    "'w instance_reconciler \<Rightarrow> 'w client \<Rightarrow> llm_instance \<Rightarrow> string \<Rightarrow> model_selection \<Rightarrow> string \<Rightarrow> string \<Rightarrow> string \<Rightarrow> ('w, string) io" where
  "reconcileBYOCWorkload r remote inst slug model targetID tlsName hostname =
     bindE (reconcileBYOCService remote inst slug) (\<lambda>_.
     bindE (reconcileBYOCManagedCertificate r inst (irBYOCTLS r) targetID) (\<lambda>_.
     bindE (apiE (getObj (services remote) (remoteKey (byocBaseName slug)))) (\<lambda>svc.
       let addr = loadBalancerAddress svc in
       if addr = [] then failE (errTLSNotReady ''waiting for BYOC LoadBalancer address'')
       else
         bindE (reconcileBYOCDNS r inst (irBYOCTLS r) addr targetID) (\<lambda>_.
         bindE (reconcileBYOCTLSSecret r remote inst (irBYOCTLS r) targetID) (\<lambda>tlsRevision.
         bindE (reconcileBYOCProxyConfig remote inst slug hostname) (\<lambda>_.
         bindE (desiredAPIKeyFile r remote inst slug) (\<lambda>(keyFile, bootstrap).
         bindE (reconcileBYOCKeySecret remote inst slug keyFile bootstrap) (\<lambda>keysRevision.
         bindE (reconcileBYOCDeployment (irLib r) remote inst slug model keysRevision tlsName tlsRevision) (\<lambda>_.
           retE tlsRevision)))))))))"

text \<open>The verdict and, when it is positive, the endpoint.\<close>

definition evaluateBYOCReadiness ::
    "'w instance_reconciler \<Rightarrow> 'w client \<Rightarrow> string \<Rightarrow> string \<Rightarrow> string \<Rightarrow> ('w, verdict \<times> string) io" where
  "evaluateBYOCReadiness r remote slug hostname fingerprint =
     (let name = byocBaseName slug; no = (\<lambda>reason message. retE (verdict False reason message, [])) in
      tryE (getObj (deployments remote) (remoteKey name))
        (\<lambda>e. if isNotFound e then no ''DeploymentNotFound'' (''Deployment '' @ quoted name @ '' not found on BYOC cluster'')
             else failE (APIErr e))
        (\<lambda>deploy.
           let v = deploymentReadiness deploy name in
           if \<not> vdReady v then retE (v, [])
           else
             tryE (getObj (services remote) (remoteKey name))
               (\<lambda>e. if isNotFound e then no ''ServiceNotFound'' (''Service '' @ quoted name @ '' not found on BYOC cluster'')
                    else failE (APIErr e))
               (\<lambda>svc.
                  if loadBalancerAddress svc = []
                  then no ''LoadBalancerPending'' (''Service '' @ quoted name @ '' has no LoadBalancer address yet'')
                  else
                    let endpoint = ''https://'' @ hostname; probeURL = endpoint @ ''/health'' in
                    tryE (runBYOCHealthCheck r probeURL fingerprint)
                      (\<lambda>err. no ''HealthCheckFailed'' (''probe failed for '' @ probeURL @ '': '' @ errorText err))
                      (\<lambda>_. retE (verdict True ''Provisioned'' ''LLM instance is ready'', endpoint)))))"

definition byocMigration :: "'w instance_reconciler \<Rightarrow> llm_instance \<Rightarrow> string \<Rightarrow> goerr option" where
  "byocMigration r inst slug =
     (let st = liStatus inst; cfg = irBYOCTLS r in
      if stActiveBYOCTLSDomain st \<noteq> [] \<and> stActiveBYOCTLSDomain st \<noteq> btDomain cfg \<or>
         stActiveBYOCTLSNamespace st \<noteq> [] \<and> stActiveBYOCTLSNamespace st \<noteq> btNamespace cfg
      then Some (errNew ''BYOC TLS domain or credential namespace changed; explicit migration is required'')
      else if stActiveBYOCSlug st \<noteq> [] \<and> stActiveBYOCSlug st \<noteq> slug
      then Some (errNew ''BYOC workload slug is immutable after provisioning'')
      else None)"

text \<open>The verified target is recorded in the status, after its credentials are cached.\<close>

definition enterTarget :: "'w instance_reconciler \<Rightarrow> llm_instance \<Rightarrow> string \<Rightarrow> string \<Rightarrow> llm_instance" where
  "enterTarget r inst slug targetID = inst\<lparr>liStatus := (liStatus inst)\<lparr>
     stActiveBYOCKubeconfigSecretName := clusterSecretName inst, stActiveBYOCSlug := slug, stActiveBYOCTargetID := targetID,
     stActiveBYOCTLSDomain := btDomain (irBYOCTLS r), stActiveBYOCTLSNamespace := btNamespace (irBYOCTLS r)\<rparr>\<rparr>"

definition recordBYOCTarget :: "'w instance_reconciler \<Rightarrow> llm_instance \<Rightarrow> string \<Rightarrow> string \<Rightarrow> string \<Rightarrow> ('w, unit) io" where
  "recordBYOCTarget r inst slug data targetID =
     (let st = liStatus inst in
      bindE (if stActiveBYOCTargetID st \<noteq> [] \<and> stActiveBYOCTargetID st \<noteq> targetID
             then failE (errNew ''BYOC cluster identity changed'') else retE ()) (\<lambda>_.
      bindE (ensureCachedCredentials r inst slug data) (\<lambda>_.
        if stActiveBYOCKubeconfigSecretName st \<noteq> clusterSecretName inst \<or> stActiveBYOCSlug st = [] \<or> stActiveBYOCTargetID st = []
        then updateProvisioningStatus r (enterTarget r inst slug targetID) [] byocReasonTargetChanging ''BYOC HTTPS is being provisioned''
        else retE ())))"

definition publishBYOC ::
    "'w instance_reconciler \<Rightarrow> 'w client \<Rightarrow> llm_instance \<Rightarrow> string \<Rightarrow> string \<Rightarrow> string \<Rightarrow> ('w, result) io" where
  "publishBYOC r remote inst slug hostname tlsRevision =
     bindE (evaluateBYOCReadiness r remote slug hostname tlsRevision) (\<lambda>(v, endpoint).
       if \<not> vdReady v
       then bindE (updateProvisioningStatus r inst [] (vdReason v) (vdMessage v)) (\<lambda>_. retE (requeueAfter 5))
       else bindE (InstanceBase.updateReadyStatus r inst endpoint) (\<lambda>_. retE (requeueAfter 30)))"

text \<open>The body of \<^verbatim>\<open>reconcileBYOC\<close> under its deferred function.\<close>

definition provisionBYOC ::
    "'w instance_reconciler \<Rightarrow> 'w client \<Rightarrow> string \<Rightarrow> llm_instance \<Rightarrow> string \<Rightarrow> model_selection \<Rightarrow> ('w, result) io" where
  "provisionBYOC r remote data inst0 slug model =
     bindE (liftE (byocTargetIdentity (irBYOCLib r) data)) (\<lambda>apiID.
     bindE (byocClusterIdentity remote apiID) (\<lambda>targetID.
     bindE (liftE (byocTLSIdentity (irLib r) inst0 (irBYOCTLS r) targetID)) (\<lambda>(tlsName, hostname).
     bindE (recordBYOCTarget r inst0 slug data targetID) (\<lambda>_.
     bindE heldE (\<lambda>inst.
     bindE (ensureBYOCNamespace remote) (\<lambda>_.
     tryE (reconcileBYOCWorkload r remote inst slug model targetID tlsName hostname)
       (\<lambda>err. if errors_is err ErrBYOCTLSNotReady
              then bindE (updateProvisioningStatus r inst [] ''BYOCTLSProvisioning''
                     ''Waiting for a valid managed BYOC certificate and endpoint'') (\<lambda>_. retE (requeueAfter 5))
              else failE err)
       (\<lambda>tlsRevision. publishBYOC r remote inst slug hostname tlsRevision)))))))"

definition reconcileBYOCBody :: "'w instance_reconciler \<Rightarrow> llm_instance \<Rightarrow> string \<Rightarrow> model_selection \<Rightarrow> ('w, result) io" where
  "reconcileBYOCBody r inst slug model =
     bindE (errE (byocMigration r inst slug)) (\<lambda>_.
     bindE (byocClient r inst) (\<lambda>c. case c of
        Inl (reason, message) \<Rightarrow>
          bindE (updateProvisioningStatus r inst [] reason message) (\<lambda>_. retE (requeueAfter 5))
      | Inr (remote, data) \<Rightarrow> provisionBYOC r remote data inst slug model))"

definition reconcileBYOC :: "'w instance_reconciler \<Rightarrow> llm_instance \<Rightarrow> string \<Rightarrow> model_selection \<Rightarrow> ('w, result) io" where
  "reconcileBYOC r inst slug model =
     tryE (reconcileBYOCBody r inst slug model)
       (\<lambda>reconcileErr.
          bindE heldE (\<lambda>current.
          tryE (updateProvisioningStatus r current [] ''BYOCReconcileFailed''
              ''BYOC endpoint is unavailable; operator reconciliation must succeed before publishing HTTPS'')
            (\<lambda>err. failE (Joined [reconcileErr, err]))
            (\<lambda>_. failE reconcileErr)))
       retE"

section \<open>Waking instances up\<close>

text \<open>\<^verbatim>\<open>findInstancesForSecret\<close>, the map function of the watch on secrets.\<close>

definition findInstancesForSecret :: "'w instance_reconciler \<Rightarrow> kobj \<Rightarrow> ('w, key list) io" where
  "findInstancesForSecret r obj =
     (case obj of
        OSec sec \<Rightarrow>
          if btNamespace (irBYOCTLS r) \<noteq> [] \<and> omNamespace (seMeta sec) = btNamespace (irBYOCTLS r)
          then tryE (listObj (instances (irClient r)) anywhere) (\<lambda>_. retE [])
                 (\<lambda>items. retE (map (\<lambda>i. keyOf (liMeta i)) (filter isBYOC items)))
          else tryE (listObj (instances (irClient r)) (inNamespace (omNamespace (seMeta sec)) [])) (\<lambda>_. retE [])
                 (\<lambda>items. retE (map (\<lambda>i. keyOf (liMeta i)) (filter (\<lambda>i.
                    getS (omLabels (seMeta sec)) instanceLabelKey = omName (liMeta i) \<or>
                    isBYOC i \<and> clusterSecretName i = omName (seMeta sec)) items)))
      | _ \<Rightarrow> retE [])"

section \<open>Which writes\<close>

lemma emits_conj:
  assumes "emits G m" and "emits H m"
  shows "emits (\<lambda>w. G w \<and> H w) m"
  using assms unfolding emits_def by (metis same_append_eq)

text \<open>Deletion of an object of the workload on the tenant's cluster, and of the cached credentials.\<close>

fun workloadKind :: "kobj \<Rightarrow> bool" where
  "workloadKind (ODep _) = True"
| "workloadKind (OSvc _) = True"
| "workloadKind (OSec _) = True"
| "workloadKind (OCfg _) = True"
| "workloadKind _ = False"

definition workloadRemoval :: "llm_instance \<Rightarrow> wreq \<Rightarrow> bool" where
  "workloadRemoval inst w = (\<exists>obj. w = Write RemoteCluster (WDelete (preUID (kmeta obj))) obj \<and> workloadKind obj \<and> byocOwned (kmeta obj) inst)"

definition credentialRemoval :: "'w instance_reconciler \<Rightarrow> llm_instance \<Rightarrow> wreq \<Rightarrow> bool" where
  "credentialRemoval r inst w = (\<exists>sec. w = Write LocalCluster (WDelete (preUID (seMeta sec))) (OSec sec) \<and>
     isControlledBy (irLib r) (seMeta sec) (liMeta inst))"

lemma emits_byocKubeconfig [emits_intros]: "emits G (byocKubeconfig r inst)"
  unfolding byocKubeconfig_def Let_def by (intro emits_intros)

lemma emits_byocClient [emits_intros]: "emits G (byocClient r inst)"
  unfolding byocClient_def by (intro emits_intros)

lemma emits_cachedBYOCKubeconfig [emits_intros]: "emits G (cachedBYOCKubeconfig r inst slug)"
  unfolding cachedBYOCKubeconfig_def Let_def by (intro emits_intros)

lemma emits_reachBYOCTarget [emits_intros]: "emits G (reachBYOCTarget r data targetID refusal)"
  unfolding reachBYOCTarget_def by (intro emits_intros)

lemma emits_keepsBYOCTarget [emits_intros]: "emits G (keepsBYOCTarget r inst oldData)"
  unfolding keepsBYOCTarget_def Let_def by (intro emits_intros)

lemma emits_removeOwned:
  assumes "\<And>x. kmeta (tag x) = meta x" "\<And>x. workloadKind (tag x)"
  shows "emits (workloadRemoval inst) (removeOwned tag a meta name inst)"
proof -
  have ok: "emits (workloadRemoval inst) (deleteObj RemoteCluster tag a x (preUID (meta x)))" if "byocOwned (meta x) inst" for x
    by (rule emits_deleteObj) (use that assms in \<open>auto simp: workloadRemoval_def\<close>)
  show ?thesis
    unfolding removeOwned_def
    by (intro emits_tryE [OF emits_getObj] emits_retE emits_try [OF emits_checkBYOCObjectOwner yields_checkBYOCObjectOwner]
        emits_tryE [OF ok])
qed

lemma emits_cleanupBYOCObjects: "emits (workloadRemoval inst) (cleanupBYOCObjects remote inst slug)"
  unfolding cleanupBYOCObjects_def Let_def
  by (intro emits_bindE emits_removeOwned) (auto intro!: emits_bindE emits_removeOwned emits_errE split: prod.split)

lemma emits_deleteCachedBYOCCredentials: "emits (credentialRemoval r inst) (deleteCachedBYOCCredentials r inst slug)"
  unfolding deleteCachedBYOCCredentials_def
  by (intro emits_intros) (auto simp: credentialRemoval_def)

lemma emits_ensureCachedCredentials:
  assumes "\<And>op sec. G (Write LocalCluster op (OSec sec))"
  shows "emits G (ensureCachedCredentials r inst slug data)"
  unfolding ensureCachedCredentials_def Let_def controlE_def by (intro emits_intros assms)

definition dnsRequest :: "wreq \<Rightarrow> bool" where
  "dnsRequest w = (\<exists>c op obj. w = Write c op (ODns obj))"

lemma dns_cleanupBYOCDNS: "emits (\<lambda>w. wrSite w = LocalCluster \<and> dnsRequest w) (cleanupBYOCDNS r inst cfg targetID)"
  unfolding cleanupBYOCDNS_def deleteExact_def by (intro emits_intros; simp add: dnsRequest_def)

lemma local_cleanupCertificate: "emits (\<lambda>w. wrSite w = LocalCluster) (cleanupCertificate r inst cfg targetID)"
  unfolding cleanupCertificate_def stopIssuance_def removeTLSSecret_def deleteExact_def
    reconcileBYOCManagedCertificate_def obtainCertificate_def refusePreexisting_def Let_def
  by (intro emits_intros; simp)

lemma local_cleanupBYOCManagedTLS: "emits (\<lambda>w. wrSite w = LocalCluster) (cleanupBYOCManagedTLS r inst cfg targetID)"
  unfolding cleanupBYOCManagedTLS_split
  by (rule emits_bindE [OF emits_mono [OF dns_cleanupBYOCDNS] local_cleanupCertificate]) simp

lemma remote_cleanupBYOCRemoteTLS: "emits (\<lambda>w. wrSite w = RemoteCluster) (cleanupBYOCRemoteTLS r remote inst cfg targetID)"
  unfolding cleanupBYOCRemoteTLS_def deleteExact_def by (intro emits_intros; simp)

section \<open>Removal in order\<close>

text \<open>\<open>finishes G over m\<close>: the writes of a successful run satisfy \<open>G\<close>, and \<open>over\<close> is known then.\<close>

definition finishes :: "(wreq \<Rightarrow> bool) \<Rightarrow> bool \<Rightarrow> ('w sys, 'e, 'a) eff \<Rightarrow> bool" where
  "finishes G over m = (\<forall>s x s'. m s = (Inr x, s') \<longrightarrow> over \<and> (\<exists>ws. journal s' = journal s @ ws \<and> list_all G ws))"

lemma finishesD: "finishes G over m \<Longrightarrow> m s = (Inr x, s') \<Longrightarrow> over \<and> (\<exists>ws. journal s' = journal s @ ws \<and> list_all G ws)"
  unfolding finishes_def by blast

lemma finishes_emits: "emits G m \<Longrightarrow> over \<Longrightarrow> finishes G over m"
  unfolding finishes_def list_all_iff using emits_run by fast

lemma finishes_weaken: "finishes G over m \<Longrightarrow> (over \<Longrightarrow> over') \<Longrightarrow> finishes G over' m"
  unfolding finishes_def by blast

lemma finishes_failE: "finishes G over (failE e)"
  by (simp add: finishes_def failE_def)

lemma finishes_if: "(b \<Longrightarrow> finishes G over m) \<Longrightarrow> (\<not> b \<Longrightarrow> finishes G over n) \<Longrightarrow> finishes G over (if b then m else n)"
  by simp

lemma finishes_bind:
  assumes "quiet m" and "yields m R" and "\<And>x. R x \<Longrightarrow> finishes G over (k x)"
  shows "finishes G over (bindE m k)"
  unfolding finishes_def
proof (intro allI impI)
  fix s y s'
  assume run: "bindE m k s = (Inr y, s')"
  then obtain x t where m: "m s = (Inr x, t)" and k: "k x t = (Inr y, s')"
    by (auto simp: bindE_def tryE_def failE_def split: prod.splits sum.splits)
  have "journal t = journal s" using assms(1) m unfolding quiet_def by blast
  with finishesD [OF assms(3) [OF yieldsD [OF assms(2) m]] k]
  show "over \<and> (\<exists>ws. journal s' = journal s @ ws \<and> list_all G ws)" by simp
qed

lemma removeOwned_idle:
  assumes "removeOwned tag a meta name inst s = (Inr (es, False), s')"
  shows "journal s' = journal s"
proof -
  obtain v t where g: "getObj a (remoteKey name) s = (v, t)" by (cases "getObj a (remoteKey name) s")
  have t: "journal t = journal s" by (rule silent_run [OF emits_getObj g])
  show ?thesis
  proof (cases v)
    case (Inl e)
    with assms g t show ?thesis by (simp add: removeOwned_def tryE_def retE_def)
  next
    case (Inr x)
    with assms g t show ?thesis
      by (auto simp: removeOwned_def tryE_def retE_def checkBYOCObjectOwner_def failE_def split: if_splits prod.splits sum.splits)
  qed
qed

lemma removeOwned_returns: "\<exists>es p t. removeOwned tag a meta name inst s = (Inr (es, p), t)"
  by (auto simp: removeOwned_def tryE_def retE_def checkBYOCObjectOwner_def failE_def split: prod.split sum.split)

text \<open>An object is over with when it was answered for as absent.\<close>

lemma removeOwned_gone:
  assumes "removeOwned tag a meta name inst s = (Inr ([], False), s')"
  shows "vanished a (remoteKey name)"
proof (cases "fst (kGet a (remoteKey name) (world s))")
  case (Inl e)
  with assms have "isNotFound e"
    by (auto simp: removeOwned_def tryE_def retE_def getObj_def readWith_def split: prod.splits if_splits)
  with Inl show ?thesis unfolding vanished_def by blast
next
  case (Inr x)
  with assms show ?thesis
    by (auto simp: removeOwned_def tryE_def retE_def getObj_def readWith_def checkBYOCObjectOwner_def failE_def
        split: prod.splits if_splits sum.splits)
qed

definition workloadGone :: "'w client \<Rightarrow> string \<Rightarrow> bool" where
  "workloadGone remote slug = (vanished (deployments remote) (remoteKey (byocBaseName slug)) \<and>
     vanished (services remote) (remoteKey (byocBaseName slug)) \<and> vanished (secrets remote) (remoteKey (byocKeySecretName slug)) \<and>
     vanished (configMaps remote) (remoteKey (byocProxyName slug)))"

lemma cleanupBYOCObjects_done:
  assumes "cleanupBYOCObjects remote inst slug s = (Inr x, s')"
  shows "journal s' = journal s \<and> workloadGone remote slug"
proof -
  obtain es1 p1 s1 where 1: "removeOwned ODep (deployments remote) dpMeta (byocBaseName slug) inst s = (Inr (es1, p1), s1)"
    using removeOwned_returns by blast
  obtain es2 p2 s2 where 2: "removeOwned OSvc (services remote) svMeta (byocBaseName slug) inst s1 = (Inr (es2, p2), s2)"
    using removeOwned_returns by blast
  obtain es3 p3 s3 where 3: "removeOwned OSec (secrets remote) seMeta (byocKeySecretName slug) inst s2 = (Inr (es3, p3), s3)"
    using removeOwned_returns by blast
  obtain es4 p4 s4 where 4: "removeOwned OCfg (configMaps remote) cmMeta (byocProxyName slug) inst s3 = (Inr (es4, p4), s4)"
    using removeOwned_returns by blast
  have quietly: "\<not> p1 \<and> \<not> p2 \<and> \<not> p3 \<and> \<not> p4 \<and> s' = s4 \<and> es1 = [] \<and> es2 = [] \<and> es3 = [] \<and> es4 = []"
    using assms 1 2 3 4
    by (auto simp: cleanupBYOCObjects_def bindE_def tryE_def errE_def retE_def failE_def errors_join_def Let_def
        split: option.splits if_splits)
  then have "journal s' = journal s" using removeOwned_idle 1 2 3 4 by metis
  moreover have "workloadGone remote slug"
    using quietly 1 2 3 4 removeOwned_gone unfolding workloadGone_def by metis
  ultimately show ?thesis ..
qed

lemma quiet_cleanupBYOCObjects: "quiet (cleanupBYOCObjects remote inst slug)"
  unfolding quiet_def using cleanupBYOCObjects_done by blast

lemma yields_cleanupBYOCObjects: "yields (cleanupBYOCObjects remote inst slug) (\<lambda>_. workloadGone remote slug)"
  by (rule yieldsI) (use cleanupBYOCObjects_done in blast)

lemma quiet_if_managedTLS: "quiet (if b then cleanupBYOCManagedTLS r inst cfg targetID else retE ())"
  by (intro quiet_if quiet_cleanupBYOCManagedTLS quiet_silentRet)

abbreviation "localTLS r inst \<equiv> \<lambda>w. wrSite w = LocalCluster \<and> tlsWrite r inst w"
abbreviation "remoteTLS r inst \<equiv> \<lambda>w. wrSite w = RemoteCluster \<and> tlsWrite r inst w"

lemma emits_if_managedTLS: "emits (localTLS r inst) (if b then cleanupBYOCManagedTLS r inst cfg targetID else retE ())"
  by (intro emits_if emits_retE emits_conj local_cleanupBYOCManagedTLS emits_cleanupBYOCManagedTLS)

lemma quiet_removeBYOCTarget: "quiet (removeBYOCTarget r inst slug data targetID refusal)"
  unfolding removeBYOCTarget_def
  by (intro quiet_bindE quiet_silent [OF emits_reachBYOCTarget] quiet_cleanupBYOCObjects quiet_if quiet_cleanupBYOCRemoteTLS
      quiet_silentRet)

text \<open>What has been read before anything is removed from a tenant's cluster.\<close>

definition targetVerified :: "'w instance_reconciler \<Rightarrow> string \<Rightarrow> string \<Rightarrow> bool" where
  "targetVerified r data targetID = (\<exists>remote apiID ns. remoteClientForKubeconfig r data = Inr remote \<and>
     byocTargetIdentity (irBYOCLib r) data = Inr apiID \<and> serves (namespaces remote) ([], ''kube-system'') ns \<and> omUID (nsMeta ns) \<noteq> [] \<and>
     (targetID \<noteq> [] \<longrightarrow> hexEncode (sha256 (apiID @ nul @ omUID (nsMeta ns))) = targetID))"

lemma yields_byocClusterIdentity:
  "yields (byocClusterIdentity remote apiID) (\<lambda>i. \<exists>ns. serves (namespaces remote) ([], ''kube-system'') ns \<and>
     omUID (nsMeta ns) \<noteq> [] \<and> i = hexEncode (sha256 (apiID @ nul @ omUID (nsMeta ns))))"
  unfolding byocClusterIdentity_def by (rule yields_tryE [OF yields_getObj]) (auto intro!: yields_intros)

lemma yields_reachBYOCTarget:
  "yields (reachBYOCTarget r data targetID refusal) (\<lambda>remote. remoteClientForKubeconfig r data = Inr remote \<and> targetVerified r data targetID)"
  unfolding reachBYOCTarget_def
  by (rule yields_bindE [OF yields_liftE], rule yields_bindE [OF yields_liftE], rule yields_bindE [OF yields_byocClusterIdentity])
    (auto intro!: yields_intros simp: targetVerified_def)

definition cachedFor :: "'w instance_reconciler \<Rightarrow> llm_instance \<Rightarrow> string \<Rightarrow> bool" where
  "cachedFor r inst data = (\<exists>k sec. serves (secrets (irClient r)) k sec \<and> isControlledBy (irLib r) (seMeta sec) (liMeta inst) \<and>
     data \<noteq> [] \<and> data = getS (seData sec) byocKubeconfigKey)"

lemma yields_cachedBYOCKubeconfig:
  "yields (cachedBYOCKubeconfig r inst slug) (\<lambda>d. \<forall>data. d = Some data \<longrightarrow> cachedFor r inst data)"
  unfolding cachedBYOCKubeconfig_def Let_def
  by (rule yields_if, simp add: yields_retE, rule yields_tryE [OF yields_getObj]) (auto intro!: yields_intros simp: cachedFor_def)

text \<open>A removal goes through its phases one by one; a later phase runs only when the earlier ones found
  nothing to remove.\<close>

lemma bindE_assoc: "bindE (bindE m f) k = bindE m (\<lambda>x. bindE (f x) k)"
  by (rule ext) (auto simp: bindE_def tryE_def failE_def split: prod.split sum.split)

lemma phased_managedTLS:
  assumes "\<And>x. phased Ps (k x)"
  shows "phased ((\<lambda>w. localTLS r inst w \<and> dnsRequest w, targetID \<noteq> [] \<longrightarrow> dnsGone r inst cfg targetID) #
      (localTLS r inst, targetID \<noteq> [] \<longrightarrow> certificateGone r inst cfg targetID) # Ps)
    (bindE (if targetID \<noteq> [] then cleanupBYOCManagedTLS r inst cfg targetID else retE ()) k)"
proof (cases "targetID = []")
  case True
  then show ?thesis by (simp add: phased_skip phased_bind_silent [OF emits_retE yields_True assms])
next
  case False
  have "emits (\<lambda>w. localTLS r inst w \<and> dnsRequest w) (cleanupBYOCDNS r inst cfg targetID)"
    by (rule emits_mono [OF emits_conj [OF emits_cleanupBYOCDNS dns_cleanupBYOCDNS]]) simp
  moreover have "emits (localTLS r inst) (cleanupCertificate r inst cfg targetID)"
    by (intro emits_conj local_cleanupCertificate emits_cleanupCertificate)
  ultimately show ?thesis
    using False
    by (auto simp: cleanupBYOCManagedTLS_split bindE_assoc intro!: phased_bind quiet_cleanupBYOCDNS quiet_cleanupCertificate assms
        yields_weaken [OF yields_cleanupBYOCDNS] yields_weaken [OF yields_cleanupCertificate])
qed

lemma phased_removeBYOCTarget:
  assumes "\<And>x. phased Ps (k x)" and "\<And>remote. remoteClientForKubeconfig r data = Inr remote \<Longrightarrow> reached remote"
  shows "phased ((workloadRemoval inst, \<exists>remote. reached remote \<and> workloadGone remote slug) #
      (remoteTLS r inst, targetID \<noteq> [] \<longrightarrow> (\<exists>remote. reached remote \<and> deliveredGone r remote inst (byocCleanupTLSConfig r inst) targetID)) # Ps)
    (bindE (removeBYOCTarget r inst slug data targetID refusal) k)"
  unfolding removeBYOCTarget_def bindE_assoc
proof (rule phased_bind_silent [OF emits_reachBYOCTarget yields_reachBYOCTarget], elim conjE, rule phased_bind, goal_cases)
  case (1 remote)
  show ?case by (rule emits_cleanupBYOCObjects)
next
  case (2 remote)
  show ?case by (rule quiet_cleanupBYOCObjects)
next
  case (3 remote)
  then show ?case by (intro yields_weaken [OF yields_cleanupBYOCObjects]) (use assms(2) in blast)
next
  case (4 remote u)
  have tls: "emits (remoteTLS r inst) (cleanupBYOCRemoteTLS r remote inst cfg targetID)" for cfg
    by (intro emits_conj remote_cleanupBYOCRemoteTLS emits_cleanupBYOCRemoteTLS)
  have "reached remote" by (rule assms(2)) fact
  then show ?case
    by (intro phased_bind emits_if tls emits_retE quiet_if quiet_cleanupBYOCRemoteTLS quiet_silentRet yields_if
        yields_weaken [OF yields_cleanupBYOCRemoteTLS] yields_retE assms(1)) auto
qed

text \<open>The client behind the cached credentials of the instance.\<close>

definition targetClient :: "'w instance_reconciler \<Rightarrow> llm_instance \<Rightarrow> 'w client \<Rightarrow> bool" where
  "targetClient r inst remote = (\<exists>data. cachedFor r inst data \<and> remoteClientForKubeconfig r data = Inr remote)"

text \<open>The five phases of a removal: the DNS entry, the Certificate with its secrets, the workload, the delivered
  secret, the credentials; and what is known when each is over.\<close>

definition managedTLSGone :: "'w instance_reconciler \<Rightarrow> llm_instance \<Rightarrow> bool" where
  "managedTLSGone r inst = (stActiveBYOCTargetID (liStatus inst) \<noteq> [] \<longrightarrow>
     certificateGone r inst (byocCleanupTLSConfig r inst) (stActiveBYOCTargetID (liStatus inst)))"

definition managedDNSGone :: "'w instance_reconciler \<Rightarrow> llm_instance \<Rightarrow> bool" where
  "managedDNSGone r inst = (stActiveBYOCTargetID (liStatus inst) \<noteq> [] \<longrightarrow>
     dnsGone r inst (byocCleanupTLSConfig r inst) (stActiveBYOCTargetID (liStatus inst)))"

definition remoteWorkloadGone :: "'w instance_reconciler \<Rightarrow> llm_instance \<Rightarrow> bool" where
  "remoteWorkloadGone r inst = (\<exists>slug remote. cleanupSlug r inst = Inr slug \<and> targetClient r inst remote \<and> workloadGone remote slug)"

definition remoteTLSGone :: "'w instance_reconciler \<Rightarrow> llm_instance \<Rightarrow> bool" where
  "remoteTLSGone r inst = (stActiveBYOCTargetID (liStatus inst) \<noteq> [] \<longrightarrow>
     (\<exists>remote. targetClient r inst remote \<and>
        deliveredGone r remote inst (byocCleanupTLSConfig r inst) (stActiveBYOCTargetID (liStatus inst))))"

abbreviation "cleanupPhases r inst \<equiv> [(\<lambda>w. localTLS r inst w \<and> dnsRequest w, managedDNSGone r inst),
  (localTLS r inst, managedTLSGone r inst), (workloadRemoval inst, remoteWorkloadGone r inst),
  (remoteTLS r inst, remoteTLSGone r inst), (credentialRemoval r inst, True)]"

lemma phased_cleanupBYOC: "phased (cleanupPhases r inst) (cleanupBYOC r inst)"
  unfolding cleanupBYOC_def Let_def managedDNSGone_def managedTLSGone_def
proof (rule phased_bind_silent [OF emits_liftE yields_liftE], rule phased_managedTLS, rule phased_if, goal_cases)
  case (1 slug u)
  show ?case by (rule phased_silent [OF emits_retE])
next
  case (2 slug u)
  show ?case
  proof (rule phased_bind_silent [OF emits_cachedBYOCKubeconfig yields_cachedBYOCKubeconfig], goal_cases)
    case (1 cached)
    show ?case
    proof (cases cached)
      case None
      then show ?thesis by (simp add: phased_silent [OF emits_failE])
    next
      case (Some data)
      with 1 have reached: "remoteClientForKubeconfig r data = Inr remote \<Longrightarrow> targetClient r inst remote" for remote
        unfolding targetClient_def by blast
      have "phased ((workloadRemoval inst, \<exists>remote. targetClient r inst remote \<and> workloadGone remote slug) #
          (remoteTLS r inst, stActiveBYOCTargetID (liStatus inst) \<noteq> [] \<longrightarrow> (\<exists>remote. targetClient r inst remote \<and>
             deliveredGone r remote inst (byocCleanupTLSConfig r inst) (stActiveBYOCTargetID (liStatus inst)))) # [(credentialRemoval r inst, True)])
        (bindE (removeBYOCTarget r inst slug data (stActiveBYOCTargetID (liStatus inst)) ''refusing cleanup on replacement BYOC cluster'')
           (\<lambda>_. deleteCachedBYOCCredentials r inst slug))"
        by (intro phased_removeBYOCTarget phased_last emits_deleteCachedBYOCCredentials reached)
      then show ?thesis
        unfolding Some option.case by (rule phased_weaken) (use 2 in \<open>auto simp: remoteWorkloadGone_def remoteTLSGone_def\<close>)
    qed
  qed
qed

text \<open>A removal that succeeds has found everything absent but the credentials.\<close>

definition cleanedUp :: "'w instance_reconciler \<Rightarrow> llm_instance \<Rightarrow> bool" where
  "cleanedUp r inst = (managedDNSGone r inst \<and> managedTLSGone r inst \<and>
     (stActiveBYOCKubeconfigSecretName (liStatus inst) \<noteq> [] \<longrightarrow> remoteWorkloadGone r inst \<and> remoteTLSGone r inst))"

lemma yields_if_managedTLS:
  "yields (if targetID \<noteq> [] then cleanupBYOCManagedTLS r inst cfg targetID else retE ())
     (\<lambda>_. targetID \<noteq> [] \<longrightarrow> dnsGone r inst cfg targetID \<and> certificateGone r inst cfg targetID)"
  unfolding cleanupBYOCManagedTLS_split
  by (intro yields_if yields_bindE [OF yields_cleanupBYOCDNS] yields_weaken [OF yields_cleanupCertificate] yields_retE) auto

lemma yields_removeBYOCTarget:
  "yields (removeBYOCTarget r inst slug data targetID refusal) (\<lambda>_. \<exists>remote. remoteClientForKubeconfig r data = Inr remote \<and>
     workloadGone remote slug \<and> (targetID \<noteq> [] \<longrightarrow> deliveredGone r remote inst (byocCleanupTLSConfig r inst) targetID))"
  unfolding removeBYOCTarget_def
  by (rule yields_bindE [OF yields_reachBYOCTarget], rule yields_bindE [OF yields_cleanupBYOCObjects],
      intro yields_if yields_weaken [OF yields_cleanupBYOCRemoteTLS] yields_retE) auto

lemma finishes_cleanupBYOC: "finishes (credentialRemoval r inst) (cleanedUp r inst) (cleanupBYOC r inst)"
  unfolding cleanupBYOC_def Let_def
proof (rule finishes_bind [OF quiet_silent [OF emits_liftE] yields_liftE], rule finishes_bind [OF quiet_if_managedTLS yields_if_managedTLS],
    rule finishes_if, goal_cases)
  case (1 slug u)
  then show ?case
    by (intro finishes_emits [OF emits_retE]) (auto simp: cleanedUp_def managedDNSGone_def managedTLSGone_def)
next
  case (2 slug u)
  show ?case
  proof (rule finishes_bind [OF quiet_silent [OF emits_cachedBYOCKubeconfig] yields_cachedBYOCKubeconfig], goal_cases)
    case (1 cached)
    show ?case
    proof (cases cached)
      case None
      then show ?thesis by (simp add: finishes_failE)
    next
      case (Some data)
      with 1 have "cachedFor r inst data" by blast
      then show ?thesis
        unfolding Some option.case
        by (intro finishes_bind [OF quiet_removeBYOCTarget yields_removeBYOCTarget] finishes_emits [OF emits_deleteCachedBYOCCredentials])
          (use 2 in \<open>auto simp: cleanedUp_def managedDNSGone_def managedTLSGone_def remoteWorkloadGone_def remoteTLSGone_def targetClient_def\<close>)
    qed
  qed
qed

lemma emits_removeBYOCTarget_guarded:
  assumes "cachedFor r inst data"
  shows "emits (\<lambda>w. wrSite w = RemoteCluster \<longrightarrow> (\<exists>data. cachedFor r inst data \<and> targetVerified r data targetID))
    (removeBYOCTarget r inst slug data targetID refusal)"
  unfolding removeBYOCTarget_def
proof (rule emits_bind [OF emits_reachBYOCTarget yields_reachBYOCTarget], goal_cases)
  case (1 remote)
  have any: "emits (\<lambda>w. wrSite w = RemoteCluster \<longrightarrow> (\<exists>data. cachedFor r inst data \<and> targetVerified r data targetID)) m"
    if "emits G m" for G m
    by (rule emits_mono [OF that]) (use 1 assms in blast)
  show ?case by (intro emits_intros any [OF emits_cleanupBYOCObjects] any [OF emits_cleanupBYOCRemoteTLS])
qed

section \<open>Moving away\<close>

lemma journal_updateProvisioningStatus:
  "journal (snd (updateProvisioningStatus r inst endpoint reason message s)) = journal s @
     [Write LocalCluster WStatusUpdate (OInst (withStatus (irLib r) (nowTime (irHost r) (world s)) inst
        (statusCondition inst conditionFalse reason message) ''Provisioning'' endpoint))]"
  by (auto simp: updateProvisioningStatus_def writeStatus_def bindE_def tryE_def nowE_def holdE_def apiE_def statusUpdateObj_def
      writeWith_def failE_def retE_def split: prod.split sum.split)

text \<open>A status that no longer advertises the endpoint, and one that has forgotten the target.\<close>

fun statusOf :: "wreq \<Rightarrow> llm_status option" where
  "statusOf (Write LocalCluster WStatusUpdate (OInst i)) = Some (liStatus i)"
| "statusOf _ = None"

definition endpointWithdrawn :: "wreq \<Rightarrow> bool" where
  "endpointWithdrawn w = (\<exists>st. statusOf w = Some st \<and> stEndpoint st = [] \<and> stPhase st = ''Provisioning'')"

definition forgets :: "wreq \<Rightarrow> bool" where
  "forgets w = (\<exists>st. statusOf w = Some st \<and> stActiveBYOCKubeconfigSecretName st = [])"

definition lastStep :: "'w instance_reconciler \<Rightarrow> wreq \<Rightarrow> bool" where
  "lastStep r w = (endpointWithdrawn w \<or> (\<exists>i. credentialRemoval r i w))"

lemma withdrawn_updateProvisioning: "emits endpointWithdrawn (updateProvisioningStatus r inst [] reason message)"
  unfolding updateProvisioningStatus_def writeStatus_def by (intro emits_intros) (simp add: endpointWithdrawn_def withStatus_def)

lemma withdraw_appends: "\<exists>w. journal (snd (updateProvisioningStatus r i [] reason message t)) = journal t @ [w] \<and> endpointWithdrawn w"
  by (simp add: journal_updateProvisioningStatus endpointWithdrawn_def withStatus_def)

lemma emits_lastSteps:
  "emits (lastStep r) (bindE (updateProvisioningStatus r inst [] reason message) (\<lambda>_. bindE heldE (\<lambda>i. deleteCachedBYOCCredentials r i slug)))"
  by (intro emits_bindE emits_heldE emits_mono [OF withdrawn_updateProvisioning] emits_mono [OF emits_deleteCachedBYOCCredentials])
    (auto simp: lastStep_def)

abbreviation "movePhases r \<equiv> [(\<lambda>w. \<exists>i. localTLS r i w, True), (\<lambda>w. \<exists>i. localTLS r i w, True), (\<lambda>w. \<exists>i. workloadRemoval i w, True),
  (\<lambda>w. \<exists>i. remoteTLS r i w, True), (lastStep r, True)]"

definition leaveRest :: "'w instance_reconciler \<Rightarrow> string \<Rightarrow> string \<Rightarrow> string \<Rightarrow> ('w, unit) io" where
  "leaveRest r oldID slug oldData =
     bindE heldE (\<lambda>inst.
     bindE (if oldID \<noteq> [] then cleanupBYOCManagedTLS r inst (byocCleanupTLSConfig r inst) oldID else retE ()) (\<lambda>_.
     bindE (removeBYOCTarget r inst slug oldData oldID
        ''previous BYOC cluster identity changed; refusing cleanup on replacement cluster'') (\<lambda>_.
     bindE (updateProvisioningStatus r (forgetTarget inst) [] byocReasonTargetChanging ''Previous BYOC target removed'') (\<lambda>_.
     bindE heldE (\<lambda>inst1. deleteCachedBYOCCredentials r inst1 slug)))))"

lemma phased_leaveRest: "phased (movePhases r) (leaveRest r oldID slug oldData)"
  unfolding leaveRest_def
  by (rule phased_bind_silent [OF emits_heldE yields_True],
      rule phased_weaken [OF phased_managedTLS [OF phased_removeBYOCTarget [where reached = "\<lambda>_. True", OF phased_last [OF emits_lastSteps]]]])
    auto

lemma removal_remembers: "tlsWrite r i w \<Longrightarrow> \<not> forgets w" "workloadRemoval i w \<Longrightarrow> \<not> forgets w"
  by (cases "(r, i, w)" rule: tlsWrite.cases; auto simp: forgets_def workloadRemoval_def)+

text \<open>The order of a move.\<close>

definition movesInOrder :: "'w instance_reconciler \<Rightarrow> wreq list \<Rightarrow> bool" where
  "movesInOrder r ws = (ws = [] \<or> endpointWithdrawn (hd ws) \<and> (list_all (\<lambda>w. \<not> forgets w) ws \<or> list_all (lastStep r) ws))"

lemma leave_in_order:
  assumes "stActiveBYOCKubeconfigSecretName (liStatus inst) \<noteq> []"
  shows "\<exists>ws. journal (snd (leaveBYOCTarget r inst slug oldData s)) = journal s @ ws \<and> movesInOrder r ws"
proof -
  let ?up = "updateProvisioningStatus r inst [] byocReasonTargetChanging ''Removing the previous BYOC endpoint''"
  let ?w = "Write LocalCluster WStatusUpdate (OInst (withStatus (irLib r) (nowTime (irHost r) (world s)) inst
        (statusCondition inst conditionFalse byocReasonTargetChanging ''Removing the previous BYOC endpoint'') ''Provisioning'' []))"
  have split: "leaveBYOCTarget r inst slug oldData = bindE ?up (\<lambda>_. leaveRest r (stActiveBYOCTargetID (liStatus inst)) slug oldData)"
    by (simp add: leaveBYOCTarget_def leaveRest_def Let_def)
  obtain v t where up: "?up s = (v, t)" by (cases "?up s")
  have t: "journal t = journal s @ [?w]" using journal_updateProvisioningStatus [of r inst "[]" _ _ s] up by (metis snd_conv)
  have first: "endpointWithdrawn ?w" "\<not> forgets ?w" "lastStep r ?w"
    using assms by (simp_all add: endpointWithdrawn_def forgets_def lastStep_def withStatus_def)
  have "\<exists>ws. journal (snd (leaveBYOCTarget r inst slug oldData s)) = journal t @ ws \<and>
      (list_all (\<lambda>w. \<not> forgets w) ws \<or> list_all (lastStep r) ws)"
  proof (cases v)
    case (Inl e)
    then show ?thesis using up by (intro exI [of _ "[]"]) (simp add: split bindE_def tryE_def failE_def)
  next
    case (Inr x)
    then have run: "leaveBYOCTarget r inst slug oldData s = leaveRest r (stActiveBYOCTargetID (liStatus inst)) slug oldData t"
      using up by (simp add: split bindE_def tryE_def)
    obtain ws where ws: "journal (snd (leaveRest r (stActiveBYOCTargetID (liStatus inst)) slug oldData t)) = journal t @ ws"
      and "inPhases (movePhases r) ws"
      using phased_leaveRest [of r _ slug oldData] unfolding phased_def by meson
    then have "list_all (\<lambda>w. \<not> forgets w) ws \<or> list_all (lastStep r) ws"
      by (auto simp: list_all_iff dest: removal_remembers)
    with ws run show ?thesis by auto
  qed
  then obtain ws where "journal (snd (leaveBYOCTarget r inst slug oldData s)) = journal s @ ?w # ws"
    "list_all (\<lambda>w. \<not> forgets w) ws \<or> list_all (lastStep r) ws"
    using t by auto
  with first show ?thesis by (intro exI [of _ "?w # ws"]) (auto simp: movesInOrder_def)
qed

section \<open>The object in hand\<close>

text \<open>\<open>steady m\<close>: \<open>m\<close> does not touch the instance that the controller holds.\<close>

definition steady :: "('w sys, 'e, 'a) eff \<Rightarrow> bool" where
  "steady m = (\<forall>s. held (snd (m s)) = held s)"

lemma steady_basic:
  "steady (retE x)" "steady (failE e)" "steady (liftE v)" "steady (nowE h)" "steady heldE"
  "steady (getObj a k)" "steady (listObj a l)" "steady (createObj c tag a x)" "steady (updateObj c tag a x)"
  "steady (deleteObj c tag a x p)" "steady (randE h n)"
  by (auto simp: steady_def retE_def failE_def liftE_def nowE_def heldE_def getObj_def listObj_def readWith_def createObj_def
      updateObj_def deleteObj_def writeWith_def randE_def split: prod.split)

lemma steady_tryE: "steady m \<Longrightarrow> (\<And>e. steady (h e)) \<Longrightarrow> (\<And>x. steady (k x)) \<Longrightarrow> steady (tryE m h k)"
  unfolding steady_def tryE_def by (auto split: prod.split sum.split) (metis snd_conv)+

lemma steady_bindE: "steady m \<Longrightarrow> (\<And>x. steady (k x)) \<Longrightarrow> steady (bindE m k)"
  unfolding bindE_def by (intro steady_tryE steady_basic)

lemma steady_apiE: "steady m \<Longrightarrow> steady (apiE m)"
  unfolding apiE_def by (intro steady_tryE steady_basic)

lemma steady_if: "steady m \<Longrightarrow> steady n \<Longrightarrow> steady (if b then m else n)"
  by simp

lemmas steady_intros = steady_basic steady_tryE steady_bindE steady_apiE steady_if

lemma steady_ensureCachedCredentials: "steady (ensureCachedCredentials r inst slug data)"
  unfolding ensureCachedCredentials_def controlE_def Let_def by (intro steady_intros)

lemma steady_byocClusterIdentity: "steady (byocClusterIdentity remote apiID)"
  unfolding byocClusterIdentity_def by (intro steady_intros)

lemma steady_byocClient: "steady (byocClient r inst)"
proof -
  have k: "steady (byocKubeconfig r inst)" unfolding byocKubeconfig_def Let_def by (intro steady_intros)
  show ?thesis
    unfolding byocClient_def by (rule steady_bindE [OF k]) (auto intro!: steady_intros split: sum.split)
qed

text \<open>The API server never changes the identity of an object: UID, name and namespace are immutable.\<close>

definition sameIdentity :: "llm_instance \<Rightarrow> llm_instance \<Rightarrow> bool" where
  "sameIdentity i j = (omUID (liMeta i) = omUID (liMeta j) \<and> keyOf (liMeta i) = keyOf (liMeta j))"

definition identityKept :: "'w instance_reconciler \<Rightarrow> bool" where
  "identityKept r = (\<forall>x w y. fst (kStatusUpdate (instances (irClient r)) x w) = Inr y \<longrightarrow> sameIdentity y x)"

lemma held_writeStatus:
  assumes "identityKept r"
  shows "sameIdentity (held (snd (writeStatus r i s))) i"
  using assms
  by (auto simp: writeStatus_def bindE_def tryE_def holdE_def apiE_def statusUpdateObj_def writeWith_def failE_def retE_def
      identityKept_def sameIdentity_def split: prod.split sum.split) (metis fst_conv)+

lemma held_updateProvisioningStatus:
  assumes "identityKept r"
  shows "sameIdentity (held (snd (updateProvisioningStatus r i e a b s))) i"
proof -
  obtain j where "updateProvisioningStatus r i e a b s = writeStatus r j s" "sameIdentity j i"
    by (auto simp: updateProvisioningStatus_def bindE_def tryE_def nowE_def withStatus_def sameIdentity_def)
  then show ?thesis using held_writeStatus [OF assms, of j s] by (auto simp: sameIdentity_def)
qed

lemma held_recordBYOCTarget:
  assumes "identityKept r" and "sameIdentity (held s) inst" and "recordBYOCTarget r inst slug data targetID s = (v, s')"
  shows "sameIdentity (held s') inst"
proof -
  have enter: "sameIdentity (held (snd (updateProvisioningStatus r (enterTarget r inst slug targetID) e a b t))) inst" for e a b t
    using held_updateProvisioningStatus [OF assms(1), of "enterTarget r inst slug targetID"]
    by (simp add: sameIdentity_def enterTarget_def)
  obtain u t where c: "ensureCachedCredentials r inst slug data s = (u, t)" by (cases "ensureCachedCredentials r inst slug data s")
  have "held t = held s" using steady_ensureCachedCredentials c unfolding steady_def by (metis snd_conv)
  then show ?thesis
    using assms(2,3) c enter
    by (auto simp: recordBYOCTarget_def Let_def bindE_def tryE_def failE_def retE_def split: if_splits sum.splits)
      (metis snd_conv)+
qed

section \<open>Writes of a reconciliation\<close>

text \<open>\<open>emitsFrom G m s\<close>: \<open>emits G m\<close> for the runs that start in \<open>s\<close>.\<close>

definition emitsFrom :: "(wreq \<Rightarrow> bool) \<Rightarrow> ('w sys, 'e, 'a) eff \<Rightarrow> 'w sys \<Rightarrow> bool" where
  "emitsFrom G m s = (\<exists>ws. journal (snd (m s)) = journal s @ ws \<and> (\<forall>w \<in> set ws. G w))"

lemma emitsFrom_emits: "emits G m \<Longrightarrow> emitsFrom G m s"
  by (simp add: emits_def emitsFrom_def)

lemma emitsFrom_try:
  assumes "emitsFrom G m s" and "\<And>e s'. m s = (Inl e, s') \<Longrightarrow> emitsFrom G (h e) s'" and "\<And>x s'. m s = (Inr x, s') \<Longrightarrow> emitsFrom G (k x) s'"
  shows "emitsFrom G (tryE m h k) s"
proof -
  obtain v t where m: "m s = (v, t)" by (cases "m s")
  obtain ws where ws: "journal t = journal s @ ws" "\<forall>w \<in> set ws. G w" using assms(1) m unfolding emitsFrom_def by auto
  have "\<exists>vs. journal (snd (tryE m h k s)) = journal t @ vs \<and> (\<forall>w \<in> set vs. G w)"
    using assms(2,3) m unfolding emitsFrom_def by (cases v) (auto simp: tryE_def)
  then obtain vs where "journal (snd (tryE m h k s)) = journal t @ vs" "\<forall>w \<in> set vs. G w" by blast
  with ws show ?thesis unfolding emitsFrom_def by (intro exI [of _ "ws @ vs"]) auto
qed

lemma emitsFrom_bind:
  "emitsFrom G m s \<Longrightarrow> (\<And>x s'. m s = (Inr x, s') \<Longrightarrow> emitsFrom G (k x) s') \<Longrightarrow> emitsFrom G (bindE m k) s"
  unfolding bindE_def by (erule emitsFrom_try) (auto intro: emitsFrom_emits emits_failE)

lemma emitsFrom_mono: "emitsFrom G m s \<Longrightarrow> (\<And>w. G w \<Longrightarrow> H w) \<Longrightarrow> emitsFrom H m s"
  unfolding emitsFrom_def by blast

text \<open>What the probe of the endpoint has seen.\<close>

definition probedBYOC :: "'w instance_reconciler \<Rightarrow> string \<Rightarrow> string \<Rightarrow> bool" where
  "probedBYOC r u fingerprint =
     (case irBYOCHealthChecker r of
        Some checker \<Rightarrow> (\<exists>w. fst (checker u fingerprint w) = None)
      | None \<Rightarrow> fingerprint \<noteq> [] \<and> (\<exists>w resp. fst (blHTTPSGet (irBYOCLib r) u w) = Inr resp \<and> checkPinned fingerprint resp = None))"

lemma yields_runBYOCHealthCheck: "yields (runBYOCHealthCheck r u fingerprint) (\<lambda>_. probedBYOC r u fingerprint)"
proof (cases "irBYOCHealthChecker r")
  case None
  show ?thesis
    unfolding runBYOCHealthCheck_def probedBYOC_def None option.case
    by (rule yields_if, rule yields_failE, rule yields_bindE [OF yields_hostE]) (auto intro!: yields_intros split: option.splits)
next
  case (Some checker)
  then show ?thesis using yields_hostErrE [of "checker u fingerprint"] by (simp add: runBYOCHealthCheck_def probedBYOC_def)
qed

text \<open>What has been read on the cluster behind \<open>remote\<close> before the endpoint is published.\<close>

definition seenReady :: "'w instance_reconciler \<Rightarrow> 'w client \<Rightarrow> string \<Rightarrow> string \<Rightarrow> string \<Rightarrow> bool" where
  "seenReady r remote slug hostname fingerprint =
     ((\<exists>d. serves (deployments remote) (remoteKey (byocBaseName slug)) d \<and> rolledOut d) \<and>
      (\<exists>svc. serves (services remote) (remoteKey (byocBaseName slug)) svc \<and> loadBalancerAddress svc \<noteq> []) \<and>
      probedBYOC r (''https://'' @ hostname @ ''/health'') fingerprint)"

lemma yields_evaluateBYOCReadiness:
  "yields (evaluateBYOCReadiness r remote slug hostname fingerprint)
     (\<lambda>(v, endpoint). vdReady v \<longrightarrow> endpoint = ''https://'' @ hostname \<and> seenReady r remote slug hostname fingerprint)"
  unfolding evaluateBYOCReadiness_def Let_def
proof (rule yields_tryE [OF yields_getObj], goal_cases)
  case (1 e)
  show ?case by (auto intro!: yields_intros simp: verdict_def)
next
  case (2 d)
  show ?case
  proof (rule yields_if, goal_cases)
    case 1
    then show ?case by (auto intro!: yields_intros)
  next
    case 2
    then have d: "\<exists>d. serves (deployments remote) (remoteKey (byocBaseName slug)) d \<and> rolledOut d"
      using \<open>serves (deployments remote) (remoteKey (byocBaseName slug)) d\<close> deploymentReadiness_ready by blast
    show ?case
      by (rule yields_tryE [OF yields_getObj])
        (auto intro!: yields_intros yields_tryE [OF yields_runBYOCHealthCheck] simp: verdict_def seenReady_def d)
  qed
qed

lemma emits_evaluateBYOCReadiness [emits_intros]: "emits G (evaluateBYOCReadiness r remote slug hostname fingerprint)"
  unfolding evaluateBYOCReadiness_def Let_def by (intro emits_intros)

lemma yields_reconcileBYOCWorkload:
  "yields (reconcileBYOCWorkload r remote inst slug model targetID tlsName hostname) (\<lambda>revision. \<exists>name host data now.
     byocTLSIdentity (irLib r) inst (irBYOCTLS r) targetID = Inr (name, host) \<and>
     validateBYOCTLSMaterial (irBYOCLib r) data host now = Inr revision)"
  unfolding reconcileBYOCWorkload_def Let_def
  by (rule yields_bindE [OF yields_True], rule yields_bindE [OF yields_True], rule yields_bindE [OF yields_True],
      rule yields_if, rule yields_failE, rule yields_bindE [OF yields_True], rule yields_bindE [OF yields_reconcileBYOCTLSSecret])
    (intro yields_bindE [OF yields_True] yields_retE, auto split: prod.split intro!: yields_bindE [OF yields_True] yields_retE)

lemma yields_byocClient:
  "yields (byocClient r inst) (\<lambda>c. \<forall>remote data. c = Inr (remote, data) \<longrightarrow> remoteClientForKubeconfig r data = Inr remote)"
  unfolding byocClient_def
  by (rule yields_bindE [OF yields_True]) (auto intro!: yields_retE split: sum.split)

text \<open>An endpoint is published only with this behind it: the cluster that the kubeconfig leads to, valid
  material for the host name of the instance on that cluster, a rollout, an address and a probe that
  saw that very certificate.\<close>

definition publishedBYOC :: "'w instance_reconciler \<Rightarrow> llm_instance \<Rightarrow> string \<Rightarrow> string \<Rightarrow> bool" where
  "publishedBYOC r inst slug endpoint = (\<exists>kubeconfig remote apiID ns name hostname data now revision.
     remoteClientForKubeconfig r kubeconfig = Inr remote \<and> byocTargetIdentity (irBYOCLib r) kubeconfig = Inr apiID \<and>
     serves (namespaces remote) ([], ''kube-system'') ns \<and>
     byocTLSIdentity (irLib r) inst (irBYOCTLS r) (hexEncode (sha256 (apiID @ nul @ omUID (nsMeta ns)))) = Inr (name, hostname) \<and>
     endpoint = ''https://'' @ hostname \<and> servable (irBYOCLib r) data hostname now \<and>
     validateBYOCTLSMaterial (irBYOCLib r) data hostname now = Inr revision \<and> seenReady r remote slug hostname revision)"

definition credentialsWrite :: "'w instance_reconciler \<Rightarrow> llm_instance \<Rightarrow> wreq \<Rightarrow> bool" where
  "credentialsWrite r inst w = (\<exists>sec.
     w = Write LocalCluster WCreate (OSec sec) \<and>
       (\<exists>m. setControllerReference (irLib r) ''LLMInstance'' (liMeta inst) m = Inr (seMeta sec)) \<or>
     w = Write LocalCluster WUpdate (OSec sec) \<and> isControlledBy (irLib r) (seMeta sec) (liMeta inst))"

definition byocPermitted :: "'w instance_reconciler \<Rightarrow> llm_instance \<Rightarrow> string \<Rightarrow> wreq \<Rightarrow> bool" where
  "byocPermitted r inst slug w =
     (case statusOf w of
        Some st \<Rightarrow> stEndpoint st = [] \<and> stPhase st = ''Provisioning'' \<or>
          stPhase st = ''Ready'' \<and> publishedBYOC r inst slug (stEndpoint st)
      | None \<Rightarrow> workloadWrite inst w \<or> tlsWrite r inst w \<or> credentialsWrite r inst w)"

lemma workload_permitted: "workloadWrite i w \<Longrightarrow> sameIdentity i inst \<Longrightarrow> byocPermitted r inst slug w"
  by (induction i w rule: workloadWrite.induct) (auto simp: byocPermitted_def createdFor_def byocOwned_def sameIdentity_def)

lemma identity_same: "sameIdentity i inst \<Longrightarrow> byocTLSIdentity L i = byocTLSIdentity L inst"
  by (intro ext) (auto simp: byocTLSIdentity_def byocTLSName_def sameIdentity_def keyOf_def)

lemma content_same: "tlsContent r i obj \<Longrightarrow> sameIdentity i inst \<Longrightarrow> tlsContent r inst obj"
  by (cases obj) (simp_all add: identity_same)

lemma tls_permitted: "tlsWrite r i w \<Longrightarrow> sameIdentity i inst \<Longrightarrow> byocPermitted r inst slug w"
  by (induction r i w rule: tlsWrite.induct)
    (auto simp: byocPermitted_def tlsLabelled_def sameIdentity_def split: option.splits intro: content_same)

lemma credentials_permitted: "emits (byocPermitted r inst slug) (ensureCachedCredentials r inst slug1 data)"
  unfolding ensureCachedCredentials_def Let_def controlE_def
  by (intro emits_intros emits_bind_liftE) (auto simp: byocPermitted_def credentialsWrite_def)

lemma provisioning_permitted: "emits (byocPermitted r inst slug) (updateProvisioningStatus r i [] reason message)"
  by (rule emits_mono [OF withdrawn_updateProvisioning]) (auto simp: endpointWithdrawn_def byocPermitted_def)

lemma ready_permitted:
  "publishedBYOC r inst slug endpoint \<Longrightarrow> emits (byocPermitted r inst slug) (InstanceBase.updateReadyStatus r i endpoint)"
  unfolding InstanceBase.updateReadyStatus_def writeStatus_def
  by (intro emits_intros) (simp add: byocPermitted_def withStatus_def)

lemma workload_emits:
  assumes "sameIdentity i inst" and "''--host'' \<notin> set (msServerArgs model)"
  shows "emits (byocPermitted r inst slug) (reconcileBYOCWorkload r remote i slug model targetID tlsName hostname)"
proof -
  have w: "emits (byocPermitted r inst slug) m" if "emits (workloadWrite i) m" for m
    by (rule emits_mono [OF that]) (rule workload_permitted [OF _ assms(1)])
  have t: "emits (byocPermitted r inst slug) m" if "emits (tlsWrite r i) m" for m
    by (rule emits_mono [OF that]) (rule tls_permitted [OF _ assms(1)])
  show ?thesis
    unfolding reconcileBYOCWorkload_def Let_def
    by (intro emits_intros w [OF emits_reconcileBYOCService] t [OF emits_reconcileBYOCManagedCertificate]
        t [OF emits_reconcileBYOCDNS] t [OF emits_reconcileBYOCTLSSecret] w [OF emits_reconcileBYOCProxyConfig]
        w [OF emits_reconcileBYOCKeySecret] w [OF emits_reconcileBYOCDeployment [OF assms(2)]])
qed

lemma publish_emits:
  assumes "seenReady r remote slug hostname revision \<Longrightarrow> publishedBYOC r inst slug (''https://'' @ hostname)"
  shows "emits (byocPermitted r inst slug) (publishBYOC r remote i slug hostname revision)"
  unfolding publishBYOC_def
proof (rule emits_bind [OF emits_evaluateBYOCReadiness yields_evaluateBYOCReadiness], goal_cases)
  case (1 x)
  obtain v endpoint where x: "x = (v, endpoint)" by (cases x)
  show ?case
    unfolding x prod.case
    by (intro emits_if emits_bindE provisioning_permitted ready_permitted emits_retE) (use 1 x assms in auto)
qed

text \<open>The part after the target is recorded, for the instance as it is held then.\<close>

lemma workload_publish_emits:
  assumes "sameIdentity i inst" and "''--host'' \<notin> set (msServerArgs model)"
    and "byocTLSIdentity (irLib r) inst (irBYOCTLS r) targetID = Inr (tlsName, hostname)"
    and published: "\<And>cert now revision. validateBYOCTLSMaterial (irBYOCLib r) cert hostname now = Inr revision \<Longrightarrow>
      seenReady r remote slug hostname revision \<Longrightarrow> publishedBYOC r inst slug (''https://'' @ hostname)"
  shows "emits (byocPermitted r inst slug) (bindE (ensureBYOCNamespace remote) (\<lambda>_.
    tryE (reconcileBYOCWorkload r remote i slug model targetID tlsName hostname)
      (\<lambda>err. if errors_is err ErrBYOCTLSNotReady
             then bindE (updateProvisioningStatus r i [] ''BYOCTLSProvisioning''
                    ''Waiting for a valid managed BYOC certificate and endpoint'') (\<lambda>_. retE (requeueAfter 5))
             else failE err)
      (\<lambda>tlsRevision. publishBYOC r remote i slug hostname tlsRevision)))"
proof (rule emits_bindE, goal_cases)
  case 1
  show ?case by (rule emits_mono [OF emits_ensureBYOCNamespace]) (rule workload_permitted [OF _ assms(1)])
next
  case (2 u)
  show ?case
  proof (rule emits_try [OF workload_emits [OF assms(1,2)] yields_reconcileBYOCWorkload], goal_cases)
    case (1 e)
    show ?case by (intro emits_intros provisioning_permitted)
  next
    case (2 revision)
    then obtain cert now where "validateBYOCTLSMaterial (irBYOCLib r) cert hostname now = Inr revision"
      using assms(1,3) by (auto simp: identity_same)
    then show ?case by (intro publish_emits) (rule published)
  qed
qed

lemma provision_emits:
  assumes "identityKept r" and "sameIdentity (held s) inst" and "''--host'' \<notin> set (msServerArgs model)"
    and "remoteClientForKubeconfig r data = Inr remote"
  shows "emitsFrom (byocPermitted r inst slug) (provisionBYOC r remote data inst slug model) s"
  unfolding provisionBYOC_def
proof (intro emitsFrom_bind emitsFrom_emits [OF emits_liftE] emitsFrom_emits [OF emits_byocClusterIdentity], goal_cases)
  case (1 apiID s1 targetID s2 x s3)
  obtain name hostname where x: "x = (name, hostname)" by (cases x)
  have identity: "byocTLSIdentity (irLib r) inst (irBYOCTLS r) targetID = Inr (name, hostname)"
    and api: "byocTargetIdentity (irBYOCLib r) data = Inr apiID" and s1: "s1 = s"
    using 1 x by (auto simp: liftE_def)
  obtain ns where ns: "serves (namespaces remote) ([], ''kube-system'') ns" "targetID = hexEncode (sha256 (apiID @ nul @ omUID (nsMeta ns)))"
    using yieldsD [OF yields_byocClusterIdentity 1(2)] by blast
  have held: "sameIdentity (held s3) inst"
    using assms(2) 1(2,3) s1 steady_byocClusterIdentity [of remote apiID] unfolding steady_def liftE_def
    by (metis prod.inject snd_conv)
  have published: "publishedBYOC r inst slug (''https://'' @ hostname)"
    if "validateBYOCTLSMaterial (irBYOCLib r) cert hostname now = Inr revision" "seenReady r remote slug hostname revision" for cert now revision
    unfolding publishedBYOC_def using assms(4) api ns identity that validated_servable by blast
  show ?case
    unfolding x prod.case
  proof (rule emitsFrom_bind, goal_cases)
    case 1
    show ?case
      unfolding recordBYOCTarget_def Let_def
      by (rule emitsFrom_emits) (intro emits_intros credentials_permitted provisioning_permitted)
  next
    case (2 u s4)
    have i: "sameIdentity (held s4) inst" by (rule held_recordBYOCTarget [OF assms(1) held 2])
    show ?case
      using emitsFrom_emits [OF workload_publish_emits [OF i assms(3) identity published], where s = s4]
      by (simp add: emitsFrom_def bindE_def tryE_def heldE_def)
  qed
qed

lemma reconcileBYOCBody_emits:
  assumes "identityKept r" and "held s = inst" and "''--host'' \<notin> set (msServerArgs model)"
  shows "emitsFrom (byocPermitted r inst slug) (reconcileBYOCBody r inst slug model) s"
  unfolding reconcileBYOCBody_def
proof (intro emitsFrom_bind emitsFrom_emits [OF emits_errE] emitsFrom_emits [OF emits_byocClient], goal_cases)
  case (1 u s1 c s2)
  have "held s1 = held s" using 1(1) by (auto simp: errE_def retE_def failE_def split: option.splits)
  moreover have "held s2 = held s1" using steady_byocClient [of r inst] 1(2) unfolding steady_def by (metis snd_conv)
  ultimately have held: "sameIdentity (held s2) inst" using assms(2) by (simp add: sameIdentity_def)
  show ?case
    using yieldsD [OF yields_byocClient 1(2)] provision_emits [OF assms(1) held assms(3)]
    by (auto split: sum.split intro!: emitsFrom_emits emits_bindE emits_retE provisioning_permitted)
qed

lemma reconcileBYOC_emits:
  assumes "identityKept r" and "held s = inst" and "''--host'' \<notin> set (msServerArgs model)"
  shows "emitsFrom (byocPermitted r inst slug) (reconcileBYOC r inst slug model) s"
  unfolding reconcileBYOC_def
  by (rule emitsFrom_try [OF reconcileBYOCBody_emits [OF assms]])
    (intro emitsFrom_emits emits_intros provisioning_permitted)+

lemma emits_cleanup_guarded:
  "emits (\<lambda>w. wrSite w = RemoteCluster \<longrightarrow> (\<exists>data. cachedFor r inst data \<and> targetVerified r data (stActiveBYOCTargetID (liStatus inst))))
     (cleanupBYOC r inst)"
  unfolding cleanupBYOC_def Let_def
proof (rule emits_bindE [OF emits_liftE], rule emits_bindE, goal_cases)
  case (1 slug)
  show ?case by (rule emits_mono [OF emits_if_managedTLS]) simp
next
  case (2 slug u)
  have del: "emits (\<lambda>w. wrSite w = RemoteCluster \<longrightarrow> P) (deleteCachedBYOCCredentials r inst slug)" for P
    by (rule emits_mono [OF emits_deleteCachedBYOCCredentials]) (auto simp: credentialRemoval_def)
  show ?case
    by (rule emits_if, rule emits_retE, rule emits_bind [OF emits_cachedBYOCKubeconfig yields_cachedBYOCKubeconfig])
      (auto intro!: emits_intros emits_removeBYOCTarget_guarded del split: option.split)
qed

section \<open>Properties\<close>

text \<open>
  \<^bold>\<open>C11.\<close> What a reconciliation on a tenant's cluster may do, for every behaviour of both API servers that
  keeps the identity of an object, on failing runs too.  Every write is one of: the operator's
  namespace, a sealed workload object marked with the UID of the instance, a TLS object labelled with
  it, the cached credentials under its control, or a status.  A status either withdraws the endpoint
  or is \<^verbatim>\<open>Ready\<close>, and then the endpoint is the host name of the instance on the cluster behind the
  kubeconfig, valid key material for that name was at hand, the rollout was complete, the load
  balancer had an address, and the probe of that name met the certificate of that material.
\<close>

theorem byoc_writes_permitted:
  assumes "identityKept r" and "held s = inst"
  shows "\<exists>ws. journal (snd (reconcileBYOC r inst slug (modelForInstance inst) s)) = journal s @ ws \<and>
    (\<forall>w \<in> set ws. byocPermitted r inst slug w)"
  using reconcileBYOC_emits [OF assms modelForInstance_no_host] unfolding emitsFrom_def .

text \<open>
  \<^bold>\<open>C6.\<close> A failed reconciliation on a tenant's cluster withdraws the endpoint: whatever failed, the last
  thing that the operator writes in that run is a status without endpoint in phase \<^verbatim>\<open>Provisioning\<close>.
\<close>

theorem byoc_fails_closed:
  assumes "reconcileBYOC r inst slug model s = (Inl e, s')"
  shows "\<exists>ws w. journal s' = journal s @ ws @ [w] \<and> endpointWithdrawn w"
proof -
  obtain v t where b: "reconcileBYOCBody r inst slug model s = (v, t)" by (cases "reconcileBYOCBody r inst slug model s")
  with assms obtain err where v: "v = Inl err" by (cases v) (auto simp: reconcileBYOC_def tryE_def retE_def)
  have dep: "emits (\<lambda>_. True) (reconcileBYOCDeployment L remote i slug model k t v)" for L remote i k t v
    unfolding reconcileBYOCDeployment_def Let_def by (intro emits_intros TrueI)
  have anything: "emits (\<lambda>_. True) (reconcileBYOCBody r inst slug model)"
    unfolding reconcileBYOCBody_def provisionBYOC_def recordBYOCTarget_def publishBYOC_def reconcileBYOCWorkload_def Let_def
    by (intro emits_intros emits_mono [OF withdrawn_updateProvisioning] emits_ensureCachedCredentials
        emits_mono [OF emits_ensureBYOCNamespace] emits_mono [OF emits_reconcileBYOCService] emits_mono [OF emits_reconcileBYOCManagedCertificate]
        emits_mono [OF emits_reconcileBYOCDNS] emits_mono [OF emits_reconcileBYOCTLSSecret] emits_mono [OF emits_reconcileBYOCProxyConfig]
        emits_mono [OF emits_reconcileBYOCKeySecret] emits_statusWrites dep TrueI)
  then obtain ws where "journal t = journal s @ ws" using emits_run [OF anything b] by blast
  moreover have "s' = snd (updateProvisioningStatus r (held t) [] ''BYOCReconcileFailed''
      ''BYOC endpoint is unavailable; operator reconciliation must succeed before publishing HTTPS'' t)"
    using assms b v by (auto simp: reconcileBYOC_def tryE_def bindE_def heldE_def failE_def split: prod.splits sum.splits)
  moreover obtain w where "journal s' = journal t @ [w]" "endpointWithdrawn w"
    using calculation(2) withdraw_appends [of r "held t" _ _ t] by metis
  ultimately show ?thesis by simp
qed

text \<open>
  \<^bold>\<open>C12.\<close> Removal in order.  The writes of one run of \<^verbatim>\<open>cleanupBYOC\<close>, whether it succeeds or not, all belong to one
  of five phases, and a phase is entered only when the API has answered that the objects of all phases
  before it are absent: the DNS entry of the instance; then its Certificate with the two TLS secrets on
  the operator's cluster; then its workload objects on the tenant's cluster, each with the mark of the
  instance and deleted by UID; then the delivered TLS secret; and last the cached credentials.  A run
  that succeeds, after which the finalizer goes, has removed nothing but the credentials and has found
  everything else absent.  So DNS and certificate are gone before the workload and its address are
  released.
\<close>

theorem byoc_cleanup_phases:
  assumes "cleanupBYOC r inst s = (res, s')"
  shows "\<exists>ws. journal s' = journal s @ ws \<and>
    (list_all (\<lambda>w. localTLS r inst w \<and> dnsRequest w) ws \<or>
     managedDNSGone r inst \<and> (list_all (localTLS r inst) ws \<or>
     managedTLSGone r inst \<and> (list_all (workloadRemoval inst) ws \<or>
     remoteWorkloadGone r inst \<and> (list_all (remoteTLS r inst) ws \<or>
     remoteTLSGone r inst \<and> list_all (credentialRemoval r inst) ws)))) \<and>
    (res = Inr () \<longrightarrow> list_all (credentialRemoval r inst) ws \<and> managedDNSGone r inst \<and> managedTLSGone r inst \<and>
       (stActiveBYOCKubeconfigSecretName (liStatus inst) \<noteq> [] \<longrightarrow> remoteWorkloadGone r inst \<and> remoteTLSGone r inst))"
proof -
  obtain ws where ws: "journal s' = journal s @ ws" "inPhases (cleanupPhases r inst) ws"
    using phasedD [OF phased_cleanupBYOC assms] by blast
  have "list_all (credentialRemoval r inst) ws \<and> cleanedUp r inst" if "res = Inr ()"
    using finishesD [OF finishes_cleanupBYOC] assms that ws(1) by (metis same_append_eq)
  with ws show ?thesis by (intro exI [of _ ws]) (auto simp: cleanedUp_def)
qed

text \<open>
  \<^bold>\<open>C26.\<close> Nothing is removed from the wrong cluster: a run of \<^verbatim>\<open>cleanupBYOC\<close> writes to a tenant's cluster only
  through credentials that were read from a secret under the control of the instance, after the
  cluster behind them showed the identity recorded in the status.
\<close>

theorem byoc_cleanup_same_cluster:
  assumes "cleanupBYOC r inst s = (res, s')"
  shows "\<exists>ws. journal s' = journal s @ ws \<and> (\<forall>w \<in> set ws. wrSite w = RemoteCluster \<longrightarrow>
    (\<exists>data. cachedFor r inst data \<and> targetVerified r data (stActiveBYOCTargetID (liStatus inst))))"
  using emits_run [OF emits_cleanup_guarded assms] .

text \<open>
  Moving to another cluster (or back to the operator's): the first write of the run withdraws the
  endpoint, and the target is dropped from the status only in a run that removed nothing, because
  everything was already gone, and whose other writes are statuses without endpoint and the deletion
  of the cached credentials.
\<close>

theorem byoc_move_order:
  "\<exists>ws. journal (snd (cleanupChangedBYOCTarget r inst slug s)) = journal s @ ws \<and> movesInOrder r ws"
proof (cases "stActiveBYOCKubeconfigSecretName (liStatus inst) = []")
  case True
  then show ?thesis by (intro exI [of _ "[]"]) (simp add: cleanupChangedBYOCTarget_def retE_def movesInOrder_def)
next
  case False
  have idle: "\<exists>ws. journal (snd (m s)) = journal s @ ws \<and> movesInOrder r ws" if "emits (\<lambda>_. False) m" for m :: "('a sys, goerr, unit) eff" and s
    using silent_run [OF that] by (intro exI [of _ "[]"]) (simp add: movesInOrder_def prod_eq_iff)
  let ?slug = "safeBYOCSlug inst slug"
  obtain v t where c: "cachedBYOCKubeconfig r inst ?slug s = (v, t)" by (cases "cachedBYOCKubeconfig r inst ?slug s")
  have t: "journal t = journal s" by (rule silent_run [OF emits_cachedBYOCKubeconfig c])
  show ?thesis
  proof (cases "\<exists>oldData. v = Inr (Some oldData)")
    case False
    then show ?thesis
      using c t \<open>stActiveBYOCKubeconfigSecretName (liStatus inst) \<noteq> []\<close>
      by (intro exI [of _ "[]"]) (auto simp: cleanupChangedBYOCTarget_def Let_def bindE_def tryE_def failE_def movesInOrder_def split: sum.split option.split)
  next
    case True
    then obtain oldData where v: "v = Inr (Some oldData)" by blast
    obtain k u where k: "keepsBYOCTarget r inst oldData t = (k, u)" by (cases "keepsBYOCTarget r inst oldData t")
    have u: "journal u = journal t" by (rule silent_run [OF emits_keepsBYOCTarget k])
    show ?thesis
      using c v k t u False leave_in_order [OF False, of r ?slug oldData u]
      by (auto simp: cleanupChangedBYOCTarget_def Let_def bindE_def tryE_def failE_def retE_def movesInOrder_def split: sum.split)
  qed
qed

text \<open>The instances that a secret concerns: in the operator's TLS namespace all instances on tenants'
  clusters, elsewhere those of its namespace that it names or that take their kubeconfig from it.\<close>

definition tlsScope :: "'w instance_reconciler \<Rightarrow> secret \<Rightarrow> bool" where
  "tlsScope r sec = (btNamespace (irBYOCTLS r) \<noteq> [] \<and> omNamespace (seMeta sec) = btNamespace (irBYOCTLS r))"

definition watchScope :: "'w instance_reconciler \<Rightarrow> secret \<Rightarrow> list_options" where
  "watchScope r sec = (if tlsScope r sec then anywhere else inNamespace (omNamespace (seMeta sec)) [])"

definition concerns :: "'w instance_reconciler \<Rightarrow> secret \<Rightarrow> llm_instance \<Rightarrow> bool" where
  "concerns r sec i =
     (if tlsScope r sec then isBYOC i
      else omLabels (seMeta sec) instanceLabelKey = Some (omName (liMeta i)) \<or>
        isBYOC i \<and> clusterSecretName i = omName (seMeta sec))"

text \<open>
  A change of a secret wakes exactly the instances it concerns, among those that the API lists in
  its scope.
\<close>

theorem secret_wakes_exactly:
  assumes "listObj (instances (irClient r)) (watchScope r sec) s = (Inr items, t)" and "\<forall>i \<in> set items. omName (liMeta i) \<noteq> []"
  shows "\<exists>keys. findInstancesForSecret r (OSec sec) s = (Inr keys, t) \<and>
    set keys = {keyOf (liMeta i) | i. i \<in> set items \<and> concerns r sec i}"
proof -
  have label: "getS (omLabels (seMeta sec)) instanceLabelKey = omName (liMeta i) \<longleftrightarrow>
      omLabels (seMeta sec) instanceLabelKey = Some (omName (liMeta i))" if "i \<in> set items" for i
    using assms(2) that by (auto simp: lookupD_def split: option.splits)
  show ?thesis
    using assms(1) label
    by (auto simp: findInstancesForSecret_def tryE_def retE_def watchScope_def tlsScope_def concerns_def split: if_splits)
qed

section \<open>Witnesses\<close>

definition remoteInstance :: llm_instance where
  "remoteInstance = demoInstance\<lparr>liSpec := (liSpec demoInstance)\<lparr>spClusterRef := Some \<lparr>crKubeconfigSecretName = ''kc''\<rparr>\<rparr>\<rparr>"

definition remoteSys :: "unit sys" where
  "remoteSys = startSys\<lparr>held := remoteInstance\<rparr>"

lemma emptyClient_keeps: "identityKept (byocDemo emptyClient)"
  by (simp add: identityKept_def sameIdentity_def byocDemo_def demoReconciler_def emptyClient_def cannedKind_def)

text \<open>Without the kubeconfig the endpoint is withdrawn.\<close>

lemma demo_missing_kubeconfig:
  "\<exists>w. journal (snd (reconcileBYOC (byocDemo emptyClient) remoteInstance ''alpha'' model remoteSys)) = [w]"
  by (simp add: reconcileBYOC_def reconcileBYOCBody_def byocMigration_def byocClient_def byocKubeconfig_def remoteSys_def startSys_def
      remoteInstance_def demoInstance_def byocDemo_def demoReconciler_def emptyClient_def cannedKind_def absent_def isNotFound_def
      bindE_def tryE_def errE_def retE_def getObj_def readWith_def updateProvisioningStatus_def writeStatus_def nowE_def holdE_def
      apiE_def statusUpdateObj_def writeWith_def Let_def)

theorem byoc_writes_permitted_witness:
  "\<exists>w. journal (snd (reconcileBYOC (byocDemo emptyClient) remoteInstance ''alpha'' (modelForInstance remoteInstance) remoteSys)) = [w] \<and>
     byocPermitted (byocDemo emptyClient) remoteInstance ''alpha'' w"
proof -
  have "held remoteSys = remoteInstance" "journal remoteSys = []" by (simp_all add: remoteSys_def startSys_def)
  then show ?thesis
    using byoc_writes_permitted [OF emptyClient_keeps, of remoteSys remoteInstance "''alpha''"] demo_missing_kubeconfig by fastforce
qed

text \<open>An API that answers with an error makes the reconciliation fail.\<close>

definition failingClient :: "unit client" where
  "failingClient = emptyClient\<lparr>secrets := cannedKind (\<lambda>_. Inl (ApiError Conflict ''conflict'')) []\<rparr>"

definition failingDemo :: "unit instance_reconciler" where
  "failingDemo = (byocDemo emptyClient)\<lparr>irClient := failingClient\<rparr>"

lemma demo_failure:
  "\<exists>s'. reconcileBYOC failingDemo remoteInstance ''alpha'' model remoteSys = (Inl (APIErr (ApiError Conflict ''conflict'')), s')"
  by (simp add: reconcileBYOC_def reconcileBYOCBody_def byocMigration_def byocClient_def byocKubeconfig_def remoteSys_def startSys_def
      remoteInstance_def demoInstance_def failingDemo_def failingClient_def byocDemo_def demoReconciler_def emptyClient_def cannedKind_def
      isNotFound_def bindE_def tryE_def errE_def retE_def failE_def heldE_def getObj_def readWith_def updateProvisioningStatus_def
      writeStatus_def nowE_def holdE_def apiE_def statusUpdateObj_def writeWith_def Let_def)

theorem byoc_fails_closed_witness:
  "\<exists>s' ws w. snd (reconcileBYOC failingDemo remoteInstance ''alpha'' demoModel remoteSys) = s' \<and> journal s' = ws @ [w] \<and> endpointWithdrawn w"
proof -
  obtain s' where run: "reconcileBYOC failingDemo remoteInstance ''alpha'' demoModel remoteSys = (Inl (APIErr (ApiError Conflict ''conflict'')), s')"
    using demo_failure by blast
  from byoc_fails_closed [OF run] run show ?thesis by (auto simp: remoteSys_def startSys_def)
qed

text \<open>A deployment is removed through cached credentials.\<close>

definition leavingInstance :: llm_instance where
  "leavingInstance = demoInstance\<lparr>liStatus := (liStatus demoInstance)\<lparr>stActiveBYOCKubeconfigSecretName := ''kc'', stActiveBYOCSlug := ''alpha''\<rparr>\<rparr>"

definition cachedCredentials :: secret where
  "cachedCredentials = (newCredentials leavingInstance ''alpha'' ''k'')\<lparr>seMeta :=
     (newMeta ''default'' ''c'')\<lparr>omOwners := [controllerRef ''LLMInstance'' (liMeta leavingInstance)]\<rparr>\<rparr>"

definition tenantClient :: "unit client" where
  "tenantClient = demoRemote\<lparr>namespaces := cannedKind (\<lambda>_. Inr \<lparr>nsMeta = (newMeta [] ''kube-system'')\<lparr>omUID := ''n''\<rparr>\<rparr>) []\<rparr>"

definition leavingDemo :: "unit instance_reconciler" where
  "leavingDemo = (byocDemo tenantClient)\<lparr>irClient := emptyClient\<lparr>secrets := cannedKind (\<lambda>_. Inr cachedCredentials) []\<rparr>\<rparr>"

lemma leavingDemo_client: "remoteClientForKubeconfig leavingDemo ''k'' = Inr tenantClient"
proof -
  have "remoteClientForKubeconfig (r\<lparr>irClient := c\<rparr>) d = remoteClientForKubeconfig r d" for r :: "unit instance_reconciler" and c d
    by (cases r) (simp add: remoteClientForKubeconfig_def defaultRemoteClient_def split: option.split sum.split)
  then show ?thesis using byocDemo_client [of tenantClient] by (simp add: leavingDemo_def)
qed

lemma leavingDemo_api: "\<exists>apiID. byocTargetIdentity (irBYOCLib leavingDemo) ''k'' = Inr apiID"
  by (simp add: leavingDemo_def byocTargetIdentity_def byocDemo_config)

lemma tenant_identity: "\<exists>i. byocClusterIdentity tenantClient apiID startSys = (Inr i, startSys)"
  by (simp add: byocClusterIdentity_def tryE_def retE_def getObj_def readWith_def tenantClient_def cannedKind_def startSys_def)

lemma leavingDemo_reach: "reachBYOCTarget leavingDemo ''k'' [] refusal startSys = (Inr tenantClient, startSys)"
  using leavingDemo_api tenant_identity
  by (auto simp: reachBYOCTarget_def leavingDemo_client liftE_def bindE_def tryE_def retE_def) (metis (mono_tags, lifting) prod.case sum.simps(6))

lemma tenant_objects:
  "getObj (deployments tenantClient) k startSys = (Inr demoByocDeployment, startSys)"
  "getObj (services tenantClient) k t = (Inl (ApiError NotFound ''not found''), t)"
  "getObj (secrets tenantClient) k t = (Inl (ApiError NotFound ''not found''), t)"
  "getObj (configMaps tenantClient) k t = (Inl (ApiError NotFound ''not found''), t)"
  by (simp_all add: tenantClient_def demoRemote_def emptyClient_def cannedKind_def absent_def getObj_def readWith_def startSys_def)

lemma leaving_owned: "byocOwned (dpMeta demoByocDeployment) leavingInstance"
  using demo_owned by (simp add: byocOwned_def leavingInstance_def)

lemma demo_objects_removed:
  "\<exists>e. cleanupBYOCObjects tenantClient leavingInstance slug startSys = (Inl e, startSys\<lparr>journal :=
     [Write RemoteCluster (WDelete (preUID (dpMeta demoByocDeployment))) (ODep demoByocDeployment)]\<rparr>)"
proof -
  have "removeOwned ODep (deployments tenantClient) dpMeta (byocBaseName slug) leavingInstance startSys =
      (Inr ([], True), startSys\<lparr>journal := [Write RemoteCluster (WDelete (preUID (dpMeta demoByocDeployment))) (ODep demoByocDeployment)]\<rparr>)"
    by (simp add: removeOwned_def tryE_def tenant_objects checkBYOCObjectOwner_def leaving_owned retE_def deleteObj_def writeWith_def)
      (simp add: tenantClient_def demoRemote_def cannedKind_def startSys_def)
  moreover have "removeOwned OSvc (services tenantClient) svMeta n leavingInstance t = (Inr ([], False), t)"
    "removeOwned OSec (secrets tenantClient) seMeta n leavingInstance t = (Inr ([], False), t)"
    "removeOwned OCfg (configMaps tenantClient) cmMeta n leavingInstance t = (Inr ([], False), t)" for n t
    by (simp_all add: removeOwned_def tryE_def tenant_objects isNotFound_def retE_def)
  ultimately show ?thesis
    by (simp add: cleanupBYOCObjects_def bindE_def tryE_def errors_join_def errE_def failE_def)
qed

lemma demo_removal:
  "journal (snd (cleanupBYOC leavingDemo leavingInstance startSys)) =
     [Write RemoteCluster (WDelete (preUID (dpMeta demoByocDeployment))) (ODep demoByocDeployment)]"
proof -
  have slug: "cleanupSlug leavingDemo leavingInstance = Inr ''alpha''"
    by (simp add: cleanupSlug_def leavingInstance_def)
  have cached: "cachedBYOCKubeconfig leavingDemo leavingInstance ''alpha'' startSys = (Inr (Some ''k''), startSys)"
    by (simp add: cachedBYOCKubeconfig_def leavingDemo_def getObj_def readWith_def cannedKind_def tryE_def retE_def cachedCredentials_def
        newCredentials_def byocDemo_def demoReconciler_def sampleLib_def controllerOf_def controllerRef_def newMeta_def leavingInstance_def
        startSys_def lookupD_def)
  have status: "stActiveBYOCTargetID (liStatus leavingInstance) = []" "stActiveBYOCKubeconfigSecretName (liStatus leavingInstance) = ''kc''"
    by (simp_all add: leavingInstance_def demoInstance_def)
  obtain e where "cleanupBYOCObjects tenantClient leavingInstance ''alpha'' startSys = (Inl e, startSys\<lparr>journal :=
      [Write RemoteCluster (WDelete (preUID (dpMeta demoByocDeployment))) (ODep demoByocDeployment)]\<rparr>)"
    using demo_objects_removed by blast
  with slug cached leavingDemo_reach show ?thesis
    by (simp add: cleanupBYOC_def status removeBYOCTarget_def liftE_def bindE_def tryE_def retE_def failE_def)
qed

theorem byoc_cleanup_phases_witness:
  "\<exists>w. journal (snd (cleanupBYOC leavingDemo leavingInstance startSys)) = [w] \<and> workloadRemoval leavingInstance w \<and>
     managedDNSGone leavingDemo leavingInstance \<and> managedTLSGone leavingDemo leavingInstance"
proof -
  let ?w = "Write RemoteCluster (WDelete (preUID (dpMeta demoByocDeployment))) (ODep demoByocDeployment)"
  obtain res s' where run: "cleanupBYOC leavingDemo leavingInstance startSys = (res, s')" by (cases "cleanupBYOC leavingDemo leavingInstance startSys")
  have "\<not> credentialRemoval leavingDemo leavingInstance ?w" "\<not> remoteTLS leavingDemo leavingInstance ?w" "wrSite ?w = RemoteCluster"
    by (simp_all add: credentialRemoval_def)
  moreover have "journal s' = journal startSys @ [?w]" using demo_removal run by (simp add: startSys_def)
  ultimately show ?thesis using byoc_cleanup_phases [OF run] demo_removal by fastforce
qed

theorem byoc_cleanup_same_cluster_witness:
  "\<exists>w data. journal (snd (cleanupBYOC leavingDemo leavingInstance startSys)) = [w] \<and> wrSite w = RemoteCluster \<and>
     targetVerified leavingDemo data []"
proof -
  obtain res s' where run: "cleanupBYOC leavingDemo leavingInstance startSys = (res, s')" by (cases "cleanupBYOC leavingDemo leavingInstance startSys")
  have "journal startSys = []" "stActiveBYOCTargetID (liStatus leavingInstance) = []"
    by (simp_all add: startSys_def leavingInstance_def demoInstance_def)
  with byoc_cleanup_same_cluster [OF run] demo_removal run show ?thesis by fastforce
qed

text \<open>The secret with the kubeconfig wakes the instance that uses it.\<close>

definition watchDemo :: "unit instance_reconciler" where
  "watchDemo = demoReconciler (emptyClient\<lparr>instances := cannedKind absent [demoInstance, remoteInstance]\<rparr>)"

theorem secret_wakes_exactly_witness:
  "\<exists>keys s'. findInstancesForSecret watchDemo (OSec (demoSecret\<lparr>seMeta := newMeta ''default'' ''kc''\<rparr>)) startSys = (Inr keys, s') \<and> set keys = {(''default'', ''a'')}"
proof -
  let ?sec = "demoSecret\<lparr>seMeta := newMeta ''default'' ''kc''\<rparr>"
  have list: "listObj (instances (irClient watchDemo)) (watchScope watchDemo ?sec) startSys = (Inr [demoInstance, remoteInstance], startSys)"
    by (simp add: watchDemo_def demoReconciler_def listObj_def readWith_def cannedKind_def startSys_def)
  have "\<forall>i \<in> set [demoInstance, remoteInstance]. omName (liMeta i) \<noteq> []"
    by (simp add: demoInstance_def remoteInstance_def sampleObj_def newMeta_def)
  from secret_wakes_exactly [OF list this] obtain keys where keys: "findInstancesForSecret watchDemo (OSec ?sec) startSys = (Inr keys, startSys)"
    "set keys = {keyOf (liMeta i) | i. i \<in> set [demoInstance, remoteInstance] \<and> concerns watchDemo ?sec i}" by blast
  have c: "concerns watchDemo ?sec remoteInstance" "\<not> concerns watchDemo ?sec demoInstance"
    by (simp_all add: concerns_def tlsScope_def watchDemo_def demoReconciler_def isBYOC_def clusterSecretName_def remoteInstance_def
        demoInstance_def newMeta_def)
  have "{keyOf (liMeta i) | i. i \<in> set [demoInstance, remoteInstance] \<and> concerns watchDemo ?sec i} = {keyOf (liMeta remoteInstance)}"
    using c by auto
  moreover have "keyOf (liMeta remoteInstance) = (''default'', ''a'')"
    by (simp add: keyOf_def remoteInstance_def demoInstance_def sampleObj_def newMeta_def)
  ultimately show ?thesis using keys by auto
qed

end
