(* ===== verification/InstanceController.thy ===== *)
theory InstanceController
  imports ByocController
begin

text \<open>
  \<^verbatim>\<open>internal/controller/llminstance_controller.go\<close>: the reconciliation loop of LLMInstances, which composes
  the slug policy, the ceilings, the hosted workload and its route, the BYOC mode and the finalizer.
  Tracing and logging have no effect on the model.
\<close>

section \<open>Deletion\<close>

definition finalizerName :: string where "finalizerName = ''llm.privatellms.msp/llminstance-finalizer''"

definition withoutFinalizer :: "kube_lib \<Rightarrow> llm_instance \<Rightarrow> llm_instance" where
  "withoutFinalizer L inst = inst\<lparr>liMeta := removeFinalizer L (liMeta inst) finalizerName\<rparr>"

text \<open>The retry loop of \<^verbatim>\<open>finalizeLLMInstance\<close>; the first argument counts the attempts that are left.\<close>

fun removeFinalizerLoop :: "nat \<Rightarrow> 'w instance_reconciler \<Rightarrow> llm_instance \<Rightarrow> key \<Rightarrow> ('w, unit) io" where
  "removeFinalizerLoop 0 r inst k = retE ()"
| "removeFinalizerLoop (Suc n) r inst k =
     tryE (localUpdate OInst (instances (irClient r)) (withoutFinalizer (irLib r) inst))
       (\<lambda>e. if isNotFound e then retE ()
            else if isConflict e
            then tryE (getInstance r k) (\<lambda>_. retE ())
                   (\<lambda>found. case found of None \<Rightarrow> retE () | Some fresh \<Rightarrow> removeFinalizerLoop n r fresh k)
            else failE (APIErr e))
       (\<lambda>_. retE ())"

definition finalizeLLMInstance :: "'w instance_reconciler \<Rightarrow> llm_instance \<Rightarrow> key \<Rightarrow> ('w, unit) io" where
  "finalizeLLMInstance r inst k =
     (if containsFinalizer (irLib r) (liMeta inst) finalizerName
      then bindE (if isBYOC inst \<or> stActiveBYOCKubeconfigSecretName (liStatus inst) \<noteq> [] then cleanupBYOC r inst else retE ()) (\<lambda>_.
        removeFinalizerLoop 3 r inst k)
      else retE ())"

section \<open>Reconciliation\<close>

text \<open>\<^verbatim>\<open>if err := m; err != nil { return ctrl.Result{}, r.rejectSlug(ctx, inst, err) }\<close>\<close>

definition orReject :: "'w instance_reconciler \<Rightarrow> llm_instance \<Rightarrow> ('w, 'a) io \<Rightarrow> ('a \<Rightarrow> ('w, result) io) \<Rightarrow> ('w, result) io" where
  "orReject r inst m k = tryE m (rejectSlug r inst) k"

definition publishHosted :: "'w instance_reconciler \<Rightarrow> llm_instance \<Rightarrow> string \<Rightarrow> verdict \<Rightarrow> ('w, result) io" where
  "publishHosted r inst slug v =
     (if \<not> vdReady v
      then bindE (updateProvisioningStatus r inst (instanceEndpoint r slug) (vdReason v) (vdMessage v)) (\<lambda>_. retE (requeueAfter 5))
      else bindE (InstanceBase.updateReadyStatus r inst (instanceEndpoint r slug)) (\<lambda>_. retE (requeueAfter 30)))"

definition reconcileHosted :: "'w instance_reconciler \<Rightarrow> llm_instance \<Rightarrow> string \<Rightarrow> model_selection \<Rightarrow> ('w, result) io" where
  "reconcileHosted r inst0 slug model =
     (let inst = inst0\<lparr>liStatus := (liStatus inst0)\<lparr>stActiveBYOCKubeconfigSecretName := []\<rparr>\<rparr>;
          labels = llamaLabels (omName (liMeta inst)); svcName = svcNameOf inst; pathPrefix = ''/llm/'' @ slug in
      bindE (holdE inst) (\<lambda>_.
      orReject r inst (reconcileDeployment r inst labels model) (\<lambda>_.
      orReject r inst (reconcileService r inst labels svcName) (\<lambda>_.
      orReject r inst (reconcileStripMiddleware r inst labels svcName pathPrefix) (\<lambda>_.
      orReject r inst (reconcileForwardAuthMiddleware r inst labels svcName slug) (\<lambda>_.
      orReject r inst (reconcileIngress r inst labels svcName pathPrefix) (\<lambda>_.
      bindE (evaluateInstanceReadiness r inst svcName) (publishHosted r inst slug))))))))"

text \<open>The instance has a slug: leave the previous cluster if there is one, then run where it belongs.\<close>

definition reconcileTarget :: "'w instance_reconciler \<Rightarrow> llm_instance \<Rightarrow> string \<Rightarrow> ('w, result) io" where
  "reconcileTarget r inst slug =
     (let model = modelForInstance inst in
      tryE (cleanupChangedBYOCTarget r inst slug)
        (\<lambda>err. bindE heldE (\<lambda>current.
           bindE (updateProvisioningStatus r current [] ''BYOCTargetCleanupFailed'' ''Cannot safely clean up the previous BYOC target'') (\<lambda>_.
             failE err)))
        (\<lambda>_. bindE heldE (\<lambda>current.
           if isBYOC current then reconcileBYOC r current slug model else reconcileHosted r current slug model)))"

definition ensureFinalizer :: "'w instance_reconciler \<Rightarrow> llm_instance \<Rightarrow> ('w, result) io" where
  "ensureFinalizer r inst =
     tryE (localUpdate OInst (instances (irClient r)) (inst\<lparr>liMeta := addFinalizer (irLib r) (liMeta inst) finalizerName\<rparr>))
       (\<lambda>_. retE (requeueAfter 5)) (\<lambda>_. retE \<lparr>rsRequeue = True, rsAfter = 0\<rparr>)"

text \<open>A rejection after \<^verbatim>\<open>ensureSlug\<close> works on the instance as that function left it.\<close>

definition reconcileSlugged :: "'w instance_reconciler \<Rightarrow> llm_instance \<Rightarrow> ('w, result) io" where
  "reconcileSlugged r inst =
     tryE (ensureSlug r inst)
       (\<lambda>err. bindE heldE (\<lambda>current. rejectSlug r current err))
       (\<lambda>(slug, requeue).
          if requeue then retE \<lparr>rsRequeue = True, rsAfter = 0\<rparr>
          else orReject r inst (if \<not> isBYOC inst then checkSlugRoute r inst slug else retE ()) (\<lambda>_. reconcileTarget r inst slug))"

definition reconcileLive :: "'w instance_reconciler \<Rightarrow> llm_instance \<Rightarrow> ('w, result) io" where
  "reconcileLive r inst =
     (case selectSlug r inst of
        Inl err \<Rightarrow> rejectSlug r inst err
      | Inr _ \<Rightarrow>
          orReject r inst (upgradeExistingAuthMiddleware r inst) (\<lambda>_.
            case checkCeilings (irLib r) (irModelServerCeilings r) inst of
              Some err \<Rightarrow> bindE (rejectModelSettings r inst (errorText err)) (\<lambda>_. retE doneResult)
            | None \<Rightarrow>
                if \<not> containsFinalizer (irLib r) (liMeta inst) finalizerName then ensureFinalizer r inst
                else reconcileSlugged r inst))"

definition Reconcile :: "'w instance_reconciler \<Rightarrow> key \<Rightarrow> ('w, result) io" where
  "Reconcile r k =
     bindE (getInstance r k) (\<lambda>found. case found of
        None \<Rightarrow> retE doneResult
      | Some inst \<Rightarrow>
          bindE (holdE inst) (\<lambda>_.
            if omDeletion (liMeta inst) \<noteq> None then bindE (finalizeLLMInstance r inst k) (\<lambda>_. retE doneResult)
            else reconcileLive r inst))"

section \<open>The finalizer\<close>

definition finalizerUpdate :: "'w instance_reconciler \<Rightarrow> wreq \<Rightarrow> bool" where
  "finalizerUpdate r w = (\<exists>i. w = Write LocalCluster WUpdate (OInst (withoutFinalizer (irLib r) i)))"

lemma emits_getInstance [emits_intros]: "emits G (getInstance r k)"
  unfolding getInstance_def by (intro emits_intros)

lemma removeFinalizerLoop_bounded:
  "\<exists>us. journal (snd (removeFinalizerLoop n r inst k s)) = journal s @ us \<and> length us \<le> n \<and> list_all (finalizerUpdate r) us"
proof (induction n arbitrary: inst s)
  case 0
  show ?case by (simp add: retE_def)
next
  case (Suc n)
  let ?w = "Write LocalCluster WUpdate (OInst (withoutFinalizer (irLib r) inst))"
  obtain v t where u: "localUpdate OInst (instances (irClient r)) (withoutFinalizer (irLib r) inst) s = (v, t)"
    by (cases "localUpdate OInst (instances (irClient r)) (withoutFinalizer (irLib r) inst) s")
  then have t: "journal t = journal s @ [?w]" by (auto simp: updateObj_def writeWith_def split: prod.splits)
  have one: "finalizerUpdate r ?w" by (auto simp: finalizerUpdate_def)
  have "\<exists>us. journal (snd (removeFinalizerLoop (Suc n) r inst k s)) = journal t @ us \<and> length us \<le> n \<and> list_all (finalizerUpdate r) us"
  proof (cases "\<exists>e fresh t'. v = Inl e \<and> \<not> isNotFound e \<and> isConflict e \<and> getInstance r k t = (Inr (Some fresh), t')")
    case True
    then obtain e fresh t' where c: "v = Inl e" "\<not> isNotFound e" "isConflict e" "getInstance r k t = (Inr (Some fresh), t')" by blast
    have "journal t' = journal t" by (rule silent_run [OF emits_getInstance c(4)])
    moreover have "removeFinalizerLoop (Suc n) r inst k s = removeFinalizerLoop n r fresh k t'"
      using u c by (simp add: tryE_def)
    ultimately show ?thesis using Suc.IH [of fresh t'] by simp
  next
    case False
    have "journal t' = journal t" if "getInstance r k t = (x, t')" for x t' by (rule silent_run [OF emits_getInstance that])
    with False u show ?thesis
      by (intro exI [of _ "[]"]) (auto simp: tryE_def retE_def failE_def split: sum.split prod.split option.split)
  qed
  then show ?case using t one by (auto intro: exI [of _ "?w # us" for us])
qed

text \<open>No write of a removal is to the instance itself.\<close>

definition instanceRequest :: "wreq \<Rightarrow> bool" where
  "instanceRequest w = (\<exists>c op i. w = Write c op (OInst i))"

lemma removal_spares_instance:
  "tlsWrite r inst w \<Longrightarrow> \<not> instanceRequest w" "workloadRemoval inst w \<Longrightarrow> \<not> instanceRequest w"
  "credentialRemoval r inst w \<Longrightarrow> \<not> instanceRequest w"
  by (cases "(r, inst, w)" rule: tlsWrite.cases; auto simp: instanceRequest_def workloadRemoval_def credentialRemoval_def)+

text \<open>A loop that runs at all sends an update.\<close>

lemma emits_removeFinalizerLoop: "emits (\<lambda>_. True) (removeFinalizerLoop n r inst k)"
  by (induction n arbitrary: inst) (auto intro!: emits_intros emits_tryE)

lemma removeFinalizerLoop_updates:
  assumes "removeFinalizerLoop (Suc n) r inst k s = (res, s')"
  shows "journal s' \<noteq> journal s"
proof -
  let ?u = "localUpdate OInst (instances (irClient r)) (withoutFinalizer (irLib r) inst)"
  let ?h = "\<lambda>e. if isNotFound e then retE () else if isConflict e then tryE (getInstance r k) (\<lambda>_. retE ())
      (\<lambda>found. case found of None \<Rightarrow> retE () | Some fresh \<Rightarrow> removeFinalizerLoop n r fresh k) else failE (APIErr e)"
  obtain v t where u: "?u s = (v, t)" by (cases "?u s")
  then have t: "length (journal t) = Suc (length (journal s))" by (auto simp: updateObj_def writeWith_def split: prod.splits)
  have h: "emits (\<lambda>_. True) (?h e)" for e
    by (intro emits_if emits_retE emits_failE emits_tryE emits_getInstance emits_case_option emits_removeFinalizerLoop)
  have "\<exists>ws. journal s' = journal t @ ws"
  proof (cases v)
    case (Inl e)
    with assms u have "?h e t = (res, s')" by (simp add: tryE_def)
    from emits_run [OF h this] show ?thesis by blast
  next
    case (Inr x)
    with assms u show ?thesis by (simp add: tryE_def retE_def)
  qed
  with t show ?thesis by auto
qed

text \<open>
  \<^bold>\<open>C18.\<close> The finalizer goes last.  A run of \<^verbatim>\<open>finalizeLLMInstance\<close> first sends requests that do not touch the
  instance, and then at most three that do, each an update that drops the finalizer from a version of
  the instance.  If there is one of these, then before it nothing but cached credentials was removed
  and, where the instance was on a tenant's cluster, the removal had ended with every object of the
  instance answered for as absent.  A run that succeeds on an instance with the finalizer did send
  one.
\<close>

theorem finalizer_goes_last:
  assumes "finalizeLLMInstance r inst k s = (res, s')"
  shows "\<exists>ws us. journal s' = journal s @ ws @ us \<and> list_all (\<lambda>w. \<not> instanceRequest w) ws \<and>
    list_all (finalizerUpdate r) us \<and> length us \<le> 3 \<and>
    (us \<noteq> [] \<longrightarrow> list_all (credentialRemoval r inst) ws \<and>
       (isBYOC inst \<or> stActiveBYOCKubeconfigSecretName (liStatus inst) \<noteq> [] \<longrightarrow> cleanedUp r inst)) \<and>
    (res = Inr () \<and> containsFinalizer (irLib r) (liMeta inst) finalizerName \<longrightarrow> us \<noteq> [])"
proof (cases "containsFinalizer (irLib r) (liMeta inst) finalizerName")
  case False
  with assms show ?thesis by (intro exI [of _ "[]"]) (simp add: finalizeLLMInstance_def retE_def)
next
  case True
  let ?remote = "isBYOC inst \<or> stActiveBYOCKubeconfigSecretName (liStatus inst) \<noteq> []"
  let ?m = "if ?remote then cleanupBYOC r inst else retE ()"
  obtain v t where m: "?m s = (v, t)" by (cases "?m s")
  have run: "finalizeLLMInstance r inst k s = (case v of Inl e \<Rightarrow> (Inl e, t) | Inr _ \<Rightarrow> removeFinalizerLoop 3 r inst k t)"
    using True m by (simp add: finalizeLLMInstance_def bindE_def tryE_def failE_def split: sum.split)
  have phases: "phased (cleanupPhases r inst) ?m" by (intro phased_if phased_cleanupBYOC phased_silent [OF emits_retE])
  obtain ws where ws: "journal t = journal s @ ws" "inPhases (cleanupPhases r inst) ws" using phasedD [OF phases m] by blast
  from ws(2) have spared: "list_all (\<lambda>w. \<not> instanceRequest w) ws"
    by (auto simp: list_all_iff dest: removal_spares_instance)
  show ?thesis
  proof (cases v)
    case (Inl e)
    then show ?thesis using assms run ws(1) spared by - (rule exI [of _ ws], rule exI [of _ "[]"], auto)
  next
    case (Inr x)
    have "finishes (credentialRemoval r inst) (?remote \<longrightarrow> cleanedUp r inst) ?m"
      by (auto intro: finishes_weaken [OF finishes_cleanupBYOC] finishes_emits [OF emits_retE])
    from finishesD [OF this] m Inr ws(1) have over: "list_all (credentialRemoval r inst) ws" "?remote \<longrightarrow> cleanedUp r inst"
      by (metis same_append_eq)+
    have loop: "removeFinalizerLoop 3 r inst k t = (res, s')" using assms run Inr by simp
    then obtain us where us: "journal s' = journal t @ us" "length us \<le> 3" "list_all (finalizerUpdate r) us"
      using removeFinalizerLoop_bounded [of 3 r inst k t] by auto
    moreover have "us \<noteq> []" using removeFinalizerLoop_updates [of 2 r inst k t res s'] loop us(1) by auto
    ultimately show ?thesis using ws(1) spared over by - (rule exI [of _ ws], rule exI [of _ us], simp)
  qed
qed

section \<open>Nothing before the settings are accepted\<close>

text \<open>What a run may write before the settings of the tenant are accepted: statuses, the withdrawal of an
  own route, and the upgrade of an existing, own authentication middleware.\<close>

definition preludeWrite :: "'w instance_reconciler \<Rightarrow> llm_instance \<Rightarrow> wreq \<Rightarrow> bool" where
  "preludeWrite r inst w = (statusOf w \<noteq> None \<or>
     (\<exists>ing. w = Write LocalCluster (WDelete (preUIDVersion (igMeta ing))) (OIng ing) \<and> ownsSlugIngress (irLib r) inst ing) \<or>
     (\<exists>mw old. w = Write LocalCluster WUpdate (OMw mw) \<and> ownsLLMResource (irLib r) inst (unMeta old) \<and>
        serves (middlewares (irClient r)) (omNamespace (liMeta inst), authMiddlewareName (svcNameOf inst)) old))"

lemma emits_rejectSlug_prelude: "emits (preludeWrite r inst) (rejectSlug r inst cause)"
  by (rule emits_rejectSlug) (auto simp: preludeWrite_def)

lemma emits_upgrade_prelude: "emits (preludeWrite r inst) (upgradeExistingAuthMiddleware r inst)"
proof -
  have update: "preludeWrite r inst (Write LocalCluster (if False then WCreate else WUpdate) (OMw mw))"
    if "serves (middlewares (irClient r)) (omNamespace (liMeta inst), authMiddlewareName (svcNameOf inst)) old"
      "ownsLLMResource (irLib r) inst (unMeta old)" for mw old
    using that by (auto simp: preludeWrite_def)
  have "emits (preludeWrite r inst) (reconcileAuthMiddleware r inst labels (svcNameOf inst) slug False)" for labels slug
    unfolding reconcileAuthMiddleware_def
    by (rule emits_if [OF emits_failE], rule emits_try_getObj) (intro emits_intros emits_writeForwardAuth update; simp)+
  then show ?thesis
    unfolding upgradeExistingAuthMiddleware_def by (auto intro!: emits_intros)
qed

lemma getInstance_held: "getInstance r k s = (v, t) \<Longrightarrow> journal t = journal s"
  by (rule silent_run [OF emits_getInstance])

lemma run_live:
  assumes "getInstance r k s = (Inr (Some inst), t)" and "omDeletion (liMeta inst) = None"
  shows "Reconcile r k s = reconcileLive r inst (t\<lparr>held := inst\<rparr>)"
  using assms by (simp add: Reconcile_def bindE_def tryE_def holdE_def)

text \<open>
  \<^bold>\<open>C17.\<close> Settings first: as long as the settings of a live instance exceed the ceilings of the provider,
  no run creates or changes a workload, a route, a middleware that is not already its own, an object
  on a tenant's cluster, or even the finalizer; the run only reports, withdraws an own route, or
  upgrades the existing authentication of an own route.
\<close>

theorem settings_gate:
  assumes "getInstance r k s = (Inr (Some inst), t)" and "omDeletion (liMeta inst) = None"
    and "checkCeilings (irLib r) (irModelServerCeilings r) inst = Some err"
  shows "\<exists>ws. journal (snd (InstanceController.Reconcile r k s)) = journal s @ ws \<and> (\<forall>w \<in> set ws. preludeWrite r inst w)"
proof -
  have status: "emits (preludeWrite r inst) (rejectModelSettings r inst message)" for message
    by (rule emits_statusWrites) (simp add: preludeWrite_def)
  have "emits (preludeWrite r inst) (reconcileLive r inst)"
    unfolding reconcileLive_def orReject_def assms(3) option.case
    by (intro emits_intros emits_rejectSlug_prelude emits_upgrade_prelude status)
  from emitsFrom_emits [OF this, of "t\<lparr>held := inst\<rparr>"] show ?thesis
    unfolding emitsFrom_def run_live [OF assms(1,2)] by (simp add: getInstance_held [OF assms(1)])
qed

section \<open>A live instance is looked at again\<close>

definition again :: "result \<Rightarrow> bool" where
  "again res = (rsRequeue res \<or> 0 < rsAfter res)"

lemma yields_rejectSlug: "yields (rejectSlug r inst cause) P"
proof (rule yieldsI)
  fix s x s'
  assume "rejectSlug r inst cause s = (Inr x, s')"
  then show "P x" using rejectSlug_fails [of r inst cause s] by auto
qed

lemma yields_orReject: "(\<And>x. yields (k x) P) \<Longrightarrow> yields (orReject r inst m k) P"
  unfolding orReject_def by (rule yields_tryE [OF yields_True]) (auto intro: yields_rejectSlug)

lemma again_values [simp]: "again (requeueAfter 5)" "again (requeueAfter 30)" "again \<lparr>rsRequeue = True, rsAfter = n\<rparr>"
  by (simp_all add: again_def requeueAfter_def)

lemma yields_last: "P x \<Longrightarrow> yields (bindE m (\<lambda>_. retE x)) P"
  by (rule yields_bindE [OF yields_True]) (rule yields_retE)

lemma again_publishBYOC: "yields (publishBYOC r remote inst slug hostname revision) again"
  unfolding publishBYOC_def by (rule yields_bindE [OF yields_True]) (auto intro!: yields_last split: prod.split)

lemma again_reconcileBYOC: "yields (reconcileBYOC r inst slug model) again"
proof -
  have p: "yields (provisionBYOC r remote data inst slug model) again" for remote data
    unfolding provisionBYOC_def
    by (intro yields_bindE [OF yields_True])
      (auto intro!: yields_bindE [OF yields_True] yields_tryE [OF yields_True] yields_last yields_failE again_publishBYOC split: prod.split)
  have "yields (reconcileBYOCBody r inst slug model) again"
    unfolding reconcileBYOCBody_def
    by (intro yields_bindE [OF yields_True]) (auto intro!: yields_last p split: sum.split)
  then show ?thesis
    unfolding reconcileBYOC_def
    by (rule yields_tryE) (auto intro!: yields_bindE [OF yields_True] yields_tryE [OF yields_True] yields_failE yields_retE)
qed

lemma again_reconcileHosted: "yields (reconcileHosted r inst slug model) again"
  unfolding reconcileHosted_def Let_def publishHosted_def
  by (intro yields_bindE [OF yields_True] yields_orReject) (auto intro!: yields_last)

lemma again_reconcileLive:
  assumes "checkCeilings (irLib r) (irModelServerCeilings r) inst = None"
  shows "yields (reconcileLive r inst) again"
proof -
  have target: "yields (reconcileTarget r inst slug) again" for slug
    unfolding reconcileTarget_def Let_def
    by (rule yields_tryE [OF yields_True])
      (auto intro!: yields_bindE [OF yields_True] yields_failE again_reconcileBYOC again_reconcileHosted)
  have "yields (reconcileSlugged r inst) again"
    unfolding reconcileSlugged_def
    by (rule yields_tryE [OF yields_True])
      (auto intro!: yields_bindE [OF yields_True] yields_retE yields_orReject yields_rejectSlug target split: prod.split)
  moreover have "yields (ensureFinalizer r inst) again"
    unfolding ensureFinalizer_def by (rule yields_tryE [OF yields_True]) (auto intro!: yields_retE)
  ultimately show ?thesis
    unfolding reconcileLive_def assms option.case
    by (auto split: sum.split intro!: yields_rejectSlug yields_orReject)
qed

text \<open>
  A live instance is never forgotten: a run that finds it, accepts its settings and does not fail
  (a failed run is repeated by the framework) asks to be run again.
\<close>

theorem live_instance_requeued:
  assumes "getInstance r k s = (Inr (Some inst), t)" and "omDeletion (liMeta inst) = None"
    and "checkCeilings (irLib r) (irModelServerCeilings r) inst = None"
    and "InstanceController.Reconcile r k s = (Inr res, s')"
  shows "rsRequeue res \<or> 0 < rsAfter res"
proof -
  have "reconcileLive r inst (t\<lparr>held := inst\<rparr>) = (Inr res, s')" using assms(4) unfolding run_live [OF assms(1,2)] .
  from yieldsD [OF again_reconcileLive [OF assms(3)] this] show ?thesis by (simp add: again_def)
qed

section \<open>When an instance is ready\<close>

lemma steady_splits:
  "(\<And>x y. steady (k x y)) \<Longrightarrow> steady (case p of (x, y) \<Rightarrow> k x y)"
  "(\<And>x. steady (f x)) \<Longrightarrow> steady m \<Longrightarrow> steady (case v of None \<Rightarrow> m | Some x \<Rightarrow> f x)"
  "(\<And>x. steady (g x)) \<Longrightarrow> (\<And>y. steady (h y)) \<Longrightarrow> steady (case c of Inl x \<Rightarrow> g x | Inr y \<Rightarrow> h y)"
  by (auto split: prod.split option.split sum.split)

lemma steady_checks:
  "steady (errE e)" "steady (requireBYOCTLSOwner m inst)" "steady (requireBYOCTargetSecret sec inst target)"
  "steady (checkBYOCObjectOwner m inst)" "steady (ignoreNotFound e')"
  unfolding errE_def requireBYOCTLSOwner_def requireBYOCTargetSecret_def checkBYOCObjectOwner_def ignoreNotFound_def
  by (auto intro!: steady_intros split: option.split)

lemma steady_reads:
  "steady (byocKubeconfig r inst)" "steady (cachedBYOCKubeconfig r inst slug)"
  "steady (reachBYOCTarget r data targetID refusal)" "steady (checkSlugRoute r inst slug)"
  unfolding byocKubeconfig_def cachedBYOCKubeconfig_def reachBYOCTarget_def checkSlugRoute_def Let_def
  by (intro steady_intros steady_byocClusterIdentity)+

lemma steady_keepsBYOCTarget: "steady (keepsBYOCTarget r inst oldData)"
  unfolding keepsBYOCTarget_def Let_def by (intro steady_intros steady_splits steady_byocClusterIdentity steady_reads)

lemma steady_deleteExact: "steady (deleteExact c tag a meta x)"
  unfolding deleteExact_def by (intro steady_intros steady_checks)

lemma steady_reconcileBYOCManagedCertificate: "steady (reconcileBYOCManagedCertificate r inst cfg targetID)"
  unfolding reconcileBYOCManagedCertificate_def obtainCertificate_def refusePreexisting_def guardSource_def forE.simps Let_def
  by (intro steady_intros steady_splits steady_checks)

lemma steady_cleanupBYOCManagedTLS: "steady (cleanupBYOCManagedTLS r inst cfg targetID)"
  unfolding cleanupBYOCManagedTLS_def cleanupBYOCDNS_def stopIssuance_def removeTLSSecret_def Let_def
  by (intro steady_intros steady_splits steady_checks steady_deleteExact steady_reconcileBYOCManagedCertificate)

lemma steady_removeBYOCTarget: "steady (removeBYOCTarget r inst slug data targetID refusal)"
  unfolding removeBYOCTarget_def cleanupBYOCObjects_def removeOwned_def cleanupBYOCRemoteTLS_def Let_def
  by (intro steady_intros steady_splits steady_checks steady_deleteExact steady_reads)

lemma steady_deleteCachedBYOCCredentials: "steady (deleteCachedBYOCCredentials r inst slug)"
  unfolding deleteCachedBYOCCredentials_def by (intro steady_intros steady_checks)

text \<open>\<open>keeps inst m\<close>: the held instance stays the one with the identity of \<open>inst\<close>.\<close>

definition keeps :: "llm_instance \<Rightarrow> ('w sys, 'e, 'a) eff \<Rightarrow> bool" where
  "keeps inst m = (\<forall>s. sameIdentity (held s) inst \<longrightarrow> sameIdentity (held (snd (m s))) inst)"

lemma keeps_steady: "steady m \<Longrightarrow> keeps inst m"
  by (simp add: keeps_def steady_def)

lemma keeps_tryE: "keeps inst m \<Longrightarrow> (\<And>e. keeps inst (h e)) \<Longrightarrow> (\<And>x. keeps inst (k x)) \<Longrightarrow> keeps inst (tryE m h k)"
  unfolding keeps_def tryE_def by (force split: prod.split sum.split)

lemma keeps_bindE: "keeps inst m \<Longrightarrow> (\<And>x. keeps inst (k x)) \<Longrightarrow> keeps inst (bindE m k)"
  unfolding bindE_def by (erule keeps_tryE) (auto intro: keeps_steady steady_basic)

lemma keeps_held: "(\<And>i. sameIdentity i inst \<Longrightarrow> keeps inst (k i)) \<Longrightarrow> keeps inst (bindE heldE k)"
  unfolding keeps_def bindE_def tryE_def heldE_def by simp

lemma keeps_status: "identityKept r \<Longrightarrow> sameIdentity i inst \<Longrightarrow> keeps inst (updateProvisioningStatus r i e a b)"
  unfolding keeps_def using held_updateProvisioningStatus by (fastforce simp: sameIdentity_def)

lemma keeps_leaveBYOCTarget:
  assumes "identityKept r" and "sameIdentity i inst"
  shows "keeps inst (leaveBYOCTarget r i slug oldData)"
  unfolding leaveBYOCTarget_def Let_def
  by (intro keeps_bindE keeps_held keeps_status [OF assms(1)] keeps_steady steady_if steady_cleanupBYOCManagedTLS steady_basic
      steady_removeBYOCTarget steady_deleteCachedBYOCCredentials)
    (use assms(2) in \<open>auto simp: forgetTarget_def sameIdentity_def\<close>)

lemma keeps_cleanupChangedBYOCTarget:
  assumes "identityKept r"
  shows "keeps inst (cleanupChangedBYOCTarget r inst slug)"
proof -
  have "sameIdentity inst inst" by (simp add: sameIdentity_def)
  then have leave: "keeps inst (leaveBYOCTarget r inst slug' d)" for slug' d by (rule keeps_leaveBYOCTarget [OF assms])
  show ?thesis
    unfolding cleanupChangedBYOCTarget_def Let_def
    by (auto intro!: keeps_bindE [OF keeps_steady] leave steady_reads steady_keepsBYOCTarget keeps_steady [OF steady_basic(1)]
        keeps_steady [OF steady_basic(2)] split: option.split)
qed

text \<open>Why an endpoint may be published as ready for the instance under a key.\<close>

definition readyFor :: "'w instance_reconciler \<Rightarrow> llm_instance \<Rightarrow> string \<Rightarrow> bool" where
  "readyFor r inst endpoint = (\<exists>sel. selectSlug r inst = Inr sel \<and> checkCeilings (irLib r) (irModelServerCeilings r) inst = None \<and>
     (publishedBYOC r inst (slSlug sel) endpoint \<or>
      endpoint = instanceEndpoint r (slSlug sel) \<and> readySeen r inst (svcNameOf inst)))"

definition readyJustified :: "'w instance_reconciler \<Rightarrow> llm_instance \<Rightarrow> wreq \<Rightarrow> bool" where
  "readyJustified r inst w = (\<forall>st. statusOf w = Some st \<longrightarrow> stPhase st = ''Ready'' \<longrightarrow> readyFor r inst (stEndpoint st))"

definition unready :: "wreq \<Rightarrow> bool" where
  "unready w = (\<forall>st. statusOf w = Some st \<longrightarrow> stPhase st \<noteq> ''Ready'')"

lemma unready_justified: "emits unready m \<Longrightarrow> emits (readyJustified r inst) m"
  by (erule emits_mono) (simp add: unready_def readyJustified_def)

lemma unready_provisioning: "emits unready (updateProvisioningStatus r i e a b)"
  unfolding updateProvisioningStatus_def writeStatus_def by (intro emits_intros) (simp add: unready_def withStatus_def)

lemma unready_rejectSlug: "emits unready (rejectSlug r inst cause)"
  by (rule emits_rejectSlug) (simp_all add: unready_def withStatus_def)

lemma unready_upgrade: "emits unready (upgradeExistingAuthMiddleware r inst)"
proof -
  have "authWrite r inst n slug w \<Longrightarrow> unready w" for n slug w
    by (cases "(r, inst, n, slug, w)" rule: authWrite.cases) (auto simp: unready_def)
  then have "emits unready (reconcileAuthMiddleware r inst labels n slug c)" for labels n slug c
    by (rule emits_mono [OF emits_reconcileAuthMiddleware])
  then show ?thesis unfolding upgradeExistingAuthMiddleware_def by (auto intro!: emits_intros)
qed

lemma unready_cleanupChanged: "emits unready (cleanupChangedBYOCTarget r inst slug)"
proof -
  have tls: "tlsWrite r i w \<Longrightarrow> unready w" for i w
    by (cases "(r, i, w)" rule: tlsWrite.cases) (auto simp: unready_def)
  have t: "emits unready (cleanupBYOCManagedTLS r i cfg n)" "emits unready (cleanupBYOCRemoteTLS r remote i cfg n)" for remote i cfg n
    by (rule emits_mono [OF emits_cleanupBYOCManagedTLS], erule tls, rule emits_mono [OF emits_cleanupBYOCRemoteTLS], erule tls)
  have o: "emits unready (cleanupBYOCObjects remote i n)" "emits unready (deleteCachedBYOCCredentials r i n)" for remote i n
    by (rule emits_mono [OF emits_cleanupBYOCObjects] emits_mono [OF emits_deleteCachedBYOCCredentials],
        auto simp: unready_def workloadRemoval_def credentialRemoval_def)+
  show ?thesis
    unfolding cleanupChangedBYOCTarget_def leaveBYOCTarget_def removeBYOCTarget_def Let_def
    by (intro emits_intros unready_provisioning t o)
qed

lemma unready_hostedObjects:
  "emits unready (reconcileDeployment r inst labels model)" "emits unready (reconcileService r inst labels n)"
  "emits unready (reconcileStripMiddleware r inst labels n p)" "emits unready (reconcileForwardAuthMiddleware r inst labels n slug)"
  "emits unready (reconcileIngress r inst labels n p)"
  unfolding reconcileDeployment_def reconcileService_def reconcileStripMiddleware_def reconcileForwardAuthMiddleware_def
    reconcileAuthMiddleware_def writeForwardAuth_def reconcileIngress_def Let_def
  by ((intro emits_intros)?; simp add: unready_def)+

lemma unready_ensureSlug: "emits unready (ensureSlug r inst)"
  unfolding ensureSlug_def persistSlug_def Let_def by (intro emits_intros) (simp_all add: unready_def)

lemma yields_ensureSlug:
  "yields (ensureSlug r inst) (\<lambda>(slug, requeue). \<exists>sel. selectSlug r inst = Inr sel \<and> slug = slSlug sel)"
  unfolding ensureSlug_def
  by (rule yields_bindE [OF yields_liftE])
    (auto intro!: yields_if yields_retE yields_weaken [OF yields_persistSlug])

lemma ensureSlug_settled: "ensureSlug r inst s = (Inr (slug, False), s') \<Longrightarrow> s' = s"
  using yieldsD [OF yields_persistSlug [of r inst]]
  by (auto simp: ensureSlug_def bindE_def tryE_def liftE_def failE_def retE_def split: sum.splits if_splits prod.splits) fastforce+

lemma readySeen_same: "sameIdentity i inst \<Longrightarrow> readySeen r i (svcNameOf i) = readySeen r inst (svcNameOf inst)"
  by (simp add: sameIdentity_def keyOf_def readySeen_def svcNameOf_def)

lemma published_same: "sameIdentity i inst \<Longrightarrow> publishedBYOC r i slug endpoint = publishedBYOC r inst slug endpoint"
  by (simp add: publishedBYOC_def identity_same)

lemma hosted_justified:
  assumes "sameIdentity i inst" and "selectSlug r inst = Inr sel" and "checkCeilings (irLib r) (irModelServerCeilings r) inst = None"
  shows "emits (readyJustified r inst) (reconcileHosted r i (slSlug sel) model)"
proof -
  let ?i = "i\<lparr>liStatus := (liStatus i)\<lparr>stActiveBYOCKubeconfigSecretName := []\<rparr>\<rparr>"
  have i: "sameIdentity ?i inst" using assms(1) by (simp add: sameIdentity_def)
  have publish: "emits (readyJustified r inst) (publishHosted r ?i (slSlug sel) v)" if "vdReady v \<longrightarrow> readySeen r ?i (svcNameOf ?i)" for v
  proof (cases "vdReady v")
    case True
    then have "readyFor r inst (instanceEndpoint r (slSlug sel))"
      using that assms(2,3) readySeen_same [OF i, of r] by (simp add: readyFor_def)
    with True show ?thesis
      unfolding publishHosted_def InstanceBase.updateReadyStatus_def writeStatus_def
      by (auto intro!: emits_intros simp: readyJustified_def withStatus_def)
  next
    case False
    then show ?thesis
      unfolding publishHosted_def by (auto intro!: emits_bindE emits_retE unready_justified [OF unready_provisioning])
  qed
  show ?thesis
    unfolding reconcileHosted_def Let_def orReject_def
    by (intro emits_bindE emits_holdE emits_tryE unready_justified [OF unready_rejectSlug] unready_justified [OF unready_hostedObjects(1)]
        unready_justified [OF unready_hostedObjects(2)] unready_justified [OF unready_hostedObjects(3)]
        unready_justified [OF unready_hostedObjects(4)] unready_justified [OF unready_hostedObjects(5)]
        emits_bind [OF emits_evaluateInstanceReadiness yields_evaluateInstanceReadiness] publish)
qed

lemma byoc_justified:
  assumes "identityKept r" and "held s = i" and "sameIdentity i inst" and "selectSlug r inst = Inr sel"
    and "checkCeilings (irLib r) (irModelServerCeilings r) inst = None"
  shows "emitsFrom (readyJustified r inst) (reconcileBYOC r i (slSlug sel) (modelForInstance inst)) s"
proof (rule emitsFrom_mono [OF reconcileBYOC_emits [OF assms(1,2) modelForInstance_no_host]])
  fix w
  assume "byocPermitted r i (slSlug sel) w"
  then show "readyJustified r inst w"
    using assms(4,5) published_same [OF assms(3), of r] by (auto simp: byocPermitted_def readyJustified_def readyFor_def)
qed

lemmas quietly = emitsFrom_emits [OF unready_justified]

lemma target_justified:
  assumes "identityKept r" and "sameIdentity (held s) inst" and "selectSlug r inst = Inr sel"
    and "checkCeilings (irLib r) (irModelServerCeilings r) inst = None"
  shows "emitsFrom (readyJustified r inst) (reconcileTarget r inst (slSlug sel)) s"
  unfolding reconcileTarget_def Let_def
proof (rule emitsFrom_try, goal_cases)
  case 1
  show ?case by (rule quietly [OF unready_cleanupChanged])
next
  case (2 e t)
  show ?case by (intro quietly emits_bindE emits_heldE unready_provisioning emits_failE)
next
  case (3 x t)
  then have held: "sameIdentity (held t) inst"
    using keeps_cleanupChangedBYOCTarget [OF assms(1), of inst "slSlug sel"] assms(2) unfolding keeps_def by (metis snd_conv)
  show ?case
    using byoc_justified [OF assms(1) refl held assms(3,4)] hosted_justified [OF held assms(3,4), THEN emitsFrom_emits]
    by (auto simp: bindE_def tryE_def heldE_def emitsFrom_def)
qed

lemma slugged_justified:
  assumes "identityKept r" and "sameIdentity (held s) inst" and "selectSlug r inst = Inr sel"
    and "checkCeilings (irLib r) (irModelServerCeilings r) inst = None"
  shows "emitsFrom (readyJustified r inst) (reconcileSlugged r inst) s"
  unfolding reconcileSlugged_def
proof (rule emitsFrom_try, goal_cases)
  case 1
  show ?case by (rule quietly [OF unready_ensureSlug])
next
  case (2 e t)
  show ?case by (intro quietly emits_bindE emits_heldE unready_rejectSlug)
next
  case (3 x t)
  obtain slug requeue where x: "x = (slug, requeue)" by (cases x)
  have slug: "slug = slSlug sel" using yieldsD [OF yields_ensureSlug 3] assms(3) x by simp
  show ?case
  proof (cases requeue)
    case True
    then show ?thesis by (simp add: x emitsFrom_emits emits_retE)
  next
    case False
    with 3 x have t: "t = s" by (auto dest: ensureSlug_settled)
    let ?check = "if \<not> isBYOC inst then checkSlugRoute r inst slug else retE ()"
    have st: "steady ?check" by (intro steady_if steady_reads steady_basic)
    have "emitsFrom (readyJustified r inst) (orReject r inst ?check (\<lambda>_. reconcileTarget r inst slug)) s"
      unfolding orReject_def
    proof (rule emitsFrom_try, goal_cases)
      case 1
      show ?case by (intro emitsFrom_emits emits_if emits_checkSlugRoute emits_retE)
    next
      case (2 e u)
      show ?case by (rule quietly [OF unready_rejectSlug])
    next
      case (3 y u)
      then have "held u = held s" using st unfolding steady_def by (metis snd_conv)
      then show ?case using target_justified [OF assms(1) _ assms(3,4)] assms(2) slug by simp
    qed
    with False t x show ?thesis by simp
  qed
qed

lemma steady_upgrade: "steady (upgradeExistingAuthMiddleware r inst)"
  unfolding upgradeExistingAuthMiddleware_def reconcileAuthMiddleware_def writeForwardAuth_def controlE_def Let_def
  by (intro steady_intros steady_splits)

lemma live_justified:
  assumes "identityKept r" and "held s = inst"
  shows "emitsFrom (readyJustified r inst) (reconcileLive r inst) s"
proof (cases "selectSlug r inst")
  case (Inl err)
  then show ?thesis by (simp add: reconcileLive_def quietly [OF unready_rejectSlug])
next
  case (Inr sel)
  have settings: "emits unready (rejectModelSettings r inst message)" for message
    unfolding rejectModelSettings_def writeStatus_def Let_def by (intro emits_intros) (simp add: unready_def withStatus_def)
  have fin: "emitsFrom (readyJustified r inst) (ensureFinalizer r inst) t" for t
    unfolding ensureFinalizer_def by (intro quietly emits_tryE emits_updateObj emits_retE) (simp add: unready_def)
  have "emitsFrom (readyJustified r inst) (orReject r inst (upgradeExistingAuthMiddleware r inst) (\<lambda>_.
      case checkCeilings (irLib r) (irModelServerCeilings r) inst of
        Some err \<Rightarrow> bindE (rejectModelSettings r inst (errorText err)) (\<lambda>_. retE doneResult)
      | None \<Rightarrow> if \<not> containsFinalizer (irLib r) (liMeta inst) finalizerName then ensureFinalizer r inst else reconcileSlugged r inst)) s"
    unfolding orReject_def
  proof (rule emitsFrom_try, goal_cases)
    case 1
    show ?case by (rule quietly [OF unready_upgrade])
  next
    case (2 e u)
    show ?case by (rule quietly [OF unready_rejectSlug])
  next
    case (3 y u)
    then have "held u = held s" using steady_upgrade [of r inst] unfolding steady_def by (metis snd_conv)
    then have held: "sameIdentity (held u) inst" using assms(2) by (simp add: sameIdentity_def)
    show ?case
      using slugged_justified [OF assms(1) held Inr] fin
      by (auto split: option.split intro!: quietly emits_bindE emits_retE settings)
  qed
  with Inr show ?thesis by (simp add: reconcileLive_def)
qed

text \<open>
  \<^bold>\<open>C3.\<close> Ready means ready.  In every run for a live instance, whatever both API servers answer as long as
  they keep the identity of an object, a status update that says \<^verbatim>\<open>Ready\<close> has behind it: a slug that the
  policy selects for the instance, settings within the ceilings, and either a complete rollout, ready
  endpoints on the port of the server and a successful health probe of the hosted workload, with the
  endpoint of that slug; or the evidence that is required on a tenant's cluster, with the host name
  of the instance there.
\<close>

theorem ready_means_ready:
  assumes "identityKept r" and "getInstance r k s = (Inr (Some inst), t)" and "omDeletion (liMeta inst) = None"
  shows "\<exists>ws. journal (snd (InstanceController.Reconcile r k s)) = journal s @ ws \<and>
    (\<forall>w \<in> set ws. \<forall>st. statusOf w = Some st \<longrightarrow> stPhase st = ''Ready'' \<longrightarrow> readyFor r inst (stEndpoint st))"
proof -
  have "emitsFrom (readyJustified r inst) (reconcileLive r inst) (t\<lparr>held := inst\<rparr>)"
    by (rule live_justified [OF assms(1)]) simp
  then show ?thesis
    unfolding run_live [OF assms(2,3)] emitsFrom_def readyJustified_def by (simp add: getInstance_held [OF assms(2)])
qed

section \<open>Witnesses\<close>

text \<open>A hosted instance whose deployment has rolled out.\<close>

definition hostedInstance :: llm_instance where
  "hostedInstance = demoInstance\<lparr>liMeta := (sampleObj ''u1'' ''a'')\<lparr>omFinalizers := [finalizerName]\<rparr>\<rparr>"

definition hostedDeployment :: deployment where
  "hostedDeployment = (buildDeployment sampleLib hostedInstance Map.empty 1 demoModel)\<lparr>
     dpMeta := (newMeta ''default'' ''a-llama'')\<lparr>omOwners := [controllerRef ''LLMInstance'' (liMeta hostedInstance)]\<rparr>,
     dpReplicas := Some 1, dpObservedGeneration := 0, dpUpdatedReplicas := 1, dpReadyReplicas := 1, dpAvailableReplicas := 1\<rparr>"

definition hostedClient :: "unit client" where
  "hostedClient = emptyClient\<lparr>instances := cannedKind (\<lambda>_. Inr hostedInstance) [],
     deployments := cannedKind (\<lambda>_. Inr hostedDeployment) [],
     endpointsApi := cannedKind (\<lambda>_. Inr \<lparr>enMeta = newMeta ''default'' ''a-llama'', enSubsets = [\<lparr>esAddresses = [''10.0.0.1''], esPorts = [8000]\<rparr>]\<rparr>) [],
     middlewares := cannedKind (\<lambda>_. Inl (ApiError NoMatch [])) []\<rparr>"

definition hostedDemo :: "unit instance_reconciler" where
  "hostedDemo = (demoReconciler hostedClient)\<lparr>irModelServerCeilings := \<lparr>ceCPUMilli = 0, ceMemoryMiB = 0, ceContextSize = 0, ceParallelSlots = 0\<rparr>\<rparr>"

lemma canned [simp]:
  "getObj (cannedKind g l) k s = (g k, s)" "listObj (cannedKind g l) o' s = (Inr l, s)"
  "createObj c tag (cannedKind g l) x s = (Inr x, s\<lparr>journal := journal s @ [Write c WCreate (tag x)]\<rparr>)"
  "updateObj c tag (cannedKind g l) x s = (Inr x, s\<lparr>journal := journal s @ [Write c WUpdate (tag x)]\<rparr>)"
  "statusUpdateObj c tag (cannedKind g l) x s = (Inr x, s\<lparr>journal := journal s @ [Write c WStatusUpdate (tag x)]\<rparr>)"
  by (simp_all add: getObj_def listObj_def createObj_def updateObj_def statusUpdateObj_def readWith_def writeWith_def cannedKind_def)

lemma hosted_meta [simp]: "omNamespace (liMeta hostedInstance) = ''default''" "omName (liMeta hostedInstance) = ''a''"
  "omUID (liMeta hostedInstance) = ''u1''" "omDeletion (liMeta hostedInstance) = None" "liStatus hostedInstance = liStatus demoInstance"
  "liSpec hostedInstance = liSpec demoInstance" "svcNameOf hostedInstance = ''a-llama''" "omFinalizers (liMeta hostedInstance) = [finalizerName]"
  by (simp_all add: hostedInstance_def sampleObj_def newMeta_def svcNameOf_def)

lemma hostedDemo_parts [simp]: "irClient hostedDemo = hostedClient" "routeReader hostedDemo = hostedClient" "irLib hostedDemo = sampleLib"
  "irHost hostedDemo = sampleHost" "irServiceHealthChecker hostedDemo = Some (\<lambda>_ w. (None, w))"
  "irModelServerCeilings hostedDemo = \<lparr>ceCPUMilli = 0, ceMemoryMiB = 0, ceContextSize = 0, ceParallelSlots = 0\<rparr>"
  by (simp_all add: hostedDemo_def demoReconciler_def routeReader_def)

lemma hostedClient_parts [simp]:
  "instances hostedClient = cannedKind (\<lambda>_. Inr hostedInstance) []" "deployments hostedClient = cannedKind (\<lambda>_. Inr hostedDeployment) []"
  "services hostedClient = cannedKind absent []" "ingresses hostedClient = cannedKind absent []"
  "middlewares hostedClient = cannedKind (\<lambda>_. Inl (ApiError NoMatch [])) []"
  "endpointsApi hostedClient = cannedKind (\<lambda>_. Inr \<lparr>enMeta = newMeta ''default'' ''a-llama'', enSubsets = [\<lparr>esAddresses = [''10.0.0.1''], esPorts = [8000]\<rparr>]\<rparr>) []"
  by (simp_all add: hostedClient_def emptyClient_def)

lemma hosted_select: "selectSlug hostedDemo hostedInstance = Inr \<lparr>slSlug = ''alpha'', slSource = Legacy\<rparr>"
proof -
  have "Select (Some samplePolicy) (liMeta hostedInstance) = Inr \<lparr>slSlug = ''alpha'', slSource = Legacy\<rparr>"
    by (simp add: Select_def samplePolicy_def sampleItem_def hostedInstance_def sampleObj_def newMeta_def legacyMode_def)
  then show ?thesis
    by (simp add: selectSlug_Inr hostedDemo_def demoReconciler_def) (simp add: demoInstance_def Legacy_def Derived_def)
qed

lemma hosted_ceilings: "checkCeilings sampleLib \<lparr>ceCPUMilli = 0, ceMemoryMiB = 0, ceContextSize = 0, ceParallelSlots = 0\<rparr> hostedInstance = None"
  by (rule defaults_admitted) (simp_all add: demoInstance_def)

lemma hosted_ensureSlug: "ensureSlug hostedDemo hostedInstance s = (Inr (''alpha'', False), s)"
  by (simp add: ensureSlug_def hosted_select bindE_def tryE_def liftE_def retE_def) (simp add: demoInstance_def Legacy_def)

lemma hosted_upgrade: "reconcileAuthMiddleware hostedDemo hostedInstance labels n slug c s = (Inr (), s)"
  by (simp add: reconcileAuthMiddleware_def tryE_def noMiddlewareKind_def isNoMatchError_def retE_def)

lemma hosted_route: "checkSlugRoute hostedDemo hostedInstance slug s = (Inr (), s)"
  by (simp add: checkSlugRoute_def bindE_def tryE_def absent_def isNotFound_def retE_def apiE_def)

lemma hosted_controls: "\<exists>m. setControllerReference sampleLib ''LLMInstance'' (liMeta hostedInstance) m0 = Inr m" if "omOwners m0 = []"
  using that by (simp add: sampleLib_def takeControl_def controllerOf_def)

lemma hosted_same: "hostedInstance\<lparr>liStatus := (liStatus demoInstance)\<lparr>stActiveBYOCKubeconfigSecretName := []\<rparr>\<rparr> = hostedInstance"
  by (simp add: hostedInstance_def demoInstance_def)

lemma hosted_deployment: "\<exists>t. reconcileDeployment hostedDemo hostedInstance labels model s = (Inr (), t) \<and> held t = held s"
proof -
  have "ownsLLMResource sampleLib hostedInstance (dpMeta hostedDeployment)"
    by (simp add: ownsLLMResource_def hostedDeployment_def sampleLib_def controllerOf_def controllerRef_def newMeta_def)
  then show ?thesis
    by (cases "ensureDeployment sampleLib hostedInstance model hostedDeployment")
      (simp add: reconcileDeployment_def tryE_def retE_def bindE_def apiE_def)
qed

lemma hosted_service: "\<exists>t. reconcileService hostedDemo hostedInstance labels n s = (Inr (), t) \<and> held t = held s"
proof -
  obtain m where "setControllerReference sampleLib ''LLMInstance'' (liMeta hostedInstance) (svMeta (newService hostedInstance labels n)) = Inr m"
    using hosted_controls by (fastforce simp: newService_def newMeta_def)
  then show ?thesis
    by (simp add: reconcileService_def tryE_def retE_def bindE_def apiE_def absent_def isNotFound_def controlE_def liftE_def Let_def)
qed

lemma hosted_strip: "reconcileStripMiddleware hostedDemo hostedInstance labels n p s = (Inr (), s)"
  by (simp add: reconcileStripMiddleware_def tryE_def noMiddlewareKind_def isNoMatchError_def retE_def)

lemma hosted_ingress: "\<exists>t. reconcileIngress hostedDemo hostedInstance labels n ''/llm/alpha'' s = (Inr (), t) \<and> held t = held s"
proof -
  obtain m where "setControllerReference sampleLib ''LLMInstance'' (liMeta hostedInstance)
      (igMeta (buildDesiredIngress hostedDemo hostedInstance labels n ''/llm/alpha'')) = Inr m"
    using hosted_controls buildDesiredIngress_owners by blast
  then show ?thesis
    by (simp add: reconcileIngress_def hosted_route tryE_def retE_def bindE_def apiE_def absent_def isNotFound_def controlE_def liftE_def Let_def)
qed

lemma hosted_verdict: "evaluateInstanceReadiness hostedDemo hostedInstance ''a-llama'' s = (Inr (verdict True ''Provisioned'' ''LLM instance is ready''), s)"
  by (simp add: evaluateInstanceReadiness_def tryE_def bindE_def retE_def deploymentReadiness_ready rolledOut_def rolloutTarget_def hostedDeployment_def
      newMeta_def serviceHasReadyEndpoints_def readyOnPort_def runServiceHealthCheck_def hostErrE_def Let_def)

lemma hosted_finalizer: "containsFinalizer sampleLib (liMeta hostedInstance) finalizerName"
  by (simp add: sampleLib_def)

lemma hosted_run:
  "\<exists>s' st w. InstanceController.Reconcile hostedDemo (''default'', ''a'') startSys = (Inr (requeueAfter 30), s') \<and>
     w \<in> set (journal s') \<and> statusOf w = Some st \<and> stPhase st = ''Ready''"
proof -
  let ?s = "startSys\<lparr>held := hostedInstance\<rparr>"
  let ?labels = "llamaLabels ''a''" let ?m = "modelForInstance hostedInstance"
  obtain s1 where s1: "reconcileDeployment hostedDemo hostedInstance ?labels ?m ?s = (Inr (), s1)" using hosted_deployment by blast
  obtain s2 where s2: "reconcileService hostedDemo hostedInstance ?labels ''a-llama'' s1 = (Inr (), s2)" using hosted_service by blast
  obtain s3 where s3: "reconcileIngress hostedDemo hostedInstance ?labels ''a-llama'' ''/llm/alpha'' s2 = (Inr (), s3)" using hosted_ingress by blast
  have get: "getInstance hostedDemo (''default'', ''a'') startSys = (Inr (Some hostedInstance), startSys)"
    by (simp add: getInstance_def tryE_def retE_def)
  have notBYOC: "\<not> isBYOC hostedInstance" "stActiveBYOCKubeconfigSecretName (liStatus hostedInstance) = []"
    by (simp_all add: isBYOC_def) (simp_all add: demoInstance_def)
  have hosted: "reconcileHosted hostedDemo hostedInstance ''alpha'' ?m ?s = publishHosted hostedDemo hostedInstance ''alpha''
      (verdict True ''Provisioned'' ''LLM instance is ready'') s3"
    by (simp add: reconcileHosted_def hosted_same orReject_def bindE_def tryE_def holdE_def s1 s2 s3 hosted_strip
        reconcileForwardAuthMiddleware_def hosted_upgrade hosted_verdict Let_def)
  have "InstanceController.Reconcile hostedDemo (''default'', ''a'') startSys =
      publishHosted hostedDemo hostedInstance ''alpha'' (verdict True ''Provisioned'' ''LLM instance is ready'') s3"
    using hosted notBYOC
    by (simp add: run_live [OF get] reconcileLive_def hosted_select hosted_ceilings orReject_def upgradeExistingAuthMiddleware_def
        bindE_def tryE_def liftE_def hosted_upgrade hosted_finalizer reconcileSlugged_def hosted_ensureSlug hosted_route reconcileTarget_def
        cleanupChangedBYOCTarget_def retE_def heldE_def Let_def)
  then show ?thesis
    by (simp add: publishHosted_def verdict_def InstanceBase.updateReadyStatus_def writeStatus_def bindE_def tryE_def nowE_def holdE_def
        apiE_def retE_def withStatus_def)
      (rule exI, rule exI, rule conjI, rule disjI1, rule refl, rule conjI, simp, simp)
qed

lemma hosted_get: "getInstance hostedDemo (''default'', ''a'') startSys = (Inr (Some hostedInstance), startSys)"
  by (simp add: getInstance_def tryE_def retE_def)

lemma hosted_identity: "identityKept hostedDemo"
  by (simp add: identityKept_def cannedKind_def sameIdentity_def)

theorem ready_means_ready_witness:
  "\<exists>w st. w \<in> set (journal (snd (InstanceController.Reconcile hostedDemo (''default'', ''a'') startSys))) \<and> statusOf w = Some st \<and>
     readyFor hostedDemo hostedInstance (stEndpoint st)"
proof -
  have empty: "journal startSys = []" by (simp add: startSys_def)
  obtain s' st w where "InstanceController.Reconcile hostedDemo (''default'', ''a'') startSys = (Inr (requeueAfter 30), s')"
    "w \<in> set (journal s')" "statusOf w = Some st" "stPhase st = ''Ready''" using hosted_run by blast
  with ready_means_ready [OF hosted_identity hosted_get hosted_meta(4)] empty show ?thesis by auto
qed

theorem live_instance_requeued_witness:
  "\<exists>res s'. InstanceController.Reconcile hostedDemo (''default'', ''a'') startSys = (Inr res, s') \<and> (rsRequeue res \<or> 0 < rsAfter res)"
proof -
  obtain s' where run: "InstanceController.Reconcile hostedDemo (''default'', ''a'') startSys = (Inr (requeueAfter 30), s')" using hosted_run by blast
  have "checkCeilings (irLib hostedDemo) (irModelServerCeilings hostedDemo) hostedInstance = None" by (simp add: hosted_ceilings)
  from live_instance_requeued [OF hosted_get hosted_meta(4) this run] run show ?thesis by blast
qed

text \<open>Ceilings out of their range reject every instance.\<close>

definition strictDemo :: "unit instance_reconciler" where
  "strictDemo = hostedDemo\<lparr>irModelServerCeilings := \<lparr>ceCPUMilli = -1, ceMemoryMiB = 0, ceContextSize = 0, ceParallelSlots = 0\<rparr>\<rparr>"

theorem settings_gate_witness:
  "\<exists>ws. journal (snd (InstanceController.Reconcile strictDemo (''default'', ''a'') startSys)) = ws \<and> (\<forall>w \<in> set ws. preludeWrite strictDemo hostedInstance w)"
proof -
  have get: "getInstance strictDemo (''default'', ''a'') startSys = (Inr (Some hostedInstance), startSys)"
    by (simp add: getInstance_def tryE_def retE_def strictDemo_def routeReader_def hostedDemo_def demoReconciler_def)
  obtain e where e: "checkCeilings (irLib strictDemo) (irModelServerCeilings strictDemo) hostedInstance = Some e"
    by (simp add: checkCeilings_def Validate_def strictDemo_def)
  have "journal startSys = []" by (simp add: startSys_def)
  then show ?thesis using settings_gate [OF get hosted_meta(4) e] by auto
qed

definition finalInstance :: llm_instance where
  "finalInstance = demoInstance\<lparr>liMeta := (liMeta demoInstance)\<lparr>omFinalizers := [finalizerName]\<rparr>\<rparr>"

theorem finalizer_goes_last_witness:
  "\<exists>i s'. finalizeLLMInstance (demoReconciler emptyClient) finalInstance (''default'', ''a'') startSys = (Inr (), s') \<and>
     journal s' = [Write LocalCluster WUpdate (OInst (withoutFinalizer sampleLib i))]"
proof -
  have lib: "irLib (demoReconciler emptyClient) = sampleLib" "instances (irClient (demoReconciler emptyClient)) = cannedKind absent []"
    by (simp_all add: demoReconciler_def emptyClient_def)
  have final: "containsFinalizer sampleLib (liMeta finalInstance) finalizerName" "\<not> isBYOC finalInstance"
      "stActiveBYOCKubeconfigSecretName (liStatus finalInstance) = []"
    by (simp_all add: finalInstance_def sampleLib_def isBYOC_def demoInstance_def)
  let ?s = "startSys\<lparr>journal := [Write LocalCluster WUpdate (OInst (withoutFinalizer sampleLib finalInstance))]\<rparr>"
  have run: "finalizeLLMInstance (demoReconciler emptyClient) finalInstance (''default'', ''a'') startSys = (Inr (), ?s)"
    by (simp add: finalizeLLMInstance_def lib final bindE_def tryE_def retE_def updateObj_def writeWith_def cannedKind_def startSys_def
        numeral_3_eq_3)
  obtain ws us where parts: "journal ?s = journal startSys @ ws @ us" "list_all (\<lambda>w. \<not> instanceRequest w) ws"
      "list_all (finalizerUpdate (demoReconciler emptyClient)) us" "us \<noteq> []"
    using finalizer_goes_last [OF run] final(1) unfolding lib by blast
  then have "us = journal ?s" by (cases ws; cases us) (auto simp: startSys_def)
  with parts(3) run show ?thesis by (auto simp: finalizerUpdate_def lib)
qed

end
