(* ===== verification/Manager.thy ===== *)
theory Manager
  imports InstanceController
begin

text \<open>
  \<^verbatim>\<open>cmd/main.go\<close>: how the operator is put together from flags and environment, and the joint life of the
  manager and the authentication server (with \<^verbatim>\<open>Server.Start\<close> of \<^verbatim>\<open>internal/auth/server.go\<close>).  The manager, the
  HTTP server and the file system are outside the repository; flags of theirs are left out.
\<close>

section \<open>Configuration\<close>

text \<open>The flags that reach the operator's own code, after parsing.  \<^verbatim>\<open>os.Getenv\<close> is a function that is empty
  on unset variables.\<close>

record flags =
  fgCeilings :: model_server_ceilings
  fgSlugPolicyFile :: string
  fgBYOCTLS :: byoc_tls_config
  fgAuthExternalURL :: string
  fgPublicScheme :: string
  fgIngressExtraAnnotations :: string
  fgTLSSecretName :: string

type_synonym env = "string \<Rightarrow> string"

text \<open>The defaults of the BYOC flags come from the environment.\<close>

definition byocTLSDefaults :: "env \<Rightarrow> byoc_tls_config" where
  "byocTLSDefaults getenv = \<lparr>btDomain = getenv ''BYOC_TLS_DOMAIN'', btNamespace = getenv ''BYOC_TLS_NAMESPACE'',
     btIssuerName = getenv ''BYOC_TLS_ISSUER'', btIssuerNamespace = getenv ''BYOC_TLS_ISSUER_NAMESPACE'',
     btDNSClass = getenv ''BYOC_DNS_CLASS''\<rparr>"

definition publicHost :: "env \<Rightarrow> string" where
  "publicHost getenv = (if getenv ''PUBLIC_HOST'' \<noteq> [] then getenv ''PUBLIC_HOST'' else ''localhost'')"

definition authServiceURL :: "env \<Rightarrow> flags \<Rightarrow> string" where
  "authServiceURL getenv f =
     (if fgAuthExternalURL f \<noteq> [] then fgAuthExternalURL f
      else
        let ns = (if getenv ''POD_NAMESPACE'' = [] then ''default'' else getenv ''POD_NAMESPACE'')
        in ''http://private-llm-controller-manager-metrics-service.'' @ ns @ ''.svc.cluster.local:8090'')"

definition publicScheme :: "env \<Rightarrow> flags \<Rightarrow> string" where
  "publicScheme getenv f =
     (if fgPublicScheme f \<noteq> [] then fgPublicScheme f
      else if getenv ''PUBLIC_SCHEME'' \<noteq> [] then getenv ''PUBLIC_SCHEME'' else ''http'')"

definition tlsSecretName :: "env \<Rightarrow> flags \<Rightarrow> string" where
  "tlsSecretName getenv f = (if fgTLSSecretName f \<noteq> [] then fgTLSSecretName f else getenv ''TLS_SECRET_NAME'')"

text \<open>
  \<^verbatim>\<open>parseJSONMap\<close>.  \<open>unmarshal\<close> decodes a document and \<open>marshal\<close> encodes a value (\<^verbatim>\<open>encoding/json\<close>).  A repeated
  key keeps its last value; \<^verbatim>\<open>null\<close> decodes into a nil map.  The order of the result is that of the
  document and stands for the order in which Go visits the map.
\<close>

fun lastFields :: "(string \<times> json) list \<Rightarrow> (string \<times> json) list" where
  "lastFields [] = []"
| "lastFields ((k, v) # rest) = (if k \<in> fst ` set rest then lastFields rest else (k, v) # lastFields rest)"

definition jsonText :: "(json \<Rightarrow> string option) \<Rightarrow> json \<Rightarrow> string option" where
  "jsonText marshal v = (case v of JsStr t \<Rightarrow> Some t | _ \<Rightarrow> marshal v)"

definition parseJSONMap :: "(string \<Rightarrow> json option) \<Rightarrow> (json \<Rightarrow> string option) \<Rightarrow> string \<Rightarrow> (string \<times> string) list" where
  "parseJSONMap unmarshal marshal s =
     (case unmarshal s of
        Some (JsObj members) \<Rightarrow>
          map (\<lambda>(k, v). (k, the (jsonText marshal v))) (filter (\<lambda>(k, v). jsonText marshal v \<noteq> None) (lastFields members))
      | _ \<Rightarrow> [])"

definition extraIngressAnnotations ::
    "(string \<Rightarrow> json option) \<Rightarrow> (json \<Rightarrow> string option) \<Rightarrow> env \<Rightarrow> flags \<Rightarrow> (string \<times> string) list" where
  "extraIngressAnnotations unmarshal marshal getenv f =
     (let fromFlag = (if fgIngressExtraAnnotations f \<noteq> [] then parseJSONMap unmarshal marshal (fgIngressExtraAnnotations f) else []);
          v = getenv ''INGRESS_EXTRA_ANNOTATIONS''
      in if fromFlag \<noteq> [] then fromFlag else if v \<noteq> [] then parseJSONMap unmarshal marshal v else [])"

definition defaultAppName :: string where "defaultAppName = ''private-llm''"
definition defaultPartOf :: string where "defaultPartOf = ''private-llm''"
definition defaultManagedBy :: string where "defaultManagedBy = ''private-llm-operator''"

definition baseLabels :: "string \<Rightarrow> string \<rightharpoonup> string" where
  "baseLabels version =
     (let base = [''app.kubernetes.io/name'' \<mapsto> defaultAppName, ''app.kubernetes.io/part-of'' \<mapsto> defaultPartOf,
        ''app.kubernetes.io/managed-by'' \<mapsto> defaultManagedBy]
      in if version \<noteq> [] then base(''app.kubernetes.io/version'' \<mapsto> version) else base)"

section \<open>Start-up\<close>

text \<open>What the process is given: files, decoders, the manager's client and its uncached reader.\<close>

record 'w platform =
  pfOpen :: "string \<Rightarrow> goerr + reader"
  pfDecodeJSON :: "string \<Rightarrow> (json \<times> string) option"
  pfParseRFC3339 :: "string \<Rightarrow> time option"
  pfUnmarshal :: "string \<Rightarrow> json option"
  pfMarshal :: "json \<Rightarrow> string option"
  pfManager :: "goerr + ('w client \<times> 'w client)"   \<comment> \<open>\<^verbatim>\<open>GetClient\<close>, \<^verbatim>\<open>GetAPIReader\<close>\<close>
  pfRegistrations :: "goerr option list"
    \<comment> \<open>the outcomes of the two calls of \<^verbatim>\<open>SetupWithManager\<close>, of \<^verbatim>\<open>AddHealthzCheck\<close> and of \<^verbatim>\<open>AddReadyzCheck\<close>\<close>
  pfLib :: kube_lib
  pfHost :: "'w host"
  pfBYOCLib :: "'w byoc_lib"
  pfHTTPGet :: "string \<Rightarrow> 'w \<Rightarrow> (goerr + int) \<times> 'w"

definition loadSlugPolicy :: "'w platform \<Rightarrow> string \<Rightarrow> goerr + policy" where
  "loadSlugPolicy pf path =
     (if path = [] then Inl (errNew ''--slug-policy-file is required'')
      else case pfOpen pf path of
        Inl e \<Rightarrow> Inl (Errorf ''open slug policy'' [e])
      | Inr rd \<Rightarrow> Parse (pfLib pf) (pfDecodeJSON pf) (pfParseRFC3339 pf) rd)"

record 'w operator =
  opInstances :: "'w instance_reconciler"
  opTokens :: "'w token_reconciler"
  opAuth :: "'w auth_server"

text \<open>\<^verbatim>\<open>main\<close> from the creation of the manager to the start of the services: the first error ends the process with
  code 1.\<close>

definition firstError :: "goerr option list \<Rightarrow> goerr option" where
  "firstError results = (case filter (\<lambda>e. e \<noteq> None) results of [] \<Rightarrow> None | e # _ \<Rightarrow> e)"

definition buildOperator :: "'w platform \<Rightarrow> env \<Rightarrow> string \<Rightarrow> policy \<Rightarrow> flags \<Rightarrow> goerr + 'w operator" where
  "buildOperator pf getenv version slugPolicy f =
     (case pfManager pf of
        Inl e \<Rightarrow> Inl e
      | Inr (cl, apiReader) \<Rightarrow>
           let labeledClient = newLabelingClient cl (baseLabels version) in
           case firstError (pfRegistrations pf) of
             Some e \<Rightarrow> Inl e
           | None \<Rightarrow> Inr \<lparr>opInstances = \<lparr>irClient = labeledClient, irRouteReader = Some apiReader, irSlugPolicy = Some slugPolicy,
                    irLib = pfLib pf, irHost = pfHost pf, irModelServerCeilings = fgCeilings f, irPublicHost = publicHost getenv,
                    irAuthServiceURL = authServiceURL getenv f, irPublicScheme = publicScheme getenv f,
                    irExtraIngressAnnotations = extraIngressAnnotations (pfUnmarshal pf) (pfMarshal pf) getenv f,
                    irTLSSecretName = tlsSecretName getenv f, irBYOCTLS = fgBYOCTLS f, irServiceHealthChecker = None,
                    irBYOCHealthChecker = None, irRemoteClientBuilder = None, irBYOCLib = pfBYOCLib pf, irHTTPGet = pfHTTPGet pf\<rparr>,
                opTokens = \<lparr>tcClient = labeledClient, tcSlugPolicy = Some slugPolicy, tcLib = pfLib pf, tcHost = pfHost pf\<rparr>,
                opAuth = \<lparr>asK8sClient = apiReader, asSlugPolicy = Some slugPolicy, asLib = pfLib pf\<rparr>\<rparr>)"

text \<open>The whole of start-up, for the statements below: \<^verbatim>\<open>main\<close> reads the policy and checks the ceilings before it
  sets up telemetry and builds the operator.\<close>

definition assembleOperator :: "'w platform \<Rightarrow> env \<Rightarrow> string \<Rightarrow> flags \<Rightarrow> goerr + 'w operator" where
  "assembleOperator pf getenv version f =
     (case loadSlugPolicy pf (fgSlugPolicyFile f) of
        Inl e \<Rightarrow> Inl e
      | Inr slugPolicy \<Rightarrow>
        (case Validate (fgCeilings f) of
           Some e \<Rightarrow> Inl e
         | None \<Rightarrow> buildOperator pf getenv version slugPolicy f))"

section \<open>The joint life of the two services\<close>

text \<open>
  \<^verbatim>\<open>runOperator\<close> runs \<^verbatim>\<open>startManager\<close> and, in a goroutine, \<^verbatim>\<open>startAuth\<close> under one cancellable context;
  \<^verbatim>\<open>Server.Start\<close> registers a callback that shuts the listener down when the context is cancelled.  The
  state is where each of the three activities is.  \<open>lifecycleStep\<close> says what may happen: the manager may return
  at any time with any result and the listener with any error, since either may fail; everything else is a
  step of the repository's code.  \<open>owed\<close> says which of these steps must be taken at last.
\<close>

datatype callback = Armed | Shutting | Drained | Disarmed
datatype auth_phase = Listening | Listened "goerr option" | Returned "goerr option" | Judged "goerr option" | Reported | Gone
datatype main_phase = Managing | Managed "goerr option" | Awaiting "goerr option" | Finished "goerr option"

record lifecycle =
  lcParent :: bool                              \<comment> \<open>the signal handler cancelled the outer context\<close>
  lcRuntime :: bool                             \<comment> \<open>\<^verbatim>\<open>cancelRuntime\<close> was called\<close>
  lcCallback :: callback
  lcAuth :: auth_phase
  lcStopped :: "goerr option option"            \<comment> \<open>the channel \<^verbatim>\<open>authStopped\<close>, of capacity one\<close>
  lcMain :: main_phase

definition lifecycleInit :: lifecycle where
  "lifecycleInit = \<lparr>lcParent = False, lcRuntime = False, lcCallback = Armed, lcAuth = Listening, lcStopped = None, lcMain = Managing\<rparr>"

definition cancelled :: "lifecycle \<Rightarrow> bool" where
  "cancelled s = (lcParent s \<or> lcRuntime s)"

datatype event =
    Signalled
  | ShutdownBegins
  | ShutdownEnds
  | ListenReturns "goerr option"
  | StartReturns
  | AuthJudges
  | AuthReports
  | AuthCancels
  | ManagerReturns "goerr option"
  | MainCancels
  | MainReceives

text \<open>What the goroutine makes of the error of \<^verbatim>\<open>startAuth\<close>.\<close>

definition judgeAuth :: "bool \<Rightarrow> goerr option \<Rightarrow> goerr option" where
  "judgeAuth isCancelled err =
     (let err1 = (case err of None \<Rightarrow> None | Some e \<Rightarrow> if errors_is e ErrServerClosed then None else Some e);
          err2 = (if err1 = None \<and> \<not> isCancelled then Some (errNew ''listener stopped without runtime cancellation'') else err1)
      in map_option (\<lambda>e. Errorf ''authentication server'' [e]) err2)"

text \<open>One step; \<open>None\<close> where the event cannot happen.\<close>

fun lifecycleStep :: "event \<Rightarrow> lifecycle \<Rightarrow> lifecycle option" where
  "lifecycleStep Signalled s = (if lcParent s then None else Some (s\<lparr>lcParent := True\<rparr>))"
| "lifecycleStep ShutdownBegins s =
     (if cancelled s \<and> lcCallback s = Armed then Some (s\<lparr>lcCallback := Shutting\<rparr>) else None)"
| "lifecycleStep ShutdownEnds s = (if lcCallback s = Shutting then Some (s\<lparr>lcCallback := Drained\<rparr>) else None)"
| "lifecycleStep (ListenReturns e) s = (if lcAuth s = Listening then Some (s\<lparr>lcAuth := Listened e\<rparr>) else None)"
| "lifecycleStep StartReturns s =
     (case lcAuth s of
        Listened e \<Rightarrow>
          if lcCallback s = Armed then Some (s\<lparr>lcCallback := Disarmed, lcAuth := Returned e\<rparr>)
          else if lcCallback s = Drained then Some (s\<lparr>lcAuth := Returned e\<rparr>) else None
      | _ \<Rightarrow> None)"
| "lifecycleStep AuthJudges s =
     (case lcAuth s of Returned e \<Rightarrow> Some (s\<lparr>lcAuth := Judged (judgeAuth (cancelled s) e)\<rparr>) | _ \<Rightarrow> None)"
| "lifecycleStep AuthReports s =
     (case lcAuth s of Judged e \<Rightarrow> if lcStopped s = None then Some (s\<lparr>lcStopped := Some e, lcAuth := Reported\<rparr>) else None | _ \<Rightarrow> None)"
| "lifecycleStep AuthCancels s = (if lcAuth s = Reported then Some (s\<lparr>lcRuntime := True, lcAuth := Gone\<rparr>) else None)"
| "lifecycleStep (ManagerReturns e) s = (if lcMain s = Managing then Some (s\<lparr>lcMain := Managed e\<rparr>) else None)"
| "lifecycleStep MainCancels s = (case lcMain s of Managed e \<Rightarrow> Some (s\<lparr>lcRuntime := True, lcMain := Awaiting e\<rparr>) | _ \<Rightarrow> None)"
| "lifecycleStep MainReceives s =
     (case (lcMain s, lcStopped s) of
        (Awaiting e, Some a) \<Rightarrow> Some (s\<lparr>lcStopped := None, lcMain := Finished (errors_join [e, a])\<rparr>)
      | _ \<Rightarrow> None)"

inductive lifecycle_run :: "event list \<Rightarrow> lifecycle \<Rightarrow> bool" where
  start: "lifecycle_run [] lifecycleInit"
| step: "lifecycle_run evs s \<Longrightarrow> lifecycleStep ev s = Some s' \<Longrightarrow> lifecycle_run (evs @ [ev]) s'"

text \<open>The invariant: which result each activity has seen, and that a report is never lost.\<close>

definition judgedBy :: "event list \<Rightarrow> goerr option \<Rightarrow> bool" where
  "judgedBy evs a = (\<exists>before after e c. evs = before @ AuthJudges # after \<and> ListenReturns e \<in> set before \<and> a = judgeAuth c e \<and>
     (c \<longrightarrow> Signalled \<in> set before \<or> (\<exists>m. ManagerReturns m \<in> set before)))"

definition lifecycleInv :: "event list \<Rightarrow> lifecycle \<Rightarrow> bool" where
  "lifecycleInv evs s =
     ((lcParent s \<longrightarrow> Signalled \<in> set evs) \<and>
      (lcRuntime s \<longrightarrow> (\<exists>m. ManagerReturns m \<in> set evs) \<or> lcAuth s = Gone) \<and>
      (case lcAuth s of
         Listening \<Rightarrow> lcStopped s = None \<and> lcCallback s \<noteq> Disarmed
       | Listened e \<Rightarrow> ListenReturns e \<in> set evs \<and> lcStopped s = None \<and> lcCallback s \<noteq> Disarmed
       | Returned e \<Rightarrow> ListenReturns e \<in> set evs \<and> lcStopped s = None \<and> lcCallback s \<in> {Drained, Disarmed}
       | Judged a \<Rightarrow> judgedBy evs a \<and> lcStopped s = None \<and> lcCallback s \<in> {Drained, Disarmed}
       | Reported \<Rightarrow> lcCallback s \<in> {Drained, Disarmed} \<and> (\<forall>a. lcStopped s = Some a \<longrightarrow> judgedBy evs a)
       | Gone \<Rightarrow> lcRuntime s \<and> lcCallback s \<in> {Drained, Disarmed} \<and> (\<forall>a. lcStopped s = Some a \<longrightarrow> judgedBy evs a)) \<and>
      (lcAuth s = Reported \<or> lcAuth s = Gone \<longrightarrow> lcStopped s \<noteq> None \<or> (\<exists>r. lcMain s = Finished r)) \<and>
      (case lcMain s of
         Managing \<Rightarrow> True
       | Managed m \<Rightarrow> ManagerReturns m \<in> set evs
       | Awaiting m \<Rightarrow> ManagerReturns m \<in> set evs \<and> lcRuntime s
       | Finished r \<Rightarrow> lcRuntime s \<and> lcAuth s \<in> {Reported, Gone} \<and>
           (\<exists>m a. ManagerReturns m \<in> set evs \<and> judgedBy evs a \<and> r = errors_join [m, a])))"

lemma judgedBy_more: "judgedBy evs a \<Longrightarrow> judgedBy (evs @ [ev]) a"
  unfolding judgedBy_def by (metis append_Cons append_assoc)

lemma lifecycleInv_more: "lifecycleInv evs s \<Longrightarrow> lifecycleInv (evs @ [ev]) s"
  by (cases "lcAuth s"; cases "lcMain s"; simp add: lifecycleInv_def; use judgedBy_more in blast)

lemma judgeAuth_None: "judgeAuth c e = None \<longleftrightarrow> c \<and> (\<forall>x. e = Some x \<longrightarrow> errors_is x ErrServerClosed)"
  by (auto simp: judgeAuth_def Let_def split: option.splits if_splits)

text \<open>What each step has required and done.\<close>

lemma lifecycleStep_Some:
  assumes "lifecycleStep ev s = Some s'"
  obtains (signal) "ev = Signalled" "\<not> lcParent s" "s' = s\<lparr>lcParent := True\<rparr>"
  | (begins) "ev = ShutdownBegins" "cancelled s" "lcCallback s = Armed" "s' = s\<lparr>lcCallback := Shutting\<rparr>"
  | (ends) "ev = ShutdownEnds" "lcCallback s = Shutting" "s' = s\<lparr>lcCallback := Drained\<rparr>"
  | (listen) e where "ev = ListenReturns e" "lcAuth s = Listening" "s' = s\<lparr>lcAuth := Listened e\<rparr>"
  | (disarm) e where "ev = StartReturns" "lcAuth s = Listened e" "lcCallback s = Armed" "s' = s\<lparr>lcCallback := Disarmed, lcAuth := Returned e\<rparr>"
  | (return) e where "ev = StartReturns" "lcAuth s = Listened e" "lcCallback s = Drained" "s' = s\<lparr>lcAuth := Returned e\<rparr>"
  | (judge) e where "ev = AuthJudges" "lcAuth s = Returned e" "s' = s\<lparr>lcAuth := Judged (judgeAuth (cancelled s) e)\<rparr>"
  | (report) e where "ev = AuthReports" "lcAuth s = Judged e" "lcStopped s = None" "s' = s\<lparr>lcStopped := Some e, lcAuth := Reported\<rparr>"
  | (gone) "ev = AuthCancels" "lcAuth s = Reported" "s' = s\<lparr>lcRuntime := True, lcAuth := Gone\<rparr>"
  | (manager) e where "ev = ManagerReturns e" "lcMain s = Managing" "s' = s\<lparr>lcMain := Managed e\<rparr>"
  | (cancel) e where "ev = MainCancels" "lcMain s = Managed e" "s' = s\<lparr>lcRuntime := True, lcMain := Awaiting e\<rparr>"
  | (receive) e a where "ev = MainReceives" "lcMain s = Awaiting e" "lcStopped s = Some a" "s' = s\<lparr>lcStopped := None, lcMain := Finished (errors_join [e, a])\<rparr>"
  using assms by (cases ev) (auto split: if_splits auth_phase.splits main_phase.splits option.splits)

lemma lifecycleInv_step:
  assumes before: "lifecycleInv evs s" and "lifecycleStep ev s = Some s'"
  shows "lifecycleInv (evs @ [ev]) s'"
proof -
  have inv: "lifecycleInv (evs @ [ev]) s" by (rule lifecycleInv_more [OF before])
  from assms(2) show ?thesis
  proof (cases rule: lifecycleStep_Some)
    case (judge e)
    have "judgedBy (evs @ [ev]) (judgeAuth (cancelled s) e)"
      unfolding judgedBy_def using before judge(1,2)
      by (intro exI [of _ evs] exI [of _ "[]"] exI [of _ e] exI [of _ "cancelled s"]) (auto simp: lifecycleInv_def cancelled_def)
    with inv judge show ?thesis by (cases "lcMain s") (simp_all add: lifecycleInv_def)
  next
    case (receive e a)
    then have "lcAuth s = Reported \<or> lcAuth s = Gone" using inv by (cases "lcAuth s") (simp_all add: lifecycleInv_def)
    with inv receive show ?thesis by (elim disjE) (simp_all add: lifecycleInv_def, blast+)
  next
    case gone
    with inv show ?thesis by (cases "lcMain s") (simp_all add: lifecycleInv_def)
  next
    case (cancel e)
    with inv show ?thesis by (cases "lcAuth s") (auto simp: lifecycleInv_def)
  qed (use inv in \<open>cases "lcAuth s"; cases "lcMain s"; simp add: lifecycleInv_def\<close>)+
qed

lemma lifecycle_run_inv: "lifecycle_run evs s \<Longrightarrow> lifecycleInv evs s"
proof (induction rule: lifecycle_run.induct)
  case start
  show ?case by (simp add: lifecycleInv_def lifecycleInit_def)
next
  case (step evs s ev s')
  show ?case by (rule lifecycleInv_step [OF step.IH step.hyps(2)])
qed

text \<open>
  Which steps are owed.  The steps of the repository's code are, whenever they can be taken.  A service owes
  nothing while it is left alone: the manager returns once the common context is cancelled, and the
  listener, with \<^verbatim>\<open>ErrServerClosed\<close>, once its shutdown has begun, which is what the comment at \<^verbatim>\<open>runOperator\<close> and
  \<^verbatim>\<open>net/http\<close> promise.  No signal is owed, and no failure.
\<close>

definition owed :: "event \<Rightarrow> lifecycle \<Rightarrow> bool" where
  "owed ev s = (lifecycleStep ev s \<noteq> None \<and>
     (case ev of
        Signalled \<Rightarrow> False
      | ManagerReturns _ \<Rightarrow> cancelled s
      | ListenReturns e \<Rightarrow> e = Some ErrServerClosed \<and> lcCallback s \<in> {Shutting, Drained}
      | _ \<Rightarrow> True))"

text \<open>\<^verbatim>\<open>runOperator\<close> is bound to return: it has, or some step is owed and every step that may happen instead leads
  to a state where it is bound to return as well.\<close>

inductive bound_to_return :: "lifecycle \<Rightarrow> bool" where
  returned: "lcMain s = Finished r \<Longrightarrow> bound_to_return s"
| going_on: "owed ev s \<Longrightarrow> (\<And>ev s'. lifecycleStep ev s = Some s' \<Longrightarrow> bound_to_return s') \<Longrightarrow> bound_to_return s"

inductive_cases bound_to_returnE: "bound_to_return s"

definition stopping :: "lifecycle \<Rightarrow> bool" where
  "stopping s = (cancelled s \<or> lcMain s \<noteq> Managing \<or> lcAuth s \<noteq> Listening)"

lemma stopping_step:
  assumes "stopping s" and "lifecycleStep ev s = Some s'"
  shows "stopping s'"
  using assms(2) by (cases rule: lifecycleStep_Some) (use assms(1) in \<open>simp_all add: stopping_def cancelled_def\<close>)

text \<open>The listener is shut down only after the cancellation of the context.\<close>

lemma shutdown_after_cancel: "lifecycle_run evs s \<Longrightarrow> lcCallback s \<in> {Shutting, Drained} \<Longrightarrow> cancelled s"
proof (induction rule: lifecycle_run.induct)
  case (step evs s ev s')
  from step.hyps(2) show ?case
    by (cases rule: lifecycleStep_Some) (use step in \<open>auto simp: cancelled_def\<close>)
qed (simp add: lifecycleInit_def)

text \<open>Steps that are left, an upper bound.\<close>

definition remaining :: "lifecycle \<Rightarrow> nat" where
  "remaining s =
     (if lcParent s then 0 else 1) +
     (case lcCallback s of Armed \<Rightarrow> 2 | Shutting \<Rightarrow> 1 | _ \<Rightarrow> 0) +
     (case lcAuth s of Listening \<Rightarrow> 5 | Listened _ \<Rightarrow> 4 | Returned _ \<Rightarrow> 3 | Judged _ \<Rightarrow> 2 | Reported \<Rightarrow> 1 | Gone \<Rightarrow> 0) +
     (case lcMain s of Managing \<Rightarrow> 3 | Managed _ \<Rightarrow> 2 | Awaiting _ \<Rightarrow> 1 | Finished _ \<Rightarrow> 0)"

lemma lifecycleStep_remaining:
  assumes "lifecycleStep ev s = Some s'"
  shows "remaining s' < remaining s"
  using assms
proof (cases rule: lifecycleStep_Some)
  case begins
  then show ?thesis by (simp add: remaining_def)
qed (simp_all add: remaining_def)

text \<open>What the authentication server owes before it has reported.\<close>

lemma auth_owes:
  assumes "lifecycleInv evs s" and "lcAuth s = Listening \<Longrightarrow> cancelled s"
  shows "(\<exists>ev. owed ev s) \<or> lcAuth s = Gone"
proof (cases "lcAuth s")
  case Listening
  with assms have "cancelled s" "lcCallback s \<noteq> Disarmed" by (simp_all add: lifecycleInv_def)
  with Listening have "owed ShutdownBegins s \<or> owed (ListenReturns (Some ErrServerClosed)) s"
    by (cases "lcCallback s") (simp_all add: owed_def)
  then show ?thesis by blast
next
  case (Listened e)
  with assms(1) have "owed StartReturns s \<or> owed ShutdownEnds s"
    by (cases "lcCallback s") (simp_all add: owed_def lifecycleInv_def)
  then show ?thesis by blast
next
  case (Returned e)
  then have "owed AuthJudges s" by (simp add: owed_def)
  then show ?thesis by blast
next
  case (Judged e)
  with assms(1) have "owed AuthReports s" by (simp add: owed_def lifecycleInv_def)
  then show ?thesis by blast
next
  case Reported
  then have "owed AuthCancels s" by (simp add: owed_def)
  then show ?thesis by blast
qed simp

text \<open>Once a part is stopping, a step is owed until \<^verbatim>\<open>runOperator\<close> has returned.\<close>

lemma stopping_owes:
  assumes inv: "lifecycleInv evs s" and "stopping s"
  shows "(\<exists>ev. owed ev s) \<or> (\<exists>r. lcMain s = Finished r)"
proof (cases "lcMain s")
  case Managing
  then have "owed (ManagerReturns None) s" if "cancelled s" using that by (simp add: owed_def)
  moreover have "cancelled s" if "lcAuth s = Gone" using inv that by (simp add: lifecycleInv_def cancelled_def)
  moreover have "cancelled s" if "lcAuth s = Listening" using assms(2) Managing that by (simp add: stopping_def)
  ultimately show ?thesis using auth_owes [OF inv] by blast
next
  case (Managed e)
  then have "owed MainCancels s" by (simp add: owed_def)
  then show ?thesis by blast
next
  case (Awaiting e)
  then have "cancelled s" using inv by (simp add: lifecycleInv_def cancelled_def)
  moreover have "owed MainReceives s" if "lcAuth s = Gone"
    using inv Awaiting that by (auto simp: owed_def lifecycleInv_def)
  ultimately show ?thesis using auth_owes [OF inv] by blast
qed simp

lemma stopping_returns:
  assumes "lifecycle_run evs s" and "stopping s"
  shows "bound_to_return s"
  using assms
proof (induction "remaining s" arbitrary: evs s rule: less_induct)
  case less
  consider (finished) r where "lcMain s = Finished r" | (owing) ev where "owed ev s"
    using stopping_owes [OF lifecycle_run_inv [OF less.prems(1)] less.prems(2)] by blast
  then show ?case
  proof cases
    case owing
    then show ?thesis
    proof (rule bound_to_return.going_on)
      fix ev s' assume next_step: "lifecycleStep ev s = Some s'"
      show "bound_to_return s'"
        by (rule less.hyps [OF lifecycleStep_remaining [OF next_step] lifecycle_run.step [OF less.prems(1) next_step] stopping_step [OF less.prems(2) next_step]])
    qed
  qed (rule bound_to_return.returned)
qed

text \<open>While no part is stopping, nothing is owed: the operator keeps serving.\<close>

lemma serving_owes_nothing:
  assumes "lifecycle_run evs s" and "\<not> stopping s"
  shows "\<not> owed ev s"
proof -
  from assms(2) have idle: "\<not> cancelled s" "lcMain s = Managing" "lcAuth s = Listening" by (simp_all add: stopping_def)
  with shutdown_after_cancel [OF assms(1)] have "lcCallback s \<notin> {Shutting, Drained}" by blast
  with idle show ?thesis by (cases ev) (auto simp: owed_def)
qed

section \<open>Properties\<close>

text \<open>
  \<^bold>\<open>C34.\<close> The two services stop together.  When \<^verbatim>\<open>runOperator\<close> returns, the manager and the authentication
  server have both returned, the common context is cancelled, and the shutdown of the listener is
  over or was never begun.  It returns no error only if the manager reported none and the listener
  ended without one, after a signal or after the manager had returned: a listener that stops by
  itself, even without an error, is always reported.
\<close>

theorem services_stop_together:
  assumes "lifecycle_run evs s" and "lcMain s = Finished r"
  shows "lcRuntime s \<and> lcAuth s \<in> {Reported, Gone} \<and> lcCallback s \<in> {Drained, Disarmed} \<and>
    (r = None \<longrightarrow> ManagerReturns None \<in> set evs \<and>
      (\<exists>before after e. evs = before @ AuthJudges # after \<and>
        ListenReturns e \<in> set before \<and> (\<forall>x. e = Some x \<longrightarrow> errors_is x ErrServerClosed) \<and>
        (Signalled \<in> set before \<or> (\<exists>m. ManagerReturns m \<in> set before))))"
proof -
  have inv: "lifecycleInv evs s" by (rule lifecycle_run_inv [OF assms(1)])
  have ended: "lcRuntime s" "lcAuth s \<in> {Reported, Gone}" using inv assms(2) by (simp_all add: lifecycleInv_def)
  then have drained: "lcCallback s \<in> {Drained, Disarmed}" using inv by (auto simp: lifecycleInv_def)
  obtain m a where m: "ManagerReturns m \<in> set evs" "judgedBy evs a" "r = errors_join [m, a]"
    using inv assms(2) by (auto simp: lifecycleInv_def)
  have "m = None \<and> a = None" if "r = None" using m(3) that errors_join_None_iff [of "[m, a]"] by auto
  moreover have "\<exists>before after e. evs = before @ AuthJudges # after \<and>
      ListenReturns e \<in> set before \<and> (\<forall>x. e = Some x \<longrightarrow> errors_is x ErrServerClosed) \<and>
      (Signalled \<in> set before \<or> (\<exists>m. ManagerReturns m \<in> set before))" if "a = None"
  proof -
    obtain before after e c where parts: "evs = before @ AuthJudges # after" "ListenReturns e \<in> set before" "a = judgeAuth c e"
      "c \<longrightarrow> Signalled \<in> set before \<or> (\<exists>m. ManagerReturns m \<in> set before)"
      using m(2) unfolding judgedBy_def by (elim exE conjE) (rule that)
    with \<open>a = None\<close> have "c" "\<forall>x. e = Some x \<longrightarrow> errors_is x ErrServerClosed" using judgeAuth_None [of c e] by simp_all
    with parts show ?thesis by (intro exI [of _ before] exI [of _ after] exI [of _ e]) simp
  qed
  ultimately show ?thesis using ended drained m(1) by (cases r) simp_all
qed

text \<open>
  \<^bold>\<open>C36.\<close> \<^verbatim>\<open>runOperator\<close> is bound to return exactly when one of its parts is stopping: the context is cancelled, by a
  signal or by the code, or the manager or the listener has returned.  From there, whatever the
  interleaving and whatever else fails, a step is owed at every point until it has returned, and only
  finitely many can be taken; a service is assumed to return only when it is told to.  So either
  service takes the other down, and neither the channel nor the wait for the shutdown blocks; and while
  nothing is stopping the operator keeps serving.
\<close>

theorem operator_terminates:
  assumes "lifecycle_run evs s"
  shows "bound_to_return s \<longleftrightarrow> cancelled s \<or> lcMain s \<noteq> Managing \<or> lcAuth s \<noteq> Listening"
proof (cases "stopping s")
  case True
  then show ?thesis using stopping_returns [OF assms] by (simp add: stopping_def)
next
  case False
  then show ?thesis using serving_owes_nothing [OF assms] by (auto simp: stopping_def elim: bound_to_returnE)
qed

text \<open>
  The parts of the operator fit together: if start-up succeeds, the instance controller, the token
  controller and the authentication server select slugs by one and the same policy, which was parsed
  from the configured file and is well formed; the ceilings are in range; both controllers write
  through the labelling client; routes and keys are read past the cache; and none of the hooks that
  tests use is set, so probes and clients of tenants' clusters are the verified ones.
\<close>

theorem operator_assembled:
  assumes "assembleOperator pf getenv version f = Inr op"
  shows "\<exists>p rd cl apiReader. pfOpen pf (fgSlugPolicyFile f) = Inr rd \<and> pfManager pf = Inr (cl, apiReader) \<and>
    Parse (pfLib pf) (pfDecodeJSON pf) (pfParseRFC3339 pf) rd = Inr p \<and> policyWf (pfLib pf) p \<and>
    irSlugPolicy (opInstances op) = Some p \<and> tcSlugPolicy (opTokens op) = Some p \<and> asSlugPolicy (opAuth op) = Some p \<and>
    Validate (irModelServerCeilings (opInstances op)) = None \<and>
    irClient (opInstances op) = newLabelingClient cl (baseLabels version) \<and> tcClient (opTokens op) = newLabelingClient cl (baseLabels version) \<and>
    routeReader (opInstances op) = apiReader \<and> asK8sClient (opAuth op) = apiReader \<and>
    irServiceHealthChecker (opInstances op) = None \<and> irBYOCHealthChecker (opInstances op) = None \<and>
    irRemoteClientBuilder (opInstances op) = None"
proof -
  from assms obtain p rd cl apiReader where "pfOpen pf (fgSlugPolicyFile f) = Inr rd" "pfManager pf = Inr (cl, apiReader)"
    and parsed: "Parse (pfLib pf) (pfDecodeJSON pf) (pfParseRFC3339 pf) rd = Inr p"
    by (auto simp: assembleOperator_def buildOperator_def loadSlugPolicy_def Let_def split: sum.splits option.splits if_splits prod.splits)
  with assms Parse_policyWf [OF parsed] show ?thesis
    by (auto simp: assembleOperator_def buildOperator_def loadSlugPolicy_def routeReader_def Let_def split: sum.splits option.splits if_splits)
qed

section \<open>Witnesses\<close>

text \<open>An orderly stop on a signal.\<close>

definition orderlyEvents :: "event list" where
  "orderlyEvents = [Signalled, ShutdownBegins, ListenReturns (Some ErrServerClosed), ManagerReturns None, ShutdownEnds, StartReturns,
     AuthJudges, MainCancels, AuthReports, MainReceives, AuthCancels]"

fun replay :: "event list \<Rightarrow> lifecycle \<Rightarrow> lifecycle option" where
  "replay [] s = Some s"
| "replay (ev # evs) s = (case lifecycleStep ev s of None \<Rightarrow> None | Some s' \<Rightarrow> replay evs s')"

lemma replay_run: "lifecycle_run pre s \<Longrightarrow> replay evs s = Some s' \<Longrightarrow> lifecycle_run (pre @ evs) s'"
proof (induction evs arbitrary: pre s)
  case (Cons ev evs)
  then obtain t where "lifecycleStep ev s = Some t" "replay evs t = Some s'" by (auto split: option.splits)
  with Cons.IH [OF lifecycle_run.step [OF Cons.prems(1)]] show ?case by simp
qed simp

lemma orderly: "\<exists>s. lifecycle_run orderlyEvents s \<and> lcMain s = Finished None"
proof -
  have "\<exists>s. replay orderlyEvents lifecycleInit = Some s \<and> lcMain s = Finished None"
    by (simp add: orderlyEvents_def lifecycleInit_def cancelled_def judgeAuth_def errors_join_def)
  then show ?thesis using replay_run [OF lifecycle_run.start, of orderlyEvents] by auto
qed

theorem services_stop_together_witness:
  "\<exists>s. lifecycle_run orderlyEvents s \<and> lcRuntime s \<and> lcCallback s \<in> {Drained, Disarmed}"
  using orderly services_stop_together by blast

theorem operator_terminates_witness:
  "\<not> bound_to_return lifecycleInit \<and> (\<exists>s. lifecycle_run [ManagerReturns None] s \<and> lcAuth s = Listening \<and> bound_to_return s)"
proof -
  have "\<not> bound_to_return lifecycleInit"
    using operator_terminates [OF lifecycle_run.start] by (simp add: lifecycleInit_def cancelled_def)
  moreover have "lifecycle_run [ManagerReturns None] (lifecycleInit\<lparr>lcMain := Managed None\<rparr>)"
    using lifecycle_run.step [OF lifecycle_run.start, of "ManagerReturns None"] by (simp add: lifecycleInit_def)
  moreover note operator_terminates [OF this]
  ultimately show ?thesis by (auto simp: lifecycleInit_def)
qed

definition samplePlatform :: "unit platform" where
  "samplePlatform = \<lparr>pfOpen = (\<lambda>_. Inr \<lparr>rdBytes = ''{}'', rdError = None\<rparr>), pfDecodeJSON = (\<lambda>_. Some (sampleDoc, [])),
     pfParseRFC3339 = (\<lambda>_. Some 7), pfUnmarshal = (\<lambda>_. None), pfMarshal = (\<lambda>_. None), pfManager = Inr (emptyClient, hostedClient),
     pfRegistrations = [None, None, None, None], pfLib = sampleLib, pfHost = sampleHost, pfBYOCLib = sampleByoc emptyClient, pfHTTPGet = (\<lambda>_ w. (Inr 200, w))\<rparr>"

definition sampleFlags :: flags where
  "sampleFlags = \<lparr>fgCeilings = tunedCeilings, fgSlugPolicyFile = ''policy.json'', fgBYOCTLS = byocTLSDefaults (\<lambda>_. []), fgAuthExternalURL = [],
     fgPublicScheme = [], fgIngressExtraAnnotations = [], fgTLSSecretName = []\<rparr>"

lemma sample_assembled: "\<exists>op. assembleOperator samplePlatform (\<lambda>_. []) ''1'' sampleFlags = Inr op"
proof -
  have "Validate tunedCeilings = None" by (simp add: Validate_None tunedCeilings_def)
  then show ?thesis
    using sample_Parse by (simp add: assembleOperator_def buildOperator_def loadSlugPolicy_def samplePlatform_def sampleFlags_def firstError_def Let_def)
qed

theorem operator_assembled_witness:
  "\<exists>op p. assembleOperator samplePlatform (\<lambda>_. []) ''1'' sampleFlags = Inr op \<and> policyWf sampleLib p \<and> asSlugPolicy (opAuth op) = Some p"
proof -
  obtain op where op: "assembleOperator samplePlatform (\<lambda>_. []) ''1'' sampleFlags = Inr op" using sample_assembled by blast
  have "pfLib samplePlatform = sampleLib" by (simp add: samplePlatform_def)
  with operator_assembled [OF op] op show ?thesis by auto
qed

end
