(* ===== verification/CommandLine.thy ===== *)
theory CommandLine
  imports Manager
begin

text \<open>
  The command line of \<^verbatim>\<open>cmd/main.go\<close>: the flags that \<^verbatim>\<open>main\<close> registers, and the part of Go's \<^verbatim>\<open>flag\<close> and
  \<^verbatim>\<open>strconv\<close> packages that reads them.  The logging library and the client configuration register flags of
  their own; they are an argument that says, for a name, whether it is a boolean flag and which values
  it takes.
\<close>

section \<open>Values\<close>

definition parseBool :: "string \<Rightarrow> bool option" where
  "parseBool s =
     (if s \<in> {''1'', ''t'', ''T'', ''TRUE'', ''true'', ''True''} then Some True
      else if s \<in> {''0'', ''f'', ''F'', ''FALSE'', ''false'', ''False''} then Some False else None)"

text \<open>\<^verbatim>\<open>strconv.ParseInt\<close> with base 0 and 64 bits: a prefix selects the base, underscores may separate digits.\<close>

definition anyDigit :: "char \<Rightarrow> nat option" where
  "anyDigit c =
     (let n = of_char c :: nat; l = of_char (lowerChar c) :: nat
      in if 48 \<le> n \<and> n \<le> 57 then Some (n - 48) else if 97 \<le> l \<and> l \<le> 122 then Some (l - 87) else None)"

fun parseDigits :: "nat \<Rightarrow> nat \<Rightarrow> string \<Rightarrow> nat option" where
  "parseDigits base acc [] = Some acc"
| "parseDigits base acc (c # cs) =
     (if c = CHR ''_'' then parseDigits base acc cs
      else case anyDigit c of
        None \<Rightarrow> None
      | Some d \<Rightarrow> if d < base then parseDigits base (base * acc + d) cs else None)"

definition basePrefix :: "string \<Rightarrow> nat option" where
  "basePrefix s =
     (case s of
        z # c # _ \<Rightarrow>
          if z \<noteq> CHR ''0'' then None
          else if lowerChar c = CHR ''b'' then Some 2 else if lowerChar c = CHR ''o'' then Some 8
          else if lowerChar c = CHR ''x'' then Some 16 else None
      | _ \<Rightarrow> None)"

text \<open>\<^verbatim>\<open>underscoreOK\<close>: underscores only between digits, a base prefix counting as a digit.  The second argument
  is the last thing seen: a digit, an underscore, or something else.\<close>

datatype seen = SeenDigit | SeenUnderscore | SeenOther

fun underscoresOK :: "bool \<Rightarrow> seen \<Rightarrow> string \<Rightarrow> bool" where
  "underscoresOK hex prev [] = (prev \<noteq> SeenUnderscore)"
| "underscoresOK hex prev (c # cs) =
     (if (case anyDigit c of None \<Rightarrow> False | Some d \<Rightarrow> d < 10 \<or> hex \<and> d < 16) then underscoresOK hex SeenDigit cs
      else if c = CHR ''_'' then prev = SeenDigit \<and> underscoresOK hex SeenUnderscore cs
      else prev \<noteq> SeenUnderscore \<and> underscoresOK hex SeenOther cs)"

definition underscoreOK :: "string \<Rightarrow> bool" where
  "underscoreOK s =
     (case basePrefix s of
        None \<Rightarrow> underscoresOK False SeenOther s
      | Some b \<Rightarrow> underscoresOK (b = 16) SeenDigit (drop 2 s))"

definition parseUint0 :: "string \<Rightarrow> nat option" where
  "parseUint0 s =
     (if s = [] then None
      else
        let (base, ds) = (if hd s \<noteq> CHR ''0'' then (10, s)
              else case basePrefix s of
                Some b \<Rightarrow> if length s \<ge> 3 then (b, drop 2 s) else (8, tl s)
              | None \<Rightarrow> (8, tl s))
        in case parseDigits base 0 ds of
             None \<Rightarrow> None
           | Some n \<Rightarrow> if CHR ''_'' \<in> set ds \<and> \<not> underscoreOK s then None else Some n)"

definition parseInt0 :: "string \<Rightarrow> int option" where
  "parseInt0 s =
     (let (neg, ds) = (case s of
            [] \<Rightarrow> (False, [])
          | c # cs \<Rightarrow> if c = CHR ''-'' then (True, cs) else if c = CHR ''+'' then (False, cs) else (False, s))
      in case parseUint0 ds of
           None \<Rightarrow> None
         | Some n \<Rightarrow> let i = (if neg then - int n else int n) in if - (2 ^ 63) \<le> i \<and> i < 2 ^ 63 then Some i else None)"

section \<open>The flags of the process\<close>

record process_flags =
  pgMetricsAddr :: string
  pgProbeAddr :: string
  pgLeaderElect :: bool
  pgSecureMetrics :: bool
  pgEnableHTTP2 :: bool
  pgAuthBind :: string
  pgOperator :: flags

definition flagDefaults :: "env \<Rightarrow> process_flags" where
  "flagDefaults getenv = \<lparr>pgMetricsAddr = '':8080'', pgProbeAddr = '':8081'', pgLeaderElect = False, pgSecureMetrics = False,
     pgEnableHTTP2 = False, pgAuthBind = '':8090'',
     pgOperator = \<lparr>fgCeilings = \<lparr>ceCPUMilli = 0, ceMemoryMiB = 0, ceContextSize = 0, ceParallelSlots = 0\<rparr>, fgSlugPolicyFile = [],
       fgBYOCTLS = byocTLSDefaults getenv, fgAuthExternalURL = [], fgPublicScheme = [], fgIngressExtraAnnotations = [],
       fgTLSSecretName = []\<rparr>\<rparr>"

datatype flag_target =
    IntFlag "int \<Rightarrow> process_flags \<Rightarrow> process_flags"
  | BoolFlag "bool \<Rightarrow> process_flags \<Rightarrow> process_flags"
  | StringFlag "string \<Rightarrow> process_flags \<Rightarrow> process_flags"

abbreviation onOperator :: "(flags \<Rightarrow> flags) \<Rightarrow> process_flags \<Rightarrow> process_flags" where
  "onOperator f \<equiv> pgOperator_update f"

abbreviation onCeilings :: "(model_server_ceilings \<Rightarrow> model_server_ceilings) \<Rightarrow> process_flags \<Rightarrow> process_flags" where
  "onCeilings f \<equiv> onOperator (fgCeilings_update f)"

abbreviation onBYOC :: "(byoc_tls_config \<Rightarrow> byoc_tls_config) \<Rightarrow> process_flags \<Rightarrow> process_flags" where
  "onBYOC f \<equiv> onOperator (fgBYOCTLS_update f)"

definition flagTable :: "(string \<times> flag_target) list" where
  "flagTable =
     [(''max-model-cpu-milli'', IntFlag (\<lambda>v. onCeilings (ceCPUMilli_update (\<lambda>_. v)))),
      (''max-model-memory-mib'', IntFlag (\<lambda>v. onCeilings (ceMemoryMiB_update (\<lambda>_. v)))),
      (''max-context-size'', IntFlag (\<lambda>v. onCeilings (ceContextSize_update (\<lambda>_. v)))),
      (''max-parallel-slots'', IntFlag (\<lambda>v. onCeilings (ceParallelSlots_update (\<lambda>_. v)))),
      (''metrics-bind-address'', StringFlag (\<lambda>v. pgMetricsAddr_update (\<lambda>_. v))),
      (''health-probe-bind-address'', StringFlag (\<lambda>v. pgProbeAddr_update (\<lambda>_. v))),
      (''leader-elect'', BoolFlag (\<lambda>v. pgLeaderElect_update (\<lambda>_. v))),
      (''metrics-secure'', BoolFlag (\<lambda>v. pgSecureMetrics_update (\<lambda>_. v))),
      (''enable-http2'', BoolFlag (\<lambda>v. pgEnableHTTP2_update (\<lambda>_. v))),
      (''slug-policy-file'', StringFlag (\<lambda>v. onOperator (fgSlugPolicyFile_update (\<lambda>_. v)))),
      (''byoc-tls-domain'', StringFlag (\<lambda>v. onBYOC (btDomain_update (\<lambda>_. v)))),
      (''byoc-tls-namespace'', StringFlag (\<lambda>v. onBYOC (btNamespace_update (\<lambda>_. v)))),
      (''byoc-tls-issuer'', StringFlag (\<lambda>v. onBYOC (btIssuerName_update (\<lambda>_. v)))),
      (''byoc-tls-issuer-namespace'', StringFlag (\<lambda>v. onBYOC (btIssuerNamespace_update (\<lambda>_. v)))),
      (''byoc-dns-class'', StringFlag (\<lambda>v. onBYOC (btDNSClass_update (\<lambda>_. v)))),
      (''auth-bind-address'', StringFlag (\<lambda>v. pgAuthBind_update (\<lambda>_. v))),
      (''auth-external-url'', StringFlag (\<lambda>v. onOperator (fgAuthExternalURL_update (\<lambda>_. v)))),
      (''public-scheme'', StringFlag (\<lambda>v. onOperator (fgPublicScheme_update (\<lambda>_. v)))),
      (''ingress-extra-annotations'', StringFlag (\<lambda>v. onOperator (fgIngressExtraAnnotations_update (\<lambda>_. v)))),
      (''tls-secret-name'', StringFlag (\<lambda>v. onOperator (fgTLSSecretName_update (\<lambda>_. v))))]"

section \<open>Parsing\<close>

text \<open>Flags of the libraries: whether the flag is boolean, and which values it takes.\<close>

type_synonym foreign_flags = "string \<Rightarrow> (bool \<times> (string \<Rightarrow> bool)) option"

definition setFlag :: "flag_target \<Rightarrow> string \<Rightarrow> process_flags \<Rightarrow> process_flags option" where
  "setFlag t v p =
     (case t of
        IntFlag f \<Rightarrow> map_option (\<lambda>i. f i p) (parseInt0 v)
      | BoolFlag f \<Rightarrow> map_option (\<lambda>b. f b p) (parseBool v)
      | StringFlag f \<Rightarrow> Some (f v p))"

text \<open>A registered flag: whether it is boolean, and how a value changes the settings.\<close>

definition lookupFlag :: "foreign_flags \<Rightarrow> string \<Rightarrow> (bool \<times> (string \<Rightarrow> process_flags \<Rightarrow> process_flags option)) option" where
  "lookupFlag other name =
     (case map_of flagTable name of
        Some t \<Rightarrow> Some ((case t of BoolFlag _ \<Rightarrow> True | _ \<Rightarrow> False), setFlag t)
      | None \<Rightarrow> map_option (\<lambda>(b, ok). (b, \<lambda>v p. if ok v then Some p else None)) (other name))"

text \<open>The name and the value of one argument; an equals sign in the first place belongs to the name.\<close>

definition splitFlag :: "string \<Rightarrow> string \<times> string option" where
  "splitFlag name =
     (case name of
        [] \<Rightarrow> ([], None)
      | c # cs \<Rightarrow>
          let n = takeWhile (\<lambda>x. x \<noteq> CHR ''='') cs
          in (c # n, if CHR ''='' \<in> set cs then Some (drop (Suc (length n)) cs) else None))"

text \<open>\<^verbatim>\<open>flag.Parse\<close>.  The left result is the exit code of the process: 0 for a request for help, 2 for an error.
  Arguments after the first one that is no flag are ignored.\<close>

fun parseArgs :: "foreign_flags \<Rightarrow> string list \<Rightarrow> process_flags \<Rightarrow> int + process_flags" where
  "parseArgs other [] p = Inr p"
| "parseArgs other (s # args) p =
     (if length s < 2 \<or> hd s \<noteq> CHR ''-'' then Inr p
      else if s = ''--'' then Inr p
      else
        let name0 = (if s ! 1 = CHR ''-'' then drop 2 s else drop 1 s)
        in if name0 = [] \<or> hd name0 = CHR ''-'' \<or> hd name0 = CHR ''='' then Inl 2
           else case splitFlag name0 of
             (name, value) \<Rightarrow>
               (case lookupFlag other name of
                  None \<Rightarrow> if name = ''help'' \<or> name = ''h'' then Inl 0 else Inl 2
                | Some (isBool, assign) \<Rightarrow>
                    (case value of
                       Some v \<Rightarrow> (case assign v p of None \<Rightarrow> Inl 2 | Some p' \<Rightarrow> parseArgs other args p')
                     | None \<Rightarrow>
                         if isBool then (case assign ''true'' p of None \<Rightarrow> Inl 2 | Some p' \<Rightarrow> parseArgs other args p')
                         else if args = [] then Inl 2
                         else (case assign (hd args) p of None \<Rightarrow> Inl 2 | Some p' \<Rightarrow> parseArgs other (tl args) p'))))"

definition parseFlags :: "foreign_flags \<Rightarrow> env \<Rightarrow> string list \<Rightarrow> int + process_flags" where
  "parseFlags other getenv args = parseArgs other args (flagDefaults getenv)"

section \<open>Reading back decimals\<close>

lemma anyDigit_digitChar [simp]: "d < 10 \<Longrightarrow> anyDigit (digitChar d) = Some d"
  by (simp add: anyDigit_def digitChar_def Let_def)

lemma digitChar_ne_underscore: "d < 10 \<Longrightarrow> digitChar d \<noteq> CHR ''_''"
  using digitVal_digitChar [of d] by (auto simp: digitVal_def)

lemma parseDigits_append:
  "parseDigits b acc (xs @ ys) = (case parseDigits b acc xs of None \<Rightarrow> None | Some n \<Rightarrow> parseDigits b n ys)"
  by (induction b acc xs rule: parseDigits.induct) (auto split: option.split)

lemma parseDigits_showNat: "parseDigits 10 0 (showNat n) = Some n \<and> CHR ''_'' \<notin> set (showNat n)"
proof (induction n rule: showNat.induct)
  case (1 n)
  show ?case
  proof (cases "n < 10")
    case True
    then show ?thesis using digitChar_ne_underscore [of n] by (subst (1 2) showNat.simps) auto
  next
    case False
    with "1" show ?thesis using digitChar_ne_underscore [of "n mod 10"]
      by (subst (1 2) showNat.simps) (auto simp: parseDigits_append)
  qed
qed

lemma showNat_leading: "0 < n \<Longrightarrow> hd (showNat n) \<noteq> CHR ''0''"
proof (induction n rule: showNat.induct)
  case (1 n)
  show ?case
  proof (cases "n < 10")
    case True
    have "digitVal (CHR ''0'') = Some 0" by (simp add: digitVal_def)
    then have "digitChar n \<noteq> CHR ''0''" using digitVal_digitChar [OF True] "1.prems" by auto
    with True show ?thesis by (subst showNat.simps) simp
  next
    case False
    with "1.IH" have "hd (showNat (n div 10)) \<noteq> CHR ''0''" by simp
    with False show ?thesis by (subst showNat.simps) simp
  qed
qed

lemma parseUint0_showNat: "parseUint0 (showNat n) = Some n"
proof (cases "n = 0")
  case True
  have "showNat 0 = ''0''" by code_simp
  with True show ?thesis by (simp add: parseUint0_def basePrefix_def)
next
  case False
  then show ?thesis using showNat_leading [of n] parseDigits_showNat [of n] by (simp add: parseUint0_def)
qed

lemma parseInt0_itoa:
  assumes "- (2 ^ 63) \<le> i" "i < 2 ^ 63"
  shows "parseInt0 (itoa i) = Some i"
proof (cases "i < 0")
  case True
  with assms show ?thesis by (simp add: parseInt0_def itoa_def Let_def parseUint0_showNat)
next
  case False
  from showNat_hd [of "nat i"] obtain d cs where s: "showNat (nat i) = digitChar d # cs" "d < 10" by blast
  have "parseUint0 (digitChar d # cs) = Some (nat i)" using parseUint0_showNat [of "nat i"] s(1) by simp
  with False assms s digitChar_no_sign [OF s(2)] show ?thesis by (simp add: parseInt0_def itoa_def Let_def)
qed

section \<open>Properties\<close>

definition flagArg :: "string \<Rightarrow> string \<Rightarrow> string" where
  "flagArg name v = ''--'' @ name @ ''='' @ v"

definition boolText :: "bool \<Rightarrow> string" where
  "boolText b = (if b then ''true'' else ''false'')"

definition renderFlags :: "process_flags \<Rightarrow> string list" where
  "renderFlags p =
     (let f = pgOperator p; c = fgCeilings f; b = fgBYOCTLS f in
      [flagArg ''max-model-cpu-milli'' (itoa (ceCPUMilli c)), flagArg ''max-model-memory-mib'' (itoa (ceMemoryMiB c)),
       flagArg ''max-context-size'' (itoa (ceContextSize c)), flagArg ''max-parallel-slots'' (itoa (ceParallelSlots c)),
       flagArg ''metrics-bind-address'' (pgMetricsAddr p), flagArg ''health-probe-bind-address'' (pgProbeAddr p),
       flagArg ''leader-elect'' (boolText (pgLeaderElect p)), flagArg ''metrics-secure'' (boolText (pgSecureMetrics p)),
       flagArg ''enable-http2'' (boolText (pgEnableHTTP2 p)), flagArg ''slug-policy-file'' (fgSlugPolicyFile f),
       flagArg ''byoc-tls-domain'' (btDomain b), flagArg ''byoc-tls-namespace'' (btNamespace b),
       flagArg ''byoc-tls-issuer'' (btIssuerName b), flagArg ''byoc-tls-issuer-namespace'' (btIssuerNamespace b),
       flagArg ''byoc-dns-class'' (btDNSClass b), flagArg ''auth-bind-address'' (pgAuthBind p),
       flagArg ''auth-external-url'' (fgAuthExternalURL f), flagArg ''public-scheme'' (fgPublicScheme f),
       flagArg ''ingress-extra-annotations'' (fgIngressExtraAnnotations f), flagArg ''tls-secret-name'' (fgTLSSecretName f)])"

lemma splitFlag_value:
  assumes "name \<noteq> []" "CHR ''='' \<notin> set name"
  shows "splitFlag (name @ ''='' @ v) = (name, Some v)"
proof -
  obtain c cs where n: "name = c # cs" "CHR ''='' \<notin> set cs" using assms by (cases name) auto
  have "takeWhile (\<lambda>x. x \<noteq> CHR ''='') (cs @ CHR ''='' # v) = cs" using n(2) by (subst takeWhile_append2) auto
  then show ?thesis by (simp add: splitFlag_def n Let_def)
qed

definition plainName :: "string \<Rightarrow> bool" where
  "plainName name = (name \<noteq> [] \<and> hd name \<noteq> CHR ''-'' \<and> CHR ''='' \<notin> set name)"

lemma parseArgs_flagArg:
  assumes "map_of flagTable name = Some t" "plainName name" "setFlag t v p = Some p'"
  shows "parseArgs other (flagArg name v # args) p = parseArgs other args p'"
proof -
  have "hd name \<noteq> CHR ''=''" using assms(2) by (cases name) (auto simp: plainName_def)
  moreover have "splitFlag (name @ CHR ''='' # v) = (name, Some v)" using splitFlag_value assms(2) by (simp add: plainName_def)
  moreover have "flagArg name v \<noteq> ''--''" "flagArg name v ! 1 = CHR ''-''" "drop 2 (flagArg name v) = name @ CHR ''='' # v"
    "hd (flagArg name v) = CHR ''-''" "\<not> length (flagArg name v) < 2"
    by (simp_all add: flagArg_def)
  ultimately show ?thesis
    using assms by (simp add: Let_def lookupFlag_def plainName_def)
qed

lemma parse_boolText [simp]: "parseBool (boolText b) = Some b"
  by (cases b) (simp_all add: parseBool_def boolText_def)

definition int64 :: "int \<Rightarrow> bool" where
  "int64 i = (- (2 ^ 63) \<le> i \<and> i < 2 ^ 63)"

lemma setFlag_text:
  "int64 i \<Longrightarrow> setFlag (IntFlag f) (itoa i) p = Some (f i p)" "setFlag (BoolFlag g) (boolText b) p = Some (g b p)"
  "setFlag (StringFlag k) v p = Some (k v p)"
  by (simp_all add: setFlag_def parseInt0_itoa int64_def)

lemma flagTable_names: "list_all plainName (map fst flagTable)" "distinct (map fst flagTable)"
  by (simp_all add: flagTable_def plainName_def)

lemma render_parses:
  assumes "int64 (ceCPUMilli (fgCeilings (pgOperator p)))" and "int64 (ceMemoryMiB (fgCeilings (pgOperator p)))"
    and "int64 (ceContextSize (fgCeilings (pgOperator p)))" and "int64 (ceParallelSlots (fgCeilings (pgOperator p)))"
  shows "parseFlags other getenv (renderFlags p) = Inr p"
proof -
  have lookup: "map_of flagTable n = Some t \<Longrightarrow> plainName n" for n t
    using flagTable_names(1) by (force simp: list_all_iff dest: map_of_SomeD)
  note step = parseArgs_flagArg [OF _ lookup]
  show ?thesis
    unfolding parseFlags_def renderFlags_def Let_def
    using assms by (simp add: step setFlag_text flagTable_def flagDefaults_def byocTLSDefaults_def del: parseArgs.simps(2))
qed

text \<open>\<^bold>\<open>C38.\<close> Settings survive the command line: for any settings, with numbers that fit a Go \<^verbatim>\<open>int\<close>, writing each as an
  argument and parsing the arguments gives the settings back, whatever the environment provides as
  defaults and whatever flags the libraries add.  So every flag reaches its own setting, a given flag
  wins over its environment variable, and no value, even one that looks like a flag or holds an equals
  sign, is misread.\<close>

theorem flags_roundtrip:
  assumes "int64 (ceCPUMilli (fgCeilings (pgOperator p)))" and "int64 (ceMemoryMiB (fgCeilings (pgOperator p)))"
    and "int64 (ceContextSize (fgCeilings (pgOperator p)))" and "int64 (ceParallelSlots (fgCeilings (pgOperator p)))"
  shows "parseFlags other getenv (renderFlags p) = Inr p"
  using assms by (rule render_parses)

text \<open>The process ends before it starts only with code 2 for a command line it cannot read, or 0 for help.\<close>

theorem parseFlags_exit: "parseFlags other getenv args = Inl code \<Longrightarrow> code = 0 \<or> code = 2"
proof -
  have "parseArgs other args p = Inl code \<Longrightarrow> code = 0 \<or> code = 2" for p
    by (induction other args p rule: parseArgs.induct) (auto simp: Let_def split: if_splits option.splits prod.splits)
  then show "parseFlags other getenv args = Inl code \<Longrightarrow> code = 0 \<or> code = 2" by (simp add: parseFlags_def)
qed

section \<open>Witnesses\<close>

definition sampleSettings :: process_flags where
  "sampleSettings = (flagDefaults (\<lambda>_. []))\<lparr>pgAuthBind := ''--a=b'', pgLeaderElect := True\<rparr>"

theorem flags_roundtrip_witness:
  "parseFlags (\<lambda>_. None) (\<lambda>_. ''env'') (renderFlags sampleSettings) = Inr sampleSettings \<and> pgAuthBind sampleSettings = ''--a=b''"
proof -
  have "fgCeilings (pgOperator sampleSettings) = \<lparr>ceCPUMilli = 0, ceMemoryMiB = 0, ceContextSize = 0, ceParallelSlots = 0\<rparr>"
    by (simp add: sampleSettings_def flagDefaults_def)
  then show ?thesis
    using flags_roundtrip [of sampleSettings "\<lambda>_. None" "\<lambda>_. ''env''"] by (simp add: int64_def sampleSettings_def)
qed

end
