(* ===== verification/Entry.thy ===== *)
theory Entry
  imports CommandLine
begin

text \<open>
  \<^verbatim>\<open>main\<close> of \<^verbatim>\<open>cmd/main.go\<close> from the command line to the exit code, with \<^verbatim>\<open>initOpenTelemetry\<close>, the options of the
  manager and the HTTP server of \<^verbatim>\<open>internal/auth/server.go\<close>.  The exporters, the manager and the signal handler
  are libraries, and their outcomes are arguments.  The process leaves a list of what it did; \<^verbatim>\<open>os.Exit\<close> ends
  it at once and runs no deferred function.
\<close>

section \<open>Telemetry\<close>

datatype exporter = StdoutExporter | OTLPExporter
datatype propagator = TraceContext | Baggage

record telemetry_lib =
  tlNew :: "exporter \<Rightarrow> goerr option"
  tlResource :: "(string \<times> string) list \<Rightarrow> goerr + (string \<times> string) list"
    \<comment> \<open>\<^verbatim>\<open>resource.New\<close> with the environment, the process and the SDK, and the given attributes\<close>

record tracing =
  tgExporter :: exporter
  tgResource :: "(string \<times> string) list"
  tgPropagators :: "propagator list"

definition chosenExporter :: "env \<Rightarrow> exporter" where
  "chosenExporter getenv =
     (if getenv ''OTEL_EXPORTER_OTLP_ENDPOINT'' = [] \<and> getenv ''OTEL_EXPORTER_OTLP_TRACES_ENDPOINT'' = []
      then StdoutExporter else OTLPExporter)"

definition initOpenTelemetry :: "telemetry_lib \<Rightarrow> env \<Rightarrow> goerr + tracing" where
  "initOpenTelemetry tel getenv =
     (case tlNew tel (chosenExporter getenv) of
        Some e \<Rightarrow> Inl e
      | None \<Rightarrow>
          let res = (case tlResource tel [(''service.name'', ''private-llm-operator'')] of Inl _ \<Rightarrow> [] | Inr r \<Rightarrow> r)
          in Inr \<lparr>tgExporter = chosenExporter getenv, tgResource = res, tgPropagators = [TraceContext, Baggage]\<rparr>)"

section \<open>Servers\<close>

text \<open>An option for TLS changes the protocols that the server offers.\<close>

type_synonym tls_option = "string list \<Rightarrow> string list"

definition disableHTTP2 :: tls_option where
  "disableHTTP2 protos = [''http/1.1'']"

definition tlsOpts :: "process_flags \<Rightarrow> tls_option list" where
  "tlsOpts p = (if \<not> pgEnableHTTP2 p then [disableHTTP2] else [])"

definition applyTLS :: "tls_option list \<Rightarrow> string list \<Rightarrow> string list" where
  "applyTLS opts protos = fold (\<lambda>f x. f x) opts protos"

record metrics_options =
  moBindAddress :: string
  moSecureServing :: bool
  moTLSOpts :: "tls_option list"
  moFiltered :: bool               \<comment> \<open>authentication and authorization before metrics are served\<close>

record manager_options =
  gmMetrics :: metrics_options
  gmWebhookTLSOpts :: "tls_option list"
  gmHealthProbeBindAddress :: string
  gmLeaderElection :: bool
  gmLeaderElectionID :: string

definition metricsServerOptions :: "process_flags \<Rightarrow> metrics_options" where
  "metricsServerOptions p = \<lparr>moBindAddress = pgMetricsAddr p, moSecureServing = pgSecureMetrics p, moTLSOpts = tlsOpts p,
     moFiltered = pgSecureMetrics p\<rparr>"

definition managerOptions :: "process_flags \<Rightarrow> manager_options" where
  "managerOptions p = \<lparr>gmMetrics = metricsServerOptions p, gmWebhookTLSOpts = tlsOpts p, gmHealthProbeBindAddress = pgProbeAddr p,
     gmLeaderElection = pgLeaderElect p, gmLeaderElectionID = ''953016b8.example.com''\<rparr>"

text \<open>The listener of the auth server; times in seconds.\<close>

definition authorizationTimeout :: int where "authorizationTimeout = 5"
definition shutdownTimeout :: int where "shutdownTimeout = 5"

record 'w http_server =
  hsAddr :: string
  hsServer :: "'w auth_server"
  hsReadHeaderTimeout :: int
  hsReadTimeout :: int
  hsWriteTimeout :: int
  hsIdleTimeout :: int

definition httpServer :: "'w auth_server \<Rightarrow> string \<Rightarrow> 'w http_server" where
  "httpServer srv bindAddress = \<lparr>hsAddr = bindAddress, hsServer = srv, hsReadHeaderTimeout = 2, hsReadTimeout = 5,
     hsWriteTimeout = 10, hsIdleTimeout = 30\<rparr>"

section \<open>The process\<close>

datatype 'w main_event =
    LogError string goerr
  | TracingStarted tracing
  | ManagerRequested manager_options
  | OperatorRan "'w operator" "'w http_server"
  | TracingFlushed

type_synonym 'w exit = "int \<times> 'w main_event list"

definition exitWith :: "string \<Rightarrow> goerr \<Rightarrow> 'w main_event list \<Rightarrow> 'w exit" where
  "exitWith msg e evs = (1, evs @ [LogError msg e])"

text \<open>What is logged when the manager or one of the registrations with it fails.\<close>

definition assemblyMessage :: "'w platform \<Rightarrow> string" where
  "assemblyMessage pf =
     (case pfManager pf of
        Inl _ \<Rightarrow> ''unable to start manager''
      | Inr _ \<Rightarrow>
          (case filter (\<lambda>(msg, e). e \<noteq> None) (zip [''unable to create controller'', ''unable to create controller'',
              ''unable to set up health check'', ''unable to set up ready check''] (pfRegistrations pf)) of
             [] \<Rightarrow> [] | (msg, _) # _ \<Rightarrow> msg))"

text \<open>After the telemetry is set up: the manager, the controllers and the checks, then both services until
  they end, as \<open>outcome\<close> says.\<close>

definition runServices :: "'w platform \<Rightarrow> env \<Rightarrow> string \<Rightarrow> policy \<Rightarrow> process_flags \<Rightarrow> ('w operator \<Rightarrow> goerr option) \<Rightarrow> 'w main_event list \<Rightarrow> 'w exit" where
  "runServices pf getenv version slugPolicy p outcome evs =
     (let evs = evs @ [ManagerRequested (managerOptions p)] in
      case buildOperator pf getenv version slugPolicy (pgOperator p) of
        Inl e \<Rightarrow> exitWith (assemblyMessage pf) e evs
      | Inr op \<Rightarrow>
          let evs = evs @ [OperatorRan op (httpServer (opAuth op) (pgAuthBind p))]
          in case outcome op of
               Some e \<Rightarrow> exitWith ''problem running operator'' e evs
             | None \<Rightarrow> (0, evs))"

text \<open>The deferred function runs when \<^verbatim>\<open>main\<close> returns, which it does with code 0 only.\<close>

definition deferFlush :: "'w exit \<Rightarrow> 'w exit" where
  "deferFlush r = (if fst r = 0 then (0, snd r @ [TracingFlushed]) else r)"

definition main :: "'w platform \<Rightarrow> telemetry_lib \<Rightarrow> foreign_flags \<Rightarrow> env \<Rightarrow> string \<Rightarrow> string list \<Rightarrow> ('w operator \<Rightarrow> goerr option) \<Rightarrow> 'w exit" where
  "main pf tel other getenv version args outcome =
     (case parseFlags other getenv args of
        Inl code \<Rightarrow> (code, [])
      | Inr p \<Rightarrow>
        (case loadSlugPolicy pf (fgSlugPolicyFile (pgOperator p)) of
           Inl e \<Rightarrow> exitWith ''invalid slug policy'' e []
         | Inr slugPolicy \<Rightarrow>
           (case Validate (fgCeilings (pgOperator p)) of
              Some e \<Rightarrow> exitWith ''invalid model server ceilings'' e []
            | None \<Rightarrow>
              (case initOpenTelemetry tel getenv of
                 Inl e \<Rightarrow> runServices pf getenv version slugPolicy p outcome [LogError ''opentelemetry init failed'' e]
               | Inr tg \<Rightarrow> deferFlush (runServices pf getenv version slugPolicy p outcome [TracingStarted tg])))))"

section \<open>Properties\<close>

text \<open>An operator that was assembled is the one that \<^verbatim>\<open>main\<close> builds from the policy it read.\<close>

lemma assembled_built:
  assumes "assembleOperator pf getenv version f = Inr op"
  obtains pol where "loadSlugPolicy pf (fgSlugPolicyFile f) = Inr pol" "Validate (fgCeilings f) = None"
    "buildOperator pf getenv version pol f = Inr op"
  using assms by (auto simp: assembleOperator_def split: sum.splits option.splits)

text \<open>\<^bold>\<open>C35.\<close> The exit code tells how the process ended: once the flags are read it is 0 exactly when the operator
  was assembled and both services ended without an error, and otherwise 1 with an error logged last.
  The services run only as assembled and on the configured address, and at most once.  Spans are
  flushed exactly when tracing was set up and the code is 0.\<close>

theorem main_exit:
  assumes "parseFlags other getenv args = Inr p" and "main pf tel other getenv version args outcome = (code, evs)"
  shows "(code = 0 \<longleftrightarrow> (\<exists>op. assembleOperator pf getenv version (pgOperator p) = Inr op \<and> outcome op = None)) \<and>
    (code \<noteq> 0 \<longrightarrow> code = 1 \<and> (\<exists>before msg e. evs = before @ [LogError msg e])) \<and>
    (\<forall>op hs. OperatorRan op hs \<in> set evs \<longrightarrow> assembleOperator pf getenv version (pgOperator p) = Inr op \<and>
       hs = httpServer (opAuth op) (pgAuthBind p)) \<and>
    length (filter (\<lambda>ev. \<exists>op hs. ev = OperatorRan op hs) evs) \<le> 1 \<and>
    (TracingFlushed \<in> set evs \<longleftrightarrow> code = 0 \<and> (\<exists>tg. initOpenTelemetry tel getenv = Inr tg))"
proof (cases "assembleOperator pf getenv version (pgOperator p)")
  case (Inl e)
  with assms show ?thesis
    by (auto simp: assembleOperator_def main_def runServices_def exitWith_def deferFlush_def Let_def split: sum.splits option.splits)
next
  case (Inr op)
  then obtain pol where "loadSlugPolicy pf (fgSlugPolicyFile (pgOperator p)) = Inr pol"
      "Validate (fgCeilings (pgOperator p)) = None" "buildOperator pf getenv version pol (pgOperator p) = Inr op"
    by (rule assembled_built)
  with assms Inr show ?thesis
    by (cases "outcome op"; cases "initOpenTelemetry tel getenv")
      (auto simp: main_def runServices_def exitWith_def deferFlush_def Let_def)
qed

text \<open>Whenever the services end with an error after tracing was set up, the spans that are still batched
  are lost: \<^verbatim>\<open>os.Exit\<close> skips the deferred shutdown.\<close>

theorem failure_drops_spans:
  assumes "parseFlags other getenv args = Inr p" and "assembleOperator pf getenv version (pgOperator p) = Inr op"
    and "outcome op = Some e" and "initOpenTelemetry tel getenv = Inr tg"
  shows "\<exists>evs. main pf tel other getenv version args outcome = (1, evs) \<and> TracingStarted tg \<in> set evs \<and> TracingFlushed \<notin> set evs"
proof -
  from assms(2) obtain pol where "loadSlugPolicy pf (fgSlugPolicyFile (pgOperator p)) = Inr pol"
      "Validate (fgCeilings (pgOperator p)) = None" "buildOperator pf getenv version pol (pgOperator p) = Inr op"
    by (rule assembled_built)
  with assms show ?thesis by (simp add: main_def runServices_def exitWith_def deferFlush_def Let_def)
qed

text \<open>Where the outcome is that of a joint run of the two services, code 0 means that the manager returned no
  error and that the listener ended without one once the stop had begun.\<close>

theorem exit_0_means_ordered_stop:
  assumes "parseFlags other getenv args = Inr p" and "main pf tel other getenv version args (\<lambda>_. r) = (0, evs)"
    and "lifecycle_run steps s" and "lcMain s = Finished r"
  shows "ManagerReturns None \<in> set steps \<and> judgedBy steps None"
proof -
  have "r = None"
    using assms(1,2) by (cases r) (auto simp: main_def runServices_def exitWith_def deferFlush_def Let_def split: sum.splits option.splits if_splits)
  moreover obtain m a where "ManagerReturns m \<in> set steps" "judgedBy steps a" "r = errors_join [m, a]"
    using lifecycle_run_inv [OF assms(3)] assms(4) by (auto simp: lifecycleInv_def)
  ultimately show ?thesis using errors_join_None_iff [of "[m, a]"] by auto
qed

text \<open>Without the flag no server of the process offers HTTP/2, whatever protocols the library starts from,
  and metrics over TLS are served to authenticated callers only.\<close>

theorem servers_hardened:
  "\<not> pgEnableHTTP2 p \<Longrightarrow> applyTLS (gmWebhookTLSOpts (managerOptions p)) protos = [''http/1.1''] \<and>
     applyTLS (moTLSOpts (gmMetrics (managerOptions p))) protos = [''http/1.1'']"
  "moSecureServing (gmMetrics (managerOptions p)) \<Longrightarrow> moFiltered (gmMetrics (managerOptions p))"
  by (simp_all add: managerOptions_def metricsServerOptions_def tlsOpts_def applyTLS_def disableHTTP2_def)

text \<open>The deadlines of the listener leave room for one decision: a lookup that uses its whole deadline can
  still be answered, and so can a shutdown.\<close>

theorem deadlines_fit:
  "hsReadTimeout (httpServer srv addr) + authorizationTimeout \<le> hsWriteTimeout (httpServer srv addr) \<and>
   hsReadHeaderTimeout (httpServer srv addr) \<le> hsReadTimeout (httpServer srv addr) \<and> authorizationTimeout \<le> shutdownTimeout"
  by (simp add: httpServer_def authorizationTimeout_def shutdownTimeout_def)

section \<open>Witnesses\<close>

definition quietTelemetry :: telemetry_lib where
  "quietTelemetry = \<lparr>tlNew = (\<lambda>_. None), tlResource = (\<lambda>attrs. Inr attrs)\<rparr>"

definition samplePF :: process_flags where
  "samplePF = (flagDefaults (\<lambda>_. []))\<lparr>pgOperator := sampleFlags\<rparr>"

lemma sample_parse: "parseFlags (\<lambda>_. None) (\<lambda>_. []) (renderFlags samplePF) = Inr samplePF"
  by (rule render_parses) (simp_all add: samplePF_def sampleFlags_def tunedCeilings_def int64_def)

theorem main_exit_witness:
  "\<exists>evs op. main samplePlatform quietTelemetry (\<lambda>_. None) (\<lambda>_. []) ''1'' (renderFlags samplePF) (\<lambda>_. None) = (0, evs) \<and>
     assembleOperator samplePlatform (\<lambda>_. []) ''1'' sampleFlags = Inr op \<and> TracingFlushed \<in> set evs"
proof -
  obtain op where op: "assembleOperator samplePlatform (\<lambda>_. []) ''1'' (pgOperator samplePF) = Inr op"
    using sample_assembled by (auto simp: samplePF_def)
  obtain code evs where run: "main samplePlatform quietTelemetry (\<lambda>_. None) (\<lambda>_. []) ''1'' (renderFlags samplePF) (\<lambda>_. None) = (code, evs)"
    by (metis surj_pair)
  have "\<exists>tg. initOpenTelemetry quietTelemetry (\<lambda>_. []) = Inr tg" by (simp add: initOpenTelemetry_def quietTelemetry_def Let_def)
  moreover note main_exit [OF sample_parse run]
  ultimately have "code = 0" "TracingFlushed \<in> set evs" using op by blast+
  with run op show ?thesis by (auto simp: samplePF_def)
qed

end
