(* ===== verification/Credentials.thy ===== *)
theory Credentials
  imports ByocKeys HostedRoute
begin

text \<open>
  The keys across the components: the token controller issues a key in a secret, the auth server
  (for a hosted instance) and the key file (for an instance on a tenant's cluster) decide whether a
  secret opens the instance.  The contracts between them are locales: on a snapshot a consumer honours what
  the controller promises of a credential and opens only for a secret that is bound to the instance; and
  the loops of the code, whatever they read, admit a secret only for the instance that it is bound to.
\<close>

section \<open>The promise of the provider\<close>

text \<open>What the library documents of controller references: the reference is set as the only owner of
  an object that had none, and a single owner that is marked as controller is the controller.\<close>

definition controllerLaws :: "kube_lib \<Rightarrow> bool" where
  "controllerLaws L =
     ((\<forall>kind owner m m'. omOwners m = [] \<and> setControllerReference L kind owner m = Inr m' \<longrightarrow>
         m' = m\<lparr>omOwners := [\<lparr>orAPIVersion = groupVersion, orKind = kind, orName = omName owner,
           orUID = omUID owner, orController = True\<rparr>]\<rparr>) \<and>
      (\<forall>m ref. omOwners m = [ref] \<and> orController ref \<longrightarrow> getControllerOf L m = Some ref))"

text \<open>How the API stores a secret that it was sent: the string data is merged into the data, the type
  and the metadata of the sender are kept, and the labelling client may have added labels.\<close>

definition storedAs :: "secret \<Rightarrow> secret \<Rightarrow> bool" where
  "storedAs sent sec =
     (keyOf (seMeta sec) = keyOf (seMeta sent) \<and> omLabels (seMeta sent) \<subseteq>\<^sub>m omLabels (seMeta sec) \<and>
      omAnnotations (seMeta sec) = omAnnotations (seMeta sent) \<and> omOwners (seMeta sec) = omOwners (seMeta sent) \<and>
      omDeletion (seMeta sec) = omDeletion (seMeta sent) \<and>
      seType sec = seType sent \<and> seData sec = seData sent ++ seStringData sent)"

text \<open>A credential of an instance as the controller issues it: a live opaque secret beside the
  instance, labelled with the names of the instance and the request and with the slug, bound to the
  instance and its target, controlled by a live request whose status, of the current generation,
  names the secret; and the key is one line.\<close>

definition credentialOf :: "kube_lib \<Rightarrow> snapshot \<Rightarrow> llm_instance \<Rightarrow> string \<Rightarrow> secret \<Rightarrow> string \<Rightarrow> bool" where
  "credentialOf L v inst slug sec key =
     (omNamespace (seMeta sec) = omNamespace (liMeta inst) \<and> seType sec = secretTypeOpaque \<and>
      omDeletion (seMeta sec) = None \<and> boundTo sec inst \<and>
      omLabels (seMeta sec) instanceLabelKey = Some (omName (liMeta inst)) \<and>
      omLabels (seMeta sec) slugKey = Some slug \<and>
      seData sec openAIAPIKeyKey = Some key \<and> lineKey sec = Some key \<and>
      (\<exists>owner tr. getControllerOf L (seMeta sec) = Some owner \<and> orUID owner \<noteq> [] \<and>
         orKind owner = ''APITokenRequest'' \<and> orAPIVersion owner = groupVersion \<and>
         snTokens v (omNamespace (liMeta inst), orName owner) = Some tr \<and> vouches inst sec owner tr))"

section \<open>The contract of a consumer\<close>

locale credential_consumer =
  fixes L :: kube_lib
    and opens :: "snapshot \<Rightarrow> llm_instance \<Rightarrow> secret \<Rightarrow> string \<Rightarrow> bool"
    and mode :: "llm_instance \<Rightarrow> bool"
  assumes honours: "credentialOf L v inst slug sec key \<Longrightarrow> mode inst \<Longrightarrow> opens v inst sec key"
    and binds: "opens v inst sec key \<Longrightarrow> mode inst \<Longrightarrow> boundTo sec inst \<and> getS (seData sec) openAIAPIKeyKey = key"
begin

text \<open>A new incarnation or another target is closed to the secret until it is bound again.\<close>

lemma closed_after_change:
  assumes "\<not> boundTo sec inst" "mode inst"
  shows "\<not> opens v inst sec key"
  using assms binds by blast

end

text \<open>What every loop over secrets promises, whatever it reads meanwhile: it admits a secret only for the
  incarnation and the target that the secret is annotated with, and only with its own key.\<close>

locale bound_door =
  fixes admits :: "'d \<Rightarrow> llm_instance \<Rightarrow> secret \<Rightarrow> string \<Rightarrow> bool"
    and target :: "llm_instance \<Rightarrow> string"
  assumes bound: "admits d inst sec key \<Longrightarrow> secAnnotation sec credentialInstanceAnnotation = omUID (liMeta inst) \<and>
    secAnnotation sec credentialTargetAnnotation = target inst \<and> getS (seData sec) openAIAPIKeyKey = key"
begin

lemma admits_one:
  assumes "admits d inst sec key" "admits d' inst' sec key'"
  shows "omUID (liMeta inst') = omUID (liMeta inst) \<and> target inst' = target inst \<and> key' = key"
  using bound [OF assms(1)] bound [OF assms(2)] by simp

end

text \<open>Two doors whose targets differ never admit the same secret.\<close>

locale separate_doors = a: bound_door admits target + b: bound_door admits' target'
  for admits target admits' target' +
  assumes apart: "admits d inst sec key \<Longrightarrow> admits' d' inst' sec' key' \<Longrightarrow> target inst \<noteq> target' inst'"
begin

lemma never_both: "admits d inst sec key \<Longrightarrow> \<not> admits' d' inst' sec key'"
  using a.bound b.bound apart by fastforce

end

text \<open>The decision of the auth server and that of the key file, as consumers.\<close>

definition opensHosted :: "kube_lib \<Rightarrow> snapshot \<Rightarrow> llm_instance \<Rightarrow> secret \<Rightarrow> string \<Rightarrow> bool" where
  "opensHosted L v inst sec key = (validCredential L v inst sec \<and> getS (seData sec) ''OPENAI_API_KEY'' = key)"

definition remoteMode :: "llm_instance \<Rightarrow> bool" where
  "remoteMode inst = (byocInstance inst \<and> stActiveBYOCTargetID (liStatus inst) \<noteq> [])"

lemma credential_key_names:
  "credentialInstanceKey = credentialInstanceAnnotation" "credentialTargetKey = credentialTargetAnnotation"
  "''llm.privatellms.msp/instance'' = instanceLabelKey" "slugKey = slugAnnotationKey" "''OPENAI_API_KEY'' = openAIAPIKeyKey"
  by (simp_all add: credentialInstanceKey_def credentialTargetKey_def slugKey_def token_keys)

interpretation hosted: credential_consumer L "opensHosted L" "\<lambda>inst. \<not> byocInstance inst" for L
proof
  fix v inst slug sec key
  assume "credentialOf L v inst slug sec key" "\<not> byocInstance inst"
  then show "opensHosted L v inst sec key"
    unfolding credentialOf_def opensHosted_def validCredential_def boundSecret_def tokenOwner_def credential_key_names
    by (auto simp: boundTo_def targetOf_def lookupD_def)
next
  fix v inst sec key
  assume "opensHosted L v inst sec key" "\<not> byocInstance inst"
  then show "boundTo sec inst \<and> getS (seData sec) openAIAPIKeyKey = key"
    unfolding opensHosted_def validCredential_def boundSecret_def credential_key_names
    by (simp add: boundTo_def targetOf_def)
qed

interpretation remote: credential_consumer L "opensTarget L" remoteMode for L
proof
  fix v inst slug sec key
  assume c: "credentialOf L v inst slug sec key" and m: "remoteMode inst"
  then obtain owner tr where "getControllerOf L (seMeta sec) = Some owner" "orKind owner = ''APITokenRequest''"
      "orAPIVersion owner = groupVersion" "snTokens v (omNamespace (liMeta inst), orName owner) = Some tr"
      "requestVouches inst sec owner tr"
    by (auto simp: credentialOf_def vouches_def requestVouches_def)
  with c m show "opensTarget L v inst sec key"
    by (auto simp: opensTarget_def credentialOf_def boundToTarget_def boundTo_def targetOf_def remoteMode_def)
next
  fix v inst sec key
  assume "opensTarget L v inst sec key" "remoteMode inst"
  then show "boundTo sec inst \<and> getS (seData sec) openAIAPIKeyKey = key"
    by (auto simp: opensTarget_def boundToTarget_def boundTo_def targetOf_def remoteMode_def lineKey_def lookupD_def
        split: option.splits if_splits)
qed

text \<open>Does the code accept this secret, alone, for the instance and with this key?  At the first door the loop
  of the auth server says so, at the second the loop that collects the keys of the file.\<close>

definition authAdmits :: "'w auth_server \<Rightarrow> llm_instance \<Rightarrow> secret \<Rightarrow> string \<Rightarrow> bool" where
  "authAdmits srv inst sec key = (\<exists>a a'. authorizeSecrets srv inst key [sec] a = (Inr True, a'))"

definition fileAdmits :: "'w instance_reconciler \<Rightarrow> llm_instance \<Rightarrow> secret \<Rightarrow> string \<Rightarrow> bool" where
  "fileAdmits r inst sec key = (\<exists>a a' keys. collectKeys r inst [sec] a = (Inr keys, a') \<and> key \<in> set keys)"

lemma acceptedKeys_bound: "k \<in> set (acceptedKeys inst sec owner tr) \<Longrightarrow> boundToTarget inst sec \<and> lineKey sec = Some k"
  by (auto simp: acceptedKeys_def split: option.splits if_splits)

lemma collectKeys_one:
  "collectKeys r inst [sec] =
     (case keyOwner (irLib r) sec of
        None \<Rightarrow> retE []
      | Some owner \<Rightarrow>
          tryE (getObj (tokenRequests (irClient r)) (omNamespace (liMeta inst), orName owner))
            (\<lambda>e. if isNotFound e then retE [] else failE (APIErr e)) (\<lambda>tr. retE (acceptedKeys inst sec owner tr)))"
  unfolding collectKeys.simps by (simp add: bindE_def tryE_def retE_def cong: option.case_cong)

lemma fileAdmits_bound:
  assumes "fileAdmits r inst sec key"
  shows "boundToTarget inst sec \<and> lineKey sec = Some key"
proof -
  have "yields (collectKeys r inst [sec]) (\<lambda>keys. \<forall>k \<in> set keys. boundToTarget inst sec \<and> lineKey sec = Some k)"
    unfolding collectKeys_one by (intro yields_intros yields_tryE [OF yields_getObj]) (auto dest: acceptedKeys_bound)
  with assms show ?thesis unfolding fileAdmits_def by (auto dest: yieldsD)
qed

interpretation auth_loop: bound_door authAdmits "\<lambda>_. []"
proof
  fix srv :: "'w auth_server" and inst sec key
  assume "authAdmits srv inst sec key"
  then obtain a a' where "authorizeSecrets srv inst key [sec] a = (Inr True, a')" by (auto simp: authAdmits_def)
  then have "getS (seData sec) ''OPENAI_API_KEY'' = key" "boundSecret inst sec"
    using authorizeSecrets_sound [of srv inst key "[sec]" a] by (auto simp: wp_Inr credentialSeen_def)
  then show "secAnnotation sec credentialInstanceAnnotation = omUID (liMeta inst) \<and>
      secAnnotation sec credentialTargetAnnotation = [] \<and> getS (seData sec) openAIAPIKeyKey = key"
    unfolding boundSecret_def credential_key_names by simp
qed

interpretation file_loop: bound_door fileAdmits "\<lambda>inst. stActiveBYOCTargetID (liStatus inst)"
proof
  fix r :: "'w instance_reconciler" and inst sec key
  assume "fileAdmits r inst sec key"
  from fileAdmits_bound [OF this]
  show "secAnnotation sec credentialInstanceAnnotation = omUID (liMeta inst) \<and>
      secAnnotation sec credentialTargetAnnotation = stActiveBYOCTargetID (liStatus inst) \<and> getS (seData sec) openAIAPIKeyKey = key"
    by (auto simp: boundToTarget_def lineKey_def lookupD_def split: option.splits if_splits)
qed

interpretation doors: separate_doors authAdmits "\<lambda>_. []" fileAdmits "\<lambda>inst. stActiveBYOCTargetID (liStatus inst)"
  by unfold_locales (use fileAdmits_bound in \<open>fastforce simp: boundToTarget_def\<close>)

section \<open>The first run for a request\<close>

text \<open>The request with the status that \<open>updateReadyStatus\<close> sends.\<close>

definition readyRequest :: "token_request \<Rightarrow> string \<Rightarrow> time \<Rightarrow> token_request" where
  "readyRequest tr name now =
     (let tr1 = setTRStatusCondition tr (newCondition readyType conditionTrue ''Provisioned'' ''Token generated'' now)
      in tr1\<lparr>trStatus := (trStatus tr1)\<lparr>ttSecretName := name, ttPhase := ''Ready'',
           ttObservedGeneration := omGeneration (trMeta tr1)\<rparr>\<rparr>)"

lemma readyRequest_status [simp]:
  "ttSecretName (trStatus (readyRequest tr name now)) = name" "trSpec (readyRequest tr name now) = trSpec tr"
  "ttObservedGeneration (trStatus (readyRequest tr name now)) = omGeneration (trMeta tr)"
  "trMeta (readyRequest tr name now) = trMeta tr" "ttPhase (trStatus (readyRequest tr name now)) = ''Ready''"
  by (simp_all add: readyRequest_def setTRStatusCondition_def)

lemma generateToken_run:
  assumes "generateToken h n s = (Inr token, s')"
  shows "journal s' = journal s \<and> (\<exists>b. randRead h n (world s) = (Inr b, world s') \<and> token = base64Raw b)"
  using assms
  by (auto simp: generateToken_def bindE_def tryE_def randE_def retE_def failE_def trimRight_base64Encode
      split: prod.splits sum.splits)

lemma createSecret_run:
  assumes "createSecret r tr inst name slug endpoint s = (Inr (), s')"
  shows "\<exists>b m w w'. randRead (tcHost r) 32 w = (Inr b, w') \<and>
    setControllerReference (tcLib r) ''APITokenRequest'' (trMeta tr)
      (seMeta (mintedSecret tr inst name slug endpoint (base64Raw b))) = Inr m \<and>
    journal s' = journal s @ [Write LocalCluster WCreate (OSec ((mintedSecret tr inst name slug endpoint (base64Raw b))\<lparr>seMeta := m\<rparr>))]"
proof -
  obtain token s1 where t: "generateToken (tcHost r) 32 s = (Inr token, s1)"
    using assms by (auto simp: createSecret_def bindE_def tryE_def failE_def split: prod.splits sum.splits)
  from generateToken_run [OF this] obtain b where b: "randRead (tcHost r) 32 (world s) = (Inr b, world s1)"
      "token = base64Raw b" "journal s1 = journal s"
    by blast
  have "\<exists>m. setControllerReference (tcLib r) ''APITokenRequest'' (trMeta tr)
      (seMeta (mintedSecret tr inst name slug endpoint token)) = Inr m \<and>
    journal s' = journal s1 @ [Write LocalCluster WCreate (OSec ((mintedSecret tr inst name slug endpoint token)\<lparr>seMeta := m\<rparr>))]"
    using assms t
    by (auto simp: createSecret_def Let_def bindE_def tryE_def failE_def retE_def liftE_def apiE_def createObj_def writeWith_def
        split: prod.splits sum.splits if_splits)
  with b(1) show ?thesis unfolding b(2,3) by blast
qed

text \<open>A successful run that finds the request finalizable, the instance usable and no secret yet sends
  exactly two writes: the secret and the status.\<close>

lemma first_run:
  assumes "readsFrom v (tcClient r)" "snTokens v req = Some tr" "snInstances v (fst req, tsInstanceName (trSpec tr)) = Some inst"
    and "omDeletion (trMeta tr) = None" "containsFinalizer (tcLib r) (trMeta tr) apiTokenRequestFinalizer" "usable r inst"
    and "\<And>w. kGet (secrets (tcClient r)) (omNamespace (trMeta tr), omName (trMeta tr) @ ''-token'') w = (foundOr404 None, w)"
    and "Reconcile r req s = (Inr res, s')"
  shows "\<exists>b m w w' now. randRead (tcHost r) 32 w = (Inr b, w') \<and>
    (let new = mintedSecret tr inst (omName (trMeta tr) @ ''-token'') (selectedSlug (tcSlugPolicy r) inst)
           (publishedEndpoint inst) (base64Raw b)
     in setControllerReference (tcLib r) ''APITokenRequest'' (trMeta tr) (seMeta new) = Inr m \<and>
        journal s' = journal s @ [Write LocalCluster WCreate (OSec (new\<lparr>seMeta := m\<rparr>)),
          Write LocalCluster WStatusUpdate (OTok (readyRequest tr (omName (trMeta tr) @ ''-token'') now))])"
proof -
  let ?name = "omName (trMeta tr) @ ''-token''" and ?slug = "selectedSlug (tcSlugPolicy r) inst"
  have rd: "getObj (tokenRequests (tcClient r)) k = liftE (foundOr404 (snTokens v k))"
    "getObj (instances (tcClient r)) k = liftE (foundOr404 (snInstances v k))" for k
    by (rule getObj_reads, use assms(1) in \<open>unfold readsFrom_def, blast\<close>)+
  have sec: "getObj (secrets (tcClient r)) (omNamespace (trMeta tr), ?name) = liftE (foundOr404 None)"
    by (rule getObj_reads) (rule assms(7))
  have "Reconcile r req = bindE (createSecret r tr inst ?name ?slug (publishedEndpoint inst)) (\<lambda>_.
      bindE (updateReadyStatus r tr ?name) (\<lambda>_. retE doneResult))"
    using assms(2-6) unfolding Reconcile_def rd
    by (auto simp: foundOr404_def liftE_def tryE_def bindE_def retE_def failE_def ensureFinalizer_def reconcileReferenced_def usable_def
        ensureSecret_def sec isNotFound_def Let_def fun_eq_iff split: prod.splits sum.splits)
  with assms(8) obtain s1 where c: "createSecret r tr inst ?name ?slug (publishedEndpoint inst) s = (Inr (), s1)"
    and u: "bindE (updateReadyStatus r tr ?name) (\<lambda>_. retE doneResult) s1 = (Inr res, s')"
    by (auto simp: bindE_def tryE_def failE_def split: prod.splits sum.splits)
  from u obtain now where
    "journal s' = journal s1 @ [Write LocalCluster WStatusUpdate (OTok (readyRequest tr ?name now))]"
    by (auto simp: updateReadyStatus_def readyRequest_def Let_def bindE_def tryE_def failE_def retE_def apiE_def nowE_def
        statusUpdateObj_def writeWith_def split: prod.splits sum.splits)
  with createSecret_run [OF c] show ?thesis by (fastforce simp: Let_def)
qed

section \<open>What is stored is a credential\<close>

definition fullReads :: "'w host \<Rightarrow> bool" where
  "fullReads h = (\<forall>n w b w'. randRead h n w = (Inr b, w') \<longrightarrow> length b = n)"

lemma base64Raw_line:
  assumes "c \<in> set (base64Raw b)"
  shows "c \<noteq> CHR 0x0A" "c \<noteq> CHR 0x0D" "c \<notin> spaceBytes"
  using base64Raw_alphabet [of b] assms by (auto simp: base64Alphabet_def spaceBytes_def)

lemma minted_fields:
  fixes tr :: token_request and inst :: llm_instance and name slug endpoint token :: string
  defines "new \<equiv> mintedSecret tr inst name slug endpoint token"
  shows "keyOf (seMeta new) = (omNamespace (trMeta tr), name)" "omOwners (seMeta new) = []" "seType new = secretTypeOpaque"
    "omDeletion (seMeta new) = None" "(seData new ++ seStringData new) openAIAPIKeyKey = Some token"
    "omLabels (seMeta new) instanceLabelKey = Some (omName (liMeta inst))"
    "omLabels (seMeta new) ''llm.privatellms.msp/apitokenrequest'' = Some (omName (trMeta tr))"
    "slug \<noteq> [] \<Longrightarrow> omLabels (seMeta new) slugKey = Some slug"
  unfolding new_def
  by (simp_all add: mintedSecret_def newTokenSecret_def setAnnotation_def keyOf_def newMeta_def Let_def token_keys slugKey_def)

text \<open>The state after the run: the secret and the status are stored, the instance is as it was.\<close>

definition storedRun :: "snapshot \<Rightarrow> key \<Rightarrow> token_request \<Rightarrow> secret \<Rightarrow> bool" where
  "storedRun v req t sent =
     ((\<exists>t'. snTokens v req = Some t' \<and> trSpec t' = trSpec t \<and> trStatus t' = trStatus t \<and>
         omName (trMeta t') = omName (trMeta t) \<and> omUID (trMeta t') = omUID (trMeta t) \<and>
         omGeneration (trMeta t') = omGeneration (trMeta t) \<and> omDeletion (trMeta t') = omDeletion (trMeta t)) \<and>
      (\<exists>sec \<in> set (snSecrets v). storedAs sent sec))"

lemma minted_credential:
  assumes laws: "controllerLaws L" and tr: "keyOf (trMeta tr) = req" "omUID (trMeta tr) \<noteq> []" "omDeletion (trMeta tr) = None"
    and inst: "keyOf (liMeta inst) = (fst req, tsInstanceName (trSpec tr))" "omUID (liMeta inst) \<noteq> []"
    and new: "slug \<noteq> []" "key = base64Raw b" "b \<noteq> []" "new = mintedSecret tr inst name slug endpoint key"
    and ref: "setControllerReference L ''APITokenRequest'' (trMeta tr) (seMeta new) = Inr m"
    and st: "storedRun v req (readyRequest tr name now) (new\<lparr>seMeta := m\<rparr>)"
  shows "\<exists>sec \<in> set (snSecrets v). credentialOf L v inst slug sec key"
proof -
  let ?ref = "\<lparr>orAPIVersion = groupVersion, orKind = ''APITokenRequest'', orName = omName (trMeta tr),
      orUID = omUID (trMeta tr), orController = True\<rparr>"
  note f = minted_fields [where tr = tr and inst = inst and name = name and slug = slug and endpoint = endpoint and token = key,
      folded new(4)]
  have m: "m = (seMeta new)\<lparr>omOwners := [?ref]\<rparr>"
    using laws ref f(2) unfolding controllerLaws_def by blast
  from st obtain sec t' where sec: "sec \<in> set (snSecrets v)" "storedAs (new\<lparr>seMeta := m\<rparr>) sec"
    and t': "snTokens v req = Some t'" "trSpec t' = trSpec tr" "trStatus t' = trStatus (readyRequest tr name now)"
      "omName (trMeta t') = omName (trMeta tr)" "omUID (trMeta t') = omUID (trMeta tr)"
      "omGeneration (trMeta t') = omGeneration (trMeta tr)" "omDeletion (trMeta t') = omDeletion (trMeta tr)"
    unfolding storedRun_def by auto
  have lab: "omLabels (seMeta new) k = Some x \<Longrightarrow> omLabels (seMeta sec) k = Some x" for k x
    using sec(2) by (auto simp: storedAs_def m map_le_def dom_def)
  have s: "keyOf (seMeta sec) = (omNamespace (trMeta tr), name)" "seType sec = secretTypeOpaque" "omDeletion (seMeta sec) = None"
    "seData sec openAIAPIKeyKey = Some key" "omOwners (seMeta sec) = [?ref]" "omAnnotations (seMeta sec) = omAnnotations (seMeta new)"
    using sec(2) f by (simp_all add: storedAs_def m keyOf_def)
  have "getControllerOf L (seMeta sec) = Some ?ref"
    using laws s(5) unfolding controllerLaws_def by force
  moreover have "boundTo sec inst"
    using minted_bound [OF inst(2), of tr name slug endpoint key] by (simp add: boundTo_def s(6) new(4))
  moreover have "lineKey sec = Some key"
    using s(4) new(2,3) base64Raw_line by (cases b) (auto simp: lineKey_def dest: arg_cong [where f = length] simp: length_base64Raw)
  moreover have "vouches inst sec ?ref t'"
    using t' tr inst s(1) lab [OF f(7)] by (simp add: vouches_def keyOf_def lookupD_def)
  ultimately have "credentialOf L v inst slug sec key"
    unfolding credentialOf_def using s(1-4) lab f(6,8) new(1) tr inst t'(1) by (auto simp: keyOf_def)
  with sec(1) show ?thesis by blast
qed

section \<open>The doors open\<close>

lemma bearer_key:
  assumes "b \<noteq> []"
  shows "bearerToken (''Bearer '' @ base64Raw b) = Some (base64Raw b)"
proof -
  have "trimSpace (base64Raw b) = base64Raw b" using base64Raw_line(3) by (intro trimSpace_id) blast
  moreover have "base64Raw b \<noteq> []" using assms length_base64Raw [of b] by (cases b) auto
  ultimately show ?thesis
    by (simp add: bearerToken_def trimPrefix_def Let_def)
qed

lemma usable_routed:
  assumes "usable r inst" "\<not> byocInstance inst"
  shows "routedTo (tcSlugPolicy r) (routeBinding inst (selectedSlug (tcSlugPolicy r) inst)) inst"
  using assms
  by (auto simp: usable_def selectedSlug_def routedTo_def routeBinding_def instanceReady_def byocInstance_def
      split: sum.splits option.splits if_splits)

lemma hosted_door:
  assumes v: "readsFrom v (asK8sClient srv)" "snInstances v (keyOf (liMeta inst)) = Some inst" "sec \<in> set (snSecrets v)"
    and c: "credentialOf (asLib srv) v inst slug sec key" "bearerToken header = Some key"
    and i: "\<not> byocInstance inst" "routedTo (asSlugPolicy srv) (routeBinding inst slug) inst" "wellNamed (asLib srv) inst slug"
  shows "\<exists>resp. verifyHandler srv \<lparr>rqRawQuery = authQuery inst slug, rqAuthorization = header\<rparr> a = (Inr resp, a) \<and> rpStatus resp = 200"
proof -
  have "opensHosted (asLib srv) v inst sec key" using c(1) i(1) by (rule hosted.honours)
  with v(2,3) c(1) i(2) have "grants (asLib srv) (asSlugPolicy srv) v (routeBinding inst slug) key"
    by (auto simp: grants_def routeBinding_def keyOf_def opensHosted_def credentialOf_def)
  with i(3) c(2) show ?thesis
    unfolding verifyHandler_def authorize_refines [OF v(1)]
    by (simp add: parseBinding_authQuery wellNamed_def tryE_def retE_def)
qed

lemma keyfile_holds:
  assumes "sec \<in> set (snSecrets v)" "opensTarget L v inst sec key"
  shows "key \<in> set (splitOn (CHR 0x0A) (joinStr (sort (fileKeys L v inst)) newline @ newline)) \<and> fileKeys L v inst \<noteq> []"
proof -
  have k: "key \<in> set (fileKeys L v inst)" using assms set_fileKeys by blast
  have "\<forall>k \<in> set (sort (fileKeys L v inst)). CHR 0x0A \<notin> set k"
    unfolding set_sort set_fileKeys opensTarget_def using lineKey_line by blast
  moreover have "sort (fileKeys L v inst) \<noteq> []" using k by (metis empty_iff list.set(1) set_sort)
  ultimately show ?thesis using k keyfile_lines by fastforce
qed

lemma remote_door:
  assumes "readsFrom v (irClient ir)" "sec \<in> set (snSecrets v)" "credentialOf (irLib ir) v inst slug sec key" "remoteMode inst"
  shows "\<exists>file. desiredAPIKeyFile ir rem inst slug' a = (Inr (file, False), a) \<and> key \<in> set (splitOn (CHR 0x0A) file)"
proof -
  have "opensTarget (irLib ir) v inst sec key" using assms(3,4) by (rule remote.honours)
  from keyfile_holds [OF assms(2) this] show ?thesis
    by (simp add: desiredAPIKeyFile_refines [OF assms(1)] retE_def)
qed

section \<open>The label of the request\<close>

abbreviation requestLabel :: string where
  "requestLabel \<equiv> ''llm.privatellms.msp/apitokenrequest''"

lemma rotate_labels: "yields (rotateTokenForTarget h sec inst0 allow slug) (\<lambda>(sec', ch). omLabels (seMeta sec') = omLabels (seMeta sec))"
proof (cases inst0)
  case None
  then show ?thesis by (simp add: rotateTokenForTarget_def yields_retE)
next
  case (Some inst)
  show ?thesis unfolding Some rotate_cases
    by (intro yields_intros yields_bindE [OF yields_True])
      (simp_all add: rebind_def setAnnotation_def dropAnnotation_def setData_def)
qed

lemma applySecretMutations_label:
  assumes "applySecretMutations sec name slug endpoint = (sec', u)"
  shows "secLabel sec' requestLabel = secLabel sec requestLabel"
proof -
  have "sec' = fst (applySecretMutations sec name slug endpoint)" using assms by simp
  moreover have "requestLabel \<noteq> instanceLabelKey" "requestLabel \<noteq> compatibilityLabelKey" "requestLabel \<noteq> slugAnnotationKey"
    by (simp_all add: token_keys)
  ultimately show ?thesis by (simp only: applySecretMutations_def Let_def if_distrib [of fst] prod.case_distrib) (auto split: if_splits)
qed

lemma emits_ensureSecret_label:
  assumes "\<And>w. kGet (secrets (tcClient r)) (omNamespace (trMeta tr), name) w = (Inr old, w)"
  shows "emits (\<lambda>w. \<forall>c op sec. w = Write c op (OSec sec) \<longrightarrow> secLabel sec requestLabel = secLabel old requestLabel)
    (ensureSecret r tr inst name slug endpoint)"
proof -
  let ?G = "\<lambda>w. \<forall>c op sec. w = Write c op (OSec sec) \<longrightarrow> secLabel sec requestLabel = secLabel old requestLabel"
  have g: "getObj (secrets (tcClient r)) (omNamespace (trMeta tr), name) = liftE (Inr old)"
    by (rule getObj_reads) (rule assms)
  have t: "tryE (liftE (Inr old)) f k = k old" for f k
    by (simp add: tryE_def liftE_def fun_eq_iff)
  have touch: "emits ?G (touchAPITokenRequest r tr v)" for v
    unfolding touchAPITokenRequest_def by (intro emits_intros) simp
  show ?thesis
    unfolding ensureSecret_def g t
    by (intro emits_if emits_failE emits_bind [OF emits_rotate rotate_labels] emits_case_prod emits_bindE touch
        emits_apiE emits_updateObj emits_retE)
      (auto dest!: applySecretMutations_label)
qed

section \<open>Properties\<close>

text \<open>\<^bold>\<open>C4.\<close> A fresh key works: a run of the token controller that succeeds for a new request on a usable instance
  sends exactly two writes, a secret with a new key and the Ready status.  Once the API has stored
  both, and while the instance stays as it was, the key opens the instance: of a hosted instance, the
  auth server answers 200 to the key at the address that the route of the instance asks; of an
  instance on a tenant's cluster, the key is a line of the key file delivered there.\<close>

theorem fresh_key_works:
  assumes "controllerLaws (tcLib r)" and "fullReads (tcHost r)"
    and "readsFrom v0 (tcClient r)" and "snTokens v0 req = Some tr" and "keyOf (trMeta tr) = req" and "omUID (trMeta tr) \<noteq> []"
    and "omDeletion (trMeta tr) = None" and "containsFinalizer (tcLib r) (trMeta tr) apiTokenRequestFinalizer"
    and "snInstances v0 (fst req, tsInstanceName (trSpec tr)) = Some inst"
    and "keyOf (liMeta inst) = (fst req, tsInstanceName (trSpec tr))" and "usable r inst"
    and "\<And>w. kGet (secrets (tcClient r)) (omNamespace (trMeta tr), omName (trMeta tr) @ ''-token'') w = (foundOr404 None, w)"
    and "Reconcile r req s = (Inr res, s')"
  shows "\<exists>sent t key. journal s' = journal s @ [Write LocalCluster WCreate (OSec sent), Write LocalCluster WStatusUpdate (OTok t)] \<and>
    ttPhase (trStatus t) = ''Ready'' \<and> seStringData sent openAIAPIKeyKey = Some key \<and> length key = 43 \<and>
    (\<forall>v. storedRun v req t sent \<and> snInstances v (keyOf (liMeta inst)) = Some inst \<longrightarrow>
       (\<forall>(srv :: 'a auth_server) a. \<not> byocInstance inst \<and> readsFrom v (asK8sClient srv) \<and> asLib srv = tcLib r \<and> asSlugPolicy srv = tcSlugPolicy r \<and>
        wellNamed (tcLib r) inst (selectedSlug (tcSlugPolicy r) inst) \<longrightarrow>
          (\<exists>resp. verifyHandler srv \<lparr>rqRawQuery = authQuery inst (selectedSlug (tcSlugPolicy r) inst),
             rqAuthorization = ''Bearer '' @ key\<rparr> a = (Inr resp, a) \<and> rpStatus resp = 200)) \<and>
       (\<forall>(ir :: 'b instance_reconciler) rem slug b. byocInstance inst \<and> readsFrom v (irClient ir) \<and> irLib ir = tcLib r \<longrightarrow>
          (\<exists>file. desiredAPIKeyFile ir rem inst slug b = (Inr (file, False), b) \<and> key \<in> set (splitOn (CHR 0x0A) file))))"
proof -
  let ?name = "omName (trMeta tr) @ ''-token''" and ?slug = "selectedSlug (tcSlugPolicy r) inst"
  let ?new = "\<lambda>key. mintedSecret tr inst ?name ?slug (publishedEndpoint inst) key"
  obtain bytes m w w' now where run: "randRead (tcHost r) 32 w = (Inr bytes, w')"
      "setControllerReference (tcLib r) ''APITokenRequest'' (trMeta tr) (seMeta (?new (base64Raw bytes))) = Inr m"
      "journal s' = journal s @ [Write LocalCluster WCreate (OSec ((?new (base64Raw bytes))\<lparr>seMeta := m\<rparr>)),
         Write LocalCluster WStatusUpdate (OTok (readyRequest tr ?name now))]"
    using first_run [OF assms(3,4,9,7,8,11,12,13)] unfolding Let_def by blast
  have len: "length bytes = 32" using assms(2) run(1) unfolding fullReads_def by blast
  then have ne: "bytes \<noteq> []" by auto
  have slug: "?slug \<noteq> []" using assms(11) by (simp add: usable_def)
  have cred: "\<exists>sec \<in> set (snSecrets v). credentialOf (tcLib r) v inst ?slug sec (base64Raw bytes)"
    if "storedRun v req (readyRequest tr ?name now) ((?new (base64Raw bytes))\<lparr>seMeta := m\<rparr>)" for v
    using minted_credential [OF assms(1,5,6,7,10) selectedSlug_uid [OF slug] slug refl ne refl run(2) that] .
  have "seStringData (?new (base64Raw bytes)) openAIAPIKeyKey = Some (base64Raw bytes)"
    by (simp add: mintedSecret_def newTokenSecret_def setAnnotation_def Let_def)
  moreover have "\<exists>resp. verifyHandler srv \<lparr>rqRawQuery = authQuery inst ?slug,
             rqAuthorization = ''Bearer '' @ base64Raw bytes\<rparr> a = (Inr resp, a) \<and> rpStatus resp = 200"
    if "storedRun v req (readyRequest tr ?name now) ((?new (base64Raw bytes))\<lparr>seMeta := m\<rparr>)"
      "snInstances v (keyOf (liMeta inst)) = Some inst" "\<not> byocInstance inst" "readsFrom v (asK8sClient srv)"
      "asLib srv = tcLib r" "asSlugPolicy srv = tcSlugPolicy r" "wellNamed (tcLib r) inst ?slug" for v and srv :: "'a auth_server" and a
    using cred [OF that(1)] hosted_door [OF that(4,2) _ _ bearer_key [OF ne] that(3)] usable_routed [OF assms(11) that(3)] that(5-7)
    by auto
  moreover have "\<exists>file. desiredAPIKeyFile ir rem inst slug b = (Inr (file, False), b) \<and> base64Raw bytes \<in> set (splitOn (CHR 0x0A) file)"
    if "storedRun v req (readyRequest tr ?name now) ((?new (base64Raw bytes))\<lparr>seMeta := m\<rparr>)"
      "byocInstance inst" "readsFrom v (irClient ir)" "irLib ir = tcLib r" for v and ir :: "'b instance_reconciler" and rem slug b
    using cred [OF that(1)] remote_door [OF that(3)] that(2,4) usable_target [OF assms(11)] by (auto simp: remoteMode_def)
  ultimately show ?thesis
    using run(3) len by (intro exI [of _ "(?new (base64Raw bytes))\<lparr>seMeta := m\<rparr>"] exI [of _ "readyRequest tr ?name now"]
      exI [of _ "base64Raw bytes"]) (auto simp: length_base64Raw)
qed

text \<open>\<^bold>\<open>C5.\<close> A credential opens one instance.  If the loop of an auth server, or the loop that fills the key
  file of a tenant's server, accepts a secret for one instance, and the same or another loop, on
  another replica and at any other time, accepts it for an instance, then both instances are the same
  incarnation, the key is the same, both are the same kind of door, and on tenants' clusters the
  active target is the same and known.  So after an instance is created anew, moved to another cluster
  or brought home, the old credential is refused until it is bound again.\<close>

theorem keys_isolated:
  fixes srv srv' :: "'w auth_server" and r r' :: "'w instance_reconciler"
  shows "(authorizeSecrets srv inst key [sec] a = (Inr True, a') \<and> authorizeSecrets srv' inst' key' [sec] b = (Inr True, b') \<longrightarrow>
      omUID (liMeta inst') = omUID (liMeta inst) \<and> key' = key) \<and>
    (collectKeys r inst [sec] a = (Inr keys, a') \<and> key \<in> set keys \<and> collectKeys r' inst' [sec] b = (Inr keys', b') \<and> key' \<in> set keys' \<longrightarrow>
      omUID (liMeta inst') = omUID (liMeta inst) \<and> stActiveBYOCTargetID (liStatus inst') = stActiveBYOCTargetID (liStatus inst) \<and>
      stActiveBYOCTargetID (liStatus inst) \<noteq> [] \<and> key' = key) \<and>
    (authorizeSecrets srv inst key [sec] a = (Inr True, a') \<and> collectKeys r inst' [sec] b = (Inr keys, b') \<longrightarrow> keys = [])"
proof (intro conjI impI)
  assume "authorizeSecrets srv inst key [sec] a = (Inr True, a') \<and> authorizeSecrets srv' inst' key' [sec] b = (Inr True, b')"
  then have "authAdmits srv inst sec key" "authAdmits srv' inst' sec key'" unfolding authAdmits_def by blast+
  then show "omUID (liMeta inst') = omUID (liMeta inst)" "key' = key" using auth_loop.admits_one by blast+
next
  assume "collectKeys r inst [sec] a = (Inr keys, a') \<and> key \<in> set keys \<and> collectKeys r' inst' [sec] b = (Inr keys', b') \<and> key' \<in> set keys'"
  then have "fileAdmits r inst sec key" "fileAdmits r' inst' sec key'" unfolding fileAdmits_def by blast+
  then show "omUID (liMeta inst') = omUID (liMeta inst)" "stActiveBYOCTargetID (liStatus inst') = stActiveBYOCTargetID (liStatus inst)"
    "key' = key" "stActiveBYOCTargetID (liStatus inst) \<noteq> []"
    using file_loop.admits_one fileAdmits_bound [of r inst sec key] unfolding boundToTarget_def by blast+
next
  assume both: "authorizeSecrets srv inst key [sec] a = (Inr True, a') \<and> collectKeys r inst' [sec] b = (Inr keys, b')"
  then have "authAdmits srv inst sec key" unfolding authAdmits_def by blast
  then have "\<not> fileAdmits r inst' sec k" for k by (rule doors.never_both)
  with both show "keys = []" unfolding fileAdmits_def by (metis list.set_intros(1) neq_Nil_conv)
qed

text \<open>\<^bold>\<open>C28.\<close> A lost label is never restored: when the secret of a request has lost the label that names the request
  (or carries another value), a run on a usable instance still ends with the status Ready, every
  secret it writes keeps the wrong label, and no auth server ever accepts such a secret of the request,
  where the API serves requests under their own names.\<close>

theorem lost_label_denied:
  assumes "usable r inst" and "secLabel old requestLabel \<noteq> omName (trMeta tr)" and "omNamespace (liMeta inst) = omNamespace (trMeta tr)"
    and "\<And>w. kGet (secrets (tcClient r)) (omNamespace (trMeta tr), omName (trMeta tr) @ ''-token'') w = (Inr old, w)"
    and "reconcileReferenced r tr inst s = (Inr res, s')" and "journal s = []"
  shows "(\<exists>t. last (journal s') = Write LocalCluster WStatusUpdate (OTok t) \<and> ttPhase (trStatus t) = ''Ready'' \<and>
       ttSecretName (trStatus t) = omName (trMeta tr) @ ''-token'') \<and>
    (\<forall>c op sec. Write c op (OSec sec) \<in> set (journal s') \<longrightarrow> secLabel sec requestLabel = secLabel old requestLabel) \<and>
    (\<forall>(srv :: 'v auth_server) inst' sec a a'. secLabel sec requestLabel = secLabel old requestLabel \<and> ownsTokenSecret (tcLib r) tr sec \<and>
       asLib srv = tcLib r \<and> (\<forall>k t. serves (tokenRequests (asK8sClient srv)) k t \<longrightarrow> snd k = omName (trMeta t)) \<longrightarrow>
       ownsToken srv inst' sec a \<noteq> (Inr True, a'))"
proof -
  let ?name = "omName (trMeta tr) @ ''-token''"
  have "reconcileReferenced r tr inst = bindE (ensureSecret r tr inst ?name (selectedSlug (tcSlugPolicy r) inst) (publishedEndpoint inst))
      (\<lambda>tr1. bindE (updateReadyStatus r tr1 ?name) (\<lambda>_. retE doneResult))"
    using assms(1) by (simp add: reconcileReferenced_def usable_def Let_def)
  with assms(5) obtain tr1 s1 where e: "ensureSecret r tr inst ?name (selectedSlug (tcSlugPolicy r) inst) (publishedEndpoint inst) s = (Inr tr1, s1)"
    and u: "bindE (updateReadyStatus r tr1 ?name) (\<lambda>_. retE doneResult) s1 = (Inr res, s')"
    by (auto simp: bindE_def tryE_def failE_def split: prod.splits sum.splits)
  from u obtain now where j: "journal s' = journal s1 @ [Write LocalCluster WStatusUpdate (OTok (readyRequest tr1 ?name now))]"
    by (auto simp: updateReadyStatus_def readyRequest_def Let_def bindE_def tryE_def failE_def retE_def apiE_def nowE_def
        statusUpdateObj_def writeWith_def split: prod.splits sum.splits)
  have "secLabel sec requestLabel = secLabel old requestLabel" if "Write c op (OSec sec) \<in> set (journal s1)" for c op sec
    using emits_from_empty [OF emits_ensureSecret_label [OF assms(4)] assms(6)] that e by (metis snd_conv)
  moreover have "ownsToken srv inst' sec a \<noteq> (Inr True, a')"
    if "secLabel sec requestLabel = secLabel old requestLabel" "ownsTokenSecret (tcLib r) tr sec" "asLib srv = tcLib r"
      "\<forall>k t. serves (tokenRequests (asK8sClient srv)) k t \<longrightarrow> snd k = omName (trMeta t)" for srv :: "'v auth_server" and inst' sec a a'
  proof
    assume "ownsToken srv inst' sec a = (Inr True, a')"
    with ownsToken_sound [of srv inst' sec a] have "credentialSeen srv inst' sec" by (simp add: wp_Inr)
    with that assms(2) show False
      by (auto simp: credentialSeen_def tokenOwner_def vouches_def ownsTokenSecret_def split: option.splits)
  qed
  ultimately show ?thesis using j by auto
qed

section \<open>Witnesses\<close>

definition snapshotClient :: "snapshot \<Rightarrow> unit client" where
  "snapshotClient v = emptyClient\<lparr>instances := cannedKind (\<lambda>k. foundOr404 (snInstances v k)) [],
     tokenRequests := cannedKind (\<lambda>k. foundOr404 (snTokens v k)) [],
     secrets := (cannedKind absent [])\<lparr>kList := (\<lambda>l w. (Inr (selectSecrets v l), w))\<rparr>\<rparr>"

lemma snapshotClient_reads: "readsFrom v (snapshotClient v)"
  by (simp add: readsFrom_def snapshotClient_def emptyClient_def cannedKind_def)

definition freshSnapshot :: snapshot where
  "freshSnapshot = \<lparr>snInstances = [(''default'', ''a'') \<mapsto> demoReady], snTokens = [(''default'', ''t'') \<mapsto> demoOwned], snSecrets = []\<rparr>"

definition freshTokens :: "unit token_reconciler" where
  "freshTokens = (demoTokens demoOwned absent)\<lparr>tcClient := snapshotClient freshSnapshot\<rparr>"

definition freshServer :: "snapshot \<Rightarrow> unit auth_server" where
  "freshServer v = \<lparr>asK8sClient = snapshotClient v, asSlugPolicy = Some samplePolicy, asLib = sampleLib\<rparr>"

lemma sample_laws: "controllerLaws sampleLib" "fullReads sampleHost"
  by (auto simp: controllerLaws_def fullReads_def sampleLib_def takeControl_def controllerOf_def controllerRef_def sampleHost_def)

lemma freshTokens_simps [simp]:
  "tcLib freshTokens = sampleLib" "tcHost freshTokens = sampleHost" "tcSlugPolicy freshTokens = Some samplePolicy"
  "tcClient freshTokens = snapshotClient freshSnapshot"
  by (simp_all add: freshTokens_def demoTokens_def)

lemma fresh_usable: "usable freshTokens demoReady"
  by (simp add: usable_def demo_usable)

lemma demoOwned_simps [simp]:
  "keyOf (trMeta demoOwned) = (''default'', ''t'')" "omUID (trMeta demoOwned) = ''u9''" "tsInstanceName (trSpec demoOwned) = ''a''"
  "keyOf (liMeta demoReady) = (''default'', ''a'')"
  by (simp_all add: demoOwned_def demoToken_def demoReady_def demoInstance_def sampleObj_def newMeta_def keyOf_def)

lemma fresh_succeeds: "fst (Reconcile freshTokens (''default'', ''t'') startSys) = Inr doneResult"
proof -
  obtain m where m: "setControllerReference sampleLib ''APITokenRequest'' (trMeta demoOwned)
     (seMeta (mintedSecret demoOwned demoReady (omName (trMeta demoOwned) @ ''-token'') ''alpha'' ''e''
       (base64Raw (replicate 32 (CHR 0x2A))))) = Inr m"
    using demo_control by blast
  show ?thesis
    by (simp add: Reconcile_def reconcileReferenced_def ensureFinalizer_def ensureSecret_def createSecret_def snapshotClient_def
        updateReadyStatus_def demo_run_defs demo_generate demo_no_deletion demo_usable absent_def isNotFound_def m
        freshSnapshot_def foundOr404_def Let_def del: replicate.simps)
qed

text \<open>How the API of the witness stores a secret.\<close>

definition apiStore :: "secret \<Rightarrow> secret" where
  "apiStore sec = sec\<lparr>seData := seData sec ++ seStringData sec, seStringData := Map.empty\<rparr>"

lemma fresh_wellNamed: "wellNamed sampleLib demoReady ''alpha''"
proof -
  have "trimSpace ''u1'' \<noteq> []" "trimSpace ''a'' \<noteq> []" "trimSpace ''default'' \<noteq> []" "trimSpace ''alpha'' \<noteq> []"
    "dnsLabel ''default''" "dnsSubdomain ''a''" "labelValue ''alpha''"
    by code_simp+
  then show ?thesis
    by (simp add: wellNamed_def sampleLib_def demoReady_def demoInstance_def sampleObj_def newMeta_def)
qed

theorem fresh_key_works_witness:
  "\<exists>v key resp. length key = 43 \<and> rpStatus resp = 200 \<and>
     verifyHandler (freshServer v) \<lparr>rqRawQuery = authQuery demoReady ''alpha'', rqAuthorization = ''Bearer '' @ key\<rparr> startSys =
       (Inr resp, startSys)"
proof -
  obtain s' where run: "Reconcile freshTokens (''default'', ''t'') startSys = (Inr doneResult, s')"
    using fresh_succeeds by (metis prod.collapse)
  have absent: "kGet (secrets (tcClient freshTokens)) k w = (foundOr404 None, w)" for k w
    by (simp add: snapshotClient_def emptyClient_def cannedKind_def absent_def foundOr404_def)
  have snap: "readsFrom freshSnapshot (tcClient freshTokens)" "snTokens freshSnapshot (''default'', ''t'') = Some demoOwned"
    "snInstances freshSnapshot (fst (''default'', ''t''), tsInstanceName (trSpec demoOwned)) = Some demoReady"
    by (simp_all add: snapshotClient_reads freshSnapshot_def)
  have names: "keyOf (trMeta demoOwned) = (''default'', ''t'')" "omUID (trMeta demoOwned) \<noteq> []" "omDeletion (trMeta demoOwned) = None"
    "containsFinalizer (tcLib freshTokens) (trMeta demoOwned) apiTokenRequestFinalizer"
    "keyOf (liMeta demoReady) = (fst (''default'', ''t''), tsInstanceName (trSpec demoOwned))"
    by (simp_all add: demo_no_deletion)
  have laws: "controllerLaws (tcLib freshTokens)" "fullReads (tcHost freshTokens)" by (simp_all add: sample_laws)
  obtain sent t key where k: "length key = 43"
    and opens: "\<forall>v. storedRun v (''default'', ''t'') t sent \<and> snInstances v (''default'', ''a'') = Some demoReady \<longrightarrow>
       (\<forall>(srv :: unit auth_server) a. readsFrom v (asK8sClient srv) \<and> asLib srv = sampleLib \<and> asSlugPolicy srv = Some samplePolicy \<longrightarrow>
       (\<exists>resp. verifyHandler srv \<lparr>rqRawQuery = authQuery demoReady ''alpha'', rqAuthorization = ''Bearer '' @ key\<rparr> a = (Inr resp, a) \<and>
         rpStatus resp = 200))"
    using fresh_key_works [OF laws snap(1,2) names(1-4) snap(3) names(5) fresh_usable absent run, where 'b = unit]
    by (simp add: demo_usable fresh_wellNamed) blast
  let ?v = "freshSnapshot\<lparr>snTokens := [(''default'', ''t'') \<mapsto> t], snSecrets := [apiStore sent]\<rparr>"
  have "storedRun ?v (''default'', ''t'') t sent" by (simp add: storedRun_def storedAs_def apiStore_def)
  moreover have "snInstances ?v (''default'', ''a'') = Some demoReady" by (simp add: freshSnapshot_def)
  ultimately show ?thesis
    using k opens [rule_format, of ?v "freshServer ?v" startSys] snapshotClient_reads [of ?v] by (auto simp: freshServer_def)
qed

lemma demo_admitted:
  "authorizeSecrets demoServer demoInstance ''k'' [demoSecret] startSys = (Inr True, startSys)"
  "authorizeSecrets demoServer demoReady ''k'' [demoSecret] startSys = (Inr True, startSys)"
proof -
  have valid: "validCredential sampleLib demoSnapshot demoInstance demoSecret" "getS (seData demoSecret) ''OPENAI_API_KEY'' = ''k''"
    using demo_grants by (auto simp: grants_def demoServer_def demoSnapshot_def demoBinding_def demoSecret_def lookupD_def)
  moreover have "asLib demoServer = sampleLib" by (simp add: demoServer_def)
  moreover have "liMeta demoReady = liMeta demoInstance" by (simp add: demoReady_def)
  then have "validCredential sampleLib demoSnapshot demoReady demoSecret"
    using valid(1) unfolding validCredential_def boundSecret_def vouches_def by (simp only:)
  ultimately show "authorizeSecrets demoServer demoInstance ''k'' [demoSecret] startSys = (Inr True, startSys)"
    "authorizeSecrets demoServer demoReady ''k'' [demoSecret] startSys = (Inr True, startSys)"
    by (simp_all add: authorizeSecrets_refines [OF demo_reads] retE_def del: authorizeSecrets.simps)
qed

theorem keys_isolated_witness:
  "omUID (liMeta demoReady) = omUID (liMeta demoInstance) \<and>
   collectKeys (demoReconciler targetClient) targetInstance [demoSecret] startSys = (Inr [], startSys)"
proof -
  obtain keys where run: "collectKeys (demoReconciler targetClient) targetInstance [demoSecret] startSys = (Inr keys, startSys)"
    unfolding collectKeys_refines [OF target_reads] by (simp add: retE_def)
  with keys_isolated [of demoServer demoInstance "''k''" demoSecret startSys startSys]
  show ?thesis using demo_admitted by blast
qed

definition unlabelledSecret :: secret where
  "unlabelledSecret = setLabel requestLabel [] demoSecret"

definition unlabelledTokens :: "unit token_reconciler" where
  "unlabelledTokens = demoTokens demoOwned (\<lambda>_. Inr unlabelledSecret)"

lemma unlabelled_succeeds: "fst (reconcileReferenced unlabelledTokens demoOwned demoReady startSys) = Inr doneResult"
proof -
  have "boundTo unlabelledSecret demoReady" using demo_bound by (simp add: unlabelledSecret_def boundTo_def)
  moreover from this have "\<not> legacyBound unlabelledSecret demoReady slug" for slug
    by (simp add: boundTo_def legacyBound_def demo_usable)
  ultimately have rot: "rotateTokenForTarget h unlabelledSecret (Some demoReady) True slug = retE (unlabelledSecret, False)" for h slug
    by (simp add: rotate_cases demo_usable)
  have own: "ownsTokenSecret sampleLib demoOwned unlabelledSecret"
    using demo_owns(2) by (simp add: ownsTokenSecret_def unlabelledSecret_def setLabel_def sampleLib_def controllerOf_def)
  show ?thesis
    by (simp add: unlabelledTokens_def reconcileReferenced_def ensureSecret_def touchAPITokenRequest_def updateReadyStatus_def demo_run_defs
        demo_usable own rot Let_def split: prod.split)
qed

theorem lost_label_denied_witness:
  "\<exists>t s'. reconcileReferenced unlabelledTokens demoOwned demoReady startSys = (Inr doneResult, s') \<and>
     last (journal s') = Write LocalCluster WStatusUpdate (OTok t) \<and> ttPhase (trStatus t) = ''Ready''"
proof -
  obtain s' where run: "reconcileReferenced unlabelledTokens demoOwned demoReady startSys = (Inr doneResult, s')"
    using unlabelled_succeeds by (metis prod.collapse)
  have "usable unlabelledTokens demoReady"
    by (simp add: usable_def unlabelledTokens_def demoTokens_def demo_usable)
  moreover have "secLabel unlabelledSecret requestLabel \<noteq> omName (trMeta demoOwned)"
    by (simp add: unlabelledSecret_def demoOwned_def demoToken_def newMeta_def)
  moreover have "omNamespace (liMeta demoReady) = omNamespace (trMeta demoOwned)"
    using demoOwned_simps(1,4) by (simp add: keyOf_def)
  moreover have "kGet (secrets (tcClient unlabelledTokens)) k w = (Inr unlabelledSecret, w)" for k w
    by (simp add: unlabelledTokens_def demoTokens_def cannedKind_def)
  ultimately show ?thesis
    using lost_label_denied [OF _ _ _ _ run journal_startSys, where 'v = unit] run by blast
qed

end
