(* ===== verification/Watches.thy ===== *)
theory Watches
  imports Credentials ByocController
begin

text \<open>
  \<^verbatim>\<open>SetupWithManager\<close> of both controllers: which objects they watch and how an event on an object becomes
  requests for reconciliation.  The manager delivers the events; that \<^verbatim>\<open>Owns\<close> asks for the controller of
  the object is documented behaviour of the library, so the function that does it is an argument.
\<close>

section \<open>Sources of events\<close>

fun kindOf :: "kobj \<Rightarrow> string" where
  "kindOf (OInst _) = ''LLMInstance''"
| "kindOf (OTok _) = ''APITokenRequest''"
| "kindOf (OSec _) = ''Secret''"
| "kindOf (ODep _) = ''Deployment''"
| "kindOf (OSvc _) = ''Service''"
| "kindOf (OIng _) = ''Ingress''"
| "kindOf (OMw _) = ''Middleware''"
| "kindOf (OCfg _) = ''ConfigMap''"
| "kindOf (ONs _) = ''Namespace''"
| "kindOf (OCert _) = ''Certificate''"
| "kindOf (ODns _) = ''DNSEntry''"

datatype 'w watch_source =
    ForObjects                                          \<comment> \<open>\<^verbatim>\<open>For\<close>: the object itself\<close>
  | OwnedObjects                                        \<comment> \<open>\<^verbatim>\<open>Owns\<close>: the controller of the object\<close>
  | MappedObjects "kobj \<Rightarrow> ('w, key list) io"           \<comment> \<open>\<^verbatim>\<open>Watches\<close> with a mapping function\<close>

record 'w controller =
  ctKind :: string
  ctSources :: "(string \<times> 'w watch_source) list"

definition LLMInstanceReconciler_SetupWithManager :: "'w instance_reconciler \<Rightarrow> 'w controller" where
  "LLMInstanceReconciler_SetupWithManager r = \<lparr>ctKind = ''LLMInstance'', ctSources =
     [(''LLMInstance'', ForObjects), (''Deployment'', OwnedObjects), (''Service'', OwnedObjects), (''Ingress'', OwnedObjects),
      (''Secret'', MappedObjects (findInstancesForSecret r))]\<rparr>"

definition APITokenRequestReconciler_SetupWithManager :: "'w token_reconciler \<Rightarrow> 'w controller" where
  "APITokenRequestReconciler_SetupWithManager r = \<lparr>ctKind = ''APITokenRequest'', ctSources =
     [(''APITokenRequest'', ForObjects), (''Secret'', OwnedObjects),
      (''LLMInstance'', MappedObjects (\<lambda>obj. case obj of OInst inst \<Rightarrow> findTokenRequestsForInstance r inst | _ \<Rightarrow> retE []))]\<rparr>"

text \<open>The requests that an event on an object gives: every source of its kind adds its own.\<close>

fun deliver :: "(string \<Rightarrow> objmeta \<Rightarrow> key list) \<Rightarrow> string \<Rightarrow> (string \<times> 'w watch_source) list \<Rightarrow> kobj \<Rightarrow> ('w, key list) io" where
  "deliver enqueueOwner kind [] obj = retE []"
| "deliver enqueueOwner kind ((k, source) # rest) obj =
     bindE (if k \<noteq> kindOf obj then retE []
            else case source of
              ForObjects \<Rightarrow> retE [keyOf (kmeta obj)]
            | OwnedObjects \<Rightarrow> retE (enqueueOwner kind (kmeta obj))
            | MappedObjects f \<Rightarrow> f obj) (\<lambda>keys.
     bindE (deliver enqueueOwner kind rest obj) (\<lambda>others. retE (keys @ others)))"

definition requestsFor :: "(string \<Rightarrow> objmeta \<Rightarrow> key list) \<Rightarrow> 'w controller \<Rightarrow> kobj \<Rightarrow> ('w, key list) io" where
  "requestsFor enqueueOwner c obj = deliver enqueueOwner (ctKind c) (ctSources c) obj"

definition ownerLaw :: "kube_lib \<Rightarrow> (string \<Rightarrow> objmeta \<Rightarrow> key list) \<Rightarrow> bool" where
  "ownerLaw L enqueueOwner =
     (\<forall>kind m ref. getControllerOf L m = Some ref \<and> orKind ref = kind \<and> orAPIVersion ref = groupVersion \<longrightarrow>
        enqueueOwner kind m = [(omNamespace m, orName ref)])"

section \<open>Delivery\<close>

lemma bindE_retE [simp]: "bindE (retE x) k = k x"
  by (simp add: bindE_def tryE_def retE_def fun_eq_iff)

lemma bindE_assoc_ret: "bindE m (\<lambda>keys. retE (keys @ [])) = m"
  by (auto simp: bindE_def tryE_def retE_def failE_def fun_eq_iff split: prod.split sum.split)

lemma instance_events:
  fixes r :: "'w instance_reconciler"
  defines "c \<equiv> LLMInstanceReconciler_SetupWithManager r"
  shows "requestsFor eo c (OInst i) = retE [keyOf (liMeta i)]" "requestsFor eo c (ODep d) = retE (eo ''LLMInstance'' (dpMeta d))"
    "requestsFor eo c (OSvc v) = retE (eo ''LLMInstance'' (svMeta v))" "requestsFor eo c (OIng g) = retE (eo ''LLMInstance'' (igMeta g))"
    "requestsFor eo c (OSec sec) = findInstancesForSecret r (OSec sec)"
  unfolding c_def requestsFor_def LLMInstanceReconciler_SetupWithManager_def
  by (simp_all add: bindE_assoc_ret [simplified])

lemma token_events:
  fixes r :: "'w token_reconciler"
  defines "c \<equiv> APITokenRequestReconciler_SetupWithManager r"
  shows "requestsFor eo c (OTok t) = retE [keyOf (trMeta t)]" "requestsFor eo c (OSec sec) = retE (eo ''APITokenRequest'' (seMeta sec))"
    "requestsFor eo c (OInst i) = findTokenRequestsForInstance r i"
  unfolding c_def requestsFor_def APITokenRequestReconciler_SetupWithManager_def
  by (simp_all add: bindE_assoc_ret [simplified])

lemma ownerLawD:
  "ownerLaw L eo \<Longrightarrow> getControllerOf L m = Some ref \<Longrightarrow> orKind ref = kind \<Longrightarrow> orAPIVersion ref = groupVersion \<Longrightarrow>
     eo kind m = [(omNamespace m, orName ref)]"
  unfolding ownerLaw_def by blast

section \<open>Properties\<close>

text \<open>\<^bold>\<open>C21.\<close> Changes of a credential reach both controllers: an event on the secret of a credential queues the
  instance that it opens (so that the key file of a tenant's cluster follows) and the request that
  controls it (so that a tampered secret is repaired); and an event on the instance queues exactly the
  requests that name it (so that their secrets follow the endpoint, the target and the readiness).\<close>

theorem changes_propagate:
  assumes "ownerLaw L eo" and "credentialOf L v inst slug sec key" and "\<not> tlsScope r sec"
    and "listObj (instances (irClient r)) (inNamespace (omNamespace (liMeta inst)) []) s = (Inr items, t)" and "inst \<in> set items"
    and "listObj (tokenRequests (tcClient rt)) (inNamespace (omNamespace (liMeta inst)) []) u = (Inr reqs, w)"
  shows "(\<exists>keys. requestsFor eo (LLMInstanceReconciler_SetupWithManager r) (OSec sec) s = (Inr keys, t) \<and> keyOf (liMeta inst) \<in> set keys) \<and>
    (\<exists>ref. getControllerOf L (seMeta sec) = Some ref \<and>
       requestsFor eo (APITokenRequestReconciler_SetupWithManager rt) (OSec sec) u = (Inr [(omNamespace (liMeta inst), orName ref)], u)) \<and>
    (\<exists>keys. requestsFor eo (APITokenRequestReconciler_SetupWithManager rt) (OInst inst) u = (Inr keys, w) \<and>
       set keys = {keyOf (trMeta tr) | tr. tr \<in> set reqs \<and> trimSpace (tsInstanceName (trSpec tr)) = omName (liMeta inst)})"
proof (intro conjI)
  have ns: "omNamespace (seMeta sec) = omNamespace (liMeta inst)" "omLabels (seMeta sec) instanceLabelKey = Some (omName (liMeta inst))"
    using assms(2) by (simp_all add: credentialOf_def)
  show "\<exists>keys. requestsFor eo (LLMInstanceReconciler_SetupWithManager r) (OSec sec) s = (Inr keys, t) \<and> keyOf (liMeta inst) \<in> set keys"
    unfolding instance_events findInstancesForSecret_def using assms(3-5) ns
    by (auto simp: tlsScope_def tryE_def retE_def lookupD_def image_iff)
  obtain ref where ref: "getControllerOf L (seMeta sec) = Some ref" "orKind ref = ''APITokenRequest''" "orAPIVersion ref = groupVersion"
    using assms(2) unfolding credentialOf_def by blast
  from ownerLawD [OF assms(1) this] ref(1) ns(1) show "\<exists>ref. getControllerOf L (seMeta sec) = Some ref \<and>
       requestsFor eo (APITokenRequestReconciler_SetupWithManager rt) (OSec sec) u = (Inr [(omNamespace (liMeta inst), orName ref)], u)"
    unfolding token_events by (simp add: retE_def)
  show "\<exists>keys. requestsFor eo (APITokenRequestReconciler_SetupWithManager rt) (OInst inst) u = (Inr keys, w) \<and>
       set keys = {keyOf (trMeta tr) | tr. tr \<in> set reqs \<and> trimSpace (tsInstanceName (trSpec tr)) = omName (liMeta inst)}"
    unfolding token_events findTokenRequestsForInstance_def using assms(6) by (auto simp: tryE_def retE_def)
qed

text \<open>An event on an object that the instance controls queues the instance.\<close>

theorem owned_objects_wake:
  assumes "ownerLaw L eo" and "getControllerOf L m = Some ref" and "orKind ref = ''LLMInstance''" and "orAPIVersion ref = groupVersion"
    and "obj \<in> {ODep d, OSvc v, OIng g}" and "kmeta obj = m"
  shows "requestsFor eo (LLMInstanceReconciler_SetupWithManager r) obj s = (Inr [(omNamespace m, orName ref)], s)"
  using assms(5,6) ownerLawD [OF assms(1-4)] by (auto simp: instance_events retE_def)

section \<open>Witnesses\<close>

definition sampleEnqueueOwner :: "string \<Rightarrow> objmeta \<Rightarrow> key list" where
  "sampleEnqueueOwner kind m =
     (case controllerOf m of
        Some ref \<Rightarrow> if orKind ref = kind \<and> orAPIVersion ref = groupVersion then [(omNamespace m, orName ref)] else []
      | None \<Rightarrow> [])"

lemma sample_ownerLaw: "ownerLaw sampleLib sampleEnqueueOwner"
  by (simp add: ownerLaw_def sampleEnqueueOwner_def sampleLib_def)

lemma demo_credential: "credentialOf sampleLib demoSnapshot demoInstance ''alpha'' demoSecret ''k''"
proof -
  have "targetOf demoInstance = []" by (simp add: targetOf_def byocInstance_def isBYOC_def demoInstance_def)
  moreover have "omUID (liMeta demoInstance) = ''u1''" "omName (liMeta demoInstance) = ''a''" "omNamespace (liMeta demoInstance) = ''default''"
    by (simp_all add: demoInstance_def sampleObj_def newMeta_def)
  ultimately show ?thesis
    by (simp add: credentialOf_def demoSecret_def demoToken_def demoSnapshot_def boundTo_def vouches_def sampleLib_def controllerOf_def
        controllerRef_def token_keys slugKey_def secretTypeOpaque_def lineKey_def newMeta_def lookupD_def)
qed

definition watchedTokens :: "unit token_reconciler" where
  "watchedTokens = (demoTokens demoToken absent)\<lparr>tcClient := emptyClient\<lparr>tokenRequests := cannedKind absent [demoToken]\<rparr>\<rparr>"

theorem changes_propagate_witness:
  "\<exists>keys. requestsFor sampleEnqueueOwner (LLMInstanceReconciler_SetupWithManager watchDemo) (OSec demoSecret) startSys = (Inr keys, startSys) \<and>
     (''default'', ''a'') \<in> set keys"
proof -
  have scope: "\<not> tlsScope watchDemo demoSecret" by (simp add: tlsScope_def watchDemo_def demoReconciler_def)
  have insts: "listObj (instances (irClient watchDemo)) l startSys = (Inr [demoInstance, remoteInstance], startSys)" for l
    by (simp add: watchDemo_def demoReconciler_def listObj_def readWith_def cannedKind_def startSys_def)
  have reqs: "listObj (tokenRequests (tcClient watchedTokens)) l startSys = (Inr [demoToken], startSys)" for l
    by (simp add: watchedTokens_def listObj_def readWith_def cannedKind_def startSys_def)
  have "demoInstance \<in> set [demoInstance, remoteInstance]" by simp
  note run = changes_propagate [OF sample_ownerLaw demo_credential scope insts this reqs]
  have "keyOf (liMeta demoInstance) = (''default'', ''a'')" by (simp add: demoInstance_def sampleObj_def newMeta_def keyOf_def)
  with conjunct1 [OF run] show ?thesis by simp
qed

end
