(* ===== verification/Removal.thy ===== *)
theory Removal
  imports InstanceController
begin

text \<open>
  The removal of an instance from a tenant's cluster, run after run.  A run asks for
  the deletion of what one phase finds and fails with an error that asks to be run again; the next run
  goes on.  Objects with finalizers stay, with a deletion timestamp, until whoever owns the finalizers
  lets them go.  This theory states the laws of the API for that, gives the abstract machine that one run
  follows, and shows that the removal completes if every object that is being deleted goes at last.
\<close>

section \<open>What is left of an instance\<close>

record remnants =
  rmDNS :: "unstructured option"
  rmCertificate :: "unstructured option"
  rmSource :: "secret option"
  rmLastValid :: "secret option"
  rmDeployment :: "deployment option"
  rmService :: "service option"
  rmKeys :: "secret option"
  rmProxy :: "config_map option"
  rmTLS :: "secret option"
  rmCredentials :: "secret option"

definition managedLeft :: "remnants \<Rightarrow> bool" where
  "managedLeft m = (rmSource m \<noteq> None \<or> rmLastValid m \<noteq> None)"

definition workloadLeft :: "remnants \<Rightarrow> bool" where
  "workloadLeft m = (rmDeployment m \<noteq> None \<or> rmService m \<noteq> None \<or> rmKeys m \<noteq> None \<or> rmProxy m \<noteq> None)"

definition nothingLeft :: "remnants \<Rightarrow> bool" where
  "nothingLeft m = (rmDNS m = None \<and> rmCertificate m = None \<and> \<not> managedLeft m \<and> \<not> workloadLeft m \<and> rmTLS m = None \<and> rmCredentials m = None)"

section \<open>Objects that are being deleted\<close>

text \<open>The metadata of a kind of objects, as a field that can be updated.\<close>

locale kind_meta =
  fixes meta :: "'o \<Rightarrow> objmeta" and upd :: "(objmeta \<Rightarrow> objmeta) \<Rightarrow> 'o \<Rightarrow> 'o"
  assumes meta_upd: "meta (upd f x) = f (meta x)" and upd_same: "f (meta x) = meta x \<Longrightarrow> upd f x = x"

text \<open>An object on its way out: it carries a deletion timestamp; its version and its finalizers may change
  until it is gone, and nothing else does.\<close>

definition terminatingAs :: "((objmeta \<Rightarrow> objmeta) \<Rightarrow> 'o \<Rightarrow> 'o) \<Rightarrow> 'o \<Rightarrow> 'o \<Rightarrow> bool" where
  "terminatingAs upd x x' = (\<exists>t v fs. x' = upd (\<lambda>m. m\<lparr>omDeletion := Some t, omResourceVersion := v, omFinalizers := fs\<rparr>) x)"

definition asked :: "((objmeta \<Rightarrow> objmeta) \<Rightarrow> 'o \<Rightarrow> 'o) \<Rightarrow> 'o option \<Rightarrow> 'o option \<Rightarrow> bool" where
  "asked upd x y = (y = None \<or> (\<exists>x0 y0. x = Some x0 \<and> y = Some y0 \<and> terminatingAs upd x0 y0))"

definition fading :: "((objmeta \<Rightarrow> objmeta) \<Rightarrow> 'o \<Rightarrow> 'o) \<Rightarrow> 'o option \<Rightarrow> 'o option \<Rightarrow> bool" where
  "fading upd x y = (y = x \<or> asked upd x y)"

lemma fading_intros [simp]: "fading upd x x" "asked upd x y \<Longrightarrow> fading upd x y" "fading upd x None"
  by (simp_all add: fading_def asked_def)

lemma asked_None [simp]: "asked upd None y \<longleftrightarrow> y = None" "asked upd x None"
  by (auto simp: asked_def)

text \<open>How far an object is from being gone.\<close>

definition standing :: "objmeta option \<Rightarrow> nat" where
  "standing x = (case x of None \<Rightarrow> 0 | Some m \<Rightarrow> if omDeletion m = None then 2 else 1)"

lemma standing_simps [simp]: "standing None = 0" "standing x = 0 \<longleftrightarrow> x = None"
  by (simp_all add: standing_def split: option.split)

context kind_meta
begin

lemma terminating_self:
  assumes "omDeletion (meta x) \<noteq> None"
  shows "terminatingAs upd x x"
proof -
  from assms obtain t where t: "omDeletion (meta x) = Some t" by blast
  have "upd (\<lambda>m. m\<lparr>omDeletion := Some t, omResourceVersion := omResourceVersion (meta x), omFinalizers := omFinalizers (meta x)\<rparr>) x = x"
    by (rule upd_same, rule objmeta.equality) (simp_all add: t)
  then show ?thesis unfolding terminatingAs_def by metis
qed

lemma asked_standing:
  "asked upd x y \<Longrightarrow> standing (map_option meta y) \<le> 1"
  "asked upd x y \<Longrightarrow> standing (map_option meta y) \<le> standing (map_option meta x)"
  "fading upd x y \<Longrightarrow> standing (map_option meta y) \<le> standing (map_option meta x)"
  by (auto simp: asked_def fading_def terminatingAs_def standing_def meta_upd)

end

interpretation deployment_meta: kind_meta dpMeta dpMeta_update by unfold_locales simp_all
interpretation service_meta: kind_meta svMeta svMeta_update by unfold_locales simp_all
interpretation secret_meta: kind_meta seMeta seMeta_update by unfold_locales simp_all
interpretation config_map_meta: kind_meta cmMeta cmMeta_update by unfold_locales simp_all
interpretation unstructured_meta: kind_meta unMeta unMeta_update by unfold_locales simp_all

lemmas asked_standings = deployment_meta.asked_standing service_meta.asked_standing secret_meta.asked_standing
  config_map_meta.asked_standing unstructured_meta.asked_standing

section \<open>The laws of the API\<close>

text \<open>An object of one kind under one key, as a part of the remnants that are seen in the world: a get returns
  it.  A delete with its UID as precondition is accepted; an object without finalizers is gone then, and
  one with finalizers stays, with a deletion timestamp, for whoever owns them.  Nothing else changes.\<close>

definition slot :: "('w \<Rightarrow> remnants) \<Rightarrow> ('w, 'o) kind_api \<Rightarrow> key \<Rightarrow> (remnants \<Rightarrow> 'o option) \<Rightarrow> ('o option \<Rightarrow> remnants \<Rightarrow> remnants) \<Rightarrow>
    ('o \<Rightarrow> objmeta) \<Rightarrow> ((objmeta \<Rightarrow> objmeta) \<Rightarrow> 'o \<Rightarrow> 'o) \<Rightarrow> bool" where
  "slot see a k get put meta upd =
     ((\<forall>w. kGet a k w = (foundOr404 (get (see w)), w)) \<and>
      (\<forall>w x p. get (see w) = Some x \<and> pcUID p = Some (omUID (meta x)) \<longrightarrow>
         (\<exists>w' y. kDelete a x p w = (Inr (), w') \<and> see w' = put y (see w) \<and>
            (if omFinalizers (meta x) = [] then y = None else \<exists>x'. y = Some x' \<and> terminatingAs upd x x'))) \<and>
      (\<forall>m. put (get m) m = m))"

lemma slot_get: "slot see a k get put meta upd \<Longrightarrow> getObj a k s = (foundOr404 (get (see (world s))), s)"
  by (simp add: slot_def getObj_def readWith_def)

lemma slot_delete:
  assumes "slot see a k get put meta upd" "get (see (world s)) = Some x" "pcUID p = Some (omUID (meta x))"
  shows "\<exists>s' y. deleteObj c tag a x p s = (Inr (), s') \<and> see (world s') = put y (see (world s)) \<and>
    (if omFinalizers (meta x) = [] then y = None else \<exists>x'. y = Some x' \<and> terminatingAs upd x x')"
proof -
  obtain w' y where "kDelete a x p (world s) = (Inr (), w')" "see w' = put y (see (world s))"
      "if omFinalizers (meta x) = [] then y = None else \<exists>x'. y = Some x' \<and> terminatingAs upd x x'"
    using assms unfolding slot_def by blast
  then show ?thesis
    by (intro exI [of _ "s\<lparr>world := w', journal := journal s @ [Write c (WDelete p) (tag x)]\<rparr>"] exI [of _ y])
      (simp add: deleteObj_def writeWith_def)
qed

lemma slot_asked:
  assumes "slot see a k get put meta upd" "get (see (world s)) = Some x" "pcUID p = Some (omUID (meta x))"
  shows "\<exists>s' y. deleteObj c tag a x p s = (Inr (), s') \<and> see (world s') = put y (see (world s)) \<and> asked upd (Some x) y"
  using slot_delete [OF assms, of c tag] by (auto simp: asked_def split: if_splits)

lemma slot_put: "slot see a k get put meta upd \<Longrightarrow> get m = x \<Longrightarrow> put x m = m"
  unfolding slot_def by blast

lemma foundOr404_simps [simp]: "foundOr404 (Some x) = Inr x" "foundOr404 None = Inl (ApiError NotFound ''not found'')"
  by (simp_all add: foundOr404_def)

lemma notFound_404 [simp]: "isNotFound (ApiError NotFound msg)"
  by (simp add: isNotFound_def)

lemma pre_uids [simp]: "pcUID (preUID m) = Some (omUID m)" "pcUID (preUIDVersion m) = Some (omUID m)"
  by (simp_all add: preUID_def preUIDVersion_def)

section \<open>The phases\<close>

context kind_meta
begin

lemma deleteExact_step:
  assumes "slot see a k get put meta upd" "get (see (world s)) = Some x"
  shows "\<exists>s' y. deleteExact c tag a meta x s = (Inr (), s') \<and> see (world s') = put y (see (world s)) \<and> asked upd (Some x) y"
proof (cases "omDeletion (meta x) = None")
  case True
  then show ?thesis
    using slot_asked [OF assms, of "preUIDVersion (meta x)" c tag] by (auto simp: deleteExact_def tryE_def retE_def)
next
  case False
  then show ?thesis
    using slot_put [OF assms] terminating_self [OF False]
    by (intro exI [of _ s] exI [of _ "Some x"]) (simp add: deleteExact_def retE_def asked_def)
qed

lemma removeOwned_step:
  assumes "slot see a (remoteKey name) get put meta upd" "\<And>x. get (see (world s)) = Some x \<Longrightarrow> byocOwned (meta x) inst"
  shows "\<exists>s' y. removeOwned tag a meta name inst s = (Inr ([], get (see (world s)) \<noteq> None), s') \<and>
    see (world s') = put y (see (world s)) \<and> asked upd (get (see (world s))) y"
proof (cases "get (see (world s))")
  case None
  then show ?thesis using slot_put [OF assms(1) None] by (simp add: removeOwned_def tryE_def slot_get [OF assms(1)] retE_def)
next
  case (Some x)
  then show ?thesis
    using slot_asked [OF assms(1) Some, of "preUID (meta x)" RemoteCluster tag] assms(2) [OF Some]
    by (auto simp: removeOwned_def tryE_def slot_get [OF assms(1)] checkBYOCObjectOwner_def retE_def)
qed

end

text \<open>A run that has to be repeated says so: the controller requeues on this error.\<close>

definition waits :: "goerr + unit \<Rightarrow> bool" where
  "waits res = (\<exists>e. res = Inl e \<and> errors_is e ErrBYOCTLSNotReady)"

lemma waits_errTLSNotReady [simp]: "waits (Inl (errTLSNotReady msg))"
  by (simp add: waits_def errTLSNotReady_def)

text \<open>The objects that are left belong to the instance; any of them may be on its way out already.\<close>

definition oursTLS :: "llm_instance \<Rightarrow> string \<Rightarrow> string \<Rightarrow> remnants \<Rightarrow> bool" where
  "oursTLS inst name target m =
     ((\<forall>x. rmDNS m = Some x \<longrightarrow> byocTLSOwned (unMeta x) inst) \<and>
      (\<forall>x. rmCertificate m = Some x \<longrightarrow> byocTLSOwned (unMeta x) inst \<and>
         (\<forall>src. omDeletion (unMeta x) = None \<and> rmSource m = Some src \<longrightarrow> requireBYOCSourceSecret src x inst = None)) \<and>
      (\<forall>x. rmSource m = Some x \<longrightarrow> orphanedSource inst name x = None) \<and>
      (\<forall>x. rmLastValid m = Some x \<longrightarrow> byocTLSOwned (seMeta x) inst \<and> ByocTLS.boundSecret target x) \<and>
      (\<forall>x. rmTLS m = Some x \<longrightarrow> byocTLSOwned (seMeta x) inst \<and> ByocTLS.boundSecret target x))"

definition oursWorkload :: "llm_instance \<Rightarrow> remnants \<Rightarrow> bool" where
  "oursWorkload inst m =
     ((\<forall>x. rmDeployment m = Some x \<longrightarrow> byocOwned (dpMeta x) inst) \<and> (\<forall>x. rmService m = Some x \<longrightarrow> byocOwned (svMeta x) inst) \<and>
      (\<forall>x. rmKeys m = Some x \<longrightarrow> byocOwned (seMeta x) inst) \<and> (\<forall>x. rmProxy m = Some x \<longrightarrow> byocOwned (cmMeta x) inst))"

definition workloadSlots :: "('w \<Rightarrow> remnants) \<Rightarrow> 'w client \<Rightarrow> string \<Rightarrow> bool" where
  "workloadSlots see remote slug =
     (slot see (deployments remote) (remoteKey (byocBaseName slug)) rmDeployment (\<lambda>y. rmDeployment_update (\<lambda>_. y)) dpMeta dpMeta_update \<and>
      slot see (services remote) (remoteKey (byocBaseName slug)) rmService (\<lambda>y. rmService_update (\<lambda>_. y)) svMeta svMeta_update \<and>
      slot see (secrets remote) (remoteKey (byocKeySecretName slug)) rmKeys (\<lambda>y. rmKeys_update (\<lambda>_. y)) seMeta seMeta_update \<and>
      slot see (configMaps remote) (remoteKey (byocProxyName slug)) rmProxy (\<lambda>y. rmProxy_update (\<lambda>_. y)) cmMeta cmMeta_update)"

definition askedWorkload :: "remnants \<Rightarrow> remnants \<Rightarrow> bool" where
  "askedWorkload m m' = (\<exists>d v k c. m' = m\<lparr>rmDeployment := d, rmService := v, rmKeys := k, rmProxy := c\<rparr> \<and>
     asked dpMeta_update (rmDeployment m) d \<and> asked svMeta_update (rmService m) v \<and> asked seMeta_update (rmKeys m) k \<and>
     asked cmMeta_update (rmProxy m) c)"

lemma cleanupBYOCObjects_step:
  assumes "workloadSlots see remote slug" "oursWorkload inst (see (world s))"
  shows "\<exists>res s'. cleanupBYOCObjects remote inst slug s = (res, s') \<and> askedWorkload (see (world s)) (see (world s')) \<and>
    (if workloadLeft (see (world s)) then waits res else res = Inr ())"
proof -
  let ?m = "see (world s)"
  note sl = assms(1) [unfolded workloadSlots_def] and o = assms(2) [unfolded oursWorkload_def]
  obtain s1 d where 1: "removeOwned ODep (deployments remote) dpMeta (byocBaseName slug) inst s = (Inr ([], rmDeployment ?m \<noteq> None), s1)"
      "see (world s1) = ?m\<lparr>rmDeployment := d\<rparr>" "asked dpMeta_update (rmDeployment ?m) d"
    using deployment_meta.removeOwned_step [OF conjunct1 [OF sl], of s inst ODep] o by blast
  obtain s2 v where 2: "removeOwned OSvc (services remote) svMeta (byocBaseName slug) inst s1 = (Inr ([], rmService ?m \<noteq> None), s2)"
      "see (world s2) = ?m\<lparr>rmDeployment := d, rmService := v\<rparr>" "asked svMeta_update (rmService ?m) v"
    using service_meta.removeOwned_step [OF conjunct1 [OF conjunct2 [OF sl]], of s1 inst OSvc] o 1(2) by auto
  obtain s3 k where 3: "removeOwned OSec (secrets remote) seMeta (byocKeySecretName slug) inst s2 = (Inr ([], rmKeys ?m \<noteq> None), s3)"
      "see (world s3) = ?m\<lparr>rmDeployment := d, rmService := v, rmKeys := k\<rparr>" "asked seMeta_update (rmKeys ?m) k"
    using secret_meta.removeOwned_step [OF conjunct1 [OF conjunct2 [OF conjunct2 [OF sl]]], of s2 inst OSec] o 2(2) by auto
  obtain s4 c where 4: "removeOwned OCfg (configMaps remote) cmMeta (byocProxyName slug) inst s3 = (Inr ([], rmProxy ?m \<noteq> None), s4)"
      "see (world s4) = ?m\<lparr>rmDeployment := d, rmService := v, rmKeys := k, rmProxy := c\<rparr>" "asked cmMeta_update (rmProxy ?m) c"
    using config_map_meta.removeOwned_step [OF conjunct2 [OF conjunct2 [OF conjunct2 [OF sl]]], of s3 inst OCfg] o 3(2) by auto
  have run: "cleanupBYOCObjects remote inst slug s =
      (if workloadLeft ?m then (Inl (Joined [errTLSNotReady ''waiting for owned BYOC objects to disappear'']), s4) else (Inr (), s4))"
    using 1(1) 2(1) 3(1) 4(1)
    by (simp add: cleanupBYOCObjects_def bindE_def tryE_def errE_def errors_join_def failE_def retE_def workloadLeft_def Let_def)
  moreover have "askedWorkload ?m (see (world s4))" unfolding askedWorkload_def using 4(2,3) 1(3) 2(3) 3(3) by blast
  ultimately show ?thesis by (auto simp: waits_def errTLSNotReady_def split: if_splits)
qed

text \<open>The checks that guard a deletion pass for what belongs to the instance.\<close>

lemma require_owned [simp]: "byocTLSOwned m inst \<Longrightarrow> requireBYOCTLSOwner m inst = retE ()"
  by (simp add: requireBYOCTLSOwner_def byocTLSOwned_def fun_eq_iff)

lemma require_bound [simp]: "byocTLSOwned (seMeta x) inst \<Longrightarrow> ByocTLS.boundSecret target x \<Longrightarrow> requireBYOCTargetSecret x inst target = retE ()"
  by (simp add: requireBYOCTargetSecret_def ByocTLS.boundSecret_def bindE_def tryE_def retE_def fun_eq_iff)

definition managedSlots :: "('w \<Rightarrow> remnants) \<Rightarrow> 'w client \<Rightarrow> string \<Rightarrow> string \<Rightarrow> bool" where
  "managedSlots see cl ns name =
     (slot see (dnsEntries cl) (ns, name) rmDNS (\<lambda>y. rmDNS_update (\<lambda>_. y)) unMeta unMeta_update \<and>
      slot see (certificates cl) (ns, name) rmCertificate (\<lambda>y. rmCertificate_update (\<lambda>_. y)) unMeta unMeta_update \<and>
      slot see (secrets cl) (ns, name) rmSource (\<lambda>y. rmSource_update (\<lambda>_. y)) seMeta seMeta_update \<and>
      slot see (secrets cl) (ns, lastValidName name) rmLastValid (\<lambda>y. rmLastValid_update (\<lambda>_. y)) seMeta seMeta_update)"

lemma removeTLSSecret_step:
  assumes sl: "slot see (secrets (irClient r)) (btNamespace cfg, secretName) get put seMeta seMeta_update"
    and ours: "\<And>x. get (see (world s)) = Some x \<Longrightarrow>
      (if secretName = name then orphanedSource inst name x = None else byocTLSOwned (seMeta x) inst \<and> ByocTLS.boundSecret target x)"
  shows "\<exists>s' y. removeTLSSecret r inst cfg target name secretName s = (Inr (get (see (world s)) \<noteq> None), s') \<and>
    see (world s') = put y (see (world s)) \<and> asked seMeta_update (get (see (world s))) y"
proof (cases "get (see (world s))")
  case None
  then show ?thesis using slot_put [OF sl None] by (simp add: removeTLSSecret_def tryE_def slot_get [OF sl] retE_def)
next
  case (Some x)
  from ours [OF Some] have "(if secretName = name then errE (orphanedSource inst name x) else requireBYOCTargetSecret x inst target) s = (Inr (), s)"
    by (simp add: errE_def retE_def split: if_splits)
  moreover obtain s' y where "deleteExact LocalCluster OSec (secrets (irClient r)) seMeta x s = (Inr (), s')"
      "see (world s') = put y (see (world s))" "asked seMeta_update (Some x) y"
    using secret_meta.deleteExact_step [OF sl Some] by blast
  ultimately show ?thesis
    using Some unfolding removeTLSSecret_def tryE_def slot_get [OF sl] by (auto simp: bindE_def tryE_def retE_def)
qed

lemma lastValidName_ne [simp]: "lastValidName name \<noteq> name"
  by (simp add: lastValidName_def)

text \<open>The managed certificate: DNS entry, then Certificate, then the two secrets.\<close>

definition askedDNS :: "remnants \<Rightarrow> remnants \<Rightarrow> bool" where
  "askedDNS m m' = (\<exists>y. m' = m\<lparr>rmDNS := y\<rparr> \<and> asked unMeta_update (rmDNS m) y)"

definition askedCertificate :: "remnants \<Rightarrow> remnants \<Rightarrow> bool" where
  "askedCertificate m m' = (\<exists>y. m' = m\<lparr>rmCertificate := y\<rparr> \<and> asked unMeta_update (rmCertificate m) y)"

definition askedManaged :: "remnants \<Rightarrow> remnants \<Rightarrow> bool" where
  "askedManaged m m' = (\<exists>y z. m' = m\<lparr>rmSource := y, rmLastValid := z\<rparr> \<and> asked seMeta_update (rmSource m) y \<and>
     asked seMeta_update (rmLastValid m) z)"

definition askedTLS :: "remnants \<Rightarrow> remnants \<Rightarrow> bool" where
  "askedTLS m m' = (\<exists>y. m' = m\<lparr>rmTLS := y\<rparr> \<and> asked seMeta_update (rmTLS m) y)"

lemma identityE:
  assumes "byocTLSIdentity L inst cfg targetID = Inr (name, hostname)" "byocTLSTarget targetID = Inr target"
  shows "bindE (liftE (byocTLSIdentity L inst cfg targetID)) k = k (name, hostname)" "bindE (liftE (byocTLSTarget targetID)) j = j target"
  by (simp_all add: assms bindE_def tryE_def liftE_def fun_eq_iff)

lemma cleanupBYOCDNS_step:
  assumes sl: "slot see (dnsEntries (irClient r)) (btNamespace cfg, name) rmDNS (\<lambda>y. rmDNS_update (\<lambda>_. y)) unMeta unMeta_update"
    and ours: "\<forall>x. rmDNS (see (world s)) = Some x \<longrightarrow> byocTLSOwned (unMeta x) inst"
    and id: "byocTLSIdentity (irLib r) inst cfg targetID = Inr (name, hostname)" "byocTLSTarget targetID = Inr target"
  shows "\<exists>res s'. cleanupBYOCDNS r inst cfg targetID s = (res, s') \<and>
    (if rmDNS (see (world s)) \<noteq> None then askedDNS (see (world s)) (see (world s')) \<and> waits res else res = Inr () \<and> s' = s)"
proof (cases "rmDNS (see (world s))")
  case None
  then show ?thesis
    unfolding cleanupBYOCDNS_def identityE [OF id] prod.case tryE_def slot_get [OF sl] by (simp add: retE_def)
next
  case (Some x)
  then obtain s' y where "deleteExact LocalCluster ODns (dnsEntries (irClient r)) unMeta x s = (Inr (), s')"
      "see (world s') = (see (world s))\<lparr>rmDNS := y\<rparr>" "asked unMeta_update (Some x) y"
    using unstructured_meta.deleteExact_step [OF sl Some] by blast
  with Some ours show ?thesis
    unfolding cleanupBYOCDNS_def identityE [OF id] prod.case tryE_def slot_get [OF sl] askedDNS_def
    by (auto simp: bindE_def tryE_def retE_def failE_def)
qed

lemma stopIssuance_step:
  assumes sl: "slot see (certificates (irClient r)) (btNamespace cfg, name) rmCertificate (\<lambda>y. rmCertificate_update (\<lambda>_. y)) unMeta unMeta_update"
      "slot see (secrets (irClient r)) (btNamespace cfg, name) rmSource (\<lambda>y. rmSource_update (\<lambda>_. y)) seMeta seMeta_update"
    and cert: "rmCertificate (see (world s)) = Some x"
    and bound: "\<forall>src. omDeletion (unMeta x) = None \<and> rmSource (see (world s)) = Some src \<longrightarrow> requireBYOCSourceSecret src x inst = None"
  shows "\<exists>res s'. stopIssuance r inst cfg targetID name x s = (res, s') \<and> askedCertificate (see (world s)) (see (world s')) \<and> waits res"
proof (cases "omDeletion (unMeta x) = None")
  case True
  obtain s' y where "deleteExact LocalCluster OCert (certificates (irClient r)) unMeta x s = (Inr (), s')"
      "see (world s') = (see (world s))\<lparr>rmCertificate := y\<rparr>" "asked unMeta_update (Some x) y"
    using unstructured_meta.deleteExact_step [OF sl(1) cert] by blast
  with True bound cert show ?thesis
    unfolding stopIssuance_def Let_def tryE_def slot_get [OF sl(2)] askedCertificate_def
    by (cases "rmSource (see (world s))") (auto simp: bindE_def tryE_def retE_def failE_def)
next
  case False
  then have "asked unMeta_update (Some x) (Some x)" using unstructured_meta.terminating_self by (auto simp: asked_def)
  then have "askedCertificate (see (world s)) (see (world s))"
    unfolding askedCertificate_def using cert by (intro exI [of _ "Some x"]) simp
  then show ?thesis using False unfolding stopIssuance_def Let_def by (simp add: failE_def)
qed

lemma cleanupCertificate_step:
  assumes sl: "managedSlots see (irClient r) (btNamespace cfg) name" and ours: "oursTLS inst name target (see (world s))"
    and id: "byocTLSIdentity (irLib r) inst cfg targetID = Inr (name, hostname)" "byocTLSTarget targetID = Inr target"
  shows "\<exists>res s'. cleanupCertificate r inst cfg targetID s = (res, s') \<and>
    (let m = see (world s); m' = see (world s') in
     if rmCertificate m \<noteq> None then askedCertificate m m' \<and> waits res
     else askedManaged m m' \<and> (if managedLeft m then waits res else res = Inr ()))"
proof -
  let ?m = "see (world s)"
  note sl = sl [unfolded managedSlots_def] and o = ours [unfolded oursTLS_def]
  note get = slot_get [OF conjunct1 [OF conjunct2 [OF sl]]]
  show ?thesis
  proof (cases "rmCertificate ?m")
    case (Some x)
    then obtain res s' where "stopIssuance r inst cfg targetID name x s = (res, s')" "askedCertificate ?m (see (world s'))" "waits res"
      using stopIssuance_step [of see r cfg name s x inst targetID] sl o by blast
    with Some o show ?thesis unfolding cleanupCertificate_def identityE [OF id]
      by (auto simp: bindE_def tryE_def retE_def failE_def get Let_def)
  next
    case None
    obtain s1 y where 1: "removeTLSSecret r inst cfg target name name s = (Inr (rmSource ?m \<noteq> None), s1)"
        "see (world s1) = ?m\<lparr>rmSource := y\<rparr>" "asked seMeta_update (rmSource ?m) y"
      using removeTLSSecret_step [of see r cfg name rmSource "\<lambda>y. rmSource_update (\<lambda>_. y)" s name inst target] sl o by auto
    obtain s2 z where 2: "removeTLSSecret r inst cfg target name (lastValidName name) s1 = (Inr (rmLastValid ?m \<noteq> None), s2)"
        "see (world s2) = ?m\<lparr>rmSource := y, rmLastValid := z\<rparr>" "asked seMeta_update (rmLastValid ?m) z"
      using removeTLSSecret_step [of see r cfg "lastValidName name" rmLastValid "\<lambda>y. rmLastValid_update (\<lambda>_. y)" s1 name inst target] sl o 1(2)
      by auto
    have "askedManaged ?m (see (world s2))" unfolding askedManaged_def using 1(3) 2(2,3) by blast
    with None 1(1) 2(1) show ?thesis unfolding cleanupCertificate_def identityE [OF id]
      by (simp add: bindE_def tryE_def retE_def failE_def get managedLeft_def Let_def)
  qed
qed

lemma cleanupBYOCManagedTLS_step:
  assumes sl: "managedSlots see (irClient r) (btNamespace cfg) name" and ours: "oursTLS inst name target (see (world s))"
    and id: "byocTLSIdentity (irLib r) inst cfg targetID = Inr (name, hostname)" "byocTLSTarget targetID = Inr target"
  shows "\<exists>res s'. cleanupBYOCManagedTLS r inst cfg targetID s = (res, s') \<and>
    (let m = see (world s); m' = see (world s') in
     if rmDNS m \<noteq> None then askedDNS m m' \<and> waits res
     else if rmCertificate m \<noteq> None then askedCertificate m m' \<and> waits res
     else askedManaged m m' \<and> (if managedLeft m then waits res else res = Inr ()))"
proof -
  obtain res1 s1 where 1: "cleanupBYOCDNS r inst cfg targetID s = (res1, s1)"
      "if rmDNS (see (world s)) \<noteq> None then askedDNS (see (world s)) (see (world s1)) \<and> waits res1 else res1 = Inr () \<and> s1 = s"
    using cleanupBYOCDNS_step [OF _ _ id, of see s] sl ours unfolding managedSlots_def oursTLS_def by blast
  obtain res2 s2 where 2: "cleanupCertificate r inst cfg targetID s = (res2, s2)"
      "let m = see (world s); m' = see (world s2) in if rmCertificate m \<noteq> None then askedCertificate m m' \<and> waits res2
       else askedManaged m m' \<and> (if managedLeft m then waits res2 else res2 = Inr ())"
    using cleanupCertificate_step [OF sl ours id] by blast
  show ?thesis
  proof (cases "rmDNS (see (world s))")
    case None
    with 1 2 show ?thesis by (simp add: cleanupBYOCManagedTLS_split bindE_def tryE_def)
  next
    case (Some x)
    with 1 show ?thesis by (auto simp: cleanupBYOCManagedTLS_split bindE_def tryE_def failE_def waits_def Let_def)
  qed
qed

text \<open>The copy of the certificate on the tenant's cluster, and the cached credentials.\<close>

lemma cleanupBYOCRemoteTLS_step:
  assumes sl: "slot see (secrets remote) (remoteKey name) rmTLS (\<lambda>y. rmTLS_update (\<lambda>_. y)) seMeta seMeta_update"
    and ours: "oursTLS inst name target (see (world s))"
    and id: "byocTLSIdentity (irLib r) inst cfg targetID = Inr (name, hostname)" "byocTLSTarget targetID = Inr target"
  shows "\<exists>res s'. cleanupBYOCRemoteTLS r remote inst cfg targetID s = (res, s') \<and> askedTLS (see (world s)) (see (world s')) \<and>
    (if rmTLS (see (world s)) \<noteq> None then waits res else res = Inr () \<and> s' = s)"
proof (cases "rmTLS (see (world s))")
  case None
  then have "askedTLS (see (world s)) (see (world s))" unfolding askedTLS_def by (intro exI [of _ None]) simp
  with None show ?thesis
    unfolding cleanupBYOCRemoteTLS_def identityE [OF id] prod.case tryE_def slot_get [OF sl] by (simp add: retE_def)
next
  case (Some x)
  then obtain s' y where "deleteExact RemoteCluster OSec (secrets remote) seMeta x s = (Inr (), s')"
      "see (world s') = (see (world s))\<lparr>rmTLS := y\<rparr>" "asked seMeta_update (Some x) y"
    using secret_meta.deleteExact_step [OF sl Some] by blast
  with Some ours show ?thesis
    unfolding cleanupBYOCRemoteTLS_def identityE [OF id] prod.case tryE_def slot_get [OF sl] askedTLS_def
    by (auto simp: bindE_def tryE_def retE_def failE_def oursTLS_def)
qed

text \<open>The operator puts no finalizer on the secret with the credentials.\<close>

definition oursCredentials :: "kube_lib \<Rightarrow> llm_instance \<Rightarrow> string \<Rightarrow> remnants \<Rightarrow> bool" where
  "oursCredentials L inst data m =
     (data \<noteq> [] \<and> (\<exists>c. rmCredentials m = Some c \<and> isControlledBy L (seMeta c) (liMeta inst) \<and> getS (seData c) byocKubeconfigKey = data \<and>
        omFinalizers (seMeta c) = []))"

definition credentialSlot :: "('w \<Rightarrow> remnants) \<Rightarrow> 'w instance_reconciler \<Rightarrow> llm_instance \<Rightarrow> string \<Rightarrow> bool" where
  "credentialSlot see r inst slug =
     slot see (secrets (irClient r)) (omNamespace (liMeta inst), byocCredentialsName slug) rmCredentials (\<lambda>y. rmCredentials_update (\<lambda>_. y))
       seMeta seMeta_update"

lemma cachedBYOCKubeconfig_step:
  assumes "credentialSlot see r inst slug" "slug \<noteq> []"
  shows "oursCredentials (irLib r) inst data (see (world s)) \<Longrightarrow> cachedBYOCKubeconfig r inst slug s = (Inr (Some data), s)"
    "rmCredentials (see (world s)) = None \<Longrightarrow> cachedBYOCKubeconfig r inst slug s = (Inr None, s)"
  using assms(2) slot_get [OF assms(1) [unfolded credentialSlot_def], of s]
  by (auto simp: cachedBYOCKubeconfig_def oursCredentials_def tryE_def retE_def Let_def)

lemma deleteCachedBYOCCredentials_step:
  assumes "credentialSlot see r inst slug" "oursCredentials (irLib r) inst data (see (world s))"
  shows "\<exists>s'. deleteCachedBYOCCredentials r inst slug s = (Inr (), s') \<and> see (world s') = (see (world s))\<lparr>rmCredentials := None\<rparr>"
proof -
  note sl = assms(1) [unfolded credentialSlot_def]
  from assms(2) obtain c where c: "rmCredentials (see (world s)) = Some c" "isControlledBy (irLib r) (seMeta c) (liMeta inst)"
      "omFinalizers (seMeta c) = []"
    unfolding oursCredentials_def by blast
  then show ?thesis
    using slot_delete [OF sl c(1), of "preUID (seMeta c)" LocalCluster OSec]
    by (auto simp: deleteCachedBYOCCredentials_def tryE_def slot_get [OF sl] retE_def)
qed

section \<open>One run follows the abstract machine\<close>

text \<open>One run as an abstract step: the first phase that has something left asks for its deletion and the run
  has to be repeated; if nothing is left the credentials go, and the removal is over.\<close>

definition removalStep :: "remnants \<Rightarrow> remnants \<Rightarrow> bool \<Rightarrow> bool" where
  "removalStep m m' over =
     (if rmDNS m \<noteq> None then askedDNS m m' \<and> \<not> over
      else if rmCertificate m \<noteq> None then askedCertificate m m' \<and> \<not> over
      else if managedLeft m then askedManaged m m' \<and> \<not> over
      else if workloadLeft m then askedWorkload m m' \<and> \<not> over
      else if rmTLS m \<noteq> None then askedTLS m m' \<and> \<not> over
      else m' = m\<lparr>rmCredentials := None\<rparr> \<and> over)"

lemmas asked_defs = askedDNS_def askedCertificate_def askedManaged_def askedWorkload_def askedTLS_def

lemma removalStep_done: "removalStep m m' True \<Longrightarrow> nothingLeft m'"
  by (auto simp: removalStep_def nothingLeft_def managedLeft_def workloadLeft_def split: if_splits)

text \<open>The setting: an instance with a recorded target, slug and host name; its credentials still open that
  target; and the API keeps its laws for the ten objects.\<close>

definition removalSetting ::
    "('w \<Rightarrow> remnants) \<Rightarrow> 'w instance_reconciler \<Rightarrow> 'w client \<Rightarrow> llm_instance \<Rightarrow> string \<Rightarrow> string \<Rightarrow> string \<Rightarrow> bool" where
  "removalSetting see r remote inst slug name data =
     (let targetID = stActiveBYOCTargetID (liStatus inst); cfg = byocCleanupTLSConfig r inst in
      cleanupSlug r inst = Inr slug \<and> slug \<noteq> [] \<and> stActiveBYOCKubeconfigSecretName (liStatus inst) \<noteq> [] \<and> targetID \<noteq> [] \<and>
      (\<exists>hostname. byocTLSIdentity (irLib r) inst cfg targetID = Inr (name, hostname)) \<and>
      managedSlots see (irClient r) (btNamespace cfg) name \<and> workloadSlots see remote slug \<and>
      slot see (secrets remote) (remoteKey name) rmTLS (\<lambda>y. rmTLS_update (\<lambda>_. y)) seMeta seMeta_update \<and> credentialSlot see r inst slug \<and>
      (\<forall>s. reachBYOCTarget r data targetID ''refusing cleanup on replacement BYOC cluster'' s = (Inr remote, s)))"

definition ours :: "kube_lib \<Rightarrow> llm_instance \<Rightarrow> string \<Rightarrow> string \<Rightarrow> remnants \<Rightarrow> bool" where
  "ours L inst name data m =
     (oursTLS inst name (take 32 (hexEncode (sha256 (stActiveBYOCTargetID (liStatus inst))))) m \<and> oursWorkload inst m \<and>
      oursCredentials L inst data m)"

text \<open>The part on the tenant's cluster: first the workload, then the certificate.\<close>

lemma askedWorkload_idle: "\<not> workloadLeft m \<Longrightarrow> askedWorkload m m' \<longleftrightarrow> m' = m"
  by (auto simp: askedWorkload_def workloadLeft_def)

lemma askedManaged_idle: "\<not> managedLeft m \<Longrightarrow> askedManaged m m' \<longleftrightarrow> m' = m"
  by (auto simp: askedManaged_def managedLeft_def)

lemma askedTLS_idle: "rmTLS m = None \<Longrightarrow> askedTLS m m' \<longleftrightarrow> m' = m"
  by (auto simp: askedTLS_def)

lemma removeBYOCTarget_step:
  assumes sl: "workloadSlots see remote slug" "slot see (secrets remote) (remoteKey name) rmTLS (\<lambda>y. rmTLS_update (\<lambda>_. y)) seMeta seMeta_update"
    and o: "oursTLS inst name target (see (world s))" "oursWorkload inst (see (world s))"
    and id: "byocTLSIdentity (irLib r) inst (byocCleanupTLSConfig r inst) targetID = Inr (name, hostname)" "byocTLSTarget targetID = Inr target"
    and reach: "\<And>s. reachBYOCTarget r data targetID refusal s = (Inr remote, s)" "targetID \<noteq> []"
  shows "\<exists>res s'. removeBYOCTarget r inst slug data targetID refusal s = (res, s') \<and>
    (let m = see (world s); m' = see (world s') in
     (if workloadLeft m then askedWorkload m m' else askedTLS m m') \<and>
     (if workloadLeft m \<or> rmTLS m \<noteq> None then waits res else res = Inr ()))"
proof -
  let ?m = "see (world s)"
  obtain res2 s2 where 2: "cleanupBYOCObjects remote inst slug s = (res2, s2)" "askedWorkload ?m (see (world s2))"
      "if workloadLeft ?m then waits res2 else res2 = Inr ()"
    using cleanupBYOCObjects_step [OF sl(1) o(2)] by blast
  have run: "removeBYOCTarget r inst slug data targetID refusal s = (case res2 of Inl e \<Rightarrow> (Inl e, s2)
      | Inr _ \<Rightarrow> cleanupBYOCRemoteTLS r remote inst (byocCleanupTLSConfig r inst) targetID s2)"
    using reach 2(1) by (simp add: removeBYOCTarget_def bindE_def tryE_def failE_def split: sum.split)
  show ?thesis
  proof (cases "workloadLeft ?m")
    case True
    with run 2 show ?thesis by (auto simp: waits_def)
  next
    case False
    then have "res2 = Inr ()" "see (world s2) = ?m" using 2 askedWorkload_idle by auto
    then show ?thesis
      using run False cleanupBYOCRemoteTLS_step [OF sl(2) _ id, of s2] o(1) by (auto simp: Let_def split: if_splits)
  qed
qed

lemma cleanupBYOC_refines:
  assumes "removalSetting see r remote inst slug name data" "ours (irLib r) inst name data (see (world s))"
  shows "\<exists>res s' over. cleanupBYOC r inst s = (res, s') \<and> removalStep (see (world s)) (see (world s')) over \<and>
    (if over then res = Inr () else waits res)"
proof -
  let ?m = "see (world s)" and ?id = "stActiveBYOCTargetID (liStatus inst)" and ?cfg = "byocCleanupTLSConfig r inst"
  let ?target = "take 32 (hexEncode (sha256 ?id))" and ?refusal = "''refusing cleanup on replacement BYOC cluster''"
  obtain hostname where st: "cleanupSlug r inst = Inr slug" "slug \<noteq> []" "stActiveBYOCKubeconfigSecretName (liStatus inst) \<noteq> []" "?id \<noteq> []"
      "byocTLSIdentity (irLib r) inst ?cfg ?id = Inr (name, hostname)" "managedSlots see (irClient r) (btNamespace ?cfg) name"
      "workloadSlots see remote slug" "slot see (secrets remote) (remoteKey name) rmTLS (\<lambda>y. rmTLS_update (\<lambda>_. y)) seMeta seMeta_update"
      "credentialSlot see r inst slug" "\<And>s. reachBYOCTarget r data ?id ?refusal s = (Inr remote, s)"
    using assms(1) unfolding removalSetting_def Let_def by blast
  have target: "byocTLSTarget ?id = Inr ?target" using st(4) by (simp add: byocTLSTarget_def)
  have o: "oursTLS inst name ?target ?m" "oursWorkload inst ?m" "oursCredentials (irLib r) inst data ?m"
    using assms(2) by (simp_all add: ours_def)
  obtain res1 s1 where 1: "cleanupBYOCManagedTLS r inst ?cfg ?id s = (res1, s1)"
    and m1: "if rmDNS ?m \<noteq> None then askedDNS ?m (see (world s1)) \<and> waits res1
      else if rmCertificate ?m \<noteq> None then askedCertificate ?m (see (world s1)) \<and> waits res1
      else askedManaged ?m (see (world s1)) \<and> (if managedLeft ?m then waits res1 else res1 = Inr ())"
    using cleanupBYOCManagedTLS_step [OF st(6) o(1) st(5) target] unfolding Let_def by blast
  show ?thesis
  proof (cases "rmDNS ?m \<noteq> None \<or> rmCertificate ?m \<noteq> None \<or> managedLeft ?m")
    case True
    then have "waits res1" "removalStep ?m (see (world s1)) False"
      using m1 by (auto simp: removalStep_def split: if_splits)
    with 1 st(1,4) show ?thesis by (auto simp: cleanupBYOC_def bindE_def tryE_def liftE_def failE_def waits_def Let_def)
  next
    case False
    then have s1: "res1 = Inr ()" "see (world s1) = ?m" using m1 askedManaged_idle by auto
    have cached: "cachedBYOCKubeconfig r inst slug s1 = (Inr (Some data), s1)"
      using cachedBYOCKubeconfig_step(1) [OF st(9,2)] o(3) s1(2) by simp
    obtain res2 s2 where 2: "removeBYOCTarget r inst slug data ?id ?refusal s1 = (res2, s2)"
        "if workloadLeft ?m then askedWorkload ?m (see (world s2)) else askedTLS ?m (see (world s2))"
        "if workloadLeft ?m \<or> rmTLS ?m \<noteq> None then waits res2 else res2 = Inr ()"
      using removeBYOCTarget_step [OF st(7,8) _ _ st(5) target st(10) st(4), of s1] o(1,2) unfolding s1(2) Let_def by blast
    have rest: "cleanupBYOC r inst s = (case res2 of Inl e \<Rightarrow> (Inl e, s2) | Inr _ \<Rightarrow> deleteCachedBYOCCredentials r inst slug s2)"
      using 1 s1(1) st(1,3,4) cached 2(1) by (simp add: cleanupBYOC_def bindE_def tryE_def liftE_def failE_def Let_def split: sum.split)
    show ?thesis
    proof (cases "workloadLeft ?m \<or> rmTLS ?m \<noteq> None")
      case True
      then have "waits res2" "removalStep ?m (see (world s2)) False"
        using False 2(2,3) by (auto simp: removalStep_def split: if_splits)
      then show ?thesis unfolding rest by (auto simp: waits_def)
    next
      case over: False
      then have s2: "res2 = Inr ()" "see (world s2) = ?m" using 2(2,3) askedTLS_idle by auto
      obtain s' where "deleteCachedBYOCCredentials r inst slug s2 = (Inr (), s')" "see (world s') = ?m\<lparr>rmCredentials := None\<rparr>"
        using deleteCachedBYOCCredentials_step [OF st(9), of data s2] o(3) s2(2) by auto
      moreover from this(2) have "removalStep ?m (see (world s')) True"
        using False over by (auto simp: removalStep_def)
      ultimately show ?thesis unfolding rest by (simp add: s2) blast
    qed
  qed
qed

section \<open>Progress\<close>

datatype part = DNSEntry | ManagedCertificate | SourceSecret | LastValidSecret | RemoteDeployment | RemoteService | KeySecret | ProxyConfig
  | RemoteTLSSecret

fun partMeta :: "part \<Rightarrow> remnants \<Rightarrow> objmeta option" where
  "partMeta DNSEntry m = map_option unMeta (rmDNS m)"
| "partMeta ManagedCertificate m = map_option unMeta (rmCertificate m)"
| "partMeta SourceSecret m = map_option seMeta (rmSource m)"
| "partMeta LastValidSecret m = map_option seMeta (rmLastValid m)"
| "partMeta RemoteDeployment m = map_option dpMeta (rmDeployment m)"
| "partMeta RemoteService m = map_option svMeta (rmService m)"
| "partMeta KeySecret m = map_option seMeta (rmKeys m)"
| "partMeta ProxyConfig m = map_option cmMeta (rmProxy m)"
| "partMeta RemoteTLSSecret m = map_option seMeta (rmTLS m)"

definition terminating :: "part \<Rightarrow> remnants \<Rightarrow> bool" where
  "terminating p m = (\<exists>mt. partMeta p m = Some mt \<and> omDeletion mt \<noteq> None)"

abbreviation "height m p \<equiv> standing (partMeta p m)"

definition allParts :: "part set" where
  "allParts = {DNSEntry, ManagedCertificate, SourceSecret, LastValidSecret, RemoteDeployment, RemoteService, KeySecret, ProxyConfig, RemoteTLSSecret}"

lemma allParts [simp]: "p \<in> allParts" "finite allParts"
  by (cases p) (simp_all add: allParts_def)

text \<open>What happens to the objects when nobody makes new ones: each stays, or is on its way out, or is gone;
  and the credentials are left alone.\<close>

definition fades :: "remnants \<Rightarrow> remnants \<Rightarrow> bool" where
  "fades m m' =
     (fading unMeta_update (rmDNS m) (rmDNS m') \<and>
      fading unMeta_update (rmCertificate m) (rmCertificate m') \<and>
      fading seMeta_update (rmSource m) (rmSource m') \<and>
      fading seMeta_update (rmLastValid m) (rmLastValid m') \<and>
      fading dpMeta_update (rmDeployment m) (rmDeployment m') \<and>
      fading svMeta_update (rmService m) (rmService m') \<and>
      fading seMeta_update (rmKeys m) (rmKeys m') \<and>
      fading cmMeta_update (rmProxy m) (rmProxy m') \<and>
      fading seMeta_update (rmTLS m) (rmTLS m') \<and>
      rmCredentials m' = rmCredentials m)"

lemma fades_height: "fades m m' \<Longrightarrow> height m' p \<le> height m p"
  by (cases p) (simp_all add: fades_def asked_standings)

lemma step_fades: "removalStep m m' False \<Longrightarrow> fades m m'"
  by (auto simp: removalStep_def fades_def asked_defs split: if_splits)

text \<open>What belongs to the instance still does.\<close>

lemma terminatingAs_ours:
  "terminatingAs unMeta_update x x' \<Longrightarrow> byocTLSOwned (unMeta x') inst = byocTLSOwned (unMeta x) inst \<and> omDeletion (unMeta x') \<noteq> None"
  "terminatingAs seMeta_update y y' \<Longrightarrow> byocTLSOwned (seMeta y') inst = byocTLSOwned (seMeta y) inst \<and>
     ByocTLS.boundSecret target y' = ByocTLS.boundSecret target y \<and> orphanedSource inst name y' = orphanedSource inst name y \<and>
     byocOwned (seMeta y') inst = byocOwned (seMeta y) inst \<and> requireBYOCSourceSecret y' x inst = requireBYOCSourceSecret y x inst"
  "terminatingAs dpMeta_update d d' \<Longrightarrow> byocOwned (dpMeta d') inst = byocOwned (dpMeta d) inst"
  "terminatingAs svMeta_update v v' \<Longrightarrow> byocOwned (svMeta v') inst = byocOwned (svMeta v) inst"
  "terminatingAs cmMeta_update c c' \<Longrightarrow> byocOwned (cmMeta c') inst = byocOwned (cmMeta c) inst"
  unfolding terminatingAs_def
  by (elim exE, hypsubst, simp add: byocTLSOwned_def byocOwned_def ByocTLS.boundSecret_def orphanedSource_def requireBYOCSourceSecret_def Let_def)+

lemma fadesE:
  assumes "fading upd x y" and "y = Some y0"
  obtains "x = Some y0" | x0 where "x = Some x0" "terminatingAs upd x0 y0"
  using assms by (auto simp: fading_def asked_def)

lemma oursTLS_fades:
  assumes "oursTLS inst name target m" and "fades m m'"
  shows "oursTLS inst name target m'"
proof -
  note o = assms(1) [unfolded oursTLS_def] and f = assms(2) [unfolded fades_def]
  have "byocTLSOwned (unMeta x) inst" if "rmDNS m' = Some x" for x
    by (rule fadesE [OF _ that, of unMeta_update "rmDNS m"]) (use o f terminatingAs_ours(1) in blast)+
  moreover have "byocTLSOwned (unMeta x) inst \<and>
      (\<forall>src. omDeletion (unMeta x) = None \<and> rmSource m' = Some src \<longrightarrow> requireBYOCSourceSecret src x inst = None)" if "rmCertificate m' = Some x" for x
  proof (rule fadesE [OF _ that, of unMeta_update "rmCertificate m"])
    assume same: "rmCertificate m = Some x"
    have "requireBYOCSourceSecret src x inst = None" if "omDeletion (unMeta x) = None" "rmSource m' = Some src" for src
      by (rule fadesE [OF _ that(2), of seMeta_update "rmSource m"]) (use same that(1) o f terminatingAs_ours(2) in \<open>blast | metis\<close>)+
    then show ?thesis using same o by blast
  qed (use o f terminatingAs_ours(1) in blast)+
  moreover have "orphanedSource inst name x = None" if "rmSource m' = Some x" for x
    by (rule fadesE [OF _ that, of seMeta_update "rmSource m"]) (use o f terminatingAs_ours(2) in \<open>blast | metis\<close>)+
  moreover have "byocTLSOwned (seMeta x) inst \<and> ByocTLS.boundSecret target x" if "rmLastValid m' = Some x" for x
    by (rule fadesE [OF _ that, of seMeta_update "rmLastValid m"]) (use o f terminatingAs_ours(2) in blast)+
  moreover have "byocTLSOwned (seMeta x) inst \<and> ByocTLS.boundSecret target x" if "rmTLS m' = Some x" for x
    by (rule fadesE [OF _ that, of seMeta_update "rmTLS m"]) (use o f terminatingAs_ours(2) in blast)+
  ultimately show ?thesis unfolding oursTLS_def by blast
qed

lemma oursWorkload_fades:
  assumes "oursWorkload inst m" and "fades m m'"
  shows "oursWorkload inst m'"
proof -
  note o = assms(1) [unfolded oursWorkload_def] and f = assms(2) [unfolded fades_def]
  have "byocOwned (dpMeta x) inst" if "rmDeployment m' = Some x" for x
    by (rule fadesE [OF _ that, of dpMeta_update "rmDeployment m"]) (use o f terminatingAs_ours(3) in blast)+
  moreover have "byocOwned (svMeta x) inst" if "rmService m' = Some x" for x
    by (rule fadesE [OF _ that, of svMeta_update "rmService m"]) (use o f terminatingAs_ours(4) in blast)+
  moreover have "byocOwned (seMeta x) inst" if "rmKeys m' = Some x" for x
    by (rule fadesE [OF _ that, of seMeta_update "rmKeys m"]) (use o f terminatingAs_ours(2) in blast)+
  moreover have "byocOwned (cmMeta x) inst" if "rmProxy m' = Some x" for x
    by (rule fadesE [OF _ that, of cmMeta_update "rmProxy m"]) (use o f terminatingAs_ours(5) in blast)+
  ultimately show ?thesis unfolding oursWorkload_def by blast
qed

lemma ours_fades: "ours L inst name data m \<Longrightarrow> fades m m' \<Longrightarrow> ours L inst name data m'"
  using oursTLS_fades oursWorkload_fades by (auto simp: ours_def oursCredentials_def fades_def)

lemma step_lowers:
  assumes "removalStep m m' False"
  shows "\<exists>p. partMeta p m \<noteq> None \<and> height m' p \<le> 1"
proof -
  consider "rmDNS m \<noteq> None" "askedDNS m m'" | "rmCertificate m \<noteq> None" "askedCertificate m m'" | "managedLeft m" "askedManaged m m'"
    | "workloadLeft m" "askedWorkload m m'" | "rmTLS m \<noteq> None" "askedTLS m m'"
    using assms by (auto simp: removalStep_def split: if_splits)
  then show ?thesis
  proof cases
    case 1
    then show ?thesis by (intro exI [of _ DNSEntry]) (auto simp: askedDNS_def dest: asked_standings)
  next
    case 2
    then show ?thesis by (intro exI [of _ ManagedCertificate]) (auto simp: askedCertificate_def dest: asked_standings)
  next
    case 3
    then have "height m' SourceSecret \<le> 1 \<and> height m' LastValidSecret \<le> 1" by (auto simp: askedManaged_def dest: asked_standings)
    moreover have "partMeta SourceSecret m \<noteq> None \<or> partMeta LastValidSecret m \<noteq> None" using 3(1) by (simp add: managedLeft_def)
    ultimately show ?thesis by blast
  next
    case 4
    then have "height m' RemoteDeployment \<le> 1 \<and> height m' RemoteService \<le> 1 \<and> height m' KeySecret \<le> 1 \<and> height m' ProxyConfig \<le> 1"
      by (auto simp: askedWorkload_def dest: asked_standings)
    moreover have "partMeta RemoteDeployment m \<noteq> None \<or> partMeta RemoteService m \<noteq> None \<or> partMeta KeySecret m \<noteq> None \<or> partMeta ProxyConfig m \<noteq> None"
      using 4(1) by (simp add: workloadLeft_def)
    ultimately show ?thesis by blast
  next
    case 5
    then show ?thesis by (intro exI [of _ RemoteTLSSecret]) (auto simp: askedTLS_def dest: asked_standings)
  qed
qed

text \<open>Heights that never rise, and of which one stands at most at one after each step, cannot stay if every
  height of one comes down at last.\<close>

lemma heights_settle:
  fixes h :: "nat \<Rightarrow> 'p \<Rightarrow> nat"
  assumes "finite A" and down: "\<And>i p. h (Suc i) p \<le> h i p" and "\<And>i. \<exists>p \<in> A. 0 < h i p \<and> h (Suc i) p \<le> 1"
    and fair: "\<And>i p. h i p = 1 \<Longrightarrow> \<exists>j > i. h j p = 0"
  shows False
proof -
  let ?t = "\<lambda>i. \<Sum>p \<in> A. h i p"
  have mono: "h j p \<le> h i p" if "i \<le> j" for i j p by (rule lift_Suc_antimono_le [of "\<lambda>i. h i p", OF down that])
  obtain N where least: "?t N \<le> ?t j" for j using ex_has_least_nat [of "\<lambda>_. True" 0 ?t] by auto
  obtain p where p: "p \<in> A" "0 < h N p" "h (Suc N) p \<le> 1" using assms(3) by blast
  have same: "h j p = h N p" if "N \<le> j" for j
  proof (rule ccontr)
    assume "h j p \<noteq> h N p"
    then have "h j p < h N p" using mono [OF that, of p] by simp
    then have "?t j < ?t N" using assms(1) p(1) mono [OF that] by (intro sum_strict_mono_ex1) auto
    then show False using least [of j] by simp
  qed
  have "h (Suc N) p = 1" using same [of "Suc N"] p by simp
  then obtain j where "j > Suc N" "h j p = 0" using fair by blast
  then show False using same [of j] p(2) by simp
qed

section \<open>Properties\<close>

text \<open>\<^bold>\<open>C13.\<close> Removal from a tenant's cluster completes, with objects that take their time to go.  Suppose what is
  left belongs to the instance, its cached credentials open the recorded cluster, and the API keeps its
  laws: a delete removes an object without finalizers and puts a deletion timestamp on one with finalizers.
  Between two runs other controllers may let objects go or delete them, but nobody makes new ones; and
  every object that is being deleted is gone at last.  Then the removal, run again and again, asks to be
  repeated finitely often, each time with the error on which the controller waits, and then succeeds and
  leaves nothing: no DNS entry, certificate, key material, workload or credential.\<close>

theorem removal_completes:
  fixes run :: "nat \<Rightarrow> 'w sys"
  assumes "removalSetting see r remote inst slug name data" and "ours (irLib r) inst name data (see (world (run 0)))"
    and "\<And>i. waits (fst (cleanupBYOC r inst (run i))) \<Longrightarrow> fades (see (world (snd (cleanupBYOC r inst (run i))))) (see (world (run (Suc i))))"
    and "\<And>i p. terminating p (see (world (run i))) \<Longrightarrow> \<exists>j > i. partMeta p (see (world (run j))) = None"
  shows "\<exists>n. (\<forall>i < n. waits (fst (cleanupBYOC r inst (run i)))) \<and> fst (cleanupBYOC r inst (run n)) = Inr () \<and>
    nothingLeft (see (world (snd (cleanupBYOC r inst (run n)))))"
proof -
  let ?m = "\<lambda>i. see (world (run i))" and ?run = "\<lambda>i. cleanupBYOC r inst (run i)"
  have step: "fst (?run i) = Inr () \<and> nothingLeft (see (world (snd (?run i)))) \<or>
      waits (fst (?run i)) \<and> removalStep (?m i) (see (world (snd (?run i)))) False" if "ours (irLib r) inst name data (?m i)" for i
    using cleanupBYOC_refines [OF assms(1) that] removalStep_done by (metis (full_types) fst_conv snd_conv)
  have go: "ours (irLib r) inst name data (?m i)" if "\<forall>j < i. waits (fst (?run j))" for i
    using that
  proof (induction i)
    case (Suc i)
    then have "ours (irLib r) inst name data (?m i)" "waits (fst (?run i))" by simp_all
    with step [of i] have "removalStep (?m i) (see (world (snd (?run i)))) False" by (auto simp: waits_def)
    with ours_fades step_fades assms(3) \<open>waits (fst (?run i))\<close> \<open>ours (irLib r) inst name data (?m i)\<close> show ?case by blast
  qed (rule assms(2))
  have "\<exists>n. \<not> waits (fst (?run n))"
  proof (rule ccontr)
    assume "\<nexists>n. \<not> waits (fst (?run n))"
    then have wait: "waits (fst (?run i))" for i by blast
    have "ours (irLib r) inst name data (?m i)" for i by (rule go) (use wait in blast)
    from step [OF this] wait have abstract: "removalStep (?m i) (see (world (snd (?run i)))) False" for i
      unfolding waits_def by (metis Inl_Inr_False)
    have env: "height (?m (Suc i)) p \<le> height (see (world (snd (?run i)))) p" for i p by (rule fades_height [OF assms(3) [OF wait]])
    have down: "height (?m (Suc i)) p \<le> height (?m i) p" for i p
      using env [of p i] fades_height [OF step_fades [OF abstract [of i]], of p] by simp
    have "\<exists>p \<in> allParts. 0 < height (?m i) p \<and> height (?m (Suc i)) p \<le> 1" for i
      using step_lowers [OF abstract [of i]] env [of _ i] by (metis allParts(1) gr0I order_trans standing_simps(2))
    moreover have "\<exists>j > i. height (?m j) p = 0" if "height (?m i) p = 1" for i p
      using assms(4) [of p i] that by (auto simp: terminating_def standing_def split: option.splits if_splits)
    ultimately show False using heights_settle [of allParts "\<lambda>i. height (?m i)"] down allParts(2) by blast
  qed
  then obtain n where n: "\<not> waits (fst (?run n))" "\<forall>i < n. waits (fst (?run i))" using exists_least_iff [of "\<lambda>n. \<not> waits (fst (?run n))"] by auto
  from step [OF go [OF n(2)]] n show ?thesis by blast
qed

lemma cleanup_without_credentials:
  assumes "removalSetting see r remote inst slug name data" "nothingLeft (see (world s))"
  shows "cleanupBYOC r inst s = (Inl (errNew ''cannot clean BYOC without protected cached credentials''), s)"
proof -
  let ?id = "stActiveBYOCTargetID (liStatus inst)" and ?cfg = "byocCleanupTLSConfig r inst"
  obtain hostname where st: "cleanupSlug r inst = Inr slug" "slug \<noteq> []" "stActiveBYOCKubeconfigSecretName (liStatus inst) \<noteq> []" "?id \<noteq> []"
      "byocTLSIdentity (irLib r) inst ?cfg ?id = Inr (name, hostname)" "credentialSlot see r inst slug"
    and sl: "managedSlots see (irClient r) (btNamespace ?cfg) name"
    using assms(1) unfolding removalSetting_def Let_def by blast
  note sl = sl [unfolded managedSlots_def]
  have left: "rmDNS (see (world s)) = None" "rmCertificate (see (world s)) = None" "rmSource (see (world s)) = None"
      "rmLastValid (see (world s)) = None" "rmCredentials (see (world s)) = None"
    using assms(2) by (simp_all add: nothingLeft_def managedLeft_def)
  have "getObj (dnsEntries (irClient r)) (btNamespace ?cfg, name) s = (foundOr404 None, s)"
    "getObj (certificates (irClient r)) (btNamespace ?cfg, name) s = (foundOr404 None, s)"
    "getObj (secrets (irClient r)) (btNamespace ?cfg, name) s = (foundOr404 None, s)"
    "getObj (secrets (irClient r)) (btNamespace ?cfg, lastValidName name) s = (foundOr404 None, s)"
    using sl left slot_get by metis+
  then have "cleanupBYOCManagedTLS r inst ?cfg ?id s = (Inr (), s)"
    using st(4,5)
    by (simp add: cleanupBYOCManagedTLS_def cleanupBYOCDNS_def byocTLSTarget_def removeTLSSecret_def bindE_def tryE_def liftE_def retE_def)
  then show ?thesis
    using st(1,3,4) cachedBYOCKubeconfig_step(2) [OF st(6,2) left(5)]
    by (simp add: cleanupBYOC_def bindE_def tryE_def liftE_def failE_def Let_def)
qed

text \<open>\<^bold>\<open>C19.\<close> A lost update of the finalizer blocks the deletion for good: once a removal has succeeded, which deletes
  the cached credentials, every further attempt to finalize the same instance fails on the missing
  credentials before it comes to the finalizer, and changes nothing.  So if the update that drops the
  finalizer fails once, the instance can never be deleted.\<close>

theorem removal_not_repeatable:
  assumes "removalSetting see r remote inst slug name data" and "ours (irLib r) inst name data (see (world s))"
    and "cleanupBYOC r inst s = (Inr (), s1)" and "see (world s2) = see (world s1)"
    and "containsFinalizer (irLib r) (liMeta inst) finalizerName"
  shows "finalizeLLMInstance r inst k s2 = (Inl (errNew ''cannot clean BYOC without protected cached credentials''), s2)"
proof -
  obtain over where "removalStep (see (world s)) (see (world s1)) over" "if over then Inr () = (Inr () :: goerr + unit) else waits (Inr ())"
    using cleanupBYOC_refines [OF assms(1,2)] assms(3) by auto
  then have "nothingLeft (see (world s1))" using removalStep_done by (auto simp: waits_def split: if_splits)
  then have "cleanupBYOC r inst s2 = (Inl (errNew ''cannot clean BYOC without protected cached credentials''), s2)"
    using cleanup_without_credentials [OF assms(1)] assms(4) by simp
  moreover have "stActiveBYOCKubeconfigSecretName (liStatus inst) \<noteq> []"
    using assms(1) by (simp add: removalSetting_def Let_def)
  ultimately show ?thesis using assms(5) by (simp add: finalizeLLMInstance_def bindE_def tryE_def failE_def)
qed

section \<open>Witnesses\<close>

text \<open>A world that holds what is left, a DNS entry and a deployment; the certificate and the copies of its
  secret are gone already.\<close>

definition marked :: "objmeta \<Rightarrow> objmeta" where
  "marked m = m\<lparr>omDeletion := Some 1, omResourceVersion := ''9'', omFinalizers := [''dns.gardener.cloud/compound'']\<rparr>"

definition storedKind :: "(key \<Rightarrow> remnants \<Rightarrow> 'o option) \<Rightarrow> ('o option \<Rightarrow> remnants \<Rightarrow> remnants) \<Rightarrow> ('o \<Rightarrow> objmeta) \<Rightarrow>
    ((objmeta \<Rightarrow> objmeta) \<Rightarrow> 'o \<Rightarrow> 'o) \<Rightarrow> (remnants, 'o) kind_api" where
  "storedKind get put meta upd = (cannedKind absent [])\<lparr>kGet := (\<lambda>k w. (foundOr404 (get k w), w)),
     kDelete := (\<lambda>x _ w. (Inr (), put (if omFinalizers (meta x) = [] then None else Some (upd marked x)) w))\<rparr>"

lemma marked_terminating [simp]: "terminatingAs upd x (upd marked x)"
  unfolding terminatingAs_def marked_def by blast

definition absentClient :: "remnants client" where
  "absentClient = \<lparr>instances = cannedKind absent [], tokenRequests = cannedKind absent [],
     secrets = cannedKind absent [], deployments = cannedKind absent [], services = cannedKind absent [],
     ingresses = cannedKind absent [], middlewares = cannedKind absent [], endpointsApi = cannedKind absent [],
     configMaps = cannedKind absent [], namespaces = cannedKind absent [],
     certificates = cannedKind absent [], dnsEntries = cannedKind absent []\<rparr>"

definition seenLeft :: "remnants \<Rightarrow> remnants" where
  "seenLeft w = w\<lparr>rmCertificate := None, rmSource := None, rmLastValid := None, rmService := None, rmKeys := None, rmProxy := None, rmTLS := None\<rparr>"

definition storeClient :: "remnants client" where
  "storeClient = absentClient\<lparr>dnsEntries := storedKind (\<lambda>_. rmDNS) (\<lambda>y. rmDNS_update (\<lambda>_. y)) unMeta unMeta_update,
     secrets := storedKind (\<lambda>k w. if fst k = ''default'' then rmCredentials w else None) (\<lambda>y. rmCredentials_update (\<lambda>_. y)) seMeta seMeta_update\<rparr>"

definition storeRemote :: "remnants client" where
  "storeRemote = absentClient\<lparr>deployments := storedKind (\<lambda>_. rmDeployment) (\<lambda>y. rmDeployment_update (\<lambda>_. y)) dpMeta dpMeta_update,
     namespaces := cannedKind (\<lambda>_. Inr \<lparr>nsMeta = (newMeta [] ''kube-system'')\<lparr>omUID := ''n''\<rparr>\<rparr>) []\<rparr>"

definition storeLib :: kube_lib where
  "storeLib = sampleLib\<lparr>isDNS1123Label := (\<lambda>_. True), isDNS1123Subdomain := (\<lambda>_. True)\<rparr>"

definition storeReconciler :: "remnants instance_reconciler" where
  "storeReconciler = \<lparr>irClient = storeClient, irRouteReader = None, irSlugPolicy = Some samplePolicy, irLib = storeLib,
     irHost = \<lparr>nowText = (\<lambda>_. []), nowTime = (\<lambda>_. 0), randRead = (\<lambda>n w. (Inr (replicate n (CHR 0x2A)), w))\<rparr>,
     irModelServerCeilings = tunedCeilings, irPublicHost = [], irAuthServiceURL = [], irPublicScheme = [], irExtraIngressAnnotations = [],
     irTLSSecretName = [], irBYOCTLS = \<lparr>btDomain = ''d.e'', btNamespace = ''ops'', btIssuerName = [], btIssuerNamespace = [],
       btDNSClass = []\<rparr>, irServiceHealthChecker = None, irBYOCHealthChecker = None,
     irRemoteClientBuilder = Some (\<lambda>_. Inr storeRemote), irBYOCLib = sampleByoc storeRemote, irHTTPGet = (\<lambda>_ w. (Inr 200, w))\<rparr>"

definition storeAPI :: string where
  "storeAPI = hexEncode (sha256 (''https://api.example'' @ nul @ [] @ nul @ ''k''))"

definition storeTarget :: string where
  "storeTarget = hexEncode (sha256 (storeAPI @ nul @ ''n''))"

definition goingInstance :: llm_instance where
  "goingInstance = demoInstance\<lparr>liMeta := (liMeta demoInstance)\<lparr>omFinalizers := [finalizerName]\<rparr>,
     liStatus := (liStatus demoInstance)\<lparr>stActiveBYOCKubeconfigSecretName := ''kc'', stActiveBYOCSlug := ''alpha'',
       stActiveBYOCTargetID := storeTarget\<rparr>\<rparr>"

definition goingWorld :: remnants where
  "goingWorld = \<lparr>rmDNS = Some ((byocTLSObject ''ops'' ''x'')\<lparr>unMeta := (newMeta ''ops'' ''x'')\<lparr>omLabels := [byocTLSOwnerLabel \<mapsto> ''u1''],
       omFinalizers := [''dns.gardener.cloud/compound'']\<rparr>\<rparr>),
     rmCertificate = None, rmSource = None, rmLastValid = None, rmDeployment = Some demoByocDeployment,
     rmService = None, rmKeys = None, rmProxy = None, rmTLS = None,
     rmCredentials = Some ((newCredentials goingInstance ''alpha'' ''k'')\<lparr>seMeta :=
       (newMeta ''default'' ''c'')\<lparr>omOwners := [controllerRef ''LLMInstance'' (liMeta goingInstance)]\<rparr>\<rparr>)\<rparr>"

definition goingSys :: "remnants \<Rightarrow> remnants sys" where
  "goingSys w = \<lparr>world = w, journal = [], held = goingInstance\<rparr>"

lemma storeTarget_set: "storeTarget \<noteq> []"
proof -
  have "length storeTarget = 64" by (simp add: storeTarget_def)
  then show ?thesis by auto
qed

lemma going_simps:
  "omUID (liMeta goingInstance) = ''u1''" "omNamespace (liMeta goingInstance) = ''default''"
  "stActiveBYOCKubeconfigSecretName (liStatus goingInstance) = ''kc''" "stActiveBYOCSlug (liStatus goingInstance) = ''alpha''"
  "stActiveBYOCTargetID (liStatus goingInstance) = storeTarget" "stActiveBYOCTLSDomain (liStatus goingInstance) = []"
  "stActiveBYOCTLSNamespace (liStatus goingInstance) = []" "omFinalizers (liMeta goingInstance) = [finalizerName]"
  by (simp_all add: goingInstance_def demoInstance_def sampleObj_def newMeta_def)

lemma store_reach: "reachBYOCTarget storeReconciler ''k'' storeTarget refusal s = (Inr storeRemote, s)"
proof -
  have "byocTargetIdentity (irBYOCLib storeReconciler) ''k'' = Inr storeAPI"
    using byocDemo_config [of storeRemote] by (simp add: byocTargetIdentity_def storeReconciler_def storeAPI_def)
  moreover have "byocClusterIdentity storeRemote apiID s = (Inr (hexEncode (sha256 (apiID @ nul @ ''n''))), s)" for apiID
    by (simp add: byocClusterIdentity_def tryE_def retE_def getObj_def readWith_def storeRemote_def cannedKind_def)
  moreover have "remoteClientForKubeconfig storeReconciler ''k'' = Inr storeRemote"
    by (simp add: remoteClientForKubeconfig_def storeReconciler_def)
  ultimately show ?thesis
    by (simp add: reachBYOCTarget_def bindE_def tryE_def liftE_def retE_def storeTarget_def)
qed

lemma stored_slot:
  assumes "\<And>w. get (see w) = g k w" "\<And>y w. see (put y w) = put y (see w)" "\<And>m. put (get m) m = m"
  shows "slot see (storedKind g put meta upd) k get put meta upd"
  using assms(2,3) by (auto simp: slot_def storedKind_def cannedKind_def assms(1) intro!: exI [of _ "Some (upd marked x)" for x])

lemma absent_slot:
  assumes "\<And>w. get (see w) = None" "\<And>m. put (get m) m = m"
  shows "slot see (cannedKind absent []) k get put meta upd"
  using assms by (simp add: slot_def cannedKind_def absent_def)

lemma hidden_slot:
  assumes "\<And>w. get (see w) = None" "\<And>m. put (get m) m = m" "\<And>w. g k w = None"
  shows "slot see (storedKind g put' meta' upd') k get put meta upd"
  using assms by (simp add: slot_def storedKind_def cannedKind_def)

lemma store_slots:
  assumes "ns \<noteq> ''default''"
  shows "managedSlots seenLeft storeClient ns name"
  unfolding managedSlots_def storeClient_def absentClient_def client.simps
  by (intro conjI, rule stored_slot, simp_all add: seenLeft_def absent_slot hidden_slot assms)

lemma store_slots_rest:
  "workloadSlots seenLeft storeRemote slug"
    "slot seenLeft (secrets storeRemote) k rmTLS (\<lambda>y. rmTLS_update (\<lambda>_. y)) seMeta seMeta_update"
    "slot seenLeft (secrets storeClient) (''default'', n) rmCredentials (\<lambda>y. rmCredentials_update (\<lambda>_. y)) seMeta seMeta_update"
  unfolding workloadSlots_def storeClient_def storeRemote_def
  by (auto intro!: stored_slot absent_slot simp: seenLeft_def absentClient_def)

lemma store_setting:
  "removalSetting seenLeft storeReconciler storeRemote goingInstance ''alpha'' (byocTLSName goingInstance storeTarget) ''k''"
proof -
  have cfg: "byocCleanupTLSConfig storeReconciler goingInstance = irBYOCTLS storeReconciler"
    by (simp add: byocCleanupTLSConfig_def going_simps)
  have r: "irClient storeReconciler = storeClient" "btNamespace (irBYOCTLS storeReconciler) = ''ops''" "btDomain (irBYOCTLS storeReconciler) = ''d.e''"
      "irLib storeReconciler = storeLib"
    by (simp_all add: storeReconciler_def)
  show ?thesis
    using storeTarget_set
    by (simp add: removalSetting_def cfg r going_simps cleanupSlug_def store_reach store_slots store_slots_rest credentialSlot_def byocTLSIdentity_def storeLib_def
        Let_def)
qed

lemma going_ours: "ours (irLib storeReconciler) goingInstance name ''k'' (seenLeft (world (goingSys goingWorld)))"
proof -
  have "byocOwned (dpMeta demoByocDeployment) goingInstance"
    using demo_owned by (simp add: byocOwned_def goingInstance_def)
  then show ?thesis
    by (simp add: ours_def oursTLS_def oursWorkload_def oursCredentials_def seenLeft_def goingSys_def goingWorld_def byocTLSOwned_def going_simps
        newMeta_def storeReconciler_def storeLib_def sampleLib_def controllerOf_def controllerRef_def newCredentials_def byocTLSObject_def)
qed

text \<open>The DNS entry has a finalizer; its controller lets it go after the run that asked for its deletion.\<close>

definition sweep :: "remnants \<Rightarrow> remnants" where
  "sweep w = w\<lparr>rmDNS := (case rmDNS w of None \<Rightarrow> None | Some x \<Rightarrow> if omDeletion (unMeta x) = None then Some x else None),
     rmDeployment := (case rmDeployment w of None \<Rightarrow> None | Some x \<Rightarrow> if omDeletion (dpMeta x) = None then Some x else None)\<rparr>"

fun goingRun :: "nat \<Rightarrow> remnants sys" where
  "goingRun 0 = goingSys goingWorld"
| "goingRun (Suc i) = goingSys (sweep (world (snd (cleanupBYOC storeReconciler goingInstance (goingRun i)))))"

lemma sweep_fades: "fades (seenLeft w) (seenLeft (sweep w))"
  by (simp add: fades_def seenLeft_def sweep_def split: option.split)

lemma sweep_settled: "\<not> terminating p (seenLeft (sweep w))"
  by (cases p) (simp_all add: terminating_def seenLeft_def sweep_def split: option.split)

lemma going_settled: "\<not> terminating p (seenLeft (world (goingRun i)))"
proof (cases i)
  case 0
  have "omDeletion (dpMeta demoByocDeployment) = None" 
    by (simp add: demoByocDeployment_def buildBYOCDeployment_def corev1defaults_def configureBYOCTLSDeployment_def newMeta_def Let_def)
  then show ?thesis unfolding 0 goingRun.simps
    by (cases p) (simp_all add: terminating_def seenLeft_def goingSys_def goingWorld_def newMeta_def)
next
  case (Suc j)
  then show ?thesis by (simp add: goingSys_def sweep_settled)
qed

theorem removal_completes_witness:
  "\<exists>n. fst (cleanupBYOC storeReconciler goingInstance (goingRun n)) = Inr () \<and>
     nothingLeft (seenLeft (world (snd (cleanupBYOC storeReconciler goingInstance (goingRun n)))))"
proof -
  have "ours (irLib storeReconciler) goingInstance name ''k'' (seenLeft (world (goingRun 0)))" for name using going_ours by simp
  moreover have "fades (seenLeft (world (snd (cleanupBYOC storeReconciler goingInstance (goingRun i))))) (seenLeft (world (goingRun (Suc i))))" for i
    using sweep_fades by (simp add: goingSys_def)
  ultimately show ?thesis using removal_completes [OF store_setting, of goingRun] going_settled by blast
qed

text \<open>When only the credentials are left, one run succeeds, and the finalizer can no longer be dropped.\<close>

definition lastWorld :: remnants where
  "lastWorld = goingWorld\<lparr>rmDNS := None, rmDeployment := None\<rparr>"

lemma last_ours: "ours (irLib storeReconciler) goingInstance name ''k'' (seenLeft (world (goingSys lastWorld)))"
  using going_ours by (simp add: ours_def oursTLS_def oursWorkload_def oursCredentials_def seenLeft_def goingSys_def lastWorld_def)

lemma last_run: "\<exists>s1. cleanupBYOC storeReconciler goingInstance (goingSys lastWorld) = (Inr (), s1)"
proof -
  have "over" if "removalStep (seenLeft (world (goingSys lastWorld))) m' over" for m' over
    using that by (simp add: removalStep_def seenLeft_def goingSys_def lastWorld_def managedLeft_def workloadLeft_def)
  then show ?thesis using cleanupBYOC_refines [OF store_setting last_ours] by metis
qed

theorem removal_not_repeatable_witness:
  "\<exists>s1. cleanupBYOC storeReconciler goingInstance (goingSys lastWorld) = (Inr (), s1) \<and>
     finalizeLLMInstance storeReconciler goingInstance (keyOf (liMeta goingInstance)) s1 =
       (Inl (errNew ''cannot clean BYOC without protected cached credentials''), s1)"
proof -
  obtain s1 where run: "cleanupBYOC storeReconciler goingInstance (goingSys lastWorld) = (Inr (), s1)" using last_run by blast
  have "containsFinalizer (irLib storeReconciler) (liMeta goingInstance) finalizerName"
    by (simp add: storeReconciler_def storeLib_def sampleLib_def going_simps)
  with removal_not_repeatable [OF store_setting last_ours run refl] run show ?thesis by blast
qed

end
