(* ===== verification/History.thy ===== *)
theory History
  imports InstanceController
begin

text \<open>
  The status of an instance over its whole life.  Runs of the controller follow each other, each with
  its own configuration and policy (the operator may be restarted with another policy file), and tenants
  edit the object in between.  This theory states a history as a transition relation on the stored
  object and proves invariants of it by rule induction: the slug, once recorded, stays, and a published
  endpoint is always the one of the recorded slug.
\<close>

section \<open>Statuses that are sent\<close>

fun sentStatus :: "wreq \<Rightarrow> llm_status option" where
  "sentStatus (Write LocalCluster WStatusUpdate (OInst i)) = Some (liStatus i)"
| "sentStatus (Write LocalCluster WStatusPatch (OInst i)) = Some (liStatus i)"
| "sentStatus _ = None"

definition silentWrite :: "wreq \<Rightarrow> bool" where
  "silentWrite w = (sentStatus w = None)"

lemma silentWrite_simps [simp]:
  "silentWrite (Write c WCreate x)" "silentWrite (Write c WUpdate x)" "silentWrite (Write c (WDelete p) x)" "silentWrite (Write RemoteCluster op x)"
  by (simp_all add: silentWrite_def)

text \<open>What the API answers to a status update holds the two slugs as they were sent.\<close>

definition sameSlugs :: "llm_instance \<Rightarrow> llm_instance \<Rightarrow> bool" where
  "sameSlugs i j = (stSlug (liStatus i) = stSlug (liStatus j) \<and> stActiveBYOCSlug (liStatus i) = stActiveBYOCSlug (liStatus j))"

definition slugEchoed :: "'w instance_reconciler \<Rightarrow> bool" where
  "slugEchoed r = ((\<forall>x w y. fst (kStatusUpdate (instances (irClient r)) x w) = Inr y \<longrightarrow> sameSlugs y x) \<and>
     (\<forall>b x w y. fst (kStatusPatch (instances (irClient r)) b x w) = Inr y \<longrightarrow> sameSlugs y x))"

section \<open>Guarded operations\<close>

text \<open>
  \<open>guards P m\<close>: started while the held instance has slugs in \<open>P\<close>, \<open>m\<close> sends statuses with slugs in \<open>P\<close>
  only, as updates and not as patches, and leaves an instance with slugs in \<open>P\<close> behind.
\<close>

definition slugsIn :: "(string \<Rightarrow> string \<Rightarrow> bool) \<Rightarrow> llm_status \<Rightarrow> bool" where
  "slugsIn P st = P (stSlug st) (stActiveBYOCSlug st)"

definition guarded :: "(string \<Rightarrow> string \<Rightarrow> bool) \<Rightarrow> wreq \<Rightarrow> bool" where
  "guarded P w = (\<forall>st. sentStatus w = Some st \<longrightarrow> slugsIn P st \<and> statusOf w = Some st)"

definition guards :: "(string \<Rightarrow> string \<Rightarrow> bool) \<Rightarrow> ('w sys, 'e, 'a) eff \<Rightarrow> bool" where
  "guards P m = (\<forall>s. slugsIn P (liStatus (held s)) \<longrightarrow> emitsFrom (guarded P) m s \<and> slugsIn P (liStatus (held (snd (m s)))))"

lemma guards_quiet: "steady m \<Longrightarrow> emits silentWrite m \<Longrightarrow> guards P m"
  unfolding guards_def steady_def
  by (auto intro!: emitsFrom_emits elim!: emits_mono simp: guarded_def silentWrite_def)

lemma guards_try:
  assumes "guards P m" and "yields m R" and "\<And>e. guards P (h e)" and "\<And>x. R x \<Longrightarrow> guards P (k x)"
  shows "guards P (tryE m h k)"
  unfolding guards_def
proof (intro allI impI)
  fix s :: "'a sys"
  assume s: "slugsIn P (liStatus (held s))"
  obtain v t where m: "m s = (v, t)" by (cases "m s")
  with assms(1) s have t: "emitsFrom (guarded P) m s" "slugsIn P (liStatus (held t))" unfolding guards_def by (metis, metis snd_conv)
  have k: "guards P (k x)" if "v = Inr x" for x using that m yieldsD [OF assms(2)] assms(4) by blast
  have "emitsFrom (guarded P) (tryE m h k) s"
    using m t assms(3) k by (intro emitsFrom_try [OF t(1)]) (auto simp: guards_def)
  moreover have "slugsIn P (liStatus (held (snd (tryE m h k s))))"
    using m t(2) assms(3) k by (cases v) (simp_all add: tryE_def guards_def)
  ultimately show "emitsFrom (guarded P) (tryE m h k) s \<and> slugsIn P (liStatus (held (snd (tryE m h k s))))" by blast
qed

lemma guards_tryE: "guards P m \<Longrightarrow> (\<And>e. guards P (h e)) \<Longrightarrow> (\<And>x. guards P (k x)) \<Longrightarrow> guards P (tryE m h k)"
  by (rule guards_try [OF _ yields_True])

lemma guards_basic: "guards P (retE x)" "guards P (failE e)" "guards P (liftE v)"
  by (intro guards_quiet steady_basic emits_intros)+

lemma guards_bindE: "guards P m \<Longrightarrow> (\<And>x. guards P (k x)) \<Longrightarrow> guards P (bindE m k)"
  unfolding bindE_def by (intro guards_tryE guards_basic)

lemma guards_bind: "guards P m \<Longrightarrow> yields m R \<Longrightarrow> (\<And>x. R x \<Longrightarrow> guards P (k x)) \<Longrightarrow> guards P (bindE m k)"
  unfolding bindE_def by (erule (1) guards_try) (auto intro: guards_basic)

lemma guards_if: "(b \<Longrightarrow> guards P m) \<Longrightarrow> (\<not> b \<Longrightarrow> guards P n) \<Longrightarrow> guards P (if b then m else n)"
  by simp

lemma guards_held: "(\<And>i. slugsIn P (liStatus i) \<Longrightarrow> guards P (k i)) \<Longrightarrow> guards P (bindE heldE k)"
  by (simp add: guards_def bindE_def tryE_def heldE_def emitsFrom_def)

lemma guards_hold: "slugsIn P (liStatus i) \<Longrightarrow> guards P (holdE i)"
  by (simp add: guards_def holdE_def emitsFrom_def)

lemmas guards_intros = guards_basic guards_tryE guards_bindE guards_if

section \<open>The status writers\<close>

lemma guards_writeStatus:
  assumes "slugEchoed r" and "slugsIn P (liStatus i)"
  shows "guards P (writeStatus r i)"
  using assms
  by (auto simp: guards_def emitsFrom_def writeStatus_def bindE_def tryE_def holdE_def apiE_def statusUpdateObj_def writeWith_def failE_def
      retE_def guarded_def slugEchoed_def sameSlugs_def slugsIn_def split: prod.split sum.split) (metis fst_conv)+

lemma slugsIn_withStatus [simp]: "slugsIn P (liStatus (withStatus L now i c ph ep)) = slugsIn P (liStatus i)"
  by (simp add: slugsIn_def withStatus_def)

lemma guards_status:
  assumes "slugEchoed r" and "slugsIn P (liStatus i)"
  shows "guards P (updateProvisioningStatus r i endpoint reason message)" "guards P (InstanceBase.updateReadyStatus r i endpoint)"
    "guards P (rejectModelSettings r i text)"
  unfolding updateProvisioningStatus_def InstanceBase.updateReadyStatus_def rejectModelSettings_def Let_def
  by (intro guards_bindE [OF guards_quiet] guards_if guards_basic guards_writeStatus [OF assms(1)] steady_basic emits_intros; simp add: assms(2))+

section \<open>Operations that send no status\<close>

text \<open>The hosted objects, the route and its authentication.\<close>

lemma steady_host: "steady (hostE f)" "steady (hostErrE g)"
  by (simp_all add: steady_def hostE_def hostErrE_def split: prod.split)

lemmas steady_all = steady_intros steady_splits steady_checks steady_host steady_reads

lemma steady_readiness: "steady (evaluateInstanceReadiness r inst n)"
  unfolding evaluateInstanceReadiness_def serviceHasReadyEndpoints_def runServiceHealthCheck_def defaultServiceHealthChecker_def Let_def
  by (intro steady_all)

lemma steady_hosted:
  "steady (reconcileDeployment r inst labels model)" "steady (reconcileService r inst labels n)"
  "steady (reconcileStripMiddleware r inst labels n p)" "steady (reconcileForwardAuthMiddleware r inst labels n slug)"
  "steady (reconcileIngress r inst labels n p)" "steady (withdrawRoute r inst)"
  unfolding reconcileDeployment_def reconcileService_def reconcileStripMiddleware_def reconcileForwardAuthMiddleware_def
    reconcileAuthMiddleware_def writeForwardAuth_def reconcileIngress_def withdrawRoute_def controlE_def Let_def
  by (intro steady_all)+

lemma silent_hosted:
  "emits silentWrite (reconcileDeployment r inst labels model)" "emits silentWrite (reconcileService r inst labels n)"
  "emits silentWrite (reconcileStripMiddleware r inst labels n p)" "emits silentWrite (reconcileForwardAuthMiddleware r inst labels n slug)"
  "emits silentWrite (reconcileIngress r inst labels n p)" "emits silentWrite (withdrawRoute r inst)"
  unfolding reconcileDeployment_def reconcileService_def reconcileStripMiddleware_def reconcileForwardAuthMiddleware_def
    reconcileAuthMiddleware_def writeForwardAuth_def reconcileIngress_def withdrawRoute_def Let_def
  by ((intro emits_intros)?; simp)+

lemma silent_upgrade: "emits silentWrite (upgradeExistingAuthMiddleware r inst)"
  unfolding upgradeExistingAuthMiddleware_def reconcileAuthMiddleware_def writeForwardAuth_def Let_def
  by ((intro emits_intros)?; simp)+

lemmas guards_hosted = guards_quiet [OF steady_hosted(1) silent_hosted(1)] guards_quiet [OF steady_hosted(2) silent_hosted(2)]
  guards_quiet [OF steady_hosted(3) silent_hosted(3)] guards_quiet [OF steady_hosted(4) silent_hosted(4)]
  guards_quiet [OF steady_hosted(5) silent_hosted(5)] guards_quiet [OF steady_readiness emits_evaluateInstanceReadiness]
  guards_quiet [OF steady_hosted(6) silent_hosted(6)] guards_quiet [OF steady_upgrade silent_upgrade]

text \<open>The objects on a tenant's cluster and the removal from it.\<close>

lemma silent_tls: "tlsWrite r i w \<Longrightarrow> silentWrite w"
  by (cases "(r, i, w)" rule: tlsWrite.cases) auto

lemma silent_workload: "workloadWrite i w \<Longrightarrow> silentWrite w"
  by (induction i w rule: workloadWrite.induct) auto

lemma silent_removal:
  "emits silentWrite (cleanupBYOCManagedTLS r i cfg n)" "emits silentWrite (removeBYOCTarget r i slug data targetID refusal)"
  "emits silentWrite (deleteCachedBYOCCredentials r i n)"
proof -
  have t: "emits silentWrite (cleanupBYOCManagedTLS r i cfg n)" "emits silentWrite (cleanupBYOCRemoteTLS r remote i cfg n)" for remote i cfg n
    by (rule emits_mono [OF emits_cleanupBYOCManagedTLS], erule silent_tls, rule emits_mono [OF emits_cleanupBYOCRemoteTLS], erule silent_tls)
  have o: "emits silentWrite (cleanupBYOCObjects remote i n)" "emits silentWrite (deleteCachedBYOCCredentials r i n)" for remote i n
    by (rule emits_mono [OF emits_cleanupBYOCObjects] emits_mono [OF emits_deleteCachedBYOCCredentials],
        auto simp: workloadRemoval_def credentialRemoval_def)+
  show "emits silentWrite (cleanupBYOCManagedTLS r i cfg n)" "emits silentWrite (deleteCachedBYOCCredentials r i n)" by (fact t o)+
  show "emits silentWrite (removeBYOCTarget r i slug data targetID refusal)"
    unfolding removeBYOCTarget_def by (intro emits_intros t o)
qed

lemmas guards_removal = guards_quiet [OF steady_cleanupBYOCManagedTLS silent_removal(1)] guards_quiet [OF steady_removeBYOCTarget silent_removal(2)]
  guards_quiet [OF steady_deleteCachedBYOCCredentials silent_removal(3)]

lemma steady_collectKeys: "steady (collectKeys r inst secs)"
  by (induction secs) (auto intro!: steady_intros split: option.split)

lemma steady_desiredAPIKeyFile: "steady (desiredAPIKeyFile r remote inst slug)"
  unfolding desiredAPIKeyFile_def bootstrapKey_def generateToken_def by (intro steady_all steady_collectKeys)

lemma steady_byocObjects:
  "steady (reconcileBYOCService remote i slug)" "steady (reconcileBYOCProxyConfig remote i slug hostname)"
  "steady (reconcileBYOCKeySecret remote i slug keyFile bootstrap)" "steady (ensureBYOCNamespace remote)"
  "steady (reconcileBYOCDeployment L remote i slug model keys tlsName revision)"
  unfolding reconcileBYOCService_def reconcileBYOCProxyConfig_def reconcileBYOCKeySecret_def ensureBYOCNamespace_def reconcileBYOCDeployment_def Let_def
  by (intro steady_all)+

lemma steady_byocTLS:
  "steady (reconcileBYOCDNS r i cfg addr targetID)" "steady (reconcileBYOCTLSSecret r remote i cfg targetID)"
  unfolding reconcileBYOCDNS_def reconcileBYOCTLSSecret_def deliverableCertificate_def issuedMaterial_def servingMaterial_def writeBYOCTLSSecret_def
    Let_def
  by (intro steady_all)+

lemma steady_workload: "steady (reconcileBYOCWorkload r remote i slug model targetID tlsName hostname)"
  unfolding reconcileBYOCWorkload_def Let_def
  by (intro steady_all steady_byocObjects steady_byocTLS steady_reconcileBYOCManagedCertificate steady_desiredAPIKeyFile)

lemma steady_byocReadiness: "steady (evaluateBYOCReadiness r remote slug hostname revision)"
  unfolding evaluateBYOCReadiness_def runBYOCHealthCheck_def Let_def by (intro steady_all)

lemma silent_byocWorkload:
  assumes "''--host'' \<notin> set (msServerArgs model)"
  shows "emits silentWrite (reconcileBYOCWorkload r remote i slug model targetID tlsName hostname)" "emits silentWrite (ensureBYOCNamespace remote)"
proof -
  have w: "emits silentWrite m" if "emits (workloadWrite i) m" for m
    by (rule emits_mono [OF that]) (rule silent_workload)
  have t: "emits silentWrite m" if "emits (tlsWrite r i) m" for m
    by (rule emits_mono [OF that]) (rule silent_tls)
  show "emits silentWrite (reconcileBYOCWorkload r remote i slug model targetID tlsName hostname)"
    unfolding reconcileBYOCWorkload_def Let_def
    by (intro emits_intros w [OF emits_reconcileBYOCService] t [OF emits_reconcileBYOCManagedCertificate]
        t [OF emits_reconcileBYOCDNS] t [OF emits_reconcileBYOCTLSSecret] w [OF emits_reconcileBYOCProxyConfig]
        w [OF emits_reconcileBYOCKeySecret] w [OF emits_reconcileBYOCDeployment [OF assms]])
  show "emits silentWrite (ensureBYOCNamespace remote)" by (rule w [OF emits_ensureBYOCNamespace])
qed

lemma silent_credentials: "emits silentWrite (ensureCachedCredentials r inst slug data)"
  unfolding ensureCachedCredentials_def Let_def by (intro emits_intros) simp_all

section \<open>The handlers\<close>

lemma guards_rejectSlug:
  assumes "slugEchoed r" and "slugsIn P (liStatus i)"
  shows "guards P (rejectSlug r i cause)"
  unfolding rejectSlug_def errorOf_def by (intro guards_intros guards_hosted guards_status [OF assms])

lemma guards_orReject:
  assumes "slugEchoed r" and "slugsIn P (liStatus i)" and "guards P m" and "\<And>x. guards P (k x)"
  shows "guards P (orReject r i m k)"
  unfolding orReject_def by (intro guards_tryE assms guards_rejectSlug)

lemma slugsIn_hosted [simp]: "slugsIn P ((liStatus i)\<lparr>stActiveBYOCKubeconfigSecretName := []\<rparr>) = slugsIn P (liStatus i)"
  by (simp add: slugsIn_def)

lemma slugsIn_forget [simp]: "slugsIn P (liStatus (forgetTarget i)) = slugsIn P (liStatus i)"
  by (simp add: slugsIn_def forgetTarget_def)

lemma guards_reconcileHosted:
  assumes "slugEchoed r" and "slugsIn P (liStatus i)"
  shows "guards P (reconcileHosted r i slug model)"
  unfolding reconcileHosted_def publishHosted_def Let_def
  by (intro guards_intros guards_hold guards_orReject guards_hosted guards_status assms(1)) (simp_all add: assms(2))

lemma guards_cleanupChanged:
  assumes "slugEchoed r" and "slugsIn P (liStatus i)"
  shows "guards P (cleanupChangedBYOCTarget r i slug)"
proof -
  have leave: "guards P (leaveBYOCTarget r i sl oldData)" for sl oldData
    unfolding leaveBYOCTarget_def Let_def
    by (intro guards_intros guards_held guards_removal guards_status [OF assms(1)]) (simp_all add: assms(2))
  have read: "guards P (cachedBYOCKubeconfig r i sl)" "guards P (keepsBYOCTarget r i d)" for sl d
    by (intro guards_quiet steady_reads steady_keepsBYOCTarget emits_cachedBYOCKubeconfig emits_keepsBYOCTarget)+
  show ?thesis
    unfolding cleanupChangedBYOCTarget_def Let_def
    by (auto intro!: guards_bindE guards_basic read leave split: option.split)
qed

text \<open>On a tenant's cluster the slug of the workload is recorded, if none was recorded before.\<close>

lemma guards_provisionBYOC:
  assumes "slugEchoed r" and "slugsIn P (liStatus i)" and "P (stSlug (liStatus i)) slug" and "''--host'' \<notin> set (msServerArgs model)"
  shows "guards P (provisionBYOC r remote data i slug model)"
proof -
  have enter: "slugsIn P (liStatus (enterTarget r i slug targetID))" for targetID
    using assms(3) by (simp add: slugsIn_def enterTarget_def)
  have recorded: "guards P (recordBYOCTarget r i slug data targetID)" for targetID
    unfolding recordBYOCTarget_def Let_def
    by (intro guards_intros guards_status [OF assms(1) enter] guards_quiet [OF steady_ensureCachedCredentials silent_credentials])
  have publish: "guards P (publishBYOC r remote j slug hostname revision)" if "slugsIn P (liStatus j)" for j hostname revision
    unfolding publishBYOC_def
    by (rule guards_bindE [OF guards_quiet [OF steady_byocReadiness emits_evaluateBYOCReadiness]])
      (auto intro!: guards_intros guards_status [OF assms(1) that] split: prod.split)
  show ?thesis
    unfolding provisionBYOC_def
    by (intro guards_bindE guards_basic recorded guards_quiet [OF steady_byocClusterIdentity emits_byocClusterIdentity])
      (auto intro!: guards_bindE guards_tryE guards_basic guards_held recorded publish guards_status [OF assms(1)]
        guards_quiet [OF steady_workload silent_byocWorkload(1) [OF assms(4)]] guards_quiet [OF steady_byocObjects(4) silent_byocWorkload(2) [OF assms(4)]]
        split: prod.split)
qed

lemma guards_reconcileBYOC:
  assumes "slugEchoed r" and "slugsIn P (liStatus i)" and "\<And>a b. P a b \<Longrightarrow> b = [] \<or> b = slug \<Longrightarrow> P a slug"
    and "''--host'' \<notin> set (msServerArgs model)"
  shows "guards P (reconcileBYOC r i slug model)"
proof -
  have body: "guards P (reconcileBYOCBody r i slug model)"
    unfolding reconcileBYOCBody_def
  proof (rule guards_bind [OF guards_quiet [OF steady_checks(1) emits_errE] yields_errE], goal_cases)
    case 1
    then have "P (stSlug (liStatus i)) slug"
      using assms(2,3) by (auto simp: byocMigration_def slugsIn_def Let_def split: if_splits)
    then show ?case
      by (auto intro!: guards_bindE [OF guards_quiet [OF steady_byocClient emits_byocClient]] guards_bindE guards_basic guards_status [OF assms(1,2)]
          guards_provisionBYOC [OF assms(1,2) _ assms(4)] split: sum.split)
  qed
  show ?thesis
    unfolding reconcileBYOC_def by (intro guards_tryE [OF body] guards_held guards_tryE guards_basic guards_status [OF assms(1)]) simp_all
qed

lemma guards_reconcileTarget:
  assumes "slugEchoed r" and "slugsIn P (liStatus i)" and "\<And>a b. P a b \<Longrightarrow> b = [] \<or> b = slug \<Longrightarrow> P a slug"
  shows "guards P (reconcileTarget r i slug)"
  unfolding reconcileTarget_def Let_def
  by (intro guards_tryE guards_cleanupChanged [OF assms(1,2)] guards_held guards_bindE guards_status [OF assms(1)] guards_basic guards_if
      guards_reconcileBYOC [where P = P and slug = slug, OF assms(1) _ assms(3) modelForInstance_no_host] guards_reconcileHosted [OF assms(1)])

section \<open>One run\<close>

text \<open>What one run may do to the two slugs of a status: set them once, and to the same slug.\<close>

definition coherent :: "llm_status \<Rightarrow> bool" where
  "coherent st = (stSlug st = [] \<or> stActiveBYOCSlug st = [] \<or> stActiveBYOCSlug st = stSlug st)"

definition settles :: "llm_status \<Rightarrow> llm_status \<Rightarrow> bool" where
  "settles old new = ((stSlug old \<noteq> [] \<longrightarrow> stSlug new = stSlug old) \<and>
     (stActiveBYOCSlug old \<noteq> [] \<longrightarrow> stActiveBYOCSlug new = stActiveBYOCSlug old) \<and> (coherent old \<longrightarrow> coherent new))"

definition tame :: "'w instance_reconciler \<Rightarrow> llm_instance \<Rightarrow> wreq \<Rightarrow> bool" where
  "tame r inst w = (\<forall>st. sentStatus w = Some st \<longrightarrow> settles (liStatus inst) st \<and>
     (if statusOf w = None then stPhase st = stPhase (liStatus inst) \<and> stEndpoint st = stEndpoint (liStatus inst)
      else stPhase st = ''Ready'' \<longrightarrow> (\<exists>sel. selectSlug r inst = Inr sel \<and> stSlug st = slSlug sel)))"

lemma emitsFrom_conj:
  assumes "emitsFrom G m s" "emitsFrom H m s"
  shows "emitsFrom (\<lambda>w. G w \<and> H w) m s"
  using assms unfolding emitsFrom_def by auto

text \<open>While nothing is selected yet the slugs do not change.\<close>

definition asIn :: "llm_instance \<Rightarrow> string \<Rightarrow> string \<Rightarrow> bool" where
  "asIn inst a b = (a = stSlug (liStatus inst) \<and> b = stActiveBYOCSlug (liStatus inst))"

lemma asIn_self [simp]: "slugsIn (asIn inst) (liStatus inst)"
  by (simp add: slugsIn_def asIn_def)

lemma tameI:
  assumes "\<And>st. sentStatus w = Some st \<Longrightarrow> statusOf w = Some st \<and> settles (liStatus inst) st \<and>
    (stPhase st = ''Ready'' \<longrightarrow> (\<exists>sel. selectSlug r inst = Inr sel \<and> stSlug st = slSlug sel))"
  shows "tame r inst w"
  using assms unfolding tame_def by simp

lemma unready_settings: "emits unready (rejectModelSettings r inst message)"
  unfolding rejectModelSettings_def writeStatus_def Let_def by (intro emits_intros) (simp add: unready_def withStatus_def)

lemma early_tame:
  assumes "guards (asIn inst) m" and "emits unready m" and "sameSlugs (held s) inst"
  shows "emitsFrom (tame r inst) m s"
proof -
  have "emitsFrom (guarded (asIn inst)) m s" using assms(1,3) by (simp add: guards_def slugsIn_def asIn_def sameSlugs_def)
  from emitsFrom_conj [OF this emitsFrom_emits [OF assms(2)]] show ?thesis
    by (rule emitsFrom_mono, intro tameI) (simp add: guarded_def unready_def slugsIn_def asIn_def settles_def coherent_def)
qed

text \<open>The selection is consistent with what the status records.\<close>

lemma selectSlug_consistent:
  assumes "selectSlug r inst = Inr sel"
  shows "stSlug (liStatus inst) = [] \<or> stSlug (liStatus inst) = slSlug sel"
    "stActiveBYOCSlug (liStatus inst) = [] \<or> stActiveBYOCSlug (liStatus inst) = slSlug sel"
  using assms by (auto simp: selectSlug_def Let_def split: sum.splits if_splits)

text \<open>Once the slug is recorded, the workload takes it.\<close>

definition enters :: "llm_instance \<Rightarrow> string \<Rightarrow> string \<Rightarrow> string \<Rightarrow> bool" where
  "enters inst slug a b = (a = slug \<and> (b = stActiveBYOCSlug (liStatus inst) \<or> b = slug))"

lemma enters_tame:
  assumes "selectSlug r inst = Inr sel" "guarded (enters inst (slSlug sel)) w"
  shows "tame r inst w"
proof (rule tameI)
  fix st
  assume "sentStatus w = Some st"
  with assms(2) have "statusOf w = Some st" and slugs: "stSlug st = slSlug sel"
      "stActiveBYOCSlug st = stActiveBYOCSlug (liStatus inst) \<or> stActiveBYOCSlug st = slSlug sel"
    by (auto simp: guarded_def slugsIn_def enters_def)
  moreover have "settles (liStatus inst) st"
    using selectSlug_consistent [OF assms(1)] slugs unfolding settles_def coherent_def by metis
  ultimately show "statusOf w = Some st \<and> settles (liStatus inst) st \<and>
      (stPhase st = ''Ready'' \<longrightarrow> (\<exists>sel. selectSlug r inst = Inr sel \<and> stSlug st = slSlug sel))"
    using assms(1) by simp
qed

definition patched :: "llm_instance \<Rightarrow> selection \<Rightarrow> llm_instance" where
  "patched inst sel = inst\<lparr>liStatus := (liStatus inst)\<lparr>stSlug := slSlug sel, stSlugSource := slSource sel\<rparr>\<rparr>"

lemma emits_persistSlug: "emits (\<lambda>w. w = Write LocalCluster WStatusPatch (OInst (patched inst sel))) (persistSlug r inst sel)"
  unfolding persistSlug_def patched_def Let_def by (intro emits_intros) simp

lemma held_persistSlug:
  assumes "slugEchoed r"
  shows "slugsIn (enters inst (slSlug sel)) (liStatus (held (snd (persistSlug r inst sel s))))"
proof -
  let ?p = "patched inst sel" and ?P = "enters inst (slSlug sel)"
  let ?m = "bindE (apiE (statusPatchObj LocalCluster OInst (instances (irClient r)) inst ?p)) holdE"
  obtain v t where m: "?m (s\<lparr>held := ?p\<rparr>) = (v, t)" by (cases "?m (s\<lparr>held := ?p\<rparr>)")
  have p: "slugsIn ?P (liStatus ?p)" by (simp add: slugsIn_def enters_def patched_def)
  have "sameSlugs (held t) ?p"
    using m assms by (auto simp: bindE_def tryE_def apiE_def statusPatchObj_def writeWith_def holdE_def failE_def retE_def slugEchoed_def
        sameSlugs_def split: prod.splits sum.splits) (metis fst_conv)+
  then have t: "slugsIn ?P (liStatus (held t))" using p by (simp add: slugsIn_def sameSlugs_def)
  define rest where "rest = (\<lambda>_ :: unit. bindE (apiE (getObj (instances (routeReader r)) (keyOf (liMeta inst)))) (\<lambda>persisted.
        if omUID (liMeta persisted) \<noteq> omUID (liMeta inst) \<or> keyOf (liMeta persisted) \<noteq> keyOf (liMeta inst)
        then failE (Errorf ''instance identity changed during slug persistence'' [ErrSlugRejection])
        else if stSlug (liStatus persisted) \<noteq> slSlug sel \<or> stSlugSource (liStatus persisted) \<noteq> slSource sel
        then failE (Errorf ''LLMInstance schema must persist status.slug and status.slugSource'' [ErrSlugRejection])
        else retE (slSlug sel, True)) :: ('a, string \<times> bool) io)"
  have "steady (rest x)" for x unfolding rest_def by (intro steady_intros)
  moreover have "persistSlug r inst sel s = bindE ?m rest (s\<lparr>held := ?p\<rparr>)"
    unfolding persistSlug_def rest_def patched_def Let_def by (simp add: bindE_def tryE_def holdE_def)
  ultimately show ?thesis using m t by (cases v) (simp_all add: bindE_def tryE_def failE_def steady_def)
qed

lemma patch_tame:
  assumes "selectSlug r inst = Inr sel"
  shows "tame r inst (Write LocalCluster WStatusPatch (OInst (patched inst sel)))"
  using selectSlug_consistent [OF assms] by (simp add: tame_def patched_def settles_def coherent_def) metis

lemma slugged_tame:
  assumes "slugEchoed r" and "sameSlugs (held s) inst" and "selectSlug r inst = Inr sel"
  shows "emitsFrom (tame r inst) (reconcileSlugged r inst) s"
proof (cases "stSlug (liStatus inst) = slSlug sel \<and> stSlugSource (liStatus inst) = slSource sel")
  case True
  let ?P = "enters inst (slSlug sel)"
  have i: "slugsIn ?P (liStatus inst)" "slugsIn ?P (liStatus (held s))"
    using True assms(2) by (simp_all add: slugsIn_def enters_def sameSlugs_def)
  have "guards ?P (orReject r inst (if \<not> isBYOC inst then checkSlugRoute r inst (slSlug sel) else retE ()) (\<lambda>_. reconcileTarget r inst (slSlug sel)))"
    by (intro guards_orReject [OF assms(1) i(1)] guards_if guards_basic guards_reconcileTarget [OF assms(1) i(1)]
        guards_quiet [OF steady_reads(4) emits_checkSlugRoute]) (auto simp: enters_def)
  moreover have "reconcileSlugged r inst s = orReject r inst (if \<not> isBYOC inst then checkSlugRoute r inst (slSlug sel) else retE ())
      (\<lambda>_. reconcileTarget r inst (slSlug sel)) s"
    using True assms(3) by (simp add: reconcileSlugged_def ensureSlug_def bindE_def tryE_def liftE_def retE_def)
  ultimately have "emitsFrom (guarded ?P) (reconcileSlugged r inst) s" using i(2) by (simp add: guards_def emitsFrom_def)
  then show ?thesis by (rule emitsFrom_mono) (rule enters_tame [OF assms(3)])
next
  case False
  then have e: "ensureSlug r inst = persistSlug r inst sel"
    using assms(3) by (auto simp: ensureSlug_def bindE_def tryE_def liftE_def fun_eq_iff)
  show ?thesis
    unfolding reconcileSlugged_def e
  proof (rule emitsFrom_try, goal_cases)
    case 1
    show ?case by (rule emitsFrom_emits, rule emits_mono [OF emits_persistSlug]) (use patch_tame [OF assms(3)] in simp)
  next
    case (2 err t)
    have t: "slugsIn (enters inst (slSlug sel)) (liStatus (held t))" using held_persistSlug [OF assms(1), of inst sel s] 2 by simp
    then have "emitsFrom (guarded (enters inst (slSlug sel))) (rejectSlug r (held t) err) t"
      using guards_rejectSlug [OF assms(1)] by (simp add: guards_def)
    then show ?case
      by (simp add: bindE_def tryE_def heldE_def emitsFrom_def) (use enters_tame [OF assms(3)] in blast)
  next
    case (3 x t)
    then have "snd x" using yieldsD [OF yields_persistSlug 3] by (cases x) simp
    then show ?case by (cases x) (simp add: emitsFrom_emits emits_retE)
  qed
qed

lemma live_tame:
  assumes "slugEchoed r" and "held s = inst"
  shows "emitsFrom (tame r inst) (reconcileLive r inst) s"
proof (cases "selectSlug r inst")
  case (Inl err)
  show ?thesis
    unfolding reconcileLive_def Inl sum.case
    by (rule early_tame [OF guards_rejectSlug [OF assms(1)] unready_rejectSlug]) (simp_all add: assms(2) sameSlugs_def)
next
  case (Inr sel)
  have held: "sameSlugs (held u) inst" if "held u = held s" for u :: "'a sys" using that assms(2) by (simp add: sameSlugs_def)
  show ?thesis
    unfolding reconcileLive_def Inr sum.case orReject_def
  proof (rule emitsFrom_try, goal_cases)
    case 1
    show ?case by (rule early_tame [OF guards_hosted(8) unready_upgrade]) (simp add: held)
  next
    case (2 e u)
    then have "held u = held s" using steady_upgrade [of r inst] unfolding steady_def by (metis snd_conv)
    then show ?case by (intro early_tame guards_rejectSlug [OF assms(1)] unready_rejectSlug) (simp_all add: held)
  next
    case (3 y u)
    then have u: "held u = held s" using steady_upgrade [of r inst] unfolding steady_def by (metis snd_conv)
    have settings: "emitsFrom (tame r inst) (bindE (rejectModelSettings r inst message) (\<lambda>_. retE doneResult)) u" for message
      by (intro early_tame guards_bindE guards_basic guards_status [OF assms(1)] emits_bindE emits_retE unready_settings) (simp_all add: held u)
    have fin: "emitsFrom (tame r inst) (ensureFinalizer r inst) u"
      unfolding ensureFinalizer_def
      by (intro emitsFrom_emits emits_tryE emits_updateObj emits_retE) (simp add: tame_def)
    show ?case
      using settings fin slugged_tame [OF assms(1) held [OF u] Inr] by (simp split: option.split)
  qed
qed

lemma silent_tame: "silentWrite w \<Longrightarrow> tame r inst w"
  by (simp add: silentWrite_def tame_def)

lemma silent_justified: "silentWrite w \<Longrightarrow> readyJustified r inst w"
  by (cases w rule: statusOf.cases) (auto simp: silentWrite_def readyJustified_def)

lemma silent_finalize: "emits silentWrite (finalizeLLMInstance r inst k)"
proof -
  have loop: "emits silentWrite (removeFinalizerLoop n r i k)" for n i
    by (induction n arbitrary: i) (auto intro!: emits_intros split: option.split)
  have "emits silentWrite (cleanupBYOC r inst)"
    unfolding cleanupBYOC_def Let_def
    by (auto intro!: emits_intros silent_removal emits_cachedBYOCKubeconfig split: option.split)
  then show ?thesis unfolding finalizeLLMInstance_def by (intro emits_intros loop)
qed

lemma run_tame:
  assumes "identityKept r" and "slugEchoed r" and "getInstance r k s = (Inr (Some inst), t)"
    and "journal (snd (InstanceController.Reconcile r k s)) = journal s @ ws" and "w \<in> set ws"
  shows "tame r inst w \<and> readyJustified r inst w"
proof -
  let ?t = "t\<lparr>held := inst\<rparr>"
  have j: "journal ?t = journal s" using getInstance_held [OF assms(3)] by simp
  have "emitsFrom (\<lambda>w. tame r inst w \<and> readyJustified r inst w) (\<lambda>_. InstanceController.Reconcile r k s) ?t"
  proof (cases "omDeletion (liMeta inst) = None")
    case True
    then show ?thesis
      using emitsFrom_conj [OF live_tame [OF assms(2), of ?t inst] live_justified [OF assms(1), of ?t inst]]
      by (simp add: run_live [OF assms(3)] emitsFrom_def)
  next
    case False
    then have run: "InstanceController.Reconcile r k s = bindE (finalizeLLMInstance r inst k) (\<lambda>_. retE doneResult) ?t"
      using assms(3) by (simp add: InstanceController.Reconcile_def bindE_def tryE_def holdE_def)
    have "emits silentWrite (bindE (finalizeLLMInstance r inst k) (\<lambda>_. retE doneResult))"
      by (intro emits_bindE silent_finalize emits_retE)
    then have "emitsFrom (\<lambda>w. tame r inst w \<and> readyJustified r inst w) (bindE (finalizeLLMInstance r inst k) (\<lambda>_. retE doneResult)) ?t"
      by (rule emitsFrom_emits [OF emits_mono]) (auto simp: silent_tame silent_justified)
    then show ?thesis by (simp add: emitsFrom_def run)
  qed
  then show ?thesis using assms(4,5) j by (auto simp: emitsFrom_def)
qed

section \<open>Histories\<close>

text \<open>
  The stored object of one instance.  A run under one of the configurations \<open>R\<close> reads it and leads to a
  state in which one of the statuses that the run sent is stored (the last one that the API accepted);
  an edit changes the rest of the object.  The status is a subresource, which tenants cannot write.
\<close>

inductive evolves :: "'w instance_reconciler set \<Rightarrow> llm_instance \<Rightarrow> llm_instance \<Rightarrow> bool" for R i where
  start: "evolves R i i"
| run: "evolves R i j \<Longrightarrow> r \<in> R \<Longrightarrow> getInstance r k s = (Inr (Some j), t) \<Longrightarrow>
    journal (snd (InstanceController.Reconcile r k s)) = journal s @ ws \<Longrightarrow> w \<in> set ws \<Longrightarrow> sentStatus w = Some st \<Longrightarrow>
    evolves R i (j\<lparr>liStatus := st\<rparr>)"
| edit: "evolves R i j \<Longrightarrow> sameIdentity j' j \<Longrightarrow> liStatus j' = liStatus j \<Longrightarrow> evolves R i j'"

text \<open>Where a published endpoint may lead.\<close>

definition addressed :: "llm_instance \<Rightarrow> bool" where
  "addressed i = (let st = liStatus i in
     stEndpoint st = [] \<or>
     stSlug st \<noteq> [] \<and> (\<exists>scheme host. stEndpoint st = scheme @ ''://'' @ host @ ''/llm/'' @ stSlug st) \<or>
     (\<exists>target domain. stEndpoint st = ''https://'' @ byocTLSName i target @ ''.'' @ domain))"

lemma addressed_status:
  "addressed (j\<lparr>liStatus := st\<rparr>) = (stEndpoint st = [] \<or>
     stSlug st \<noteq> [] \<and> (\<exists>scheme host. stEndpoint st = scheme @ ''://'' @ host @ ''/llm/'' @ stSlug st) \<or>
     (\<exists>target domain. stEndpoint st = ''https://'' @ byocTLSName j target @ ''.'' @ domain))"
  by (simp add: addressed_def byocTLSName_def)

lemma instanceEndpoint_form:
  "instanceEndpoint r slug = [] \<or> slug \<noteq> [] \<and> (\<exists>scheme host. instanceEndpoint r slug = scheme @ ''://'' @ host @ ''/llm/'' @ slug)"
proof (cases "trimSpace (irPublicHost r) = [] \<or> trimSpace slug = []")
  case False
  have "trimSpace [] = []" by code_simp
  with False have "slug \<noteq> []" by auto
  moreover from False have "instanceEndpoint r slug = (if irPublicScheme r = [] then ''http'' else irPublicScheme r) @ ''://'' @ irPublicHost r @ ''/llm/'' @ slug"
    by (simp only: instanceEndpoint_def Let_def if_False)
  ultimately show ?thesis by blast
qed (simp add: instanceEndpoint_def)

lemma readyFor_addressed:
  assumes "readyFor r j (stEndpoint st)" and "selectSlug r j = Inr sel" and "stSlug st = slSlug sel"
  shows "addressed (j\<lparr>liStatus := st\<rparr>)"
proof -
  consider (byoc) "publishedBYOC r j (slSlug sel) (stEndpoint st)" | (hosted) "stEndpoint st = instanceEndpoint r (slSlug sel)"
    using assms(1,2) by (auto simp: readyFor_def)
  then show ?thesis
  proof cases
    case byoc
    then obtain target nm hostname where "byocTLSIdentity (irLib r) j (irBYOCTLS r) target = Inr (nm, hostname)" "stEndpoint st = ''https://'' @ hostname"
      unfolding publishedBYOC_def by blast
    then have "stEndpoint st = ''https://'' @ byocTLSName j target @ ''.'' @ btDomain (irBYOCTLS r)"
      by (auto simp: byocTLSIdentity_def Let_def split: if_splits)
    then show ?thesis unfolding addressed_status by blast
  next
    case hosted
    then show ?thesis using instanceEndpoint_form [of r "slSlug sel"] assms(3) unfolding addressed_status by metis
  qed
qed

lemma addressed_same: "sameIdentity i j \<Longrightarrow> liStatus i = liStatus j \<Longrightarrow> addressed i = addressed j"
  by (simp add: addressed_def byocTLSName_def sameIdentity_def)

lemma settles_trans: "settles a b \<Longrightarrow> settles b c \<Longrightarrow> settles a c"
  unfolding settles_def by metis

text \<open>A step of a run keeps what is published in order.\<close>

lemma run_addressed:
  assumes "tame r j w" and "readyJustified r j w" and "sentStatus w = Some st" and "stPhase (liStatus j) = ''Ready'' \<Longrightarrow> addressed j"
    and "stPhase st = ''Ready''"
  shows "addressed (j\<lparr>liStatus := st\<rparr>)"
proof (cases "statusOf w")
  case None
  then have "stPhase (liStatus j) = ''Ready''" "stEndpoint st = stEndpoint (liStatus j)" "settles (liStatus j) st"
    using assms(1,3,5) by (auto simp: tame_def)
  moreover from this(1) have "addressed j" by (rule assms(4))
  ultimately show ?thesis
    unfolding addressed_status addressed_def [of j] Let_def settles_def by metis
next
  case (Some st')
  then have "st' = st" using assms(3) by (cases w rule: statusOf.cases) auto
  with Some assms show ?thesis
    by (auto simp: tame_def readyJustified_def intro: readyFor_addressed)
qed

section \<open>Properties\<close>

text \<open>\<^bold>\<open>C7.\<close> The identity of an endpoint is settled for life: over any history of an instance, with runs under any
  sequence of configurations and slug policies and edits in between, and with an API that answers with
  the slugs it was sent, the slug in the status is never changed once it is recorded, neither is the
  slug of the workload on a tenant's cluster, and the two agree.  An instance that was not published
  wrongly at the start is at any time published, if at all, under the path of its recorded slug or
  under the host name of its own UID.\<close>

theorem slug_settled:
  assumes "\<forall>r \<in> R. identityKept r \<and> slugEchoed r" and "evolves R i j" and "stPhase (liStatus i) = ''Ready'' \<longrightarrow> addressed i"
  shows "sameIdentity j i \<and>
    (stSlug (liStatus i) \<noteq> [] \<longrightarrow> stSlug (liStatus j) = stSlug (liStatus i)) \<and>
    (stActiveBYOCSlug (liStatus i) \<noteq> [] \<longrightarrow> stActiveBYOCSlug (liStatus j) = stActiveBYOCSlug (liStatus i)) \<and>
    (coherent (liStatus i) \<longrightarrow> coherent (liStatus j)) \<and>
    (stPhase (liStatus j) = ''Ready'' \<longrightarrow> addressed j)"
proof -
  from assms(2) have "sameIdentity j i \<and> settles (liStatus i) (liStatus j) \<and> (stPhase (liStatus j) = ''Ready'' \<longrightarrow> addressed j)"
  proof induction
    case start
    then show ?case using assms(3) by (simp add: sameIdentity_def settles_def)
  next
    case (run j r k s t ws w st)
    have "tame r j w" "readyJustified r j w" using run_tame [OF _ _ run.hyps(3-5)] assms(1) run.hyps(2) by auto
    moreover from this(1) have "settles (liStatus j) st" using run.hyps(6) by (simp add: tame_def)
    ultimately show ?case
      using run.IH run_addressed [OF _ _ run.hyps(6)] settles_trans by (auto simp: sameIdentity_def)
  next
    case (edit j j')
    then show ?case using addressed_same [of j' j] by (auto simp: sameIdentity_def)
  qed
  then show ?thesis by (simp add: settles_def)
qed

section \<open>Witnesses\<close>

text \<open>A run that publishes the hosted instance, then an edit of its specification.\<close>

definition editedInstance :: "llm_status \<Rightarrow> llm_instance" where
  "editedInstance st = hostedInstance\<lparr>liStatus := st, liSpec := (liSpec hostedInstance)\<lparr>spReplicas := 2\<rparr>\<rparr>"

lemma hostedDemo_keeps: "identityKept hostedDemo" "slugEchoed hostedDemo"
  by (simp_all add: identityKept_def sameIdentity_def slugEchoed_def sameSlugs_def cannedKind_def)

lemma hosted_history: "\<exists>st. stPhase st = ''Ready'' \<and> evolves {hostedDemo} hostedInstance (editedInstance st)"
proof -
  obtain s' st w where run: "InstanceController.Reconcile hostedDemo (''default'', ''a'') startSys = (Inr (requeueAfter 30), s')"
      "w \<in> set (journal s')" "statusOf w = Some st" "stPhase st = ''Ready''"
    using hosted_run by blast
  have get: "getInstance hostedDemo (''default'', ''a'') startSys = (Inr (Some hostedInstance), startSys)"
    by (simp add: getInstance_def tryE_def retE_def)
  have "sentStatus w = Some st" using run(3) by (cases w rule: statusOf.cases) auto
  with evolves.run [OF evolves.start _ get, of "{hostedDemo}" "journal s'" w st] run
  have "evolves {hostedDemo} hostedInstance (hostedInstance\<lparr>liStatus := st\<rparr>)" by (simp add: startSys_def)
  then have "evolves {hostedDemo} hostedInstance (editedInstance st)"
    by (rule evolves.edit) (simp_all add: editedInstance_def sameIdentity_def)
  with run(4) show ?thesis by blast
qed

theorem slug_settled_witness:
  "\<exists>st. evolves {hostedDemo} hostedInstance (editedInstance st) \<and> stPhase st = ''Ready'' \<and> stSlug st = ''alpha'' \<and> addressed (editedInstance st)"
proof -
  obtain st where st: "stPhase st = ''Ready''" "evolves {hostedDemo} hostedInstance (editedInstance st)" using hosted_history by blast
  have "stPhase (liStatus hostedInstance) = []" "stSlug (liStatus hostedInstance) = ''alpha''" by (simp_all add: demoInstance_def)
  with slug_settled [OF _ st(2)] hostedDemo_keeps st show ?thesis by (auto simp: editedInstance_def)
qed

end
