(* ===== verification/ObjectNames.thy ===== *)
theory ObjectNames
  imports ByocTLS
begin

text \<open>
  The names that the operator derives for a tenant's cluster are of the type that Kubernetes demands of
  a Service and of one label of a host name, a DNS label of RFC 1035; the name of a hosted Service is
  so only for some names of the instance.  The reference predicate is stated here and not taken from
  the library, so the results hold for the derived names as such.
\<close>

section \<open>DNS labels\<close>

definition lowerLetter :: "char \<Rightarrow> bool" where
  "lowerLetter c = (c \<in> set ''abcdefghijklmnopqrstuvwxyz'')"

definition labelChar :: "char \<Rightarrow> bool" where
  "labelChar c = (lowerAlnum c \<or> c = CHR ''-'')"

definition rfc1035Label :: "string \<Rightarrow> bool" where
  "rfc1035Label s = (s \<noteq> [] \<and> length s \<le> 63 \<and> lowerLetter (hd s) \<and> lowerAlnum (last s) \<and> list_all labelChar s)"

text \<open>A label may be continued while it stays short enough.\<close>

lemma rfc1035Label_append:
  assumes "p \<noteq> []" "lowerLetter (hd p)" "list_all labelChar p" "s \<noteq> []" "list_all labelChar s" "lowerAlnum (last s)"
    and "length p + length s \<le> 63"
  shows "rfc1035Label (p @ s)"
  using assms by (simp add: rfc1035Label_def)

lemma rfc1035Label_extend:
  assumes "rfc1035Label n" "s \<noteq> []" "list_all labelChar s" "lowerAlnum (last s)" "length n + length s \<le> 63"
  shows "rfc1035Label (n @ s)"
  using assms by (intro rfc1035Label_append) (simp_all add: rfc1035Label_def)

lemma hexDigits_label:
  assumes "set h \<subseteq> set ''0123456789abcdef''" "h \<noteq> []"
  shows "list_all labelChar h" "lowerAlnum (last h)"
proof -
  have "list_all lowerAlnum ''0123456789abcdef''" by code_simp
  then have h: "lowerAlnum c" if "c \<in> set h" for c
    using that assms(1) unfolding list_all_iff by blast
  then show "list_all labelChar h" by (simp add: list_all_iff labelChar_def)
  show "lowerAlnum (last h)" by (rule h) (simp add: assms(2))
qed

lemma digest_hex: "set (take n (hexEncode d)) \<subseteq> set ''0123456789abcdef''"
  using hexEncode_digits [of d] set_take_subset [of n "hexEncode d"] by blast

lemma digest_nonempty: "d \<noteq> [] \<Longrightarrow> 0 < n \<Longrightarrow> take n (hexEncode d) \<noteq> []"
  by (cases d) simp_all

lemma sha256_nonempty [simp]: "sha256 m \<noteq> []"
  using length_sha256 [of m] by (metis length_0_conv zero_neq_numeral)

lemma digest_name:
  assumes "p \<noteq> []" "lowerLetter (hd p)" "list_all labelChar p" "length p \<le> 5" "d \<noteq> []" "0 < n" "n \<le> 32"
  shows "rfc1035Label (p @ take n (hexEncode d))"
  using assms hexDigits_label [OF digest_hex [of n d] digest_nonempty [OF assms(5,6)]] digest_nonempty [OF assms(5,6)]
  by (intro rfc1035Label_append) simp_all

section \<open>The names of the operator\<close>

lemma byocBaseName_label: "rfc1035Label (byocBaseName slug)" "length (byocBaseName slug) = 16"
  unfolding byocBaseName_def
  by (rule digest_name) (simp_all add: lowerLetter_def labelChar_def lowerAlnum_def)

lemma byocBaseName_extend:
  assumes "s \<noteq> []" "list_all labelChar s" "lowerAlnum (last s)" "length s \<le> 47"
  shows "rfc1035Label (byocBaseName slug @ s)"
  using assms byocBaseName_label by (intro rfc1035Label_extend) simp_all

text \<open>\<^bold>\<open>C39.\<close> The names on a tenant's cluster are well typed: whatever the slug, the UID and the target, the
  names made from a slug (\<^verbatim>\<open>byocBaseName\<close> of deployment and service, \<^verbatim>\<open>byocKeySecretName\<close>, \<^verbatim>\<open>byocProxyName\<close> and,
  for the cached credentials, \<^verbatim>\<open>byocCredentialsName\<close>), the name of the certificate, which is also the first
  label of the published host name, and the derived slug are labels of RFC 1035, as a Service name and
  a host name label must be; and the four names made from one slug are pairwise different.  The names
  of a hosted instance are not among these; its Service is treated below.\<close>

theorem object_names_typed:
  "list_all rfc1035Label [byocBaseName slug, byocKeySecretName slug, byocCredentialsName slug, byocProxyName slug,
     byocTLSName inst target, derivedSlug uid] \<and>
   distinct [byocBaseName slug, byocKeySecretName slug, byocCredentialsName slug, byocProxyName slug]"
proof -
  have "rfc1035Label (byocKeySecretName slug)" "rfc1035Label (byocCredentialsName slug)" "rfc1035Label (byocProxyName slug)"
    unfolding byocKeySecretName_def byocCredentialsName_def byocProxyName_def
    by (rule byocBaseName_extend; simp add: labelChar_def lowerAlnum_def)+
  moreover have "rfc1035Label (byocTLSName inst target)"
    unfolding byocTLSName_def by (rule digest_name) (simp_all add: lowerLetter_def labelChar_def lowerAlnum_def)
  moreover have "rfc1035Label (derivedSlug uid)"
  proof -
    have "rfc1035Label (''llm-'' @ take 32 (hexEncode (slugDigest uid)))"
      by (rule digest_name) (simp_all add: lowerLetter_def labelChar_def lowerAlnum_def slugDigest_def)
    then show ?thesis by (simp add: derivedSlug_def)
  qed
  ultimately show ?thesis
    using byocBaseName_label(1) by (simp add: byocKeySecretName_def byocCredentialsName_def byocProxyName_def)
qed

text \<open>The service of a hosted instance is named after the instance.  That name is a label exactly when
  the name of the instance starts with a letter, has no dot and at most 57 characters; Kubernetes
  accepts instance names that are not so, and the service of such an instance is refused.\<close>

theorem hosted_service_name:
  "rfc1035Label (svcNameOf inst) \<longleftrightarrow>
     (let n = omName (liMeta inst) in n \<noteq> [] \<and> lowerLetter (hd n) \<and> length n \<le> 57 \<and> list_all labelChar n)"
proof (cases "omName (liMeta inst)")
  case Nil
  then show ?thesis by (simp add: svcNameOf_def rfc1035Label_def lowerLetter_def)
next
  case (Cons c cs)
  have "list_all labelChar ''-llama''" "lowerAlnum (last ''-llama'')" by code_simp+
  with Cons show ?thesis
    by (simp add: svcNameOf_def rfc1035Label_def Let_def) auto
qed

theorem hosted_service_name_refused:
  "dnsSubdomain ''7b.chat'' \<and> (omName (liMeta inst) = ''7b.chat'' \<longrightarrow> \<not> rfc1035Label (svcNameOf inst))"
proof -
  have "dnsSubdomain ''7b.chat''" by code_simp
  then show ?thesis by (simp add: hosted_service_name lowerLetter_def)
qed

end
