(* ===== verification/GoHeap.thy ===== *)
theory GoHeap
  imports Main "HOL-Library.Monad_Syntax"
begin

text \<open>
  Memory with addresses, for the code that is about sharing: the deep copies of the API types.  A
  heap holds cells of any type \<open>'c\<close> and knows the next free address.  An operation that dereferences
  returns \<open>None\<close> when it would panic.  The contract of a deep copy is a locale; pointers, slices, pairs
  and structs pass it on.
\<close>

section \<open>Heaps\<close>

type_synonym addr = nat

record 'c heap =
  cells :: "addr \<rightharpoonup> 'c"
  brk :: addr

definition wfHeap :: "'c heap \<Rightarrow> bool" where
  "wfHeap h = (\<forall>a. cells h a \<noteq> None \<longrightarrow> a < brk h)"

definition newCell :: "'c \<Rightarrow> 'c heap \<Rightarrow> 'c heap \<times> addr" where
  "newCell z h = (h\<lparr>cells := (cells h)(brk h \<mapsto> z), brk := Suc (brk h)\<rparr>, brk h)"

definition store :: "addr \<Rightarrow> 'c \<Rightarrow> 'c heap \<Rightarrow> 'c heap" where
  "store a c h = h\<lparr>cells := (cells h)(a \<mapsto> c)\<rparr>"

text \<open>The later heap keeps every cell of the earlier one.\<close>

definition extends :: "'c heap \<Rightarrow> 'c heap \<Rightarrow> bool" where
  "extends h h' = (brk h \<le> brk h' \<and> wfHeap h' \<and> (\<forall>a < brk h. cells h' a = cells h a))"

definition agreeOn :: "addr set \<Rightarrow> 'c heap \<Rightarrow> 'c heap \<Rightarrow> bool" where
  "agreeOn A h h' = (\<forall>a \<in> A. cells h' a = cells h a)"

lemma extends_refl: "wfHeap h \<Longrightarrow> extends h h"
  by (simp add: extends_def)

lemma extends_trans: "extends h h' \<Longrightarrow> extends h' h'' \<Longrightarrow> extends h h''"
  by (auto simp: extends_def)

lemma extends_wf: "extends h h' \<Longrightarrow> wfHeap h'"
  by (simp add: extends_def)

lemma extends_brk: "extends h h' \<Longrightarrow> brk h \<le> brk h'"
  by (simp add: extends_def)

lemma extends_agree: "extends h h' \<Longrightarrow> A \<subseteq> {..<brk h} \<Longrightarrow> agreeOn A h h'"
  by (auto simp: extends_def agreeOn_def)

lemma extends_newCell: "wfHeap h \<Longrightarrow> newCell z h = (h', a) \<Longrightarrow> extends h h' \<and> a = brk h \<and> brk h' = Suc a"
  by (auto simp: newCell_def extends_def wfHeap_def less_Suc_eq)

lemma extends_store: "extends h h' \<Longrightarrow> brk h \<le> a \<Longrightarrow> a < brk h' \<Longrightarrow> extends h (store a c h')"
  by (auto simp: extends_def store_def wfHeap_def)

lemma store_cells [simp]: "cells (store a c h) = (cells h)(a \<mapsto> c)" "brk (store a c h) = brk h"
  by (simp_all add: store_def)

section \<open>The contract of a deep copy\<close>

text \<open>
  \<open>into\<close> copies a value that may hold pointers, \<open>view\<close> is what can be read from the value, \<open>None\<close> if a
  pointer dangles, and \<open>reach\<close> the addresses it depends on.  The copy succeeds, reads the same, depends
  on fresh addresses only, and leaves every old cell alone.
\<close>

locale deep_copy =
  fixes into :: "'c heap \<Rightarrow> 'v \<Rightarrow> ('c heap \<times> 'v) option"
    and view :: "'c heap \<Rightarrow> 'v \<Rightarrow> 'a option"
    and reach :: "'c heap \<Rightarrow> 'v \<Rightarrow> addr set"
  assumes copies: "wfHeap h \<Longrightarrow> view h x = Some v \<Longrightarrow>
      \<exists>h' y. into h x = Some (h', y) \<and> extends h h' \<and> view h' y = Some v \<and> reach h' y \<subseteq> {brk h..<brk h'}"
    and local: "view h x = Some v \<Longrightarrow> agreeOn (reach h x) h h' \<Longrightarrow> view h' x = Some v \<and> reach h' x = reach h x"
    and within: "wfHeap h \<Longrightarrow> view h x = Some v \<Longrightarrow> reach h x \<subseteq> {..<brk h}"
begin

lemma kept:
  assumes "wfHeap h" "view h x = Some v" "extends h h'"
  shows "view h' x = Some v" "reach h' x = reach h x"
  using local [OF assms(2) extends_agree [OF assms(3) within [OF assms(1,2)]]] by auto

text \<open>Whatever is written to one of the two afterwards, the other still reads the same.\<close>

lemma independent:
  assumes "wfHeap h" "view h x = Some v"
  shows "\<exists>h' y. into h x = Some (h', y) \<and> extends h h' \<and> view h' x = Some v \<and> view h' y = Some v \<and>
    reach h' x = reach h x \<and> reach h' x \<inter> reach h' y = {} \<and>
    (\<forall>h''. agreeOn (- reach h' y) h' h'' \<longrightarrow> view h'' x = Some v) \<and>
    (\<forall>h''. agreeOn (- reach h' x) h' h'' \<longrightarrow> view h'' y = Some v)"
proof -
  obtain h' y where c: "into h x = Some (h', y)" "extends h h'" "view h' y = Some v" "reach h' y \<subseteq> {brk h..<brk h'}"
    using copies [OF assms] by blast
  note k = kept [OF assms c(2)]
  have dis: "reach h' x \<inter> reach h' y = {}" using c(4) within [OF assms] k(2) by fastforce
  have "agreeOn (- A) h' h'' \<Longrightarrow> B \<inter> A = {} \<Longrightarrow> agreeOn B h' h''" for A B and h'' :: "'c heap"
    by (auto simp: agreeOn_def)
  with local [OF k(1)] local [OF c(3)] dis have
    "\<forall>h''. agreeOn (- reach h' y) h' h'' \<longrightarrow> view h'' x = Some v" "\<forall>h''. agreeOn (- reach h' x) h' h'' \<longrightarrow> view h'' y = Some v"
    by (metis, metis inf_commute)
  with c k dis show ?thesis by blast
qed

end

section \<open>Building blocks\<close>

text \<open>An assignment copies a value that holds no pointer.\<close>

definition plainInto :: "'c heap \<Rightarrow> 'v \<Rightarrow> ('c heap \<times> 'v) option" where
  "plainInto h x = Some (h, x)"

definition plainView :: "'c heap \<Rightarrow> 'v \<Rightarrow> 'v option" where
  "plainView h x = Some x"

definition noReach :: "'c heap \<Rightarrow> 'v \<Rightarrow> addr set" where
  "noReach h x = {}"

interpretation plain: deep_copy plainInto plainView noReach
  by unfold_locales (auto simp: plainInto_def plainView_def noReach_def extends_refl)

text \<open>A pointer: \<^verbatim>\<open>nil\<close> stays \<^verbatim>\<open>nil\<close>, otherwise \<^verbatim>\<open>new\<close> allocates a zero value and the target is copied into it.\<close>

definition deepCopyPtr :: "('t \<Rightarrow> 'c) \<Rightarrow> ('c \<Rightarrow> 't option) \<Rightarrow> ('t \<Rightarrow> 't) \<Rightarrow> ('c heap \<Rightarrow> 't \<Rightarrow> ('c heap \<times> 't) option)
    \<Rightarrow> 'c heap \<Rightarrow> addr option \<Rightarrow> ('c heap \<times> addr option) option" where
  "deepCopyPtr mk un zero into h p =
     (case p of
        None \<Rightarrow> Some (h, None)
      | Some a \<Rightarrow> do {
          c \<leftarrow> cells h a;
          t \<leftarrow> un c;
          let (h1, b) = newCell (mk (zero t)) h;
          (h2, t') \<leftarrow> into h1 t;
          Some (store b (mk t') h2, Some b)
        })"

definition ptrView :: "('c \<Rightarrow> 't option) \<Rightarrow> ('c heap \<Rightarrow> 't \<Rightarrow> 'a option) \<Rightarrow> 'c heap \<Rightarrow> addr option \<Rightarrow> 'a option option" where
  "ptrView un view h p =
     (case p of None \<Rightarrow> Some None | Some a \<Rightarrow> do { c \<leftarrow> cells h a; t \<leftarrow> un c; v \<leftarrow> view h t; Some (Some v) })"

definition ptrReach :: "('c \<Rightarrow> 't option) \<Rightarrow> ('c heap \<Rightarrow> 't \<Rightarrow> addr set) \<Rightarrow> 'c heap \<Rightarrow> addr option \<Rightarrow> addr set" where
  "ptrReach un reach h p =
     (case p of None \<Rightarrow> {} | Some a \<Rightarrow> insert a (case cells h a \<bind> un of None \<Rightarrow> {} | Some t \<Rightarrow> reach h t))"

locale deep_copy_ptr = deep_copy into view reach
  for into :: "'c heap \<Rightarrow> 't \<Rightarrow> ('c heap \<times> 't) option" and view :: "'c heap \<Rightarrow> 't \<Rightarrow> 'a option" and reach +
  fixes mk :: "'t \<Rightarrow> 'c" and un :: "'c \<Rightarrow> 't option" and zero :: "'t \<Rightarrow> 't"
  assumes un_mk: "un (mk t) = Some t"
begin

lemma ptr_view_Some:
  assumes "ptrView un view h (Some a) = Some v"
  obtains c t w where "cells h a = Some c" "un c = Some t" "view h t = Some w" "v = Some w"
    "ptrReach un reach h (Some a) = insert a (reach h t)"
  using assms that by (auto simp: ptrView_def ptrReach_def bind_eq_Some_conv)

lemma ptr_copies:
  assumes wf: "wfHeap h" and v: "ptrView un view h p = Some v"
  shows "\<exists>h' q. deepCopyPtr mk un zero into h p = Some (h', q) \<and> extends h h' \<and> ptrView un view h' q = Some v \<and>
    ptrReach un reach h' q \<subseteq> {brk h..<brk h'}"
proof (cases p)
  case None
  with v wf show ?thesis by (auto simp: deepCopyPtr_def ptrView_def ptrReach_def extends_refl)
next
  case (Some a)
  from v obtain c t w where t: "cells h a = Some c" "un c = Some t" "view h t = Some w" "v = Some w"
    unfolding Some by (rule ptr_view_Some)
  obtain h1 b where n: "newCell (mk (zero t)) h = (h1, b)" by (metis surj_pair)
  note e1 = extends_newCell [OF wf n]
  obtain h2 y where c: "into h1 t = Some (h2, y)" "extends h1 h2" "view h2 y = Some w" "reach h2 y \<subseteq> {brk h1..<brk h2}"
    using copies [of h1 t w] kept [OF wf t(3)] e1 extends_wf by blast
  have "agreeOn (reach h2 y) h2 (store b (mk y) h2)" using c(4) e1 by (auto simp: agreeOn_def)
  note l = local [OF c(3) this]
  have "extends h (store b (mk y) h2)"
    by (rule extends_store) (use e1 c(2) extends_trans extends_brk in \<open>fastforce+\<close>)
  moreover have "ptrView un view (store b (mk y) h2) (Some b) = Some v" using l t(4) by (simp add: ptrView_def un_mk)
  moreover have "ptrReach un reach (store b (mk y) h2) (Some b) \<subseteq> {brk h..<brk (store b (mk y) h2)}"
    using l c(4) e1 extends_brk [OF c(2)] by (auto simp: ptrReach_def un_mk)
  ultimately show ?thesis using t n c(1) Some by (auto simp: deepCopyPtr_def)
qed

lemma ptr_local:
  assumes "ptrView un view h p = Some v" "agreeOn (ptrReach un reach h p) h h'"
  shows "ptrView un view h' p = Some v \<and> ptrReach un reach h' p = ptrReach un reach h p"
proof (cases p)
  case None
  with assms show ?thesis by (simp add: ptrView_def ptrReach_def)
next
  case (Some a)
  from assms(1) obtain c t w where t: "cells h a = Some c" "un c = Some t" "view h t = Some w" "v = Some w"
      "ptrReach un reach h (Some a) = insert a (reach h t)"
    unfolding Some by (rule ptr_view_Some)
  with assms(2) Some have "cells h' a = Some c" "agreeOn (reach h t) h h'" by (auto simp: agreeOn_def)
  with local [OF t(3)] t Some show ?thesis by (simp add: ptrView_def ptrReach_def)
qed

lemma ptr_within:
  assumes "wfHeap h" "ptrView un view h p = Some v"
  shows "ptrReach un reach h p \<subseteq> {..<brk h}"
proof (cases p)
  case None
  then show ?thesis by (simp add: ptrReach_def)
next
  case (Some a)
  from assms(2) obtain c t w where t: "cells h a = Some c" "un c = Some t" "view h t = Some w"
      "ptrReach un reach h (Some a) = insert a (reach h t)"
    unfolding Some by (rule ptr_view_Some)
  with within [OF assms(1) t(3)] assms(1) Some show ?thesis by (auto simp: wfHeap_def)
qed

end

sublocale deep_copy_ptr \<subseteq> ptr: deep_copy "deepCopyPtr mk un zero into" "ptrView un view" "ptrReach un reach"
  by (unfold_locales) (fact ptr_copies ptr_local ptr_within)+

text \<open>Two parts of a struct, copied one after the other.\<close>

fun pairInto :: "('c heap \<Rightarrow> 'p \<Rightarrow> ('c heap \<times> 'p) option) \<Rightarrow> ('c heap \<Rightarrow> 'q \<Rightarrow> ('c heap \<times> 'q) option)
    \<Rightarrow> 'c heap \<Rightarrow> 'p \<times> 'q \<Rightarrow> ('c heap \<times> ('p \<times> 'q)) option" where
  "pairInto i j h (x, y) = do { (h1, x') \<leftarrow> i h x; (h2, y') \<leftarrow> j h1 y; Some (h2, (x', y')) }"

fun pairView :: "('c heap \<Rightarrow> 'p \<Rightarrow> 'a option) \<Rightarrow> ('c heap \<Rightarrow> 'q \<Rightarrow> 'b option) \<Rightarrow> 'c heap \<Rightarrow> 'p \<times> 'q \<Rightarrow> ('a \<times> 'b) option" where
  "pairView v w h (x, y) = do { a \<leftarrow> v h x; b \<leftarrow> w h y; Some (a, b) }"

fun pairReach :: "('c heap \<Rightarrow> 'p \<Rightarrow> addr set) \<Rightarrow> ('c heap \<Rightarrow> 'q \<Rightarrow> addr set) \<Rightarrow> 'c heap \<Rightarrow> 'p \<times> 'q \<Rightarrow> addr set" where
  "pairReach r s h (x, y) = r h x \<union> s h y"

locale deep_copy_pair = a: deep_copy i v r + b: deep_copy j w s
  for i :: "'c heap \<Rightarrow> 'p \<Rightarrow> ('c heap \<times> 'p) option" and v :: "'c heap \<Rightarrow> 'p \<Rightarrow> 'a option" and r
    and j :: "'c heap \<Rightarrow> 'q \<Rightarrow> ('c heap \<times> 'q) option" and w :: "'c heap \<Rightarrow> 'q \<Rightarrow> 'b option" and s
begin

lemma pair_copies:
  assumes wf: "wfHeap h" and v: "v h x = Some va" "w h y = Some wb"
  shows "\<exists>h' x' y'. pairInto i j h (x, y) = Some (h', x', y') \<and> extends h h' \<and> v h' x' = Some va \<and> w h' y' = Some wb \<and>
    r h' x' \<subseteq> {brk h..<brk h'} \<and> s h' y' \<subseteq> {brk h..<brk h'}"
proof -
  obtain h1 x' where 1: "i h x = Some (h1, x')" "extends h h1" "v h1 x' = Some va" "r h1 x' \<subseteq> {brk h..<brk h1}"
    using a.copies [OF wf v(1)] by blast
  have wf1: "wfHeap h1" using 1(2) by (rule extends_wf)
  obtain h2 y' where 2: "j h1 y = Some (h2, y')" "extends h1 h2" "w h2 y' = Some wb" "s h2 y' \<subseteq> {brk h1..<brk h2}"
    using b.copies [OF wf1 b.kept(1) [OF wf v(2) 1(2)]] by blast
  note k = a.kept [OF wf1 1(3) 2(2)]
  have "r h2 x' \<subseteq> {brk h..<brk h2}" "s h2 y' \<subseteq> {brk h..<brk h2}"
    using 1(4) 2(4) k(2) extends_brk [OF 1(2)] extends_brk [OF 2(2)] by fastforce+
  with 1 2 k(1) extends_trans [OF 1(2) 2(2)] show ?thesis by auto
qed

end

sublocale deep_copy_pair \<subseteq> pair: deep_copy "pairInto i j" "pairView v w" "pairReach r s"
proof
  fix h x u
  assume "wfHeap h" "pairView v w h x = Some u"
  then show "\<exists>h' y. pairInto i j h x = Some (h', y) \<and> extends h h' \<and> pairView v w h' y = Some u \<and> pairReach r s h' y \<subseteq> {brk h..<brk h'}"
    using pair_copies [of h "fst x" _ "snd x"] by (cases x) (fastforce simp: bind_eq_Some_conv simp del: pairInto.simps)
next
  fix h x u h'
  assume "pairView v w h x = Some u" "agreeOn (pairReach r s h x) h h'"
  then show "pairView v w h' x = Some u \<and> pairReach r s h' x = pairReach r s h x"
    using a.local [of h "fst x" _ h'] b.local [of h "snd x" _ h'] by (cases x) (fastforce simp: bind_eq_Some_conv agreeOn_def)
next
  fix h x u
  assume "wfHeap h" "pairView v w h x = Some u"
  then show "pairReach r s h x \<subseteq> {..<brk h}"
    using a.within [of h "fst x"] b.within [of h "snd x"] by (cases x) (fastforce simp: bind_eq_Some_conv)
qed

text \<open>A struct: \<^verbatim>\<open>*out = *in\<close>, then the parts that hold pointers are replaced by copies.\<close>

definition structInto :: "('s \<Rightarrow> 'p) \<Rightarrow> ('s \<Rightarrow> 'p \<Rightarrow> 's) \<Rightarrow> ('c heap \<Rightarrow> 'p \<Rightarrow> ('c heap \<times> 'p) option)
    \<Rightarrow> 'c heap \<Rightarrow> 's \<Rightarrow> ('c heap \<times> 's) option" where
  "structInto parts upd i h x = do { (h', p) \<leftarrow> i h (parts x); Some (h', upd x p) }"

definition structView :: "('s \<Rightarrow> 'p) \<Rightarrow> ('s \<Rightarrow> 'a \<Rightarrow> 'b) \<Rightarrow> ('c heap \<Rightarrow> 'p \<Rightarrow> 'a option) \<Rightarrow> 'c heap \<Rightarrow> 's \<Rightarrow> 'b option" where
  "structView parts build v h x = map_option (build x) (v h (parts x))"

definition structReach :: "('s \<Rightarrow> 'p) \<Rightarrow> ('c heap \<Rightarrow> 'p \<Rightarrow> addr set) \<Rightarrow> 'c heap \<Rightarrow> 's \<Rightarrow> addr set" where
  "structReach parts r h x = r h (parts x)"

locale deep_copy_struct = deep_copy i v r
  for i :: "'c heap \<Rightarrow> 'p \<Rightarrow> ('c heap \<times> 'p) option" and v :: "'c heap \<Rightarrow> 'p \<Rightarrow> 'a option" and r +
  fixes parts :: "'s \<Rightarrow> 'p" and upd :: "'s \<Rightarrow> 'p \<Rightarrow> 's" and build :: "'s \<Rightarrow> 'a \<Rightarrow> 'b"
  assumes parts_upd: "parts (upd x p) = p" and build_upd: "build (upd x p) = build x"

sublocale deep_copy_struct \<subseteq> struct: deep_copy "structInto parts upd i" "structView parts build v" "structReach parts r"
proof
  fix h x u
  assume wf: "wfHeap h" and "structView parts build v h x = Some u"
  then obtain a where "v h (parts x) = Some a" "u = build x a" by (auto simp: structView_def)
  with copies [OF wf this(1)] show "\<exists>h' y. structInto parts upd i h x = Some (h', y) \<and> extends h h' \<and>
      structView parts build v h' y = Some u \<and> structReach parts r h' y \<subseteq> {brk h..<brk h'}"
    by (auto simp: structInto_def structView_def structReach_def parts_upd build_upd)
next
  fix h x u h'
  assume "structView parts build v h x = Some u" and ag: "agreeOn (structReach parts r h x) h h'"
  then obtain a where "v h (parts x) = Some a" "u = build x a" by (auto simp: structView_def)
  with local [OF this(1)] ag show "structView parts build v h' x = Some u \<and> structReach parts r h' x = structReach parts r h x"
    by (simp add: structView_def structReach_def)
next
  fix h x u
  assume wf: "wfHeap h" and "structView parts build v h x = Some u"
  then obtain a where "v h (parts x) = Some a" by (auto simp: structView_def)
  from within [OF wf this] show "structReach parts r h x \<subseteq> {..<brk h}" by (simp add: structReach_def)
qed

text \<open>The elements of a slice, copied in order; the slice itself is a pointer to its array.\<close>

fun copyAll :: "('c heap \<Rightarrow> 't \<Rightarrow> ('c heap \<times> 't) option) \<Rightarrow> 'c heap \<Rightarrow> 't list \<Rightarrow> ('c heap \<times> 't list) option" where
  "copyAll into h [] = Some (h, [])"
| "copyAll into h (x # xs) = do { (h1, y) \<leftarrow> into h x; (h2, ys) \<leftarrow> copyAll into h1 xs; Some (h2, y # ys) }"

fun listView :: "('c heap \<Rightarrow> 't \<Rightarrow> 'a option) \<Rightarrow> 'c heap \<Rightarrow> 't list \<Rightarrow> 'a list option" where
  "listView view h [] = Some []"
| "listView view h (x # xs) = do { v \<leftarrow> view h x; vs \<leftarrow> listView view h xs; Some (v # vs) }"

definition listReach :: "('c heap \<Rightarrow> 't \<Rightarrow> addr set) \<Rightarrow> 'c heap \<Rightarrow> 't list \<Rightarrow> addr set" where
  "listReach reach h xs = (\<Union>x \<in> set xs. reach h x)"

context deep_copy
begin

lemma list_local:
  "listView view h xs = Some vs \<Longrightarrow> agreeOn (listReach reach h xs) h h' \<Longrightarrow>
     listView view h' xs = Some vs \<and> listReach reach h' xs = listReach reach h xs"
proof (induction xs arbitrary: vs)
  case (Cons x xs)
  from Cons.prems(1) obtain v ws where v: "view h x = Some v" "listView view h xs = Some ws" "vs = v # ws"
    by (auto simp: bind_eq_Some_conv)
  from Cons.prems(2) have "agreeOn (reach h x) h h'" "agreeOn (listReach reach h xs) h h'"
    by (auto simp: agreeOn_def listReach_def)
  with local [OF v(1)] Cons.IH [OF v(2)] v show ?case by (auto simp: listReach_def)
qed (simp add: listReach_def)

lemma list_within: "wfHeap h \<Longrightarrow> listView view h xs = Some vs \<Longrightarrow> listReach reach h xs \<subseteq> {..<brk h}"
proof (induction xs arbitrary: vs)
  case (Cons x xs)
  from Cons.prems(2) obtain v ws where "view h x = Some v" "listView view h xs = Some ws"
    by (auto simp: bind_eq_Some_conv)
  with Cons.IH [OF Cons.prems(1)] within [OF Cons.prems(1)] show ?case by (simp add: listReach_def)
qed (simp add: listReach_def)

lemma list_copies:
  "wfHeap h \<Longrightarrow> listView view h xs = Some vs \<Longrightarrow>
     \<exists>h' ys. copyAll into h xs = Some (h', ys) \<and> extends h h' \<and> listView view h' ys = Some vs \<and> listReach reach h' ys \<subseteq> {brk h..<brk h'}"
proof (induction xs arbitrary: h vs)
  case Nil
  then show ?case by (simp add: listReach_def extends_refl)
next
  case (Cons x xs)
  from Cons.prems(2) obtain v ws where v: "view h x = Some v" "listView view h xs = Some ws" "vs = v # ws"
    by (auto simp: bind_eq_Some_conv)
  obtain h1 y where 1: "into h x = Some (h1, y)" "extends h h1" "view h1 y = Some v" "reach h1 y \<subseteq> {brk h..<brk h1}"
    using copies [OF Cons.prems(1) v(1)] by blast
  have wf1: "wfHeap h1" using 1(2) by (rule extends_wf)
  have "listView view h1 xs = Some ws"
    using list_local [OF v(2) extends_agree [OF 1(2) list_within [OF Cons.prems(1) v(2)]]] by blast
  from Cons.IH [OF wf1 this] obtain h2 ys where 2: "copyAll into h1 xs = Some (h2, ys)" "extends h1 h2"
      "listView view h2 ys = Some ws" "listReach reach h2 ys \<subseteq> {brk h1..<brk h2}"
    by blast
  note k = kept [OF wf1 1(3) 2(2)]
  have "listReach reach h2 (y # ys) \<subseteq> {brk h..<brk h2}"
    using 1(4) 2(4) k(2) extends_brk [OF 1(2)] extends_brk [OF 2(2)] by (fastforce simp: listReach_def)
  with 1 2 k(1) v(3) extends_trans [OF 1(2) 2(2)] show ?case by auto
qed

end

definition deepCopySlice :: "('t list \<Rightarrow> 'c) \<Rightarrow> ('c \<Rightarrow> 't list option) \<Rightarrow> 't \<Rightarrow> ('c heap \<Rightarrow> 't \<Rightarrow> ('c heap \<times> 't) option)
    \<Rightarrow> 'c heap \<Rightarrow> addr option \<Rightarrow> ('c heap \<times> addr option) option" where
  "deepCopySlice mk un zero into = deepCopyPtr mk un (\<lambda>xs. replicate (length xs) zero) (copyAll into)"

definition sliceView :: "('c \<Rightarrow> 't list option) \<Rightarrow> ('c heap \<Rightarrow> 't \<Rightarrow> 'a option) \<Rightarrow> 'c heap \<Rightarrow> addr option \<Rightarrow> 'a list option option" where
  "sliceView un view = ptrView un (listView view)"

definition sliceReach :: "('c \<Rightarrow> 't list option) \<Rightarrow> ('c heap \<Rightarrow> 't \<Rightarrow> addr set) \<Rightarrow> 'c heap \<Rightarrow> addr option \<Rightarrow> addr set" where
  "sliceReach un reach = ptrReach un (listReach reach)"

locale deep_copy_slice = deep_copy into view reach
  for into :: "'c heap \<Rightarrow> 't \<Rightarrow> ('c heap \<times> 't) option" and view :: "'c heap \<Rightarrow> 't \<Rightarrow> 'a option" and reach +
  fixes mk :: "'t list \<Rightarrow> 'c" and un :: "'c \<Rightarrow> 't list option" and zero :: 't
  assumes un_mk: "un (mk ts) = Some ts"

sublocale deep_copy_slice \<subseteq> arr: deep_copy_ptr "copyAll into" "listView view" "listReach reach" mk un "\<lambda>xs. replicate (length xs) zero"
  by unfold_locales (fact list_copies list_local list_within un_mk)+

sublocale deep_copy_slice \<subseteq> slice: deep_copy "deepCopySlice mk un zero into" "sliceView un view" "sliceReach un reach"
  unfolding deepCopySlice_def sliceView_def sliceReach_def by (fact arr.ptr.deep_copy_axioms)

context deep_copy_ptr
begin

lemma ptr_deep_copy: "deep_copy (deepCopyPtr mk un zero into) (ptrView un view) (ptrReach un reach)"
  by (fact ptr.deep_copy_axioms)

end

context deep_copy_pair
begin

lemma pair_deep_copy: "deep_copy (pairInto i j) (pairView v w) (pairReach r s)"
  by (fact pair.deep_copy_axioms)

end

context deep_copy_struct
begin

lemma struct_deep_copy: "deep_copy (structInto parts upd i) (structView parts build v) (structReach parts r)"
  by (fact struct.deep_copy_axioms)

end

context deep_copy_slice
begin

lemma slice_deep_copy: "deep_copy (deepCopySlice mk un zero into) (sliceView un view) (sliceReach un reach)"
  by (fact slice.deep_copy_axioms)

end

text \<open>The building blocks as rules.\<close>

lemma deep_copy_ptrI:
  "deep_copy into v r \<Longrightarrow> (\<And>t. un (mk t) = Some t) \<Longrightarrow> deep_copy (deepCopyPtr mk un zero into) (ptrView un v) (ptrReach un r)"
  by (rule deep_copy_ptr.ptr_deep_copy) (simp add: deep_copy_ptr_def deep_copy_ptr_axioms_def)

lemma deep_copy_sliceI:
  "deep_copy into v r \<Longrightarrow> (\<And>t. un (mk t) = Some t) \<Longrightarrow> deep_copy (deepCopySlice mk un zero into) (sliceView un v) (sliceReach un r)"
  by (rule deep_copy_slice.slice_deep_copy) (simp add: deep_copy_slice_def deep_copy_slice_axioms_def)

lemma deep_copy_pairI: "deep_copy i v r \<Longrightarrow> deep_copy j w s \<Longrightarrow> deep_copy (pairInto i j) (pairView v w) (pairReach r s)"
  by (rule deep_copy_pair.pair_deep_copy) (simp add: deep_copy_pair_def)

lemma deep_copy_structI:
  assumes "deep_copy i v r" "\<And>h x. into h x = structInto parts upd i h x" "\<And>x p. parts (upd x p) = p" "\<And>x p. build (upd x p) = build x"
  shows "deep_copy into (structView parts build v) (structReach parts r)"
proof -
  have "into = structInto parts upd i" using assms(2) by (simp add: fun_eq_iff)
  then show ?thesis
    using assms(1,3,4) deep_copy_struct.struct_deep_copy [of i v r parts upd build]
    by (simp add: deep_copy_struct_def deep_copy_struct_axioms_def)
qed

lemmas deep_copy_rules = deep_copy_ptrI deep_copy_sliceI deep_copy_pairI plain.deep_copy_axioms

end
