(* ===== verification/DeepCopies.thy ===== *)
theory DeepCopies
  imports GoHeap KubeTypes
begin

text \<open>
  \<^verbatim>\<open>api/v1alpha1/zz_generated.deepcopy.go\<close>: the deep copies of the API types, on structs as they lie in
  memory, where an optional field is a pointer and a list a pointer to its array.  The rest of the
  development works with values; what is shown here, that a copy reads the same and shares nothing
  with its original, is what makes that sound for the code, which copies an object before it changes
  it.  \<^verbatim>\<open>DeepCopyInto\<close> returns the struct that it writes through \<^verbatim>\<open>out\<close>.  The metadata and the conditions
  are types of the API machinery, and their copies are arguments.
\<close>

section \<open>Structs in memory\<close>

record go_resources =
  goCPU :: "addr option"
  goMemory :: "addr option"

record go_spec =
  goModel :: string
  goReplicas :: int
  goResources :: "addr option"
  goContextSize :: "addr option"
  goParallelSlots :: "addr option"
  goDNSPolicy :: string
  goClusterRef :: "addr option"

record go_status =
  goSlug :: string
  goSlugSource :: string
  goPhase :: string
  goEndpoint :: string
  goActiveBYOCKubeconfigSecretName :: string
  goActiveBYOCTargetID :: string
  goActiveBYOCTLSDomain :: string
  goActiveBYOCTLSNamespace :: string
  goActiveBYOCSlug :: string
  goObservedGeneration :: int
  goConditions :: "addr option"

record go_type_meta =
  goKind :: string
  goAPIVersion :: string

record 'm go_instance =
  goInstanceType :: go_type_meta
  goInstanceMeta :: 'm
  goInstanceSpec :: go_spec
  goInstanceStatus :: go_status

record go_token_status =
  goTokenPhase :: string
  goTokenSecretName :: string
  goTokenObservedGeneration :: int
  goTokenConditions :: "addr option"

record 'm go_token =
  goTokenType :: go_type_meta
  goTokenMeta :: 'm
  goTokenSpec :: token_spec
  goTokenStatus :: go_token_status

record 'l go_list =
  goListType :: go_type_meta
  goListMeta :: 'l
  goItems :: "addr option"

datatype ('m, 'l, 'x) cell =
    CInt int
  | CClusterRef cluster_ref
  | CCPU cpu_resources
  | CMemory memory_resources
  | CResources go_resources
  | CConditions "condition list"
  | CSpec go_spec
  | CStatus go_status
  | CInstance "'m go_instance"
  | CInstances "'m go_instance list"
  | CInstanceList "'l go_list"
  | CTokenSpec token_spec
  | CTokenStatus go_token_status
  | CToken "'m go_token"
  | CTokens "'m go_token list"
  | CTokenList "'l go_list"
  | CLib 'x

type_synonym ('m, 'l, 'x) memory = "('m, 'l, 'x) cell heap"

text \<open>A pointer is typed: it is read as a value of its type.\<close>

fun theInt where "theInt (CInt x) = Some x" | "theInt _ = None"
fun theClusterRef where "theClusterRef (CClusterRef x) = Some x" | "theClusterRef _ = None"
fun theCPU where "theCPU (CCPU x) = Some x" | "theCPU _ = None"
fun theMemory where "theMemory (CMemory x) = Some x" | "theMemory _ = None"
fun theResources where "theResources (CResources x) = Some x" | "theResources _ = None"
fun theConditions where "theConditions (CConditions x) = Some x" | "theConditions _ = None"
fun theSpec where "theSpec (CSpec x) = Some x" | "theSpec _ = None"
fun theStatus where "theStatus (CStatus x) = Some x" | "theStatus _ = None"
fun theInstance where "theInstance (CInstance x) = Some x" | "theInstance _ = None"
fun theInstances where "theInstances (CInstances x) = Some x" | "theInstances _ = None"
fun theInstanceList where "theInstanceList (CInstanceList x) = Some x" | "theInstanceList _ = None"
fun theTokenSpec where "theTokenSpec (CTokenSpec x) = Some x" | "theTokenSpec _ = None"
fun theTokenStatus where "theTokenStatus (CTokenStatus x) = Some x" | "theTokenStatus _ = None"
fun theToken where "theToken (CToken x) = Some x" | "theToken _ = None"
fun theTokens where "theTokens (CTokens x) = Some x" | "theTokens _ = None"
fun theTokenList where "theTokenList (CTokenList x) = Some x" | "theTokenList _ = None"
fun theLib where "theLib (CLib x) = Some x" | "theLib _ = None"

text \<open>The copies that the API machinery brings along.\<close>

record ('c, 'm, 'l) meta_lib =
  mlMeta :: "'c heap \<Rightarrow> 'm \<Rightarrow> ('c heap \<times> 'm) option"
  mlListMeta :: "'c heap \<Rightarrow> 'l \<Rightarrow> ('c heap \<times> 'l) option"
  mlCondition :: "'c heap \<Rightarrow> condition \<Rightarrow> ('c heap \<times> condition) option"
  mlZeroMeta :: 'm
  mlZeroListMeta :: 'l

section \<open>Zero values\<close>

definition zeroCondition :: condition where
  "zeroCondition = \<lparr>cdType = [], cdStatus = [], cdReason = [], cdMessage = [], cdObservedGeneration = 0, cdLastTransition = None\<rparr>"

definition zeroResources :: go_resources where
  "zeroResources = \<lparr>goCPU = None, goMemory = None\<rparr>"

definition zeroSpec :: go_spec where
  "zeroSpec = \<lparr>goModel = [], goReplicas = 0, goResources = None, goContextSize = None, goParallelSlots = None,
     goDNSPolicy = [], goClusterRef = None\<rparr>"

definition zeroStatus :: go_status where
  "zeroStatus = \<lparr>goSlug = [], goSlugSource = [], goPhase = [], goEndpoint = [], goActiveBYOCKubeconfigSecretName = [],
     goActiveBYOCTargetID = [], goActiveBYOCTLSDomain = [], goActiveBYOCTLSNamespace = [], goActiveBYOCSlug = [],
     goObservedGeneration = 0, goConditions = None\<rparr>"

definition zeroTokenStatus :: go_token_status where
  "zeroTokenStatus = \<lparr>goTokenPhase = [], goTokenSecretName = [], goTokenObservedGeneration = 0, goTokenConditions = None\<rparr>"

definition zeroType :: go_type_meta where
  "zeroType = \<lparr>goKind = [], goAPIVersion = []\<rparr>"

definition zeroInstance :: "'m \<Rightarrow> 'm go_instance" where
  "zeroInstance m = \<lparr>goInstanceType = zeroType, goInstanceMeta = m, goInstanceSpec = zeroSpec, goInstanceStatus = zeroStatus\<rparr>"

definition zeroToken :: "'m \<Rightarrow> 'm go_token" where
  "zeroToken m = \<lparr>goTokenType = zeroType, goTokenMeta = m, goTokenSpec = \<lparr>tsInstanceName = [], tsDescription = []\<rparr>,
     goTokenStatus = zeroTokenStatus\<rparr>"

definition zeroList :: "'l \<Rightarrow> 'l go_list" where
  "zeroList l = \<lparr>goListType = zeroType, goListMeta = l, goItems = None\<rparr>"

section \<open>The generated functions\<close>

definition ModelCPUResources_DeepCopyInto :: "('m, 'l, 'x) memory \<Rightarrow> cpu_resources \<Rightarrow> (('m, 'l, 'x) memory \<times> cpu_resources) option" where
  "ModelCPUResources_DeepCopyInto = plainInto"

definition ModelCPUResources_DeepCopy :: "('m, 'l, 'x) memory \<Rightarrow> addr option \<Rightarrow> (('m, 'l, 'x) memory \<times> addr option) option" where
  "ModelCPUResources_DeepCopy = deepCopyPtr CCPU theCPU (\<lambda>_. \<lparr>cpuRequestMilli = 0, cpuLimitMilli = 0\<rparr>) ModelCPUResources_DeepCopyInto"

definition ModelMemoryResources_DeepCopyInto ::
    "('m, 'l, 'x) memory \<Rightarrow> memory_resources \<Rightarrow> (('m, 'l, 'x) memory \<times> memory_resources) option" where
  "ModelMemoryResources_DeepCopyInto = plainInto"

definition ModelMemoryResources_DeepCopy :: "('m, 'l, 'x) memory \<Rightarrow> addr option \<Rightarrow> (('m, 'l, 'x) memory \<times> addr option) option" where
  "ModelMemoryResources_DeepCopy =
     deepCopyPtr CMemory theMemory (\<lambda>_. \<lparr>memRequestMiB = 0, memLimitMiB = 0\<rparr>) ModelMemoryResources_DeepCopyInto"

text \<open>A pointer field that is assigned through (\<^verbatim>\<open>**out = **in\<close>) is copied as its type is.\<close>

definition ModelServerResources_DeepCopyInto ::
    "('m, 'l, 'x) memory \<Rightarrow> go_resources \<Rightarrow> (('m, 'l, 'x) memory \<times> go_resources) option" where
  "ModelServerResources_DeepCopyInto h x = do {
     (h, cpu) \<leftarrow> ModelCPUResources_DeepCopy h (goCPU x);
     (h, mem) \<leftarrow> ModelMemoryResources_DeepCopy h (goMemory x);
     Some (h, x\<lparr>goCPU := cpu, goMemory := mem\<rparr>)
   }"

definition ModelServerResources_DeepCopy :: "('m, 'l, 'x) memory \<Rightarrow> addr option \<Rightarrow> (('m, 'l, 'x) memory \<times> addr option) option" where
  "ModelServerResources_DeepCopy = deepCopyPtr CResources theResources (\<lambda>_. zeroResources) ModelServerResources_DeepCopyInto"

definition int32Copy :: "('m, 'l, 'x) memory \<Rightarrow> addr option \<Rightarrow> (('m, 'l, 'x) memory \<times> addr option) option" where
  "int32Copy = deepCopyPtr CInt theInt (\<lambda>_. 0) plainInto"

definition ClusterRef_DeepCopyInto :: "('m, 'l, 'x) memory \<Rightarrow> cluster_ref \<Rightarrow> (('m, 'l, 'x) memory \<times> cluster_ref) option" where
  "ClusterRef_DeepCopyInto = plainInto"

definition ClusterRef_DeepCopy :: "('m, 'l, 'x) memory \<Rightarrow> addr option \<Rightarrow> (('m, 'l, 'x) memory \<times> addr option) option" where
  "ClusterRef_DeepCopy = deepCopyPtr CClusterRef theClusterRef (\<lambda>_. \<lparr>crKubeconfigSecretName = []\<rparr>) ClusterRef_DeepCopyInto"

definition LLMInstanceSpec_DeepCopyInto :: "('m, 'l, 'x) memory \<Rightarrow> go_spec \<Rightarrow> (('m, 'l, 'x) memory \<times> go_spec) option" where
  "LLMInstanceSpec_DeepCopyInto h x = do {
     (h, res) \<leftarrow> ModelServerResources_DeepCopy h (goResources x);
     (h, ctx) \<leftarrow> int32Copy h (goContextSize x);
     (h, slots) \<leftarrow> int32Copy h (goParallelSlots x);
     (h, ref) \<leftarrow> ClusterRef_DeepCopy h (goClusterRef x);
     Some (h, x\<lparr>goResources := res, goContextSize := ctx, goParallelSlots := slots, goClusterRef := ref\<rparr>)
   }"

definition LLMInstanceSpec_DeepCopy :: "('m, 'l, 'x) memory \<Rightarrow> addr option \<Rightarrow> (('m, 'l, 'x) memory \<times> addr option) option" where
  "LLMInstanceSpec_DeepCopy = deepCopyPtr CSpec theSpec (\<lambda>_. zeroSpec) LLMInstanceSpec_DeepCopyInto"

definition conditionsCopy ::
    "(('m, 'l, 'x) cell, 'm, 'l) meta_lib \<Rightarrow> ('m, 'l, 'x) memory \<Rightarrow> addr option \<Rightarrow> (('m, 'l, 'x) memory \<times> addr option) option" where
  "conditionsCopy K = deepCopySlice CConditions theConditions zeroCondition (mlCondition K)"

definition LLMInstanceStatus_DeepCopyInto ::
    "(('m, 'l, 'x) cell, 'm, 'l) meta_lib \<Rightarrow> ('m, 'l, 'x) memory \<Rightarrow> go_status \<Rightarrow> (('m, 'l, 'x) memory \<times> go_status) option" where
  "LLMInstanceStatus_DeepCopyInto K h x = do {
     (h, conds) \<leftarrow> conditionsCopy K h (goConditions x);
     Some (h, x\<lparr>goConditions := conds\<rparr>)
   }"

definition LLMInstanceStatus_DeepCopy ::
    "(('m, 'l, 'x) cell, 'm, 'l) meta_lib \<Rightarrow> ('m, 'l, 'x) memory \<Rightarrow> addr option \<Rightarrow> (('m, 'l, 'x) memory \<times> addr option) option" where
  "LLMInstanceStatus_DeepCopy K = deepCopyPtr CStatus theStatus (\<lambda>_. zeroStatus) (LLMInstanceStatus_DeepCopyInto K)"

definition LLMInstance_DeepCopyInto ::
    "(('m, 'l, 'x) cell, 'm, 'l) meta_lib \<Rightarrow> ('m, 'l, 'x) memory \<Rightarrow> 'm go_instance \<Rightarrow> (('m, 'l, 'x) memory \<times> 'm go_instance) option" where
  "LLMInstance_DeepCopyInto K h x = do {
     (h, meta) \<leftarrow> mlMeta K h (goInstanceMeta x);
     (h, spec) \<leftarrow> LLMInstanceSpec_DeepCopyInto h (goInstanceSpec x);
     (h, status) \<leftarrow> LLMInstanceStatus_DeepCopyInto K h (goInstanceStatus x);
     Some (h, x\<lparr>goInstanceMeta := meta, goInstanceSpec := spec, goInstanceStatus := status\<rparr>)
   }"

definition LLMInstance_DeepCopy ::
    "(('m, 'l, 'x) cell, 'm, 'l) meta_lib \<Rightarrow> ('m, 'l, 'x) memory \<Rightarrow> addr option \<Rightarrow> (('m, 'l, 'x) memory \<times> addr option) option" where
  "LLMInstance_DeepCopy K = deepCopyPtr CInstance theInstance (\<lambda>_. zeroInstance (mlZeroMeta K)) (LLMInstance_DeepCopyInto K)"

definition LLMInstanceList_DeepCopyInto ::
    "(('m, 'l, 'x) cell, 'm, 'l) meta_lib \<Rightarrow> ('m, 'l, 'x) memory \<Rightarrow> 'l go_list \<Rightarrow> (('m, 'l, 'x) memory \<times> 'l go_list) option" where
  "LLMInstanceList_DeepCopyInto K h x = do {
     (h, meta) \<leftarrow> mlListMeta K h (goListMeta x);
     (h, items) \<leftarrow> deepCopySlice CInstances theInstances (zeroInstance (mlZeroMeta K)) (LLMInstance_DeepCopyInto K) h (goItems x);
     Some (h, x\<lparr>goListMeta := meta, goItems := items\<rparr>)
   }"

definition LLMInstanceList_DeepCopy ::
    "(('m, 'l, 'x) cell, 'm, 'l) meta_lib \<Rightarrow> ('m, 'l, 'x) memory \<Rightarrow> addr option \<Rightarrow> (('m, 'l, 'x) memory \<times> addr option) option" where
  "LLMInstanceList_DeepCopy K =
     deepCopyPtr CInstanceList theInstanceList (\<lambda>_. zeroList (mlZeroListMeta K)) (LLMInstanceList_DeepCopyInto K)"

definition APITokenRequestSpec_DeepCopyInto :: "('m, 'l, 'x) memory \<Rightarrow> token_spec \<Rightarrow> (('m, 'l, 'x) memory \<times> token_spec) option" where
  "APITokenRequestSpec_DeepCopyInto = plainInto"

definition APITokenRequestSpec_DeepCopy :: "('m, 'l, 'x) memory \<Rightarrow> addr option \<Rightarrow> (('m, 'l, 'x) memory \<times> addr option) option" where
  "APITokenRequestSpec_DeepCopy =
     deepCopyPtr CTokenSpec theTokenSpec (\<lambda>_. \<lparr>tsInstanceName = [], tsDescription = []\<rparr>) APITokenRequestSpec_DeepCopyInto"

definition APITokenRequestStatus_DeepCopyInto ::
    "(('m, 'l, 'x) cell, 'm, 'l) meta_lib \<Rightarrow> ('m, 'l, 'x) memory \<Rightarrow> go_token_status \<Rightarrow> (('m, 'l, 'x) memory \<times> go_token_status) option" where
  "APITokenRequestStatus_DeepCopyInto K h x = do {
     (h, conds) \<leftarrow> conditionsCopy K h (goTokenConditions x);
     Some (h, x\<lparr>goTokenConditions := conds\<rparr>)
   }"

definition APITokenRequestStatus_DeepCopy ::
    "(('m, 'l, 'x) cell, 'm, 'l) meta_lib \<Rightarrow> ('m, 'l, 'x) memory \<Rightarrow> addr option \<Rightarrow> (('m, 'l, 'x) memory \<times> addr option) option" where
  "APITokenRequestStatus_DeepCopy K = deepCopyPtr CTokenStatus theTokenStatus (\<lambda>_. zeroTokenStatus) (APITokenRequestStatus_DeepCopyInto K)"

definition APITokenRequest_DeepCopyInto ::
    "(('m, 'l, 'x) cell, 'm, 'l) meta_lib \<Rightarrow> ('m, 'l, 'x) memory \<Rightarrow> 'm go_token \<Rightarrow> (('m, 'l, 'x) memory \<times> 'm go_token) option" where
  "APITokenRequest_DeepCopyInto K h x = do {
     (h, meta) \<leftarrow> mlMeta K h (goTokenMeta x);
     (h, status) \<leftarrow> APITokenRequestStatus_DeepCopyInto K h (goTokenStatus x);
     Some (h, x\<lparr>goTokenMeta := meta, goTokenStatus := status\<rparr>)
   }"

definition APITokenRequest_DeepCopy ::
    "(('m, 'l, 'x) cell, 'm, 'l) meta_lib \<Rightarrow> ('m, 'l, 'x) memory \<Rightarrow> addr option \<Rightarrow> (('m, 'l, 'x) memory \<times> addr option) option" where
  "APITokenRequest_DeepCopy K = deepCopyPtr CToken theToken (\<lambda>_. zeroToken (mlZeroMeta K)) (APITokenRequest_DeepCopyInto K)"

definition APITokenRequestList_DeepCopyInto ::
    "(('m, 'l, 'x) cell, 'm, 'l) meta_lib \<Rightarrow> ('m, 'l, 'x) memory \<Rightarrow> 'l go_list \<Rightarrow> (('m, 'l, 'x) memory \<times> 'l go_list) option" where
  "APITokenRequestList_DeepCopyInto K h x = do {
     (h, meta) \<leftarrow> mlListMeta K h (goListMeta x);
     (h, items) \<leftarrow> deepCopySlice CTokens theTokens (zeroToken (mlZeroMeta K)) (APITokenRequest_DeepCopyInto K) h (goItems x);
     Some (h, x\<lparr>goListMeta := meta, goItems := items\<rparr>)
   }"

definition APITokenRequestList_DeepCopy ::
    "(('m, 'l, 'x) cell, 'm, 'l) meta_lib \<Rightarrow> ('m, 'l, 'x) memory \<Rightarrow> addr option \<Rightarrow> (('m, 'l, 'x) memory \<times> addr option) option" where
  "APITokenRequestList_DeepCopy K =
     deepCopyPtr CTokenList theTokenList (\<lambda>_. zeroList (mlZeroListMeta K)) (APITokenRequestList_DeepCopyInto K)"

text \<open>\<^verbatim>\<open>DeepCopyObject\<close> wraps the pointer in an interface; a nil pointer becomes a nil interface.\<close>

datatype runtime_object = InstanceObject addr | InstanceListObject addr | TokenObject addr | TokenListObject addr

definition LLMInstance_DeepCopyObject where
  "LLMInstance_DeepCopyObject K h p = do { (h, c) \<leftarrow> LLMInstance_DeepCopy K h p; Some (h, map_option InstanceObject c) }"

definition LLMInstanceList_DeepCopyObject where
  "LLMInstanceList_DeepCopyObject K h p = do { (h, c) \<leftarrow> LLMInstanceList_DeepCopy K h p; Some (h, map_option InstanceListObject c) }"

definition APITokenRequest_DeepCopyObject where
  "APITokenRequest_DeepCopyObject K h p = do { (h, c) \<leftarrow> APITokenRequest_DeepCopy K h p; Some (h, map_option TokenObject c) }"

definition APITokenRequestList_DeepCopyObject where
  "APITokenRequestList_DeepCopyObject K h p = do { (h, c) \<leftarrow> APITokenRequestList_DeepCopy K h p; Some (h, map_option TokenListObject c) }"

section \<open>What is read from the structs\<close>

definition resourcesView :: "('m, 'l, 'x) memory \<Rightarrow> go_resources \<Rightarrow> model_resources option" where
  "resourcesView = structView (\<lambda>x. (goCPU x, goMemory x)) (\<lambda>x (cpu, mem). \<lparr>mrCPU = cpu, mrMemory = mem\<rparr>)
     (pairView (ptrView theCPU plainView) (ptrView theMemory plainView))"

definition resourcesReach :: "('m, 'l, 'x) memory \<Rightarrow> go_resources \<Rightarrow> addr set" where
  "resourcesReach = structReach (\<lambda>x. (goCPU x, goMemory x)) (pairReach (ptrReach theCPU noReach) (ptrReach theMemory noReach))"

definition specParts :: "go_spec \<Rightarrow> addr option \<times> addr option \<times> addr option \<times> addr option" where
  "specParts x = (goResources x, goContextSize x, goParallelSlots x, goClusterRef x)"

definition specView :: "('m, 'l, 'x) memory \<Rightarrow> go_spec \<Rightarrow> llm_spec option" where
  "specView = structView specParts (\<lambda>x (res, ctx, slots, ref). \<lparr>spModel = goModel x, spReplicas = goReplicas x, spResources = res,
       spContextSize = ctx, spParallelSlots = slots, spDNSPolicy = goDNSPolicy x, spClusterRef = ref\<rparr>)
     (pairView (ptrView theResources resourcesView) (pairView (ptrView theInt plainView)
       (pairView (ptrView theInt plainView) (ptrView theClusterRef plainView))))"

definition specReach :: "('m, 'l, 'x) memory \<Rightarrow> go_spec \<Rightarrow> addr set" where
  "specReach = structReach specParts (pairReach (ptrReach theResources resourcesReach) (pairReach (ptrReach theInt noReach)
     (pairReach (ptrReach theInt noReach) (ptrReach theClusterRef noReach))))"

text \<open>A nil slice reads as the empty list.\<close>

definition sliceItems :: "'a list option \<Rightarrow> 'a list" where
  "sliceItems xs = (case xs of None \<Rightarrow> [] | Some ys \<Rightarrow> ys)"

definition statusView :: "('m, 'l, 'x) memory \<Rightarrow> go_status \<Rightarrow> llm_status option" where
  "statusView = structView goConditions (\<lambda>x conds. \<lparr>stSlug = goSlug x, stSlugSource = goSlugSource x, stPhase = goPhase x,
       stEndpoint = goEndpoint x, stActiveBYOCKubeconfigSecretName = goActiveBYOCKubeconfigSecretName x,
       stActiveBYOCTargetID = goActiveBYOCTargetID x, stActiveBYOCTLSDomain = goActiveBYOCTLSDomain x,
       stActiveBYOCTLSNamespace = goActiveBYOCTLSNamespace x, stActiveBYOCSlug = goActiveBYOCSlug x,
       stObservedGeneration = goObservedGeneration x, stConditions = sliceItems conds\<rparr>)
     (sliceView theConditions plainView)"

definition statusReach :: "('m, 'l, 'x) memory \<Rightarrow> go_status \<Rightarrow> addr set" where
  "statusReach = structReach goConditions (sliceReach theConditions noReach)"

definition instanceParts :: "'m go_instance \<Rightarrow> 'm \<times> go_spec \<times> go_status" where
  "instanceParts x = (goInstanceMeta x, goInstanceSpec x, goInstanceStatus x)"

definition instanceView ::
    "(('m, 'l, 'x) memory \<Rightarrow> 'm \<Rightarrow> objmeta option) \<Rightarrow> ('m, 'l, 'x) memory \<Rightarrow> 'm go_instance \<Rightarrow> (go_type_meta \<times> llm_instance) option" where
  "instanceView mv = structView instanceParts (\<lambda>x (m, spec, status). (goInstanceType x, \<lparr>liMeta = m, liSpec = spec, liStatus = status\<rparr>))
     (pairView mv (pairView specView statusView))"

definition instanceReach ::
    "(('m, 'l, 'x) memory \<Rightarrow> 'm \<Rightarrow> addr set) \<Rightarrow> ('m, 'l, 'x) memory \<Rightarrow> 'm go_instance \<Rightarrow> addr set" where
  "instanceReach mr = structReach instanceParts (pairReach mr (pairReach specReach statusReach))"

definition tokenStatusView :: "('m, 'l, 'x) memory \<Rightarrow> go_token_status \<Rightarrow> token_status option" where
  "tokenStatusView = structView goTokenConditions (\<lambda>x conds. \<lparr>ttPhase = goTokenPhase x, ttSecretName = goTokenSecretName x,
       ttObservedGeneration = goTokenObservedGeneration x, ttConditions = sliceItems conds\<rparr>)
     (sliceView theConditions plainView)"

definition tokenStatusReach :: "('m, 'l, 'x) memory \<Rightarrow> go_token_status \<Rightarrow> addr set" where
  "tokenStatusReach = structReach goTokenConditions (sliceReach theConditions noReach)"

definition tokenParts :: "'m go_token \<Rightarrow> 'm \<times> go_token_status" where
  "tokenParts x = (goTokenMeta x, goTokenStatus x)"

definition tokenView ::
    "(('m, 'l, 'x) memory \<Rightarrow> 'm \<Rightarrow> objmeta option) \<Rightarrow> ('m, 'l, 'x) memory \<Rightarrow> 'm go_token \<Rightarrow> (go_type_meta \<times> token_request) option" where
  "tokenView mv = structView tokenParts (\<lambda>x (m, status). (goTokenType x, \<lparr>trMeta = m, trSpec = goTokenSpec x, trStatus = status\<rparr>))
     (pairView mv tokenStatusView)"

definition tokenReach ::
    "(('m, 'l, 'x) memory \<Rightarrow> 'm \<Rightarrow> addr set) \<Rightarrow> ('m, 'l, 'x) memory \<Rightarrow> 'm go_token \<Rightarrow> addr set" where
  "tokenReach mr = structReach tokenParts (pairReach mr tokenStatusReach)"

definition listParts :: "'l go_list \<Rightarrow> 'l \<times> addr option" where
  "listParts x = (goListMeta x, goItems x)"

definition instanceListView where
  "instanceListView mv lv = structView listParts (\<lambda>x (m, items). (goListType x, m, sliceItems items)) (pairView lv (sliceView theInstances (instanceView mv)))"

definition instanceListReach where
  "instanceListReach mr lr = structReach listParts (pairReach lr (sliceReach theInstances (instanceReach mr)))"

definition tokenListView where
  "tokenListView mv lv = structView listParts (\<lambda>x (m, items). (goListType x, m, sliceItems items)) (pairView lv (sliceView theTokens (tokenView mv)))"

definition tokenListReach where
  "tokenListReach mr lr = structReach listParts (pairReach lr (sliceReach theTokens (tokenReach mr)))"

section \<open>Every generated function is a deep copy\<close>

interpretation cpu: deep_copy ModelCPUResources_DeepCopy "ptrView theCPU plainView" "ptrReach theCPU noReach"
  unfolding ModelCPUResources_DeepCopy_def ModelCPUResources_DeepCopyInto_def by (intro deep_copy_rules) simp

interpretation memory: deep_copy ModelMemoryResources_DeepCopy "ptrView theMemory plainView" "ptrReach theMemory noReach"
  unfolding ModelMemoryResources_DeepCopy_def ModelMemoryResources_DeepCopyInto_def by (intro deep_copy_rules) simp

interpretation cluster_ref: deep_copy ClusterRef_DeepCopy "ptrView theClusterRef plainView" "ptrReach theClusterRef noReach"
  unfolding ClusterRef_DeepCopy_def ClusterRef_DeepCopyInto_def by (intro deep_copy_rules) simp

interpretation int32: deep_copy int32Copy "ptrView theInt plainView" "ptrReach theInt noReach"
  unfolding int32Copy_def by (intro deep_copy_rules) simp

interpretation token_spec: deep_copy APITokenRequestSpec_DeepCopy "ptrView theTokenSpec plainView" "ptrReach theTokenSpec noReach"
  unfolding APITokenRequestSpec_DeepCopy_def APITokenRequestSpec_DeepCopyInto_def by (intro deep_copy_rules) simp

interpretation resources: deep_copy ModelServerResources_DeepCopyInto resourcesView resourcesReach
  unfolding resourcesView_def resourcesReach_def
  by (rule deep_copy_structI [where upd = "\<lambda>x (cpu, mem). x\<lparr>goCPU := cpu, goMemory := mem\<rparr>",
        OF deep_copy_pairI [OF cpu.deep_copy_axioms memory.deep_copy_axioms]])
    (auto simp: ModelServerResources_DeepCopyInto_def structInto_def split_def)

interpretation resources_ptr: deep_copy ModelServerResources_DeepCopy "ptrView theResources resourcesView" "ptrReach theResources resourcesReach"
  unfolding ModelServerResources_DeepCopy_def by (intro deep_copy_rules resources.deep_copy_axioms) simp

interpretation spec: deep_copy LLMInstanceSpec_DeepCopyInto specView specReach
  unfolding specView_def specReach_def
  by (rule deep_copy_structI [where upd = "\<lambda>x (res, ctx, slots, ref).
          x\<lparr>goResources := res, goContextSize := ctx, goParallelSlots := slots, goClusterRef := ref\<rparr>",
        OF deep_copy_pairI [OF resources_ptr.deep_copy_axioms deep_copy_pairI [OF int32.deep_copy_axioms
          deep_copy_pairI [OF int32.deep_copy_axioms cluster_ref.deep_copy_axioms]]]])
    (auto simp: LLMInstanceSpec_DeepCopyInto_def structInto_def specParts_def split_def)

interpretation spec_ptr: deep_copy LLMInstanceSpec_DeepCopy "ptrView theSpec specView" "ptrReach theSpec specReach"
  unfolding LLMInstanceSpec_DeepCopy_def by (intro deep_copy_rules spec.deep_copy_axioms) simp

text \<open>The parts by their own contracts: the pointer to the CPU settings, the two pointers of the resources and
  the struct around them.\<close>

interpretation cpu_ptr: deep_copy_ptr ModelCPUResources_DeepCopyInto plainView noReach CCPU theCPU "\<lambda>_. \<lparr>cpuRequestMilli = 0, cpuLimitMilli = 0\<rparr>"
  unfolding ModelCPUResources_DeepCopyInto_def by unfold_locales simp

interpretation cpu_memory: deep_copy_pair ModelCPUResources_DeepCopy "ptrView theCPU plainView" "ptrReach theCPU noReach"
    ModelMemoryResources_DeepCopy "ptrView theMemory plainView" "ptrReach theMemory noReach"
  by unfold_locales

interpretation resources_struct: deep_copy_struct "pairInto ModelCPUResources_DeepCopy ModelMemoryResources_DeepCopy"
    "pairView (ptrView theCPU plainView) (ptrView theMemory plainView)" "pairReach (ptrReach theCPU noReach) (ptrReach theMemory noReach)"
    "\<lambda>x. (goCPU x, goMemory x)" "\<lambda>x (cpu, mem). x\<lparr>goCPU := cpu, goMemory := mem\<rparr>" "\<lambda>_ (cpu, mem). \<lparr>mrCPU = cpu, mrMemory = mem\<rparr>"
  by unfold_locales (simp_all add: split_def)

text \<open>What the functions rely on when they call into the API machinery, and what they promise then.\<close>

locale api_copies =
  meta: deep_copy "mlMeta K" mv mr + lists: deep_copy "mlListMeta K" lv lr + conds: deep_copy "mlCondition K" plainView noReach
  for K :: "(('m, 'l, 'x) cell, 'm, 'l) meta_lib" and mv :: "('m, 'l, 'x) memory \<Rightarrow> 'm \<Rightarrow> objmeta option" and mr
    and lv :: "('m, 'l, 'x) memory \<Rightarrow> 'l \<Rightarrow> 'lm option" and lr

sublocale api_copies \<subseteq> conditions: deep_copy_slice "mlCondition K" plainView noReach CConditions theConditions zeroCondition
  by unfold_locales simp

context api_copies
begin

lemma conditions_copy: "deep_copy (conditionsCopy K) (sliceView theConditions plainView) (sliceReach theConditions noReach)"
  unfolding conditionsCopy_def by (fact conditions.slice_deep_copy)

lemma status_copy: "deep_copy (LLMInstanceStatus_DeepCopyInto K) statusView statusReach"
  unfolding statusView_def statusReach_def
  by (rule deep_copy_structI [where upd = "\<lambda>x conds. x\<lparr>goConditions := conds\<rparr>", OF conditions_copy])
    (auto simp: LLMInstanceStatus_DeepCopyInto_def structInto_def split_def)

lemma token_status_copy: "deep_copy (APITokenRequestStatus_DeepCopyInto K) tokenStatusView tokenStatusReach"
  unfolding tokenStatusView_def tokenStatusReach_def
  by (rule deep_copy_structI [where upd = "\<lambda>x conds. x\<lparr>goTokenConditions := conds\<rparr>", OF conditions_copy])
    (auto simp: APITokenRequestStatus_DeepCopyInto_def structInto_def split_def)

lemma instance_copy: "deep_copy (LLMInstance_DeepCopyInto K) (instanceView mv) (instanceReach mr)"
  unfolding instanceView_def instanceReach_def
  by (rule deep_copy_structI [where upd = "\<lambda>x (m, spec, status).
          x\<lparr>goInstanceMeta := m, goInstanceSpec := spec, goInstanceStatus := status\<rparr>",
        OF deep_copy_pairI [OF meta.deep_copy_axioms deep_copy_pairI [OF spec.deep_copy_axioms status_copy]]])
    (auto simp: LLMInstance_DeepCopyInto_def structInto_def instanceParts_def split_def)

lemma token_copy: "deep_copy (APITokenRequest_DeepCopyInto K) (tokenView mv) (tokenReach mr)"
  unfolding tokenView_def tokenReach_def
  by (rule deep_copy_structI [where upd = "\<lambda>x (m, status). x\<lparr>goTokenMeta := m, goTokenStatus := status\<rparr>",
        OF deep_copy_pairI [OF meta.deep_copy_axioms token_status_copy]])
    (auto simp: APITokenRequest_DeepCopyInto_def structInto_def tokenParts_def split_def fun_eq_iff)

lemma instance_list_copy: "deep_copy (LLMInstanceList_DeepCopyInto K) (instanceListView mv lv) (instanceListReach mr lr)"
  unfolding instanceListView_def instanceListReach_def
  by (rule deep_copy_structI [where upd = "\<lambda>x (m, items). x\<lparr>goListMeta := m, goItems := items\<rparr>",
        OF deep_copy_pairI [OF lists.deep_copy_axioms deep_copy_sliceI [OF instance_copy, where mk = CInstances]]])
    (auto simp: LLMInstanceList_DeepCopyInto_def structInto_def listParts_def split_def)

lemma token_list_copy: "deep_copy (APITokenRequestList_DeepCopyInto K) (tokenListView mv lv) (tokenListReach mr lr)"
  unfolding tokenListView_def tokenListReach_def
  by (rule deep_copy_structI [where upd = "\<lambda>x (m, items). x\<lparr>goListMeta := m, goItems := items\<rparr>",
        OF deep_copy_pairI [OF lists.deep_copy_axioms deep_copy_sliceI [OF token_copy, where mk = CTokens]]])
    (auto simp: APITokenRequestList_DeepCopyInto_def structInto_def listParts_def split_def)

end

section \<open>Properties\<close>

text \<open>What independence says of a pointer and its copy.\<close>

definition separateCopies :: "('c \<Rightarrow> 't option) \<Rightarrow> ('c heap \<Rightarrow> 't \<Rightarrow> 'a option) \<Rightarrow> ('c heap \<Rightarrow> 't \<Rightarrow> addr set) \<Rightarrow> 'c heap \<Rightarrow> 'c heap \<Rightarrow> addr \<Rightarrow> addr \<Rightarrow> 'a \<Rightarrow> bool" where
  "separateCopies un view reach h h' p q v =
     (let at = (\<lambda>h a. ptrView un view h (Some a)); cone = ptrReach un reach h' in
      extends h h' \<and> at h' p = Some (Some v) \<and> at h' q = Some (Some v) \<and> cone (Some p) \<inter> cone (Some q) = {} \<and>
      (\<forall>h''. agreeOn (- cone (Some q)) h' h'' \<longrightarrow> at h'' p = Some (Some v)) \<and>
      (\<forall>h''. agreeOn (- cone (Some p)) h' h'' \<longrightarrow> at h'' q = Some (Some v)))"

lemma ptr_separate:
  assumes "deep_copy into view reach" "\<And>t. un (mk t) = Some t" "wfHeap h" "ptrView un view h (Some p) = Some (Some v)"
  shows "\<exists>h' q. deepCopyPtr mk un zero into h (Some p) = Some (h', Some q) \<and> separateCopies un view reach h h' p q v"
proof -
  obtain h' y where c: "deepCopyPtr mk un zero into h (Some p) = Some (h', y)" "extends h h'" "ptrView un view h' (Some p) = Some (Some v)"
      "ptrView un view h' y = Some (Some v)" "ptrReach un reach h' (Some p) \<inter> ptrReach un reach h' y = {}"
      "\<forall>h''. agreeOn (- ptrReach un reach h' y) h' h'' \<longrightarrow> ptrView un view h'' (Some p) = Some (Some v)"
      "\<forall>h''. agreeOn (- ptrReach un reach h' (Some p)) h' h'' \<longrightarrow> ptrView un view h'' y = Some (Some v)"
    using deep_copy.independent [OF deep_copy_ptrI [where mk = mk, OF assms(1,2)] assms(3,4)] by blast
  from c(4) obtain q where "y = Some q" by (cases y) (simp_all add: ptrView_def)
  with c show ?thesis by (auto simp: separateCopies_def Let_def)
qed

text \<open>\<^bold>\<open>C37.\<close> Copies share nothing: on a well-formed heap, and given that the copies of the API machinery's
  metadata and conditions are deep, \<^verbatim>\<open>DeepCopy\<close> of an instance and of a list of requests succeeds, no
  old cell changes, original and copy read the same afterwards and reach disjoint sets of cells; so
  whatever is written through one of them later, the other still reads as before.  A nil pointer is
  copied to nil, also as an object.\<close>

theorem deep_copies_separate:
  assumes "deep_copy (mlMeta K) mv mr" and "deep_copy (mlListMeta K) lv lr" and "deep_copy (mlCondition K) plainView noReach"
    and "wfHeap h"
  shows "(\<forall>p i. ptrView theInstance (instanceView mv) h (Some p) = Some (Some i) \<longrightarrow>
      (\<exists>h' q. LLMInstance_DeepCopy K h (Some p) = Some (h', Some q) \<and>
         LLMInstance_DeepCopyObject K h (Some p) = Some (h', Some (InstanceObject q)) \<and>
         separateCopies theInstance (instanceView mv) (instanceReach mr) h h' p q i)) \<and>
    (\<forall>p ts. ptrView theTokenList (tokenListView mv lv) h (Some p) = Some (Some ts) \<longrightarrow>
      (\<exists>h' q. APITokenRequestList_DeepCopy K h (Some p) = Some (h', Some q) \<and>
         APITokenRequestList_DeepCopyObject K h (Some p) = Some (h', Some (TokenListObject q)) \<and>
         separateCopies theTokenList (tokenListView mv lv) (tokenListReach mr lr) h h' p q ts)) \<and>
    LLMInstance_DeepCopyObject K h None = Some (h, None) \<and> APITokenRequestList_DeepCopyObject K h None = Some (h, None)"
proof -
  have "\<exists>h' q. LLMInstance_DeepCopy K h (Some p) = Some (h', Some q) \<and>
      separateCopies theInstance (instanceView mv) (instanceReach mr) h h' p q i"
    if "ptrView theInstance (instanceView mv) h (Some p) = Some (Some i)" for p i
    unfolding LLMInstance_DeepCopy_def by (rule ptr_separate [OF api_copies.instance_copy [OF api_copies.intro [OF assms(1-3)]] _ assms(4) that]) simp
  moreover have "\<exists>h' q. APITokenRequestList_DeepCopy K h (Some p) = Some (h', Some q) \<and>
      separateCopies theTokenList (tokenListView mv lv) (tokenListReach mr lr) h h' p q ts"
    if "ptrView theTokenList (tokenListView mv lv) h (Some p) = Some (Some ts)" for p ts
    unfolding APITokenRequestList_DeepCopy_def by (rule ptr_separate [OF api_copies.token_list_copy [OF api_copies.intro [OF assms(1-3)]] _ assms(4) that]) simp
  ultimately show ?thesis
    by (fastforce simp: LLMInstance_DeepCopyObject_def APITokenRequestList_DeepCopyObject_def
        LLMInstance_DeepCopy_def [of K, THEN fun_cong, THEN fun_cong, of h None]
        APITokenRequestList_DeepCopy_def [of K, THEN fun_cong, THEN fun_cong, of h None] deepCopyPtr_def [of _ _ _ _ h None])
qed

text \<open>The same for lists of instances and single requests.\<close>

theorem deep_copies_separate_rest:
  assumes "deep_copy (mlMeta K) mv mr" and "deep_copy (mlListMeta K) lv lr" and "deep_copy (mlCondition K) plainView noReach"
    and "wfHeap h"
  shows "ptrView theToken (tokenView mv) h (Some p) = Some (Some t) \<Longrightarrow>
      \<exists>h' q. APITokenRequest_DeepCopyObject K h (Some p) = Some (h', Some (TokenObject q)) \<and>
         separateCopies theToken (tokenView mv) (tokenReach mr) h h' p q t"
    and "ptrView theInstanceList (instanceListView mv lv) h (Some p) = Some (Some is) \<Longrightarrow>
      \<exists>h' q. LLMInstanceList_DeepCopyObject K h (Some p) = Some (h', Some (InstanceListObject q)) \<and>
         separateCopies theInstanceList (instanceListView mv lv) (instanceListReach mr lr) h h' p q is"
proof -
  assume v: "ptrView theToken (tokenView mv) h (Some p) = Some (Some t)"
  show "\<exists>h' q. APITokenRequest_DeepCopyObject K h (Some p) = Some (h', Some (TokenObject q)) \<and>
         separateCopies theToken (tokenView mv) (tokenReach mr) h h' p q t"
    using ptr_separate [OF api_copies.token_copy [OF api_copies.intro [OF assms(1-3)]] _ assms(4) v, where mk = CToken and zero = "\<lambda>_. zeroToken (mlZeroMeta K)"]
    by (fastforce simp: APITokenRequest_DeepCopyObject_def APITokenRequest_DeepCopy_def)
next
  assume v: "ptrView theInstanceList (instanceListView mv lv) h (Some p) = Some (Some is)"
  show "\<exists>h' q. LLMInstanceList_DeepCopyObject K h (Some p) = Some (h', Some (InstanceListObject q)) \<and>
         separateCopies theInstanceList (instanceListView mv lv) (instanceListReach mr lr) h h' p q is"
    using ptr_separate [OF api_copies.instance_list_copy [OF api_copies.intro [OF assms(1-3)]] _ assms(4) v, where mk = CInstanceList and zero = "\<lambda>_. zeroList (mlZeroListMeta K)"]
    by (fastforce simp: LLMInstanceList_DeepCopyObject_def LLMInstanceList_DeepCopy_def)
qed

section \<open>Witnesses\<close>

text \<open>Metadata behind one pointer, and an instance with a context size and conditions.\<close>

type_synonym sample_cell = "(addr option, string, objmeta) cell"

definition sampleMetaLib :: "(sample_cell, addr option, string) meta_lib" where
  "sampleMetaLib = \<lparr>mlMeta = deepCopyPtr CLib theLib (\<lambda>_. newMeta [] []) plainInto, mlListMeta = plainInto, mlCondition = plainInto,
     mlZeroMeta = None, mlZeroListMeta = []\<rparr>"

definition sampleMetaView :: "sample_cell heap \<Rightarrow> addr option \<Rightarrow> objmeta option" where
  "sampleMetaView = structView id (\<lambda>_ m. case m of None \<Rightarrow> newMeta [] [] | Some x \<Rightarrow> x) (ptrView theLib plainView)"

definition sampleMetaReach :: "sample_cell heap \<Rightarrow> addr option \<Rightarrow> addr set" where
  "sampleMetaReach = structReach id (ptrReach theLib noReach)"

lemma sample_meta_copy:
  "deep_copy (mlMeta sampleMetaLib) sampleMetaView sampleMetaReach"
  "deep_copy (mlListMeta sampleMetaLib) plainView noReach" "deep_copy (mlCondition sampleMetaLib) plainView noReach"
proof -
  have "deep_copy (deepCopyPtr CLib theLib (\<lambda>_. newMeta [] []) plainInto :: sample_cell heap \<Rightarrow> _)
      (ptrView theLib plainView) (ptrReach theLib noReach)"
    by (intro deep_copy_rules) simp
  then show "deep_copy (mlMeta sampleMetaLib) sampleMetaView sampleMetaReach"
    unfolding sampleMetaView_def sampleMetaReach_def
    by (rule deep_copy_structI [where upd = "\<lambda>_ p. p"]) (simp_all add: sampleMetaLib_def structInto_def split_def)
qed (simp_all add: sampleMetaLib_def plain.deep_copy_axioms)

interpretation sample_api: api_copies sampleMetaLib sampleMetaView sampleMetaReach plainView noReach
  by (rule api_copies.intro [OF sample_meta_copy])

definition sampleGoInstance :: "addr option go_instance" where
  "sampleGoInstance = (zeroInstance (Some 0))\<lparr>goInstanceSpec := zeroSpec\<lparr>goContextSize := Some 1\<rparr>,
     goInstanceStatus := zeroStatus\<lparr>goConditions := Some 2\<rparr>\<rparr>"

definition sampleHeap :: "sample_cell heap" where
  "sampleHeap = \<lparr>cells = [0 \<mapsto> CLib (newMeta ''default'' ''a''), 1 \<mapsto> CInt 4096, 2 \<mapsto> CConditions [zeroCondition],
     3 \<mapsto> CInstance sampleGoInstance], brk = 4\<rparr>"

theorem deep_copies_separate_witness:
  "\<exists>h' q i. LLMInstance_DeepCopy sampleMetaLib sampleHeap (Some 3) = Some (h', Some q) \<and> spContextSize (liSpec (snd i)) = Some 4096 \<and>
     separateCopies theInstance (instanceView sampleMetaView) (instanceReach sampleMetaReach) sampleHeap h' 3 q i"
proof -
  have "wfHeap sampleHeap" by (simp add: wfHeap_def sampleHeap_def)
  moreover obtain i where "ptrView theInstance (instanceView sampleMetaView) sampleHeap (Some 3) = Some (Some i)"
      "spContextSize (liSpec (snd i)) = Some 4096"
    by (simp add: ptrView_def sampleHeap_def sampleGoInstance_def zeroInstance_def zeroSpec_def zeroStatus_def instanceView_def
        structView_def instanceParts_def sampleMetaView_def specView_def specParts_def statusView_def sliceView_def plainView_def)
  ultimately show ?thesis
    using deep_copies_separate [OF sample_meta_copy, of sampleHeap] by blast
qed

end
