(* ===== verification/Spec2Isabelle.thy ===== *)
theory Spec2Isabelle
  imports Entry Watches Removal History ObjectNames DeepCopies
begin

text \<open>
  A verification development for the private-LLM operator (\<^verbatim>\<open>showroom-msp-private-llm\<close>).

  \<^bold>\<open>The program.\<close>  The operator serves language models to tenants of a Kubernetes cluster.  A tenant creates
  an \<^verbatim>\<open>LLMInstance\<close>; the operator runs a model server for it, either on its own cluster behind a shared
  host (\<^emph>\<open>hosted\<close>) or on a cluster of the tenant (\<^emph>\<open>BYOC\<close>), and publishes an endpoint.  An
  \<^verbatim>\<open>APITokenRequest\<close> asks for an API key of an instance, which the operator delivers in a secret.  Three
  services share one process: the two controllers, and an HTTP server that the ingress asks for every
  request to a hosted model (\<^verbatim>\<open>/auth/verify\<close>).  They are tied together by the \<^emph>\<open>slug\<close> of an instance, the
  path segment of its route: an operator-owned policy file selects it, the controllers use it in
  routes, labels and object names, and the authentication server checks it.

  \<^bold>\<open>Theories and sources.\<close>  Paths are under \<^verbatim>\<open>src/\<close>.
  \<^item> \<^verbatim>\<open>Prelude\<close>: errors (\<^verbatim>\<open>errors.Is\<close>, \<^verbatim>\<open>errors.Join\<close>), the effect type of all operations, the rules for
    results and writes, and the locales of mutations.  \<^verbatim>\<open>GoStrings\<close>, \<^verbatim>\<open>GoEncoding\<close>, \<^verbatim>\<open>GoURL\<close>, \<^verbatim>\<open>GoNetIP\<close>, \<^verbatim>\<open>Sha256\<close>:
    what the program uses of Go's library for strings, base64 and hex, queries and URLs, IP addresses,
    and SHA-256 on 32-bit words.
  \<^item> \<^verbatim>\<open>KubeTypes\<close>: \<^verbatim>\<open>api/v1alpha1/*_types.go\<close> and the Kubernetes objects as records.  \<^verbatim>\<open>KubeApi\<close>: clients, the
    journal, and the labelling client of \<^verbatim>\<open>cmd/main.go\<close>.  \<^verbatim>\<open>ByocLib\<close>: the libraries behind the BYOC mode as a
    record of functions.  \<^verbatim>\<open>Samples\<close>: the concrete libraries and objects of the witnesses.
  \<^item> \<^verbatim>\<open>SlugPolicy\<close>: \<^verbatim>\<open>internal/slugpolicy/policy.go\<close> (\<^verbatim>\<open>Parse\<close>, \<^verbatim>\<open>rejectDuplicateKeys\<close>, \<^verbatim>\<open>validateEntry\<close>, \<^verbatim>\<open>Select\<close>).
  \<^item> \<^verbatim>\<open>AuthServer\<close>: \<^verbatim>\<open>internal/auth/server.go\<close> (\<^verbatim>\<open>parseBinding\<close>, \<^verbatim>\<open>Handler\<close>, \<^verbatim>\<open>authorize\<close>, \<^verbatim>\<open>ownsToken\<close>).
  \<^item> \<^verbatim>\<open>ControllerBase\<close>: constants that both controllers use.  \<^verbatim>\<open>TokenController\<close>:
    \<^verbatim>\<open>internal/controller/tokenrequest_controller.go\<close>, the whole reconciler.
  \<^item> \<^verbatim>\<open>ModelServer\<close>: model selection and server flags (\<^verbatim>\<open>llminstance_controller.go\<close>) and
    \<^verbatim>\<open>model_server_ceilings.go\<close>.  \<^verbatim>\<open>InstanceBase\<close>: the struct of the reconciler, ownership and status.
    \<^verbatim>\<open>SlugRoute\<close>: \<^verbatim>\<open>slug_policy.go\<close>.  \<^verbatim>\<open>Deployment\<close>, \<^verbatim>\<open>HostedRoute\<close>, \<^verbatim>\<open>Readiness\<close>: the hosted workload, its service,
    middlewares and ingress, and when it is ready (\<^verbatim>\<open>llminstance_controller.go\<close>).
  \<^item> \<^verbatim>\<open>ByocTransport\<close>, \<^verbatim>\<open>ByocWorkload\<close>: \<^verbatim>\<open>llminstance_byoc_transport.go\<close> and the objects on the tenant's cluster.
    \<^verbatim>\<open>ByocKeys\<close>: the key file.  \<^verbatim>\<open>ByocAddress\<close>, \<^verbatim>\<open>ByocTLS\<close>: \<^verbatim>\<open>llminstance_byoc_tls.go\<close>.  \<^verbatim>\<open>ByocController\<close>:
    \<^verbatim>\<open>llminstance_byoc.go\<close>, which composes them.  \<^verbatim>\<open>ObjectNames\<close>: the names derived for all these objects.
  \<^item> \<^verbatim>\<open>InstanceController\<close>: \<^verbatim>\<open>Reconcile\<close> and \<^verbatim>\<open>finalizeLLMInstance\<close>, which compose everything above.
    \<^verbatim>\<open>Removal\<close>: repeated runs of the removal, against the abstract machine that they follow.
    \<^verbatim>\<open>History\<close>: the stored status of an instance over runs and edits, as a transition relation.
  \<^item> \<^verbatim>\<open>Credentials\<close>: the life of a key across the token controller, the auth server and the key file of a
    tenant's cluster.  \<^verbatim>\<open>Watches\<close>: \<^verbatim>\<open>SetupWithManager\<close> of both controllers, and what an event on an object queues.
  \<^item> \<^verbatim>\<open>CommandLine\<close>, \<^verbatim>\<open>Entry\<close>, \<^verbatim>\<open>Manager\<close>: \<^verbatim>\<open>cmd/main.go\<close> with \<^verbatim>\<open>Server.Start\<close> and \<^verbatim>\<open>httpServer\<close>: the flags, \<^verbatim>\<open>main\<close> to
    its exit code, start-up, and the joint life of the services.
  \<^item> \<^verbatim>\<open>GoHeap\<close>, \<^verbatim>\<open>DeepCopies\<close>: \<^verbatim>\<open>api/v1alpha1/zz_generated.deepcopy.go\<close> over a heap of cells.  Everywhere else structs are
    values, which the theorem on copies justifies for the objects that the controllers copy before they
    change them.

  \<^bold>\<open>State and operations.\<close>  An operation is a function on a system state: the world, of an arbitrary type,
  which only clients and libraries change; the journal of the write requests that were sent; and the
  object behind the pointer \<^verbatim>\<open>inst\<close> that status updates replace by the server's response.  A client is a
  record of arbitrary functions on the world, so every theorem holds for every behaviour of the API
  servers, for failures at any call, and for any interference between two calls.  Where a theorem
  needs more, its hypotheses say so: reads from one snapshot for the exact characterisations, or
  responses that keep the identity of an object.  Errors are values; each early return is a branch.
  Functions that reconcile an object in several places of the source share a definition, and the
  parts of long functions are definitions of their own with the lines they come from.

  \<^bold>\<open>What the theorems show.\<close>
  \<^item> Policy and slugs: admitted policies are unambiguous, the loop accepts exactly those, and the routes
    of two instances never shadow each other unless two truncated digests collide.
  \<^item> Authentication: a positive answer rests on a live, bound and hosted instance and a key that a live
    request vouches for; the handler computes a declared decision; the binding that the controller
    writes into the middleware is the one that the server reads.
  \<^item> Tokens: only own secrets are deleted; a key survives only for the instance and target it was bound
    to; a request is Ready only for a ready instance.  A fresh key opens its instance, at the auth server
    or on the tenant's cluster; no credential opens two instances; changes reach both controllers; a
    label that is lost is never restored, though the auth server needs it.
  \<^item> Hosted instances: settings within the ceilings or no workload at all; exclusive routes; every object
    that is written is new or owned and in its desired shape; the mutations converge in one step.
  \<^item> BYOC: verified connections, sealed pods, exact key files, validated certificates, public addresses;
    the order of removal and of a move; nothing is removed from the wrong cluster; a failed run
    withdraws the endpoint; every write is one of a short list.  The removal completes within six runs if
    the API does as it is asked; but it cannot be repeated after it succeeded, so that a finalizer whose
    update was lost stays.  All derived names are RFC 1035 labels.
  \<^item> The loop: over any history a recorded slug stays and a published endpoint is the one of the recorded
    slug or of the instance's own host name; Ready has its evidence in every run; the finalizer goes last; a live instance is always
    requeued; secrets wake exactly the instances they concern.
  \<^item> The process: the services stop together, in at most eleven steps of any interleaving, without
    deadlock; all parts share one policy.  Settings survive the command line; the exit code tells whether
    everything went well; spans are flushed only then.
  \<^item> Copies read like their originals and share no cell with them.

  \<^bold>\<open>Interfaces.\<close>  The locale \<^verbatim>\<open>converging\<close> states the contract of the \<^verbatim>\<open>ensure\<close> functions (they establish a shape
  and report exactly whether they changed anything), \<^verbatim>\<open>converging_pair\<close> their composition; they are
  interpreted on every such function of the three controllers.  The locale \<^verbatim>\<open>slug_selection\<close> states what
  routes need of a selection of slugs and is interpreted on the policy.  The locale \<^verbatim>\<open>credential_consumer\<close>
  states what the two readers of credentials share, \<^verbatim>\<open>separate_consumers\<close> that they exclude each other;
  both are interpreted on the auth server and on the key file.  The locale \<^verbatim>\<open>deep_copy\<close> is the contract of
  a copying function; sublocales lift it to pointers, slices, pairs and structs, and \<^verbatim>\<open>api_copies\<close> states what
  the generated functions rely on in the API machinery.  Writes are reasoned about with
  \<^verbatim>\<open>emits\<close> (which requests), \<^verbatim>\<open>yields\<close> (which results), \<^verbatim>\<open>phased\<close> and \<^verbatim>\<open>finishes\<close> (in which order), each with a
  collection of rules for the combinators of the effect type.

  \<^bold>\<open>Bounds.\<close>  The retry loop of the finalizer counts its three attempts down, as the code does.  The
  lifecycle of the process has eleven steps: one signal, two of the shutdown callback, five of the
  server's goroutine and three of the main goroutine; the measure is proved to fall at each.  All
  other recursion is structural, and no fuel is used.  Integers of tenants' settings are 32 bit in the
  API and are compared as integers, as the code does after widening; SHA-256 works on words.

  \<^bold>\<open>Parameters.\<close>  Not in the repository, and therefore arguments: the API servers and \<^verbatim>\<open>controller-runtime\<close>'s
  client, name validation and owner references of \<^verbatim>\<open>apimachinery\<close>, quantities, \<^verbatim>\<open>client-go\<close>'s kubeconfig
  loader, HTTP clients, X.509 parsing and verification, random bytes, time, JSON and RFC 3339 parsing,
  the telemetry exporters, the flags that libraries add, and the copies of metadata.
  Laws are assumed of them only in named hypotheses, and the witnesses instantiate them.

  \<^bold>\<open>Not modelled.\<close>  Log lines and the spans of \<^verbatim>\<open>startTracing\<close>, which change no state of the program; the
  registration of types in the scheme; deadlines of contexts, which show as failing calls; and the
  test drivers \<^verbatim>\<open>test/byoc-https\<close> and \<^verbatim>\<open>test/utils\<close>.  \<^verbatim>\<open>copyStringMap\<close>, \<^verbatim>\<open>copyInterfaceMap\<close> and \<^verbatim>\<open>ptrTo\<close> are the
  identity on values.
\<close>

end
